(* ===== verification/Prelude.thy ===== *)
theory Prelude
  imports Main "HOL-Library.Word" "HOL-Library.Sublist"
begin

text \<open>
  Shared vocabulary of the development.

  \<^item> Rust's \<open>Result<T, E>\<close> is the sum type \<open>'e + 'a\<close>: \<open>Err\<close> is \<open>Inl\<close> and
    \<open>Ok\<close> is \<open>Inr\<close>. The operator \<open>?\<close> is \<open>and_then\<close>, a \<open>for\<close> loop whose body may
    return early is \<open>try_all\<close>, \<open>try_map\<close> or \<open>try_fold\<close>.
  \<^item> Machine integers are words (\<open>u8\<close>, \<open>u16\<close>, \<open>u32\<close>, \<open>u64\<close>); a \<open>usize\<close> that
    counts elements of a collection in memory is a \<open>nat\<close>. Saturating and checked
    operations are written out.
  \<^item> \<open>OffsetDateTime\<close> is a number of nanoseconds since the Unix epoch (\<open>instant\<close>), a
    \<open>Duration\<close> a number of nanoseconds.
  \<^item> A \<open>HashMap\<close> or \<open>BTreeMap\<close> is a partial function.

  The collection \<open>result_simps\<close> rewrites statements about the result combinators into
  statements about their parts; \<open>wf_intros\<close> collects preservation facts.
\<close>

named_theorems result_simps
named_theorems wf_intros

type_synonym u8 = "8 word"
type_synonym u16 = "16 word"
type_synonym u32 = "32 word"
type_synonym u64 = "64 word"
type_synonym bytes = "u8 list"
type_synonym instant = int
type_synonym duration = int
type_synonym ('a, 'e) result = "'e + 'a"

abbreviation Err :: "'e \<Rightarrow> 'e + 'a" where
  "Err \<equiv> Inl"

abbreviation Ok :: "'a \<Rightarrow> 'e + 'a" where
  "Ok \<equiv> Inr"

abbreviation seconds :: "int \<Rightarrow> duration" where
  "seconds n \<equiv> n * 1000000000"

abbreviation minutes :: "int \<Rightarrow> duration" where
  "minutes n \<equiv> seconds (n * 60)"

abbreviation days :: "int \<Rightarrow> duration" where
  "days n \<equiv> seconds (n * 86400)"

section \<open>Kinds of input and output errors\<close>

text \<open>The values of \<open>std::io::ErrorKind\<close> that the code tells apart.\<close>

datatype io_kind = NotFoundKind | PermissionDeniedKind | UnexpectedEofKind | OtherKind

section \<open>Results\<close>

definition and_then :: "'e + 'a \<Rightarrow> ('a \<Rightarrow> 'e + 'b) \<Rightarrow> 'e + 'b" where
  "and_then r f = (case r of Err e \<Rightarrow> Err e | Ok x \<Rightarrow> f x)"

definition map_err :: "('e \<Rightarrow> 'f) \<Rightarrow> 'e + 'a \<Rightarrow> 'f + 'a" where
  "map_err f r = (case r of Err e \<Rightarrow> Err (f e) | Ok x \<Rightarrow> Ok x)"

definition ok_or :: "'e \<Rightarrow> 'a option \<Rightarrow> 'e + 'a" where
  "ok_or e x = (case x of None \<Rightarrow> Err e | Some y \<Rightarrow> Ok y)"

definition is_ok :: "'e + 'a \<Rightarrow> bool" where
  "is_ok r = (case r of Err _ \<Rightarrow> False | Ok _ \<Rightarrow> True)"

definition require :: "bool \<Rightarrow> 'e \<Rightarrow> 'e + unit" where
  "require c e = (if c then Ok () else Err e)"

text \<open>\<open>if let Some(x) = o { check(x)?; }\<close>\<close>

definition when_some :: "'a option \<Rightarrow> ('a \<Rightarrow> 'e + unit) \<Rightarrow> 'e + unit" where
  "when_some x f = (case x of None \<Rightarrow> Ok () | Some y \<Rightarrow> f y)"

fun try_all :: "('a \<Rightarrow> 'e + unit) \<Rightarrow> 'a list \<Rightarrow> 'e + unit" where
  "try_all f [] = Ok ()"
| "try_all f (x # xs) = and_then (f x) (\<lambda>_. try_all f xs)"

fun try_map :: "('a \<Rightarrow> 'e + 'b) \<Rightarrow> 'a list \<Rightarrow> 'e + 'b list" where
  "try_map f [] = Ok []"
| "try_map f (x # xs) = and_then (f x) (\<lambda>y. and_then (try_map f xs) (\<lambda>ys. Ok (y # ys)))"

fun try_fold :: "('s \<Rightarrow> 'a \<Rightarrow> 'e + 's) \<Rightarrow> 's \<Rightarrow> 'a list \<Rightarrow> 'e + 's" where
  "try_fold f s [] = Ok s"
| "try_fold f s (x # xs) = and_then (f s x) (\<lambda>s'. try_fold f s' xs)"

lemma and_then_simps [simp]: "and_then (Err e) f = Err e" "and_then (Ok x) f = f x"
  by (simp_all add: and_then_def)

lemma and_then_Ok [result_simps]: "and_then r f = Ok y \<longleftrightarrow> (\<exists>x. r = Ok x \<and> f x = Ok y)"
  by (cases r) auto

lemma and_then_Err [result_simps]:
  "and_then r f = Err e \<longleftrightarrow> r = Err e \<or> (\<exists>x. r = Ok x \<and> f x = Err e)"
  by (cases r) auto

lemma map_err_simps [simp]: "map_err f (Err e) = Err (f e)" "map_err f (Ok x) = Ok x"
  by (simp_all add: map_err_def)

lemma map_err_Ok [result_simps]: "map_err f r = Ok x \<longleftrightarrow> r = Ok x"
  by (cases r) auto

lemma map_err_Err [result_simps]: "map_err f r = Err e \<longleftrightarrow> (\<exists>e'. r = Err e' \<and> e = f e')"
  by (cases r) auto

lemma ok_or_simps [simp]: "ok_or e None = Err e" "ok_or e (Some x) = Ok x"
  by (simp_all add: ok_or_def)

lemma ok_or_Ok [result_simps]: "ok_or e x = Ok y \<longleftrightarrow> x = Some y"
  by (cases x) auto

lemma is_ok_simps [simp]: "is_ok (Err e) = False" "is_ok (Ok x) = True"
  by (simp_all add: is_ok_def)

lemma is_ok_iff: "is_ok r \<longleftrightarrow> (\<exists>x. r = Ok x)"
  by (cases r) auto

lemma require_Ok [result_simps, simp]: "require c e = Ok u \<longleftrightarrow> c"
  by (simp add: require_def)

lemma require_Err [result_simps, simp]: "require c e = Err e' \<longleftrightarrow> \<not> c \<and> e' = e"
  by (auto simp: require_def)

lemma require_simps [simp]: "require True e = Ok ()" "require False e = Err e"
  by (simp_all add: require_def)

lemma when_some_simps [simp]: "when_some None f = Ok ()" "when_some (Some x) f = f x"
  by (simp_all add: when_some_def)

lemma when_some_Ok [result_simps]:
  "when_some x f = Ok u \<longleftrightarrow> (case x of None \<Rightarrow> True | Some y \<Rightarrow> f y = Ok ())"
  by (cases x) auto

lemma try_all_Ok [result_simps]: "try_all f xs = Ok u \<longleftrightarrow> (\<forall>x \<in> set xs. f x = Ok ())"
  by (induction xs) (auto simp: result_simps)

lemma try_all_Err:
  "try_all f xs = Err e \<Longrightarrow> \<exists>x \<in> set xs. f x = Err e"
  by (induction xs) (auto simp: result_simps)

lemma try_map_Ok:
  "try_map f xs = Ok ys \<longleftrightarrow> list_all2 (\<lambda>x y. f x = Ok y) xs ys"
  by (induction xs arbitrary: ys) (auto simp: result_simps list_all2_Cons1)

lemma try_map_member: "try_map f xs = Ok ys \<Longrightarrow> y \<in> set ys \<Longrightarrow> \<exists>x \<in> set xs. f x = Ok y"
  by (induction xs arbitrary: ys) (auto simp: result_simps)

lemma try_fold_append:
  "try_fold f s (xs @ ys) = and_then (try_fold f s xs) (\<lambda>s'. try_fold f s' ys)"
  by (induction xs arbitrary: s) (auto simp: and_then_def split: sum.splits)

lemma try_fold_invariant:
  assumes "try_fold f s xs = Ok s'" and "P s"
    and "\<And>s x s'. x \<in> set xs \<Longrightarrow> P s \<Longrightarrow> f s x = Ok s' \<Longrightarrow> P s'"
  shows "P s'"
  using assms
proof (induction xs arbitrary: s)
  case Nil
  then show ?case by simp
next
  case (Cons x xs)
  from Cons.prems(1) obtain t where t: "f s x = Ok t" "try_fold f t xs = Ok s'"
    by (auto simp: result_simps)
  have "P t" by (rule Cons.prems(3) [of x s t]) (use Cons.prems(2) t(1) in auto)
  show ?case
    by (rule Cons.IH [OF t(2) \<open>P t\<close>]) (use Cons.prems(3) in auto)
qed

section \<open>State with early return\<close>

text \<open>
  A method on \<open>&mut self\<close> that may fail keeps the changes it made before the failure: the
  state is returned beside the result. \<open>st_then\<close> is \<open>?\<close> in such a method, \<open>st_fold\<close> a loop.
\<close>

definition st_then :: "'s \<times> ('e + 'a) \<Rightarrow> ('s \<Rightarrow> 'a \<Rightarrow> 's \<times> ('e + 'b)) \<Rightarrow> 's \<times> ('e + 'b)" where
  "st_then m f = (case m of (s, Err e) \<Rightarrow> (s, Err e) | (s, Ok x) \<Rightarrow> f s x)"

fun st_fold :: "('s \<Rightarrow> 'a \<Rightarrow> 's \<times> ('e + 'b)) \<Rightarrow> 's \<Rightarrow> 'a list \<Rightarrow> 's \<times> ('e + 'b list)" where
  "st_fold f s [] = (s, Ok [])"
| "st_fold f s (x # xs) =
     st_then (f s x) (\<lambda>s y. st_then (st_fold f s xs) (\<lambda>s ys. (s, Ok (y # ys))))"

lemma st_then_simps [simp]: "st_then (s, Err e) f = (s, Err e)" "st_then (s, Ok x) f = f s x"
  by (simp_all add: st_then_def)

text \<open>A reflexive and transitive relation between states that each step respects holds between
  the first and the last state, whether or not the loop returns early.\<close>

lemma st_then_rel:
  assumes "R s (fst m)" and "\<And>t x. m = (t, Ok x) \<Longrightarrow> R t (fst (f t x))"
    and "\<And>a b c. R a b \<Longrightarrow> R b c \<Longrightarrow> R a c"
  shows "R s (fst (st_then m f))"
proof (cases m)
  case (Pair t r)
  show ?thesis
  proof (cases r)
    case (Inl e)
    with Pair assms(1) show ?thesis by simp
  next
    case (Inr x)
    from Pair Inr have "R t (fst (f t x))" by (intro assms(2)) simp
    moreover from Pair assms(1) have "R s t" by simp
    ultimately have "R s (fst (f t x))" by (rule assms(3) [rotated])
    with Pair Inr show ?thesis by simp
  qed
qed

lemma st_fold_rel:
  assumes step: "\<And>s x. x \<in> set xs \<Longrightarrow> R s (fst (f s x))"
    and refl: "\<And>s. R s s" and trans: "\<And>a b c. R a b \<Longrightarrow> R b c \<Longrightarrow> R a c"
  shows "R s (fst (st_fold f s xs))"
  using step
proof (induction xs arbitrary: s)
  case Nil
  then show ?case by (simp add: refl)
next
  case (Cons x xs)
  show ?case
    unfolding st_fold.simps
  proof (rule st_then_rel [OF _ _ trans])
    show "R s (fst (f s x))" using Cons.prems by simp
    show "R t (fst (st_then (st_fold f t xs) (\<lambda>s ys. (s, Ok (y # ys)))))" for t y
      by (rule st_then_rel [OF _ _ trans]) (use Cons in \<open>auto simp: refl\<close>)
  qed
qed

text \<open>An invariant that each step keeps.\<close>

lemma st_then_inv:
  assumes "P (fst m)" and "\<And>t x. m = (t, Ok x) \<Longrightarrow> P t \<Longrightarrow> P (fst (f t x))"
  shows "P (fst (st_then m f))"
  using st_then_rel [of "\<lambda>s t. P s \<longrightarrow> P t" "fst m" m f] assms by auto

lemma st_fold_inv:
  assumes "\<And>s x. x \<in> set xs \<Longrightarrow> P s \<Longrightarrow> P (fst (f s x))" and "P s"
  shows "P (fst (st_fold f s xs))"
  using st_fold_rel [of xs "\<lambda>s t. P s \<longrightarrow> P t" f s] assms by auto

text \<open>A change of a disk may succeed, fail with an I/O error and change nothing, or be the point where
  the process or the machine stops.\<close>

datatype fault = NoFault | IoFault | CrashFault

text \<open>\<open>hoare m Q R\<close>: if \<open>m\<close> returned \<open>Ok x\<close>, the state is as \<open>Q x\<close> says, if it failed with
  \<open>e\<close>, as \<open>R e\<close> says.\<close>

definition hoare :: "'s \<times> ('e + 'a) \<Rightarrow> ('a \<Rightarrow> 's \<Rightarrow> bool) \<Rightarrow> ('e \<Rightarrow> 's \<Rightarrow> bool) \<Rightarrow> bool" where
  "hoare m Q R = (case m of (w, Ok x) \<Rightarrow> Q x w | (w, Err e) \<Rightarrow> R e w)"

lemma hoare_simps [simp]: "hoare (w, Ok x) Q R = Q x w" "hoare (w, Err e) Q R = R e w"
  by (simp_all add: hoare_def)

lemma hoare_then: "hoare m (\<lambda>x w. hoare (f w x) Q R) R \<Longrightarrow> hoare (st_then m f) Q R"
  by (auto simp: hoare_def st_then_def split: prod.splits sum.splits)

lemma hoare_conseq:
  "hoare m Q R \<Longrightarrow> (\<And>x w. Q x w \<Longrightarrow> Q' x w) \<Longrightarrow> (\<And>e w. R e w \<Longrightarrow> R' e w) \<Longrightarrow> hoare m Q' R'"
  by (auto simp: hoare_def split: prod.splits sum.splits)

lemma hoare_fst: "hoare m (\<lambda>_ w. P w) (\<lambda>_ w. P w) \<Longrightarrow> P (fst m)"
  by (auto simp: hoare_def split: prod.splits sum.splits)

lemma hoare_fstI: "P (fst m) \<Longrightarrow> hoare m (\<lambda>_. P) (\<lambda>_. P)"
  by (auto simp: hoare_def split: prod.splits sum.splits)

lemma hoare_fold:
  assumes "P w" and "\<And>x w. x \<in> set xs \<Longrightarrow> P w \<Longrightarrow> hoare (f w x) (\<lambda>_. P) R"
  shows "hoare (st_fold f w xs) (\<lambda>_. P) R"
  using assms
proof (induction xs arbitrary: w)
  case (Cons x xs)
  have one: "hoare (f w x) (\<lambda>_. P) R" using Cons.prems by simp
  have rest: "hoare (st_fold f v xs) (\<lambda>_. P) R" if "P v" for v
    using Cons.IH [OF that] Cons.prems(2) by simp
  show ?case
    unfolding st_fold.simps
    by (rule hoare_then, rule hoare_conseq [OF one], rule hoare_then, rule hoare_conseq [OF rest]) simp_all
qed simp

section \<open>Disks that may fail\<close>

text \<open>What the proofs about a disk with faults rely on: a change with the effect \<open>f\<close> either takes
  effect or fails and leaves everything but the faults ahead as it was.\<close>

locale faulty_disk =
  fixes change :: "('s \<Rightarrow> 's) \<Rightarrow> 's \<Rightarrow> 's \<times> ('e + unit)" and faults :: "'s \<Rightarrow> fault list"
    and with_faults :: "fault list \<Rightarrow> 's \<Rightarrow> 's"
  assumes takes_effect: "change f w = (v, Ok ()) \<Longrightarrow> \<exists>fs. v = f (with_faults fs w)"
    and changes_nothing: "change f w = (v, Err e) \<Longrightarrow> \<exists>fs. v = with_faults fs w"
    and no_faults: "faults w = [] \<Longrightarrow> change f w = (f w, Ok ())"
begin

lemma hoare_change:
  assumes "\<And>fs. Q () (f (with_faults fs w))" and "\<And>fs e. R e (with_faults fs w)"
  shows "hoare (change f w) Q R"
proof -
  obtain v r where c: "change f w = (v, r)" by fastforce
  show ?thesis
  proof (cases r)
    case (Inl e)
    with c changes_nothing assms(2) show ?thesis by fastforce
  next
    case (Inr u)
    with c takes_effect assms(1) show ?thesis by fastforce
  qed
qed

end

section \<open>Machine integers\<close>

definition sat_add :: "'a::len word \<Rightarrow> 'a word \<Rightarrow> 'a word" where
  "sat_add a b = (if unat a + unat b < 2 ^ LENGTH('a) then a + b else - 1)"

definition sat_sub :: "'a::len word \<Rightarrow> 'a word \<Rightarrow> 'a word" where
  "sat_sub a b = (if a < b then 0 else a - b)"

definition sat_mul :: "'a::len word \<Rightarrow> 'a word \<Rightarrow> 'a word" where
  "sat_mul a b = (if unat a * unat b < 2 ^ LENGTH('a) then a * b else - 1)"

definition checked_add :: "'a::len word \<Rightarrow> 'a word \<Rightarrow> 'a word option" where
  "checked_add a b = (if unat a + unat b < 2 ^ LENGTH('a) then Some (a + b) else None)"

definition checked_sub :: "'a::len word \<Rightarrow> 'a word \<Rightarrow> 'a word option" where
  "checked_sub a b = (if a < b then None else Some (a - b))"

definition checked_mul :: "'a::len word \<Rightarrow> 'a word \<Rightarrow> 'a word option" where
  "checked_mul a b = (if unat a * unat b < 2 ^ LENGTH('a) then Some (a * b) else None)"

lemma unat_max_word: "unat (- 1 :: 'a::len word) = 2 ^ LENGTH('a) - 1"
  by transfer (simp add: take_bit_minus_one_eq_mask mask_eq_exp_minus_1 nat_diff_distrib nat_power_eq)

lemma unat_sat_add: "unat (sat_add a b) = min (unat a + unat b) (2 ^ LENGTH('a) - 1)"
  for a b :: "'a::len word"
  by (auto simp: sat_add_def unat_word_ariths unat_max_word)

lemma unat_sat_sub: "unat (sat_sub a b) = unat a - unat b"
  for a b :: "'a::len word"
  by (auto simp: sat_sub_def word_less_nat_alt unat_sub word_le_nat_alt)

lemma unat_sat_mul: "unat (sat_mul a b) = min (unat a * unat b) (2 ^ LENGTH('a) - 1)"
  for a b :: "'a::len word"
  by (auto simp: sat_mul_def unat_word_ariths unat_max_word)

lemma checked_add_Some: "checked_add a b = Some c \<Longrightarrow> unat c = unat a + unat b"
  by (auto simp: checked_add_def unat_word_ariths split: if_splits)

lemma checked_sub_Some: "checked_sub a b = Some c \<Longrightarrow> unat c = unat a - unat b \<and> b \<le> a"
  by (auto simp: checked_sub_def unat_sub split: if_splits)

lemma checked_mul_Some: "checked_mul a b = Some c \<Longrightarrow> unat c = unat a * unat b"
  by (auto simp: checked_mul_def unat_word_ariths split: if_splits)

text \<open>\<open>Vec::len() as u64\<close>\<close>

abbreviation len64 :: "'a list \<Rightarrow> u64" where
  "len64 xs \<equiv> of_nat (length xs)"

lemma unat_bound: "unat w < 2 ^ LENGTH('a)" for w :: "'a::len word"
  by (rule unsigned_less)

lemma unat_u64_bound: "unat w < 18446744073709551616" for w :: u64
  using unat_bound [of w] by simp

lemma unat_len64: "length xs < 18446744073709551616 \<Longrightarrow> unat (len64 xs) = length xs"
  by (simp add: unat_of_nat take_bit_eq_mod)

lemma unat_plus_one: "w \<noteq> - 1 \<Longrightarrow> unat (w + 1) = Suc (unat w)" for w :: "'a::len word"
  using unatSuc [of w] by (simp add: add.commute eq_neg_iff_add_eq_0)

end
