(* ===== verification/Rust_Str.thy ===== *)
theory Rust_Str
  imports Prelude
begin

text \<open>
  Rust's \<open>str\<close> and \<open>char\<close>, as the program uses them.

  A \<open>str\<close> is a sequence of bytes that is valid UTF-8. It is modelled by \<open>string\<close>: each
  \<open>char\<close> of HOL is one byte, so \<open>length\<close> is \<open>str::len\<close> and byte-wise tests are list
  predicates. A Rust \<open>char\<close> is a Unicode scalar value, modelled by a \<open>nat\<close>; \<open>chars\<close>
  decodes a \<open>str\<close> into its scalar values and \<open>utf8\<close> is the inverse. \<open>from_utf8\<close> is
  \<open>String::from_utf8\<close>, which refuses ill-formed bytes (overlong forms, surrogates and
  truncated sequences included).
\<close>

section \<open>Bytes\<close>

definition code :: "char \<Rightarrow> nat" where
  "code c = of_char c"

definition u8_of_char :: "char \<Rightarrow> u8" where
  "u8_of_char c = of_char c"

definition char_of_u8 :: "u8 \<Rightarrow> char" where
  "char_of_u8 b = char_of (unat b)"

definition as_bytes :: "string \<Rightarrow> bytes" where
  "as_bytes s = map u8_of_char s"

definition str_of_bytes :: "bytes \<Rightarrow> string" where
  "str_of_bytes bs = map char_of_u8 bs"

lemma code_less [simp]: "code c < 256"
  by (simp add: code_def)

lemma code_char_of [simp]: "code (char_of n) = n mod 256"
  by (simp add: code_def)

lemma char_of_code [simp]: "char_of (code c) = c"
  by (simp add: code_def)

lemma code_inject [simp]: "code c = code d \<longleftrightarrow> c = d"
  by (simp add: code_def)

lemma u8_of_char_code: "u8_of_char c = of_nat (code c)"
  by (simp add: u8_of_char_def code_def of_nat_of_char)

lemma unat_u8_of_char [simp]: "unat (u8_of_char c) = code c"
  using code_less [of c] by (simp add: u8_of_char_code unat_of_nat take_bit_eq_mod)

lemma char_of_u8_of_char [simp]: "char_of_u8 (u8_of_char c) = c"
  by (simp add: char_of_u8_def)

lemma u8_of_char_of_u8 [simp]: "u8_of_char (char_of_u8 b) = b"
proof (rule word_unat_eq_iff [THEN iffD2])
  have "unat b < 256"
    using unsigned_less [of b] by simp
  then show "unat (u8_of_char (char_of_u8 b)) = unat b"
    by (simp add: char_of_u8_def)
qed

lemma str_of_as_bytes [simp]: "str_of_bytes (as_bytes s) = s"
  by (simp add: str_of_bytes_def as_bytes_def comp_def)

lemma as_bytes_of_str [simp]: "as_bytes (str_of_bytes bs) = bs"
  by (simp add: str_of_bytes_def as_bytes_def comp_def)

lemma length_as_bytes [simp]: "length (as_bytes s) = length s"
  by (simp add: as_bytes_def)

lemma length_str_of_bytes [simp]: "length (str_of_bytes bs) = length bs"
  by (simp add: str_of_bytes_def)

lemma as_bytes_inject [simp]: "as_bytes s = as_bytes t \<longleftrightarrow> s = t"
  by (metis str_of_as_bytes)

definition is_ascii_digit :: "char \<Rightarrow> bool" where
  "is_ascii_digit c \<longleftrightarrow> 48 \<le> code c \<and> code c \<le> 57"

definition is_ascii_upper :: "char \<Rightarrow> bool" where
  "is_ascii_upper c \<longleftrightarrow> 65 \<le> code c \<and> code c \<le> 90"

definition is_ascii_lower :: "char \<Rightarrow> bool" where
  "is_ascii_lower c \<longleftrightarrow> 97 \<le> code c \<and> code c \<le> 122"

definition is_ascii_alphabetic :: "char \<Rightarrow> bool" where
  "is_ascii_alphabetic c \<longleftrightarrow> is_ascii_upper c \<or> is_ascii_lower c"

definition is_ascii_alphanumeric :: "char \<Rightarrow> bool" where
  "is_ascii_alphanumeric c \<longleftrightarrow> is_ascii_alphabetic c \<or> is_ascii_digit c"

definition is_ascii_hexdigit :: "char \<Rightarrow> bool" where
  "is_ascii_hexdigit c \<longleftrightarrow>
     is_ascii_digit c \<or> (65 \<le> code c \<and> code c \<le> 70) \<or> (97 \<le> code c \<and> code c \<le> 102)"

definition upper_char :: "char \<Rightarrow> char" where
  "upper_char c = (if is_ascii_lower c then char_of (code c - 32) else c)"

definition lower_char :: "char \<Rightarrow> char" where
  "lower_char c = (if is_ascii_upper c then char_of (code c + 32) else c)"

definition to_ascii_uppercase :: "string \<Rightarrow> string" where
  "to_ascii_uppercase s = map upper_char s"

definition to_ascii_lowercase :: "string \<Rightarrow> string" where
  "to_ascii_lowercase s = map lower_char s"

definition eq_ignore_ascii_case :: "string \<Rightarrow> string \<Rightarrow> bool" where
  "eq_ignore_ascii_case s t \<longleftrightarrow> to_ascii_lowercase s = to_ascii_lowercase t"

lemma upper_char_idem [simp]: "upper_char (upper_char c) = upper_char c"
  by (auto simp: upper_char_def is_ascii_lower_def)

lemma to_ascii_uppercase_idem [simp]:
  "to_ascii_uppercase (to_ascii_uppercase s) = to_ascii_uppercase s"
  by (simp add: to_ascii_uppercase_def comp_def)

lemma lower_upper_char [simp]: "lower_char (upper_char c) = lower_char c"
  by (auto simp: lower_char_def upper_char_def is_ascii_lower_def is_ascii_upper_def
      intro: char_of_code [THEN subst])

lemma eq_ignore_ascii_case_refl [simp]: "eq_ignore_ascii_case s s"
  by (simp add: eq_ignore_ascii_case_def)

lemma eq_ignore_ascii_case_upper [simp]:
  "eq_ignore_ascii_case s (to_ascii_uppercase t) = eq_ignore_ascii_case s t"
  by (simp add: eq_ignore_ascii_case_def to_ascii_lowercase_def to_ascii_uppercase_def comp_def)

section \<open>Unicode scalar values and UTF-8\<close>

definition is_scalar :: "nat \<Rightarrow> bool" where
  "is_scalar n \<longleftrightarrow> n < 0xD800 \<or> (0xE000 \<le> n \<and> n < 0x110000)"

definition utf8_char :: "nat \<Rightarrow> string" where
  "utf8_char n =
     (if n < 0x80 then [char_of n]
      else if n < 0x800 then [char_of (0xC0 + n div 64), char_of (0x80 + n mod 64)]
      else if n < 0x10000 then
        [char_of (0xE0 + n div 4096), char_of (0x80 + n div 64 mod 64), char_of (0x80 + n mod 64)]
      else
        [char_of (0xF0 + n div 262144), char_of (0x80 + n div 4096 mod 64),
         char_of (0x80 + n div 64 mod 64), char_of (0x80 + n mod 64)])"

definition utf8 :: "nat list \<Rightarrow> string" where
  "utf8 cs = concat (map utf8_char cs)"

definition seq_len :: "char \<Rightarrow> nat" where
  "seq_len c = (if code c < 0xC0 then 1 else if code c < 0xE0 then 2 else if code c < 0xF0 then 3 else 4)"

text \<open>The value that a group of one to four bytes spells.\<close>

fun seq_value :: "string \<Rightarrow> nat" where
  "seq_value [a] = code a"
| "seq_value [a, b] = (code a - 0xC0) * 64 + (code b - 0x80)"
| "seq_value [a, b, c] = (code a - 0xE0) * 4096 + (code b - 0x80) * 64 + (code c - 0x80)"
| "seq_value [a, b, c, d] =
     (code a - 0xF0) * 262144 + (code b - 0x80) * 4096 + (code c - 0x80) * 64 + (code d - 0x80)"
| "seq_value _ = 0"

text \<open>Decode strictly: each group must be the canonical encoding of a scalar value.\<close>

definition next_scalar :: "string \<Rightarrow> (nat \<times> string) option" where
  "next_scalar s =
     (let k = seq_len (hd s); n = seq_value (take k s)
      in if is_scalar n \<and> utf8_char n = take k s then Some (n, drop k s) else None)"

lemma next_scalar_Some:
  "next_scalar s = Some (n, t) \<Longrightarrow> is_scalar n \<and> utf8_char n @ t = s"
  by (auto simp: next_scalar_def Let_def split: if_splits)

lemma utf8_char_neq_Nil [simp]: "utf8_char n \<noteq> []"
  by (simp add: utf8_char_def)

lemma next_scalar_shorter [termination_simp]:
  "next_scalar s = Some (n, t) \<Longrightarrow> length t < length s"
  by (drule next_scalar_Some) auto

fun utf8_decode :: "string \<Rightarrow> nat list option" where
  "utf8_decode s =
     (if s = [] then Some []
      else case next_scalar s of None \<Rightarrow> None | Some (n, t) \<Rightarrow> map_option ((#) n) (utf8_decode t))"

declare utf8_decode.simps [simp del]

lemma utf8_decode_Nil [simp]: "utf8_decode [] = Some []"
  by (simp add: utf8_decode.simps)

definition valid_str :: "string \<Rightarrow> bool" where
  "valid_str s \<longleftrightarrow> utf8_decode s \<noteq> None"

definition from_utf8 :: "bytes \<Rightarrow> string option" where
  "from_utf8 bs = (if valid_str (str_of_bytes bs) then Some (str_of_bytes bs) else None)"

text \<open>\<open>str::chars\<close>; on bytes that are no \<open>str\<close> (which cannot occur) it is empty.\<close>

definition chars :: "string \<Rightarrow> nat list" where
  "chars s = (case utf8_decode s of None \<Rightarrow> [] | Some cs \<Rightarrow> cs)"

lemma seq_value_2:
  "a < 32 \<Longrightarrow> b < 64 \<Longrightarrow> seq_value [char_of (0xC0 + a), char_of (0x80 + b)] = a * 64 + b \<and>
     seq_len (char_of (0xC0 + a)) = 2"
  by (simp add: seq_len_def)

lemma seq_value_3:
  "a < 16 \<Longrightarrow> b < 64 \<Longrightarrow> c < 64 \<Longrightarrow>
     seq_value [char_of (0xE0 + a), char_of (0x80 + b), char_of (0x80 + c)] = a * 4096 + b * 64 + c \<and>
     seq_len (char_of (0xE0 + a)) = 3"
  by (simp add: seq_len_def)

lemma seq_value_4:
  "a < 8 \<Longrightarrow> b < 64 \<Longrightarrow> c < 64 \<Longrightarrow> d < 64 \<Longrightarrow>
     seq_value [char_of (0xF0 + a), char_of (0x80 + b), char_of (0x80 + c), char_of (0x80 + d)] =
       a * 262144 + b * 4096 + c * 64 + d \<and>
     seq_len (char_of (0xF0 + a)) = 4"
  by (simp add: seq_len_def)

lemma base64_digits:
  "(n::nat) div 64 * 64 + n mod 64 = n"
  "n div 4096 * 4096 + n div 64 mod 64 * 64 + n mod 64 = n"
  "n div 262144 * 262144 + n div 4096 mod 64 * 4096 + n div 64 mod 64 * 64 + n mod 64 = n"
proof -
  have a: "n div 64 * 64 + n mod 64 = n"
    by simp
  have b: "n div 4096 * 64 + n div 64 mod 64 = n div 64"
    using div_mult_mod_eq [of "n div 64" 64] div_mult2_eq [of n 64 64] by simp
  have c: "n div 262144 * 64 + n div 4096 mod 64 = n div 4096"
    using div_mult_mod_eq [of "n div 4096" 64] div_mult2_eq [of n 4096 64] by simp
  show "n div 64 * 64 + n mod 64 = n"
    by (rule a)
  show "n div 4096 * 4096 + n div 64 mod 64 * 64 + n mod 64 = n"
    using a b by linarith
  show "n div 262144 * 262144 + n div 4096 mod 64 * 4096 + n div 64 mod 64 * 64 + n mod 64 = n"
    using a b c by linarith
qed

lemma seq_utf8_char:
  assumes "is_scalar n"
  shows "seq_value (utf8_char n) = n \<and> seq_len (hd (utf8_char n)) = length (utf8_char n)"
proof -
  have n: "n < 0x110000"
    using assms by (auto simp: is_scalar_def)
  consider "n < 0x80" | "0x80 \<le> n" "n < 0x800" | "0x800 \<le> n" "n < 0x10000" | "0x10000 \<le> n"
    by linarith
  then show ?thesis
  proof cases
    case 1
    then show ?thesis by (simp add: utf8_char_def seq_len_def)
  next
    case 2
    then have u: "utf8_char n = [char_of (0xC0 + n div 64), char_of (0x80 + n mod 64)]"
      by (simp add: utf8_char_def)
    from 2 have "n div 64 < 32" "n mod 64 < 64" by auto
    from seq_value_2 [OF this] show ?thesis
      unfolding u base64_digits(1) by (simp del: seq_value.simps)
  next
    case 3
    then have u: "utf8_char n = [char_of (0xE0 + n div 4096), char_of (0x80 + n div 64 mod 64), char_of (0x80 + n mod 64)]"
      by (simp add: utf8_char_def)
    from 3 have "n div 4096 < 16" "n div 64 mod 64 < 64" "n mod 64 < 64" by auto
    from seq_value_3 [OF this] show ?thesis
      unfolding u base64_digits(2) by (simp del: seq_value.simps)
  next
    case 4
    then have u: "utf8_char n = [char_of (0xF0 + n div 262144), char_of (0x80 + n div 4096 mod 64),
         char_of (0x80 + n div 64 mod 64), char_of (0x80 + n mod 64)]"
      by (simp add: utf8_char_def)
    from n have "n div 262144 < 8" "n div 4096 mod 64 < 64" "n div 64 mod 64 < 64" "n mod 64 < 64"
      by auto
    from seq_value_4 [OF this] show ?thesis
      unfolding u base64_digits(3) by (simp del: seq_value.simps)
  qed
qed

lemma next_scalar_utf8_char:
  assumes "is_scalar n"
  shows "next_scalar (utf8_char n @ s) = Some (n, s)"
proof -
  have "hd (utf8_char n @ s) = hd (utf8_char n)"
    by simp
  with seq_utf8_char [OF assms] assms show ?thesis
    by (simp add: next_scalar_def)
qed

lemma utf8_decode_char:
  assumes "is_scalar n"
  shows "utf8_decode (utf8_char n @ s) = map_option ((#) n) (utf8_decode s)"
  by (subst utf8_decode.simps) (simp add: next_scalar_utf8_char [OF assms])

lemma utf8_decode_utf8: "\<forall>n \<in> set cs. is_scalar n \<Longrightarrow> utf8_decode (utf8 cs) = Some cs"
  by (induction cs) (auto simp: utf8_def utf8_decode_char)

lemma utf8_decode_Some: "utf8_decode s = Some cs \<Longrightarrow> utf8 cs = s \<and> (\<forall>n \<in> set cs. is_scalar n)"
proof (induction s arbitrary: cs rule: utf8_decode.induct)
  case (1 s)
  show ?case
  proof (cases "s = []")
    case True
    with "1.prems" show ?thesis by (simp add: utf8_def)
  next
    case False
    with "1.prems" obtain n t ds where nt: "next_scalar s = Some (n, t)"
      and ds: "utf8_decode t = Some ds" "cs = n # ds"
      by (auto simp: utf8_decode.simps [of s] split: option.splits)
    from "1.IH" [OF False nt refl ds(1)] ds(2) next_scalar_Some [OF nt] show ?thesis
      by (auto simp: utf8_def)
  qed
qed

lemma chars_utf8 [simp]: "\<forall>n \<in> set cs. is_scalar n \<Longrightarrow> chars (utf8 cs) = cs"
  by (simp add: chars_def utf8_decode_utf8)

lemma utf8_chars: "valid_str s \<Longrightarrow> utf8 (chars s) = s"
  by (auto simp: chars_def valid_str_def dest: utf8_decode_Some split: option.splits)

lemma chars_scalar: "n \<in> set (chars s) \<Longrightarrow> is_scalar n"
  by (cases "utf8_decode s") (auto simp: chars_def dest: utf8_decode_Some)

lemma valid_utf8: "\<forall>n \<in> set cs. is_scalar n \<Longrightarrow> valid_str (utf8 cs)"
  by (simp add: valid_str_def utf8_decode_utf8)

lemma from_utf8_Some: "from_utf8 bs = Some s \<longleftrightarrow> valid_str s \<and> as_bytes s = bs"
  by (auto simp: from_utf8_def)

lemma utf8_ascii:
  assumes "\<forall>c \<in> set s. code c < 128"
  shows "utf8 (map code s) = s \<and> (\<forall>n \<in> set (map code s). is_scalar n)"
  using assms by (induction s) (auto simp: utf8_def utf8_char_def is_scalar_def)

lemma chars_ascii: "\<forall>c \<in> set s. code c < 128 \<Longrightarrow> chars s = map code s"
  using utf8_ascii [of s] chars_utf8 [of "map code s"] by simp

lemma valid_ascii: "\<forall>c \<in> set s. code c < 128 \<Longrightarrow> valid_str s"
  using utf8_ascii [of s] valid_utf8 [of "map code s"] by simp

text \<open>\<open>u32::to_be_bytes\<close> and \<open>u32::from_be_bytes\<close>.\<close>

definition u32_be_bytes :: "u32 \<Rightarrow> bytes" where
  "u32_be_bytes n = [ucast (drop_bit 24 n), ucast (drop_bit 16 n), ucast (drop_bit 8 n), ucast n]"

unbundle bit_operations_syntax

definition u32_from_be :: "u8 \<Rightarrow> u8 \<Rightarrow> u8 \<Rightarrow> u8 \<Rightarrow> u32" where
  "u32_from_be a b c d = push_bit 24 (ucast a) OR push_bit 16 (ucast b) OR push_bit 8 (ucast c) OR ucast d"

lemma u32_from_to_be:
  assumes "u32_be_bytes n = [a, b, c, d]"
  shows "u32_from_be a b c d = n"
proof (rule bit_eqI)
  fix k
  assume "possible_bit TYPE(u32) k"
  then have "k < 32" by simp
  then consider "k < 8" | "8 \<le> k" "k < 16" | "16 \<le> k" "k < 24" | "24 \<le> k" "k < 32"
    by linarith
  then show "bit (u32_from_be a b c d) k \<longleftrightarrow> bit n k"
    using assms by cases (auto simp: u32_be_bytes_def u32_from_be_def bit_simps)
qed

section \<open>Classes of scalar values and \<open>str\<close> operations\<close>

text \<open>\<open>char::is_control\<close>: general category Cc.\<close>

definition is_control :: "nat \<Rightarrow> bool" where
  "is_control n \<longleftrightarrow> n < 32 \<or> (127 \<le> n \<and> n < 160)"

text \<open>\<open>char::is_whitespace\<close>: the property White\_Space.\<close>

definition is_whitespace :: "nat \<Rightarrow> bool" where
  "is_whitespace n \<longleftrightarrow>
     (9 \<le> n \<and> n \<le> 13) \<or> n = 32 \<or> n = 0x85 \<or> n = 0xA0 \<or> n = 0x1680 \<or>
     (0x2000 \<le> n \<and> n \<le> 0x200A) \<or> n = 0x2028 \<or> n = 0x2029 \<or> n = 0x202F \<or> n = 0x205F \<or> n = 0x3000"

definition trim_chars :: "nat list \<Rightarrow> nat list" where
  "trim_chars cs = rev (dropWhile is_whitespace (rev (dropWhile is_whitespace cs)))"

definition trim :: "string \<Rightarrow> string" where
  "trim s = utf8 (trim_chars (chars s))"

definition truncate_chars :: "nat \<Rightarrow> string \<Rightarrow> string" where
  "truncate_chars k s = utf8 (take k (chars s))"

fun split_on :: "char \<Rightarrow> string \<Rightarrow> string list" where
  "split_on d [] = [[]]"
| "split_on d (c # s) =
     (if c = d then [] # split_on d s
      else case split_on d s of [] \<Rightarrow> [[c]] | w # ws \<Rightarrow> (c # w) # ws)"

fun join_with :: "string \<Rightarrow> string list \<Rightarrow> string" where
  "join_with sep [] = []"
| "join_with sep [w] = w"
| "join_with sep (w # ws) = w @ sep @ join_with sep ws"

definition strip_cr :: "string \<Rightarrow> string" where
  "strip_cr l = (if l \<noteq> [] \<and> last l = CHR 0x0D then butlast l else l)"

text \<open>\<open>str::lines\<close>: the pieces that end with a line feed, without it and a carriage return
  before it, and what follows the last line feed, as it is, unless it is empty.\<close>

definition str_lines :: "string \<Rightarrow> string list" where
  "str_lines s =
     (let ps = split_on (CHR 0x0A) s
      in (map strip_cr (butlast ps)) @ (if last ps = [] then [] else [last ps]))"

definition quoted :: "string \<Rightarrow> string" where
  "quoted s = CHR 0x22 # s @ [CHR 0x22]"

definition strip_prefix :: "string \<Rightarrow> string \<Rightarrow> string option" where
  "strip_prefix p s = (if prefix p s then Some (drop (length p) s) else None)"

definition strip_suffix :: "string \<Rightarrow> string \<Rightarrow> string option" where
  "strip_suffix p s = (if suffix p s then Some (take (length s - length p) s) else None)"

definition contains_str :: "string \<Rightarrow> string \<Rightarrow> bool" where
  "contains_str s p \<longleftrightarrow> sublist p s"

lemma split_on_neq_Nil [simp]: "split_on d s \<noteq> []"
  by (induction s) (auto split: list.splits)

lemma split_on_no_sep: "w \<in> set (split_on d s) \<Longrightarrow> d \<notin> set w"
  by (induction s arbitrary: w) (auto split: if_splits list.splits)

lemma join_split_on: "join_with [d] (split_on d s) = s"
proof (induction s)
  case (Cons c s)
  obtain w ws where ws: "split_on d s = w # ws"
    by (cases "split_on d s") auto
  with Cons show ?case
    by (cases ws) auto
qed simp

lemma split_on_join:
  "ws \<noteq> [] \<Longrightarrow> \<forall>w \<in> set ws. d \<notin> set w \<Longrightarrow> split_on d (join_with [d] ws) = ws"
proof (induction "[d]" ws rule: join_with.induct)
  case (2 w)
  then show ?case
    by (induction w) auto
next
  case (3 w v ws)
  then have IH: "split_on d (join_with [d] (v # ws)) = v # ws" and w: "d \<notin> set w"
    by auto
  from w have "split_on d (w @ d # t) = w # split_on d t" for t
    by (induction w) auto
  with IH show ?case by simp
qed simp

lemma set_split_on: "w \<in> set (split_on d s) \<Longrightarrow> set w \<subseteq> set s"
proof (induction s arbitrary: w)
  case (Cons c s)
  obtain v vs where "split_on d s = v # vs"
    by (cases "split_on d s") auto
  with Cons show ?case
    by (fastforce split: if_splits)
qed simp

section \<open>Numbers in text\<close>

fun show_nat :: "nat \<Rightarrow> string" where
  "show_nat n = (if n < 10 then [char_of (48 + n)] else show_nat (n div 10) @ [char_of (48 + n mod 10)])"

declare show_nat.simps [simp del]

fun read_digits :: "nat \<Rightarrow> string \<Rightarrow> nat option" where
  "read_digits acc [] = Some acc"
| "read_digits acc (c # s) =
     (if is_ascii_digit c then read_digits (10 * acc + (code c - 48)) s else None)"

lemma read_digits_append:
  "read_digits acc (s @ t) = (case read_digits acc s of None \<Rightarrow> None | Some a \<Rightarrow> read_digits a t)"
  by (induction s arbitrary: acc) auto

lemma read_show_nat: "read_digits 0 (show_nat n) = Some n"
proof (induction n rule: show_nat.induct)
  case (1 n)
  show ?case
  proof (cases "n < 10")
    case True
    then show ?thesis by (simp add: show_nat.simps is_ascii_digit_def)
  next
    case False
    with 1 show ?thesis
      by (simp add: show_nat.simps [of n] read_digits_append is_ascii_digit_def)
  qed
qed

lemma show_nat_inject [simp]: "show_nat m = show_nat n \<longleftrightarrow> m = n"
  by (metis option.inject read_show_nat)

lemma show_nat_neq_Nil [simp]: "show_nat n \<noteq> []"
  by (subst show_nat.simps) simp

lemma show_nat_digits: "c \<in> set (show_nat n) \<Longrightarrow> is_ascii_digit c"
proof (induction n rule: show_nat.induct)
  case (1 n)
  then show ?case
    by (subst (asm) (2) show_nat.simps) (auto simp: is_ascii_digit_def split: if_splits)
qed

text \<open>\<open>str::parse\<close> for an unsigned type with the given largest value: an optional plus sign and
  at least one digit.\<close>

definition parse_uint :: "nat \<Rightarrow> string \<Rightarrow> nat option" where
  "parse_uint largest s =
     (let ds = (if prefix ''+'' s then tl s else s)
      in if ds = [] then None
         else case read_digits 0 ds of
           None \<Rightarrow> None
         | Some n \<Rightarrow> if n \<le> largest then Some n else None)"

text \<open>\<open>str::split_once\<close> at a character.\<close>

definition split_once :: "char \<Rightarrow> string \<Rightarrow> (string \<times> string) option" where
  "split_once d s =
     (if d \<in> set s then Some (takeWhile (\<lambda>c. c \<noteq> d) s, tl (dropWhile (\<lambda>c. c \<noteq> d) s)) else None)"

text \<open>\<open>str::find\<close> of a text: what starts at its first occurrence.\<close>

fun find_str :: "string \<Rightarrow> string \<Rightarrow> string option" where
  "find_str p [] = (if p = [] then Some [] else None)"
| "find_str p (c # s) = (if prefix p (c # s) then Some (c # s) else find_str p s)"

lemma find_str_here: "prefix p s \<Longrightarrow> find_str p s = Some s"
  by (cases s) auto

text \<open>\<open>str::split_whitespace\<close>: the words between white space.\<close>

fun split_where :: "('a \<Rightarrow> bool) \<Rightarrow> 'a list \<Rightarrow> 'a list list" where
  "split_where P [] = [[]]"
| "split_where P (c # s) =
     (if P c then [] # split_where P s
      else case split_where P s of [] \<Rightarrow> [[c]] | w # ws \<Rightarrow> (c # w) # ws)"

definition split_whitespace :: "string \<Rightarrow> string list" where
  "split_whitespace s = map utf8 (filter (\<lambda>w. w \<noteq> []) (split_where is_whitespace (chars s)))"

lemma split_where_word:
  "\<forall>c \<in> set w. \<not> P c \<Longrightarrow> split_where P w = [w]"
  "\<forall>c \<in> set w. \<not> P c \<Longrightarrow> P x \<Longrightarrow> split_where P (w @ x # r) = w # split_where P r"
  by (induction w) auto

definition word_text :: "string \<Rightarrow> bool" where
  "word_text w \<longleftrightarrow> w \<noteq> [] \<and> (\<forall>c \<in> set w. 33 \<le> code c \<and> code c \<le> 126)"

lemma split_whitespace_words:
  assumes "list_all word_text ws"
  shows "split_whitespace (join_with '' '' ws) = ws"
proof -
  have w: "\<not> is_whitespace n" if "33 \<le> n" "n \<le> 126" for n
    using that by (auto simp: is_whitespace_def)
  have asc: "\<forall>c \<in> set (join_with '' '' ws). code c < 128"
    using assms
  proof (induction ws rule: induct_list012)
    case (3 x y zs)
    then show ?case by (auto simp: word_text_def code_def)
  qed (auto simp: word_text_def)
  have "filter (\<lambda>w. w \<noteq> []) (split_where is_whitespace (map code (join_with '' '' ws))) = map (map code) ws"
    using assms
  proof (induction ws rule: induct_list012)
    case (2 v)
    then show ?case by (simp add: split_where_word word_text_def w)
  next
    case (3 v x xs)
    then have "\<forall>n \<in> set (map code v). \<not> is_whitespace n" "v \<noteq> []"
      by (auto simp: word_text_def w)
    moreover have "is_whitespace 32" "code (CHR '' '') = 32"
      by (simp_all add: is_whitespace_def code_def)
    ultimately show ?case
      using 3 split_where_word(2) [of "map code v" is_whitespace 32] by simp
  qed simp
  moreover have "utf8 (map code v) = v" if "v \<in> set ws" for v
  proof -
    from assms that have "\<forall>c \<in> set v. code c < 128"
      by (force simp: word_text_def list_all_iff)
    then show ?thesis using utf8_ascii by blast
  qed
  then have "map utf8 (map (map code) ws) = ws"
    by (simp add: map_idI)
  ultimately show ?thesis
    by (simp only: split_whitespace_def chars_ascii [OF asc])
qed

section \<open>Paths\<close>

text \<open>\<open>Path::join\<close> on Unix: an absolute second path replaces the first.\<close>

definition path_join :: "string \<Rightarrow> string \<Rightarrow> string" where
  "path_join dir f =
     (if prefix ''/'' f then f
      else if dir = [] then f
      else if last dir = CHR ''/'' then dir @ f
      else dir @ ''/'' @ f)"

text \<open>Lexical resolution of the components of a relative path below the components \<open>base\<close>:
  empty and \<open>.\<close> components are dropped, \<open>..\<close> removes the last one.\<close>

fun resolve :: "string list \<Rightarrow> string list \<Rightarrow> string list" where
  "resolve base [] = base"
| "resolve base (c # cs) =
     (if c = [] \<or> c = ''.'' then resolve base cs
      else if c = ''..'' then resolve (butlast base) cs
      else resolve (base @ [c]) cs)"

lemma resolve_normal:
  "\<forall>c \<in> set cs. c \<noteq> [] \<and> c \<noteq> ''.'' \<and> c \<noteq> ''..'' \<Longrightarrow> resolve base cs = base @ cs"
  by (induction cs arbitrary: base) auto

text \<open>The components of an absolute path: empty ones and single dots do not count.\<close>

definition components :: "string \<Rightarrow> string list" where
  "components p = filter (\<lambda>c. c \<noteq> [] \<and> c \<noteq> ''.'') (split_on (CHR ''/'') p)"

definition path_starts_with :: "string \<Rightarrow> string \<Rightarrow> bool" where
  "path_starts_with p base \<longleftrightarrow> prefix ''/'' p \<and> prefix (components base) (components p)"

end
