(* ===== verification/Core_Text.thy ===== *)
theory Core_Text
  imports Rust_Str
begin

text \<open>
  \<open>crates/core\<close>: untrusted display text (\<open>text.rs\<close>), SHA-256 digests and their
  hexadecimal form (\<open>digest.rs\<close>), observed paths (\<open>path.rs\<close>) and the cancellation
  token (\<open>cancel.rs\<close>).
\<close>

section \<open>Display text (\<open>text.rs\<close>)\<close>

definition is_bidi_control :: "nat \<Rightarrow> bool" where
  "is_bidi_control c \<longleftrightarrow>
     (0x202A \<le> c \<and> c \<le> 0x202E) \<or> (0x2066 \<le> c \<and> c \<le> 0x2069) \<or>
     c = 0x200E \<or> c = 0x200F \<or> c = 0x061C"

definition unsafe_char :: "bool \<Rightarrow> nat \<Rightarrow> bool" where
  "unsafe_char allow_newlines c =
     (let allowed_ws = allow_newlines \<and> (c = 10 \<or> c = 9)
      in (is_control c \<and> \<not> allowed_ws) \<or> is_bidi_control c)"

definition has_unsafe_chars :: "string \<Rightarrow> bool \<Rightarrow> bool" where
  "has_unsafe_chars s allow_newlines = list_ex (unsafe_char allow_newlines) (chars s)"

definition hex_digit :: "nat \<Rightarrow> nat" where
  "hex_digit d = (if d < 10 then 48 + d else 87 + d)"

text \<open>The format \<open>{:x}\<close> of an unsigned number, as scalar values.\<close>

fun lower_hex :: "nat \<Rightarrow> nat list" where
  "lower_hex n = (if n < 16 then [hex_digit n] else lower_hex (n div 16) @ [hex_digit (n mod 16)])"

declare lower_hex.simps [simp del]

text \<open>One iteration of the loop: \<open>\u{..}\<close> for an unsafe character, itself otherwise.\<close>

definition escape_char :: "nat \<Rightarrow> nat list" where
  "escape_char c =
     (if is_control c \<or> is_bidi_control c
      then map code (CHR 0x5C # ''u{'') @ lower_hex c @ map code ''}''
      else [c])"

definition escape_unsafe_chars :: "string \<Rightarrow> string" where
  "escape_unsafe_chars s = utf8 (concat (map escape_char (chars s)))"

lemma hex_digit_range: "d < 16 \<Longrightarrow> 48 \<le> hex_digit d \<and> hex_digit d \<le> 102"
  by (auto simp: hex_digit_def)

lemma lower_hex_range: "d \<in> set (lower_hex n) \<Longrightarrow> 48 \<le> d \<and> d \<le> 102"
proof (induction n rule: lower_hex.induct)
  case (1 n)
  show ?case
  proof (cases "n < 16")
    case True
    with "1.prems" show ?thesis
      by (simp add: lower_hex.simps hex_digit_range)
  next
    case False
    with 1 show ?thesis
      using hex_digit_range [of "n mod 16"]
      by (auto simp: lower_hex.simps [of n])
  qed
qed

lemma printable_safe:
  assumes "32 \<le> d" and "d \<le> 126"
  shows "\<not> unsafe_char b d \<and> is_scalar d"
  using assms by (simp add: unsafe_char_def is_control_def is_bidi_control_def is_scalar_def)

lemma escape_char_safe:
  assumes "is_scalar c" and "d \<in> set (escape_char c)"
  shows "\<not> unsafe_char b d \<and> is_scalar d"
proof (cases "is_control c \<or> is_bidi_control c")
  case True
  with assms(2) have "d \<in> set (map code (CHR 0x5C # ''u{'')) \<or> d \<in> set (lower_hex c) \<or> d = 125"
    by (auto simp: escape_char_def code_def)
  then have "32 \<le> d \<and> d \<le> 126"
    using lower_hex_range [of d c] by (auto simp: code_def)
  then show ?thesis
    using printable_safe by blast
next
  case False
  with assms show ?thesis
    by (auto simp: escape_char_def unsafe_char_def)
qed

lemma chars_escape: "chars (escape_unsafe_chars s) = concat (map escape_char (chars s))"
  unfolding escape_unsafe_chars_def
  by (rule chars_utf8) (auto dest: chars_scalar escape_char_safe)

lemma escape_is_str: "valid_str (escape_unsafe_chars s)"
  unfolding escape_unsafe_chars_def
  by (rule valid_utf8) (auto dest: chars_scalar escape_char_safe)

lemma escape_output_safe: "\<not> has_unsafe_chars (escape_unsafe_chars s) b"
  by (auto simp: has_unsafe_chars_def chars_escape list_ex_iff dest: chars_scalar escape_char_safe)

lemma escape_safe_id:
  assumes "valid_str s" and "\<not> has_unsafe_chars s False"
  shows "escape_unsafe_chars s = s"
proof -
  have "concat (map escape_char cs) = cs" if "\<forall>c \<in> set cs. \<not> unsafe_char False c" for cs
    using that by (induction cs) (auto simp: escape_char_def unsafe_char_def)
  moreover have "\<forall>c \<in> set (chars s). \<not> unsafe_char False c"
    using assms(2) by (auto simp: has_unsafe_chars_def list_ex_iff)
  ultimately show ?thesis
    using assms(1) by (simp add: escape_unsafe_chars_def utf8_chars)
qed

lemma has_unsafe_ascii:
  assumes "\<forall>c \<in> set s. 32 \<le> code c \<and> code c \<le> 126"
  shows "\<not> has_unsafe_chars s b"
proof -
  have "chars s = map code s"
    using assms by (intro chars_ascii) force
  then show ?thesis
    using assms by (auto simp: has_unsafe_chars_def list_ex_iff printable_safe)
qed

section \<open>Digests (\<open>digest.rs\<close>)\<close>

text \<open>\<open>Sha256Digest([u8; 32])\<close>: the array's length is the invariant \<open>digest_ok\<close>.\<close>

datatype digest = Sha256Digest bytes

primrec digest_bytes :: "digest \<Rightarrow> bytes" where
  "digest_bytes (Sha256Digest bs) = bs"

definition digest_ok :: "digest \<Rightarrow> bool" where
  "digest_ok d \<longleftrightarrow> length (digest_bytes d) = 32"

datatype digest_parse_error = InvalidLength nat | InvalidCharacter nat

definition hex_value :: "u8 \<Rightarrow> u8 option" where
  "hex_value c =
     (if 48 \<le> c \<and> c \<le> 57 then Some (c - 48)
      else if 97 \<le> c \<and> c \<le> 102 then Some (c - 97 + 10)
      else if 65 \<le> c \<and> c \<le> 70 then Some (c - 65 + 10)
      else None)"

definition hex_table :: string where
  "hex_table = ''0123456789abcdef''"

fun hex_encode :: "bytes \<Rightarrow> string" where
  "hex_encode [] = []"
| "hex_encode (b # bs) =
     hex_table ! unat (drop_bit 4 b) # hex_table ! unat (b AND 0x0f) # hex_encode bs"

definition to_hex :: "digest \<Rightarrow> string" where
  "to_hex d = hex_encode (digest_bytes d)"

text \<open>The loop over the pairs of bytes; \<open>i\<close> is the index of the pair.\<close>

fun hex_pairs :: "nat \<Rightarrow> bytes \<Rightarrow> digest_parse_error + bytes" where
  "hex_pairs i (h # l # r) =
     and_then (ok_or (InvalidCharacter (i * 2)) (hex_value h)) (\<lambda>hi.
     and_then (ok_or (InvalidCharacter (i * 2 + 1)) (hex_value l)) (\<lambda>lo.
     and_then (hex_pairs (Suc i) r) (\<lambda>out. Ok ((push_bit 4 hi OR lo) # out))))"
| "hex_pairs i _ = Ok []"

definition digest_from_str :: "string \<Rightarrow> digest_parse_error + digest" where
  "digest_from_str s =
     (let b = as_bytes s
      in if length b \<noteq> 64 then Err (InvalidLength (length b))
         else and_then (hex_pairs 0 b) (\<lambda>out. Ok (Sha256Digest out)))"

lemma hex_encode_length [simp]: "length (hex_encode bs) = 2 * length bs"
  by (induction bs) auto

lemma to_hex_length: "digest_ok d \<Longrightarrow> length (to_hex d) = 64"
  by (simp add: to_hex_def digest_ok_def)

text \<open>Facts about single hexadecimal digits, each decided for all 16 nibbles or 256 bytes.\<close>

lemma all_nibbles: "list_all P [0, 1, 2, 3, 4, 5, 6, 7, 8, 9, 10, 11, 12, 13, 14, 15] \<Longrightarrow> n < 16 \<Longrightarrow> P (n :: nat)"
proof -
  have "[0..<16] = [0, 1, 2, 3, 4, 5, 6, 7, 8, 9, 10, 11, 12, 13, 14, 15 :: nat]"
    by code_simp
  then show "list_all P [0, 1, 2, 3, 4, 5, 6, 7, 8, 9, 10, 11, 12, 13, 14, 15] \<Longrightarrow> n < 16 \<Longrightarrow> P n"
    by (metis atLeastLessThan_iff list_all_iff le0 set_upt)
qed

lemma hex_value_table: "n < 16 \<Longrightarrow> hex_value (u8_of_char (hex_table ! n)) = Some (of_nat n)"
  by (erule all_nibbles [rotated]) (simp add: hex_table_def hex_value_def u8_of_char_code code_def)

lemma hex_table_lower: "n < 16 \<Longrightarrow> lower_char (hex_table ! n) = hex_table ! n \<and> code (hex_table ! n) < 128"
  by (erule all_nibbles [rotated]) (simp add: hex_table_def lower_char_def is_ascii_upper_def code_def)

lemma nibbles:
  fixes b :: u8
  shows "unat (drop_bit 4 b) < 16" and "unat (b AND 0x0f) < 16"
    and "push_bit 4 (drop_bit 4 b) OR (b AND 0x0f) = b"
proof -
  have "b AND 0x0f = take_bit 4 b"
    by (simp add: take_bit_eq_mask mask_eq_exp_minus_1)
  then show "unat (b AND 0x0f) < 16"
    by (simp only: unsigned_take_bit_eq) (simp add: take_bit_eq_mod)
  have "unat b < 256"
    using unsigned_less [of b] by simp
  then show "unat (drop_bit 4 b) < 16"
    by (simp only: unsigned_drop_bit_eq) (simp add: drop_bit_eq_div take_bit_eq_mod)
  show "push_bit 4 (drop_bit 4 b) OR (b AND 0x0f) = b"
    unfolding \<open>b AND 0x0f = take_bit 4 b\<close>
    by (rule bit_eqI) (auto simp: bit_simps)
qed

lemma hex_pairs_encode: "hex_pairs i (as_bytes (hex_encode bs)) = Ok bs"
proof (induction bs arbitrary: i)
  case (Cons b bs)
  have "hex_value (u8_of_char (hex_table ! unat (drop_bit 4 b))) = Some (drop_bit 4 b)"
    and "hex_value (u8_of_char (hex_table ! unat (b AND 0x0f))) = Some (b AND 0x0f)"
    by (simp_all add: hex_value_table nibbles)
  with Cons show ?case
    by (simp add: as_bytes_def nibbles(3))
qed (simp add: as_bytes_def)

lemma hex_table_nth: "k < 16 \<Longrightarrow> hex_table ! k = char_of (if k < 10 then 48 + k else 87 + k)"
  by (erule all_nibbles [rotated]) (simp add: hex_table_def code_def flip: code_inject)

lemma hex_value_Some:
  assumes "hex_value c = Some v"
  shows "unat v < 16 \<and> hex_table ! unat v = lower_char (char_of_u8 c)"
proof -
  have c: "unat c < 256"
    using unsigned_less [of c] by simp
  consider "48 \<le> unat c" "unat c \<le> 57" "unat v = unat c - 48"
    | "97 \<le> unat c" "unat c \<le> 102" "unat v = unat c - 87"
    | "65 \<le> unat c" "unat c \<le> 70" "unat v = unat c - 55"
    using assms
    by (auto simp: hex_value_def word_le_nat_alt unat_sub unat_word_ariths split: if_splits)
  then show ?thesis
    by cases (auto simp: hex_table_nth char_of_u8_def lower_char_def is_ascii_upper_def)
qed

lemma join_nibbles:
  fixes hi lo :: u8
  assumes "unat hi < 16" and "unat lo < 16"
  shows "drop_bit 4 (push_bit 4 hi OR lo) = hi" and "(push_bit 4 hi OR lo) AND 0x0f = lo"
proof -
  have t: "take_bit 4 w = w" if "unat w < 16" for w :: u8
    using that by (intro word_unat_eq_iff [THEN iffD2]) (simp only: unsigned_take_bit_eq, simp add: take_bit_eq_mod)
  have hi: "bit hi n \<Longrightarrow> n < 4" and lo: "bit lo n \<Longrightarrow> n < 4" for n
    using t [OF assms(1)] t [OF assms(2)] by (metis bit_take_bit_iff)+
  show "drop_bit 4 (push_bit 4 hi OR lo) = hi"
    using lo by (intro bit_eqI) (auto simp: bit_simps dest: hi)
  have "(push_bit 4 hi OR lo) AND 0x0f = take_bit 4 (push_bit 4 hi OR lo)"
    by (simp add: take_bit_eq_mask mask_eq_exp_minus_1)
  also have "\<dots> = lo"
    by (rule bit_eqI) (auto simp: bit_simps dest: lo)
  finally show "(push_bit 4 hi OR lo) AND 0x0f = lo" .
qed

lemma hex_pairs_Ok:
  "hex_pairs i bs = Ok out \<Longrightarrow> even (length bs) \<Longrightarrow>
     hex_encode out = map (lower_char \<circ> char_of_u8) bs"
proof (induction i bs arbitrary: out rule: hex_pairs.induct)
  case (1 i h l r)
  from "1.prems"(1) obtain hi lo out' where v: "hex_value h = Some hi" "hex_value l = Some lo"
    and rest: "hex_pairs (Suc i) r = Ok out'" and out: "out = (push_bit 4 hi OR lo) # out'"
    by (auto simp: result_simps)
  from v have "unat hi < 16" "unat lo < 16"
    and tab: "hex_table ! unat hi = lower_char (char_of_u8 h)" "hex_table ! unat lo = lower_char (char_of_u8 l)"
    by (auto dest: hex_value_Some)
  with join_nibbles [of hi lo] "1.IH" [OF rest] "1.prems"(2) show ?case
    by (simp add: out v)
qed auto

lemma digest_from_str_Ok:
  assumes "digest_from_str s = Ok d"
  shows "digest_ok d \<and> to_hex d = to_ascii_lowercase s"
proof -
  from assms obtain out where len: "length s = 64"
    and p: "hex_pairs 0 (as_bytes s) = Ok out" and d: "d = Sha256Digest out"
    by (auto simp: digest_from_str_def Let_def result_simps split: if_splits)
  have h: "hex_encode out = to_ascii_lowercase s"
    using hex_pairs_Ok [OF p] len
    by (simp add: as_bytes_def to_ascii_lowercase_def comp_def)
  moreover have "2 * length out = 64"
    using arg_cong [OF h, of length] len by (simp add: to_ascii_lowercase_def)
  ultimately show ?thesis
    by (simp add: d digest_ok_def to_hex_def)
qed

lemma digest_round_trip: "digest_ok d \<Longrightarrow> digest_from_str (to_hex d) = Ok d"
  by (cases d) (simp add: digest_from_str_def to_hex_def digest_ok_def hex_pairs_encode)


text \<open>The parser ignores the case of the digits, so acceptance is exactly a matter of the
  lower-case form.\<close>

lemma hex_value_lower: "hex_value (u8_of_char (lower_char c)) = hex_value (u8_of_char c)"
proof (cases "is_ascii_upper c")
  case True
  then have c: "65 \<le> code c" "code c \<le> 90"
    by (simp_all add: is_ascii_upper_def)
  have u: "unat (u8_of_char c) = code c" "unat (u8_of_char (lower_char c)) = code c + 32"
    using c True by (simp_all add: lower_char_def code_def)
  show ?thesis
    using c u by (auto simp: hex_value_def word_le_nat_alt word_unat_eq_iff unat_word_ariths unat_sub)
qed (simp add: lower_char_def)

lemma hex_pairs_lower: "hex_pairs i (as_bytes (to_ascii_lowercase s)) = hex_pairs i (as_bytes s)"
proof (induction s arbitrary: i rule: induct_list012)
  case (3 a b s)
  then show ?case
    by (simp add: as_bytes_def to_ascii_lowercase_def hex_value_lower)
qed (simp_all add: as_bytes_def to_ascii_lowercase_def)

lemma digest_from_str_iff:
  "digest_from_str s = Ok d \<longleftrightarrow> digest_ok d \<and> to_hex d = to_ascii_lowercase s"
proof
  assume r: "digest_ok d \<and> to_hex d = to_ascii_lowercase s"
  have "length (to_ascii_lowercase s) = length s"
    by (simp add: to_ascii_lowercase_def)
  then have "digest_from_str s = digest_from_str (to_ascii_lowercase s)"
    by (simp add: digest_from_str_def hex_pairs_lower Let_def)
  with r digest_round_trip [of d] show "digest_from_str s = Ok d" by simp
qed (rule digest_from_str_Ok)

lemma escape_identity: "escape_unsafe_chars s = s \<longleftrightarrow> valid_str s \<and> \<not> has_unsafe_chars s False"
  using escape_is_str [of s] escape_output_safe [of s] escape_safe_id [of s] by metis

lemma hex_encode_inject: "hex_encode a = hex_encode b \<Longrightarrow> a = b"
  by (metis hex_pairs_encode sum.inject(2))

lemma to_hex_inject: "to_hex a = to_hex b \<Longrightarrow> a = b"
  by (cases a; cases b) (auto simp: to_hex_def dest: hex_encode_inject)

section \<open>Observed paths (\<open>path.rs\<close>)\<close>

text \<open>
  A Unix path is an arbitrary byte sequence (\<open>string\<close>, not necessarily a \<open>str\<close>).
  \<open>to_string_lossy\<close> replaces each maximal ill-formed prefix by U+FFFD; \<open>bad_len\<close> is the
  length of that prefix as the standard library determines it.
\<close>

definition second_ok :: "nat \<Rightarrow> nat \<Rightarrow> bool" where
  "second_ok a b =
     (if a = 0xE0 then 0xA0 \<le> b \<and> b \<le> 0xBF
      else if a = 0xED then 0x80 \<le> b \<and> b \<le> 0x9F
      else if a = 0xF0 then 0x90 \<le> b \<and> b \<le> 0xBF
      else if a = 0xF4 then 0x80 \<le> b \<and> b \<le> 0x8F
      else 0x80 \<le> b \<and> b \<le> 0xBF)"

definition is_cont :: "char \<Rightarrow> bool" where
  "is_cont c \<longleftrightarrow> 0x80 \<le> code c \<and> code c \<le> 0xBF"

fun bad_len :: "string \<Rightarrow> nat" where
  "bad_len (a # b # c # r) =
     (if code a < 0xE0 \<or> 0xF4 < code a \<or> \<not> second_ok (code a) (code b) then 1
      else if code a < 0xF0 \<or> \<not> is_cont c then 2
      else 3)"
| "bad_len [a, b] =
     (if code a < 0xE0 \<or> 0xF4 < code a \<or> \<not> second_ok (code a) (code b) then 1 else 2)"
| "bad_len _ = 1"

lemma bad_len_pos: "0 < bad_len s"
  by (induction s rule: bad_len.induct) auto

fun lossy_chars :: "string \<Rightarrow> nat list" where
  "lossy_chars s =
     (if s = [] then []
      else case next_scalar s of
        Some (n, t) \<Rightarrow> n # lossy_chars t
      | None \<Rightarrow> 0xFFFD # lossy_chars (drop (max 1 (bad_len s)) s))"

declare lossy_chars.simps [simp del]

definition to_string_lossy :: "string \<Rightarrow> string" where
  "to_string_lossy p = utf8 (lossy_chars p)"

record observed_path =
  path_text :: string
  raw_hex :: "string option"

definition native_hex :: "string \<Rightarrow> string option" where
  "native_hex p = Some (hex_encode (as_bytes p))"

definition from_path :: "string \<Rightarrow> observed_path" where
  "from_path p =
     (if valid_str p then \<lparr>path_text = p, raw_hex = None\<rparr>
      else \<lparr>path_text = to_string_lossy p, raw_hex = native_hex p\<rparr>)"

definition is_lossy :: "observed_path \<Rightarrow> bool" where
  "is_lossy p = (raw_hex p \<noteq> None)"

lemma lossy_chars_scalar: "\<forall>n \<in> set (lossy_chars s). is_scalar n"
proof (induction s rule: lossy_chars.induct)
  case (1 s)
  then show ?case
    by (cases "s = []"; cases "next_scalar s")
      (auto simp: lossy_chars.simps [of s] lossy_chars.simps [of "[]"] is_scalar_def [of "0xFFFD"] dest: next_scalar_Some)
qed

lemma from_path_text_valid: "valid_str (path_text (from_path p))"
  by (simp add: from_path_def to_string_lossy_def valid_utf8 [OF lossy_chars_scalar])

lemma from_path_inject: "from_path p = from_path q \<Longrightarrow> p = q"
  by (auto simp: from_path_def native_hex_def split: if_splits dest!: hex_encode_inject)

section \<open>Cancellation (\<open>cancel.rs\<close>)\<close>

text \<open>The token is one shared flag; the model passes it explicitly.\<close>

record cancellation_token =
  flag :: bool

definition new_token :: cancellation_token where
  "new_token = \<lparr>flag = False\<rparr>"

definition cancel :: "cancellation_token \<Rightarrow> cancellation_token" where
  "cancel t = t\<lparr>flag := True\<rparr>"

definition is_cancelled :: "cancellation_token \<Rightarrow> bool" where
  "is_cancelled t = flag t"

end
