(* ===== verification/Core_Finding.thy ===== *)
theory Core_Finding
  imports Core_Text
begin

text \<open>
  \<open>crates/core/src/finding.rs\<close>, \<open>detector.rs\<close> and \<open>system.rs\<close>: findings, their
  enumerations and targets, and the observation a detector is given. The derived \<open>Ord\<close> of
  \<open>Severity\<close> and \<open>Confidence\<close> is the order of the declaration, given here as instances of
  \<open>linorder\<close>.
\<close>

section \<open>Enumerations\<close>

datatype finding_kind = KnownIndicator | Suspicious | HeuristicKind | Informational

datatype severity = SevInfo | SevLow | SevMedium | SevHigh | SevCritical

datatype confidence = ConfLow | ConfMedium | ConfHigh | Confirmed

datatype threat_category = Malware | PotentiallyUnwanted | TestIndicator | UnknownCategory

datatype recommended_action = ActionNone | Review | Quarantine

datatype remediation_status = NotAttempted | Quarantined | NotEligible | RemFailed | Allowed

datatype evidence_kind =
    ExactSha256Match | YaraRuleMatch | SuspiciousCommand | SuspiciousLocation
  | InsecurePermissions | CrossViewMismatch | KernelTaint | PackageVerification
  | DeletedExecutable | DetectedContent | PersistenceEvidence | HeuristicEvidence

datatype persistence_mechanism =
    SystemdService | SystemdTimer | Cron | LdPreload | ShellProfile | Environment
  | XdgAutostart | SshAuthorizedKeys | Pam | RcLocal | Udev | SysvInit | AtJob
  | SystemdGenerator | KernelModule | Motd | SshRc | InitramfsHook | BootLoader | Ebpf
  | RegistryRun | WindowsService | ScheduledTask | StartupFolder | Winlogon

datatype persistence_scope = ScopeSystem | ScopeUser

datatype check_status = CheckCompleted | CheckPartial | CheckSkipped | CheckUnsupported | CheckFailed

fun severity_rank :: "severity \<Rightarrow> nat" where
  "severity_rank SevInfo = 0"
| "severity_rank SevLow = 1"
| "severity_rank SevMedium = 2"
| "severity_rank SevHigh = 3"
| "severity_rank SevCritical = 4"

fun confidence_rank :: "confidence \<Rightarrow> nat" where
  "confidence_rank ConfLow = 0"
| "confidence_rank ConfMedium = 1"
| "confidence_rank ConfHigh = 2"
| "confidence_rank Confirmed = 3"

lemma severity_rank_inject: "severity_rank a = severity_rank b \<longleftrightarrow> a = b"
  by (cases a; cases b) auto

lemma confidence_rank_inject: "confidence_rank a = confidence_rank b \<longleftrightarrow> a = b"
  by (cases a; cases b) auto

instantiation severity :: linorder
begin

definition less_eq_severity :: "severity \<Rightarrow> severity \<Rightarrow> bool" where
  "less_eq_severity a b \<longleftrightarrow> severity_rank a \<le> severity_rank b"

definition less_severity :: "severity \<Rightarrow> severity \<Rightarrow> bool" where
  "less_severity a b \<longleftrightarrow> severity_rank a < severity_rank b"

instance
  by standard (auto simp: less_eq_severity_def less_severity_def severity_rank_inject [symmetric])

end

instantiation confidence :: linorder
begin

definition less_eq_confidence :: "confidence \<Rightarrow> confidence \<Rightarrow> bool" where
  "less_eq_confidence a b \<longleftrightarrow> confidence_rank a \<le> confidence_rank b"

definition less_confidence :: "confidence \<Rightarrow> confidence \<Rightarrow> bool" where
  "less_confidence a b \<longleftrightarrow> confidence_rank a < confidence_rank b"

instance
  by standard (auto simp: less_eq_confidence_def less_confidence_def confidence_rank_inject [symmetric])

end

lemma Confirmed_greatest: "c \<le> Confirmed"
  by (cases c) (auto simp: less_eq_confidence_def)

definition severity_str :: "severity \<Rightarrow> string" where
  "severity_str s =
     (case s of SevInfo \<Rightarrow> ''info'' | SevLow \<Rightarrow> ''low'' | SevMedium \<Rightarrow> ''medium''
      | SevHigh \<Rightarrow> ''high'' | SevCritical \<Rightarrow> ''critical'')"

section \<open>Findings\<close>

record detection_source =
  src_detector :: string
  src_detector_version :: string
  src_rule_id :: "string option"
  src_rule_version :: "u32 option"
  src_database_name :: "string option"
  src_database_version :: "string option"

record evidence =
  ev_kind :: evidence_kind
  ev_summary :: string

record file_metadata =
  meta_size :: u64
  meta_modified :: "instant option"
  meta_unix_mode :: "u32 option"

datatype finding_target =
    TFile observed_path "digest option" "file_metadata option"
  | TArchiveMember observed_path "observed_path list" "digest option" u64
  | TPersistence persistence_mechanism observed_path "string option"
  | TProcess u32 string "observed_path option"
  | TSystem string

text \<open>\<open>FindingId\<close> wraps a random UUID; the model carries its text.\<close>

record finding =
  f_id :: string
  f_kind :: finding_kind
  f_name :: string
  f_severity :: severity
  f_confidence :: confidence
  f_category :: threat_category
  f_target :: finding_target
  f_source :: detection_source
  f_evidence :: "evidence list"
  f_explanation :: string
  f_recommended_action :: recommended_action
  f_remediation_guidance :: "string option"
  f_remediation_status :: remediation_status
  f_remediation_detail :: "string option"
  f_detected_at :: instant

fun target_path :: "finding_target \<Rightarrow> observed_path option" where
  "target_path (TPersistence _ location _) = Some location"
| "target_path (TProcess _ _ exe) = exe"
| "target_path (TSystem _) = None"
| "target_path (TFile path _ _) = Some path"
| "target_path (TArchiveMember archive _ _ _) = Some archive"

fun target_sha256 :: "finding_target \<Rightarrow> digest option" where
  "target_sha256 (TFile _ sha256 _) = sha256"
| "target_sha256 (TArchiveMember _ _ sha256 _) = sha256"
| "target_sha256 (TPersistence _ _ _) = None"
| "target_sha256 (TProcess _ _ _) = None"
| "target_sha256 (TSystem _) = None"

section \<open>Detectors (\<open>detector.rs\<close>)\<close>

record database_info =
  dbi_name :: string
  dbi_version :: string
  dbi_entries :: u64
  dbi_signer :: "string option"

record detector_info =
  di_id :: string
  di_version :: string
  di_database :: "database_info option"

text \<open>The borrowed observation; the path is the raw path, the deadline an instant.\<close>

record file_observation =
  obs_path :: string
  obs_sha256 :: digest
  obs_metadata :: file_metadata
  obs_content :: "bytes option"
  obs_deadline :: instant
  obs_member :: "observed_path list option"

definition obs_remaining :: "file_observation \<Rightarrow> instant \<Rightarrow> duration" where
  "obs_remaining f now = max 0 (obs_deadline f - now)"

definition obs_target :: "file_observation \<Rightarrow> finding_target" where
  "obs_target f =
     (case obs_member f of
        None \<Rightarrow> TFile (from_path (obs_path f)) (Some (obs_sha256 f)) (Some (obs_metadata f))
      | Some chain \<Rightarrow>
          TArchiveMember (from_path (obs_path f)) chain (Some (obs_sha256 f)) (meta_size (obs_metadata f)))"

lemma obs_target_sha256 [simp]: "target_sha256 (obs_target f) = Some (obs_sha256 f)"
  by (simp add: obs_target_def split: option.splits)

lemma obs_target_path [simp]: "target_path (obs_target f) = Some (from_path (obs_path f))"
  by (simp add: obs_target_def split: option.splits)

section \<open>System checks (\<open>system.rs\<close>)\<close>

record persistence_entry =
  pe_mechanism :: persistence_mechanism
  pe_scope :: persistence_scope
  pe_location :: observed_path
  pe_command :: "string option"
  pe_executable :: "observed_path option"
  pe_enabled :: "bool option"
  pe_detail :: "string option"

record check_result =
  cr_id :: string
  cr_title :: string
  cr_status :: check_status
  cr_examined :: u64
  cr_detail :: "string option"

end
