(* ===== verification/Core_Config.thy ===== *)
theory Core_Config
  imports Core_Finding
begin

text \<open>
  \<open>crates/core/src/config.rs\<close> and \<open>report.rs\<close>: scan configuration and its validation, skip
  reasons, statistics and the report.
\<close>

section \<open>Configuration (\<open>config.rs\<close>)\<close>

datatype symlink_policy = SymSkip | SymFollow

record archive_limits =
  al_enabled :: bool
  al_max_depth :: u32
  al_max_entries :: u32
  al_max_total_bytes :: u64
  al_max_member_content :: u64

definition default_archive_limits :: archive_limits where
  "default_archive_limits =
     \<lparr>al_enabled = True, al_max_depth = 3, al_max_entries = 10000,
      al_max_total_bytes = 1024 * 1024 * 1024, al_max_member_content = 8 * 1024 * 1024\<rparr>"

record scan_limits =
  sl_max_file_size :: u64
  sl_max_depth :: nat
  sl_max_recorded_entries :: nat
  sl_max_recorded_findings :: nat
  sl_max_content_size :: u64
  sl_file_timeout_ms :: u64
  sl_scan_timeout_ms :: "u64 option"
  sl_archives :: archive_limits

definition default_scan_limits :: scan_limits where
  "default_scan_limits =
     \<lparr>sl_max_file_size = 512 * 1024 * 1024, sl_max_depth = 256, sl_max_recorded_entries = 10000,
      sl_max_recorded_findings = 100000, sl_max_content_size = 64 * 1024 * 1024,
      sl_file_timeout_ms = 60000, sl_scan_timeout_ms = None,
      sl_archives = default_archive_limits\<rparr>"

definition file_timeout :: "scan_limits \<Rightarrow> duration" where
  "file_timeout l = int (unat (sl_file_timeout_ms l)) * 1000000"

record scan_config =
  sc_roots :: "string list"
  sc_excludes :: "string list"
  sc_symlink_policy :: symlink_policy
  sc_same_file_system :: bool
  sc_limits :: scan_limits
  sc_workers :: nat

definition MAX_WORKERS :: nat where
  "MAX_WORKERS = 64"

text \<open>\<open>available_parallelism\<close> is a parameter: \<open>None\<close> where the platform cannot tell.\<close>

definition default_workers :: "nat option \<Rightarrow> nat" where
  "default_workers parallelism =
     max 1 (min 8 (case parallelism of None \<Rightarrow> 1 | Some n \<Rightarrow> n))"

definition new_scan_config :: "nat option \<Rightarrow> string list \<Rightarrow> scan_config" where
  "new_scan_config parallelism roots =
     \<lparr>sc_roots = roots, sc_excludes = [], sc_symlink_policy = SymSkip, sc_same_file_system = False,
      sc_limits = default_scan_limits, sc_workers = default_workers parallelism\<rparr>"

datatype config_error =
    NoRoots
  | EmptyPath
  | ZeroLimit string
  | InvalidWorkers nat nat

definition validate_archives :: "archive_limits \<Rightarrow> config_error + unit" where
  "validate_archives a =
     (if al_enabled a then
        if al_max_depth a = 0 then Err (ZeroLimit ''archives.max_depth'')
        else if al_max_entries a = 0 then Err (ZeroLimit ''archives.max_entries'')
        else if al_max_total_bytes a = 0 then Err (ZeroLimit ''archives.max_total_bytes'')
        else if al_max_member_content a = 0 then Err (ZeroLimit ''archives.max_member_content'')
        else Ok ()
      else Ok ())"

definition validate_config :: "scan_config \<Rightarrow> config_error + unit" where
  "validate_config c =
     (let l = sc_limits c
      in if sc_roots c = [] then Err NoRoots
         else if [] \<in> set (sc_roots c @ sc_excludes c) then Err EmptyPath
         else if sl_max_file_size l = 0 then Err (ZeroLimit ''max_file_size'')
         else if sl_max_recorded_findings l = 0 then Err (ZeroLimit ''max_recorded_findings'')
         else if sl_file_timeout_ms l = 0 then Err (ZeroLimit ''file_timeout_ms'')
         else if sl_scan_timeout_ms l = Some 0 then Err (ZeroLimit ''scan_timeout_ms'')
         else and_then (validate_archives (sl_archives l)) (\<lambda>_.
           if sc_workers c = 0 \<or> MAX_WORKERS < sc_workers c
           then Err (InvalidWorkers (sc_workers c) MAX_WORKERS)
           else Ok ()))"

lemma default_workers_bounds: "1 \<le> default_workers p \<and> default_workers p \<le> 8"
  by (auto simp: default_workers_def)

lemma validate_config_Ok:
  "validate_config c = Ok () \<longleftrightarrow>
     sc_roots c \<noteq> [] \<and> [] \<notin> set (sc_roots c) \<and> [] \<notin> set (sc_excludes c) \<and>
     0 < sl_max_file_size (sc_limits c) \<and> 0 < sl_max_recorded_findings (sc_limits c) \<and>
     0 < sl_file_timeout_ms (sc_limits c) \<and> sl_scan_timeout_ms (sc_limits c) \<noteq> Some 0 \<and>
     (al_enabled (sl_archives (sc_limits c)) \<longrightarrow>
        0 < al_max_depth (sl_archives (sc_limits c)) \<and> 0 < al_max_entries (sl_archives (sc_limits c)) \<and>
        0 < al_max_total_bytes (sl_archives (sc_limits c)) \<and>
        0 < al_max_member_content (sl_archives (sc_limits c))) \<and>
     1 \<le> sc_workers c \<and> sc_workers c \<le> 64"
  by (auto simp: validate_config_def validate_archives_def Let_def MAX_WORKERS_def word_gt_0)

lemma new_scan_config_valid:
  "roots \<noteq> [] \<Longrightarrow> [] \<notin> set roots \<Longrightarrow> validate_config (new_scan_config p roots) = Ok ()"
  using default_workers_bounds [of p]
  by (simp add: validate_config_Ok new_scan_config_def default_scan_limits_def default_archive_limits_def)

section \<open>Reports (\<open>report.rs\<close>)\<close>

datatype scan_status = ScanCompleted | ScanCancelled | TimeLimitReached

datatype skip_reason =
    SymlinkNotFollowed | NotRegularFile | ExceedsMaxFileSize | Excluded | DepthLimitReached
  | DuplicateFile | ArchiveTooLarge | ArchiveLimitReached | ArchiveMemberEncrypted
  | ArchiveMemberUnsupported | ContentNotInspected

datatype issue_kind =
    PermissionDenied | IssueNotFound | FilesystemLoop | IssueIo | DetectorFailed | IssueTimeout
  | ArchiveError | Locked

record skipped_entry =
  sk_path :: observed_path
  sk_reason :: skip_reason
  sk_member :: "observed_path list option"

record scan_issue =
  si_path :: "observed_path option"
  si_kind :: issue_kind
  si_detector :: "string option"
  si_message :: string
  si_member :: "observed_path list option"

text \<open>\<open>skipped_by_reason\<close> is a \<open>BTreeMap\<close> whose missing entries count as zero.\<close>

record scan_stats =
  st_directories_visited :: u64
  st_files_scanned :: u64
  st_bytes_scanned :: u64
  st_entries_skipped :: u64
  st_skipped_by_reason :: "skip_reason \<rightharpoonup> u64"
  st_issues :: u64
  st_findings :: u64
  st_archive_members_scanned :: u64

definition default_stats :: scan_stats where
  "default_stats =
     \<lparr>st_directories_visited = 0, st_files_scanned = 0, st_bytes_scanned = 0, st_entries_skipped = 0,
      st_skipped_by_reason = Map.empty, st_issues = 0, st_findings = 0, st_archive_members_scanned = 0\<rparr>"

record truncation =
  tr_findings_omitted :: u64
  tr_skipped_omitted :: u64
  tr_issues_omitted :: u64

definition default_truncation :: truncation where
  "default_truncation = \<lparr>tr_findings_omitted = 0, tr_skipped_omitted = 0, tr_issues_omitted = 0\<rparr>"

definition truncation_any :: "truncation \<Rightarrow> bool" where
  "truncation_any t \<longleftrightarrow> 0 < tr_findings_omitted t + tr_skipped_omitted t + tr_issues_omitted t"

record content_bundle_info =
  cb_name :: string
  cb_sequence :: u64
  cb_issued :: instant
  cb_expires :: instant
  cb_signers :: "string list"
  cb_manifest_sha256 :: digest
  cb_files :: u64
  cb_expired :: bool

record engine_info =
  ei_name :: string
  ei_version :: string

record scan_settings =
  ss_roots :: "observed_path list"
  ss_excludes :: "observed_path list"
  ss_symlink_policy :: symlink_policy
  ss_same_file_system :: bool
  ss_max_file_size :: u64
  ss_max_depth :: nat
  ss_workers :: nat
  ss_max_content_size :: u64
  ss_file_timeout_ms :: u64
  ss_scan_timeout_ms :: "u64 option"
  ss_archives :: archive_limits

record scan_report =
  rp_schema_version :: u32
  rp_scan_id :: string
  rp_engine :: engine_info
  rp_status :: scan_status
  rp_started_at :: instant
  rp_finished_at :: instant
  rp_settings :: scan_settings
  rp_detectors :: "detector_info list"
  rp_stats :: scan_stats
  rp_findings :: "finding list"
  rp_skipped :: "skipped_entry list"
  rp_issues :: "scan_issue list"
  rp_truncated :: truncation
  rp_content_bundles :: "content_bundle_info list"
  rp_warnings :: "string list"

definition report_is_complete :: "scan_report \<Rightarrow> bool" where
  "report_is_complete r \<longleftrightarrow> rp_status r = ScanCompleted \<and> st_issues (rp_stats r) = 0"

end
