(* ===== verification/Core_Theorems.thy ===== *)
theory Core_Theorems
  imports Core_Config
begin

text \<open>
  The properties of \<open>crates/core\<close>: display text, digests, observed paths and the
  configuration check.
\<close>

text \<open>C25: A string is accepted as a SHA-256 digest exactly when it is the digest's
  hexadecimal form, in either case: the parser returns the 32-byte digest whose canonical form
  is the lower-cased input, and refuses everything else.\<close>

theorem digest_parse_exact:
  "digest_from_str s = Ok d \<longleftrightarrow> digest_ok d \<and> to_hex d = to_ascii_lowercase s"
  by (rule digest_from_str_iff)

text \<open>C26: Escaped text is well formed and free of control and bidirectional characters, and
  escaping leaves a string alone exactly when it was already well formed and free of them.\<close>

theorem escaped_text_safe:
  "valid_str (escape_unsafe_chars s) \<and> \<not> has_unsafe_chars (escape_unsafe_chars s) allow_newlines \<and>
   (escape_unsafe_chars s = s) = (valid_str s \<and> \<not> has_unsafe_chars s False)"
  using escape_is_str escape_output_safe escape_identity by simp

text \<open>The recorded form of a path keeps it apart from every other path, text or not, its
  display text is always well formed, and it is marked lossy exactly when the path is not
  text.\<close>

theorem observed_path_faithful:
  "(from_path p = from_path q) = (p = q) \<and> valid_str (path_text (from_path p)) \<and>
   is_lossy (from_path p) = (\<not> valid_str p)"
  using from_path_inject [of p q] from_path_text_valid [of p]
  by (auto simp: is_lossy_def from_path_def native_hex_def)

text \<open>The configuration check accepts exactly the configurations with roots, without an
  empty path, with every limit in force non-zero and a worker count between 1 and 64.\<close>

theorem validate_config_exact:
  "(validate_config c = Ok ()) =
     (sc_roots c \<noteq> [] \<and> [] \<notin> set (sc_roots c) \<union> set (sc_excludes c) \<and>
      0 \<notin> {sl_max_file_size (sc_limits c), sl_file_timeout_ms (sc_limits c)} \<and>
      sl_max_recorded_findings (sc_limits c) \<noteq> 0 \<and> sl_scan_timeout_ms (sc_limits c) \<noteq> Some 0 \<and>
      validate_archives (sl_archives (sc_limits c)) = Ok () \<and> sc_workers c \<in> {1..64})"
  by (auto simp: validate_config_def Let_def MAX_WORKERS_def result_simps)

end
