(* ===== verification/Trust.thy ===== *)
theory Trust
  imports Core_Text
begin

text \<open>
  \<open>crates/engine/src/trust.rs\<close>: trusted keys, keyrings and signature verification.

  Third-party code is a parameter of the operations that use it, collected in the record
  \<open>minisign\<close>: \<open>PublicKey::from_base64\<close>, \<open>Signature::decode\<close>, \<open>PublicKey::verify\<close> (always
  called with legacy signatures refused) and \<open>Signature::trusted_comment\<close>. A public key is
  represented by the bytes of the text it was decoded from, as the crate's type is opaque.
  \<open>serde_json\<close> is the parameter that turns the bytes of a keyring into a \<open>keyring_file\<close>.
  The error values keep the variant; the text of a message that only quotes its inputs is
  replaced by a constructor for the failing check.
\<close>

section \<open>Types\<close>

datatype key_id = KeyId bytes

primrec key_id_bytes :: "key_id \<Rightarrow> bytes" where
  "key_id_bytes (KeyId bs) = bs"

definition upper_hex :: "u8 \<Rightarrow> string" where
  "upper_hex b = map (\<lambda>n. upper_char (hex_table ! n)) [unat (drop_bit 4 b), unat (b AND 0x0f)]"

text \<open>\<open>{:016X}\<close> of \<open>u64::from_le_bytes\<close>: the bytes from the last to the first, two upper-case
  digits each.\<close>

definition key_id_str :: "key_id \<Rightarrow> string" where
  "key_id_str k = concat (map upper_hex (rev (key_id_bytes k)))"

datatype key_reason = NoKeyFound | BadPublicKey | NotBase64 | KeyTooShort | NotUtf8

datatype keyring_reason =
    KeyringJson | KeyringFormat | KeyringVersion u32 | TooManyKeys | BadThreshold
  | BadFloorName nat | BadDescription nat | BadWindow nat | EmptyRoles nat
  | BadKey nat key_reason | IdMismatch nat

datatype trust_error =
    TrustIo string io_kind
  | TrustTooLarge string u64
  | InvalidKey key_reason
  | InvalidSignature string
  | Unsigned string string
  | Untrusted string
  | NoTrustedKeys
  | KeyRevoked string string
  | KeyOutsideValidity string string
  | InvalidKeyring keyring_reason
  | ThresholdRequiresBundle string nat

datatype signature_policy = RequireTrusted | AllowUnsigned

datatype key_role = RoleContent | RoleTimestamp

definition content_role :: "key_role list" where
  "content_role = [RoleContent]"

record trusted_key =
  tk_id :: key_id
  tk_key :: bytes
  tk_roles :: "key_role list"
  tk_not_before :: "instant option"
  tk_not_after :: "instant option"
  tk_revoked :: bool

definition valid_at :: "trusted_key \<Rightarrow> instant \<Rightarrow> bool" where
  "valid_at k now \<longleftrightarrow>
     (case tk_not_before k of None \<Rightarrow> True | Some t \<Rightarrow> t \<le> now) \<and>
     (case tk_not_after k of None \<Rightarrow> True | Some t \<Rightarrow> now \<le> t)"

record keyring_entry =
  ke_id :: string
  ke_public_key :: string
  ke_description :: "string option"
  ke_not_before :: "instant option"
  ke_not_after :: "instant option"
  ke_revoked :: bool
  ke_roles :: "key_role list"

record bundle_floor =
  bf_name :: string
  bf_min_sequence :: u64

record keyring_file =
  kf_format :: string
  kf_format_version :: u32
  kf_keys :: "keyring_entry list"
  kf_policy :: "nat option"
  kf_bundles :: "bundle_floor list"

definition MAX_THRESHOLD :: nat where
  "MAX_THRESHOLD = 16"

definition KEYRING_FORMAT :: string where
  "KEYRING_FORMAT = ''abyssal-warden.keyring''"

definition MAX_KEYRING_KEYS :: nat where
  "MAX_KEYRING_KEYS = 256"

record trusted_keys =
  ks_keys :: "trusted_key list"
  ks_threshold :: nat
  ks_min_sequences :: "string \<rightharpoonup> u64"

definition no_keys :: trusted_keys where
  "no_keys = \<lparr>ks_keys = [], ks_threshold = 0, ks_min_sequences = Map.empty\<rparr>"

definition keys_empty :: "trusted_keys \<Rightarrow> bool" where
  "keys_empty ks \<longleftrightarrow> ks_keys ks = []"

definition threshold :: "trusted_keys \<Rightarrow> nat" where
  "threshold ks = max (ks_threshold ks) 1"

definition min_sequence :: "trusted_keys \<Rightarrow> string \<Rightarrow> u64 option" where
  "min_sequence ks name = ks_min_sequences ks name"

text \<open>The functions of \<open>minisign_verify\<close>.\<close>

record 'sig minisign =
  ms_key_from_base64 :: "string \<Rightarrow> bytes option"
  ms_decode :: "string \<Rightarrow> 'sig option"
  ms_verify :: "bytes \<Rightarrow> bytes \<Rightarrow> 'sig \<Rightarrow> bool"
  ms_comment :: "'sig \<Rightarrow> string"

section \<open>Base64\<close>

definition b64_val :: "u8 \<Rightarrow> u32 option" where
  "b64_val c =
     (if 65 \<le> c \<and> c \<le> 90 then Some (ucast (c - 65))
      else if 97 \<le> c \<and> c \<le> 122 then Some (ucast (c - 97 + 26))
      else if 48 \<le> c \<and> c \<le> 57 then Some (ucast (c - 48 + 52))
      else if c = 43 then Some 62
      else if c = 47 then Some 63
      else None)"

fun b64_fold :: "u32 \<Rightarrow> bytes \<Rightarrow> u32 option" where
  "b64_fold n [] = Some n"
| "b64_fold n (c # cs) =
     (case b64_val c of None \<Rightarrow> None | Some v \<Rightarrow> b64_fold (push_bit 6 n OR v) cs)"

text \<open>One iteration of the loop over the four-byte chunks.\<close>

definition b64_chunk :: "bytes \<Rightarrow> bytes option" where
  "b64_chunk chunk =
     (let pad = length (takeWhile (\<lambda>c. c = 61) (rev chunk))
      in if 2 < pad then None
         else case b64_fold 0 (take (4 - pad) chunk) of
           None \<Rightarrow> None
         | Some n \<Rightarrow> Some (drop 1 (take (4 - pad) (u32_be_bytes (push_bit (6 * pad) n)))))"

fun b64_chunks :: "bytes \<Rightarrow> bytes option" where
  "b64_chunks (a # b # c # d # r) =
     (case b64_chunk [a, b, c, d] of
        None \<Rightarrow> None
      | Some out \<Rightarrow> map_option ((@) out) (b64_chunks r))"
| "b64_chunks _ = Some []"

definition base64_decode :: "string \<Rightarrow> bytes option" where
  "base64_decode s = (if length s mod 4 \<noteq> 0 then None else b64_chunks (as_bytes s))"

text \<open>\<open>raw.get(2..10)\<close>\<close>

definition get_2_10 :: "bytes \<Rightarrow> bytes option" where
  "get_2_10 raw = (if length raw < 10 then None else Some (take 8 (drop 2 raw)))"

section \<open>Changing the key set\<close>

text \<open>\<open>TrustedKeys::revoke\<close>: the new set, and whether such a key is present.\<close>

definition revoke :: "string \<Rightarrow> trusted_keys \<Rightarrow> trusted_keys \<times> bool" where
  "revoke kid ks =
     (let hit = (\<lambda>k. eq_ignore_ascii_case (key_id_str (tk_id k)) kid)
      in (ks\<lparr>ks_keys := map (\<lambda>k. if hit k then k\<lparr>tk_revoked := True\<rparr> else k) (ks_keys ks)\<rparr>,
          list_ex hit (ks_keys ks)))"

definition key_line :: "string \<Rightarrow> string option" where
  "key_line s =
     find (\<lambda>l. l \<noteq> [] \<and> \<not> prefix ''untrusted comment:'' l) (map trim (str_lines s))"

text \<open>The key text's id and key, or why it is refused.\<close>

definition parse_key_text :: "'sig minisign \<Rightarrow> string \<Rightarrow> key_reason + (key_id \<times> bytes)" where
  "parse_key_text ms s =
     and_then (ok_or NoKeyFound (key_line s)) (\<lambda>b64.
     and_then (ok_or BadPublicKey (ms_key_from_base64 ms b64)) (\<lambda>key.
     and_then (ok_or NotBase64 (base64_decode b64)) (\<lambda>raw.
     and_then (ok_or KeyTooShort (get_2_10 raw)) (\<lambda>kid.
     Ok (KeyId kid, key)))))"

definition insert_key :: "key_id \<Rightarrow> bytes \<Rightarrow> trusted_keys \<Rightarrow> trusted_keys" where
  "insert_key kid key ks =
     (if list_ex (\<lambda>k. tk_id k = kid) (ks_keys ks) then ks
      else ks\<lparr>ks_keys := ks_keys ks @
             [\<lparr>tk_id = kid, tk_key = key, tk_roles = content_role,
               tk_not_before = None, tk_not_after = None, tk_revoked = False\<rparr>]\<rparr>)"

definition add_key_text ::
  "'sig minisign \<Rightarrow> string \<Rightarrow> trusted_keys \<Rightarrow> key_reason + (trusted_keys \<times> key_id)" where
  "add_key_text ms s ks =
     and_then (parse_key_text ms s) (\<lambda>(kid, key). Ok (insert_key kid key ks, kid))"

definition opt_max :: "instant option \<Rightarrow> instant option \<Rightarrow> instant option" where
  "opt_max a b =
     (case (a, b) of (Some x, Some y) \<Rightarrow> Some (max x y) | (Some x, None) \<Rightarrow> Some x | (None, y) \<Rightarrow> y)"

definition opt_min :: "instant option \<Rightarrow> instant option \<Rightarrow> instant option" where
  "opt_min a b =
     (case (a, b) of (Some x, Some y) \<Rightarrow> Some (min x y) | (Some x, None) \<Rightarrow> Some x | (None, y) \<Rightarrow> y)"

text \<open>The update of the key an entry names.\<close>

definition narrow_key :: "bool \<Rightarrow> keyring_entry \<Rightarrow> trusted_key \<Rightarrow> trusted_key" where
  "narrow_key existed e k =
     k\<lparr>tk_roles := (if existed then filter (\<lambda>r. r \<in> set (ke_roles e)) (tk_roles k) else ke_roles e),
       tk_revoked := (tk_revoked k \<or> ke_revoked e),
       tk_not_before := opt_max (tk_not_before k) (ke_not_before e),
       tk_not_after := opt_min (tk_not_after k) (ke_not_after e)\<rparr>"

text \<open>\<open>iter_mut().find(..)\<close>: the first key with the id.\<close>

fun update_first :: "('a \<Rightarrow> bool) \<Rightarrow> ('a \<Rightarrow> 'a) \<Rightarrow> 'a list \<Rightarrow> 'a list" where
  "update_first P f [] = []"
| "update_first P f (x # xs) = (if P x then f x # xs else x # update_first P f xs)"

definition entry_existed :: "keyring_entry \<Rightarrow> trusted_keys \<Rightarrow> bool" where
  "entry_existed e ks =
     list_ex (\<lambda>k. Option.bind (base64_decode (ke_public_key e)) get_2_10 = Some (key_id_bytes (tk_id k)))
       (ks_keys ks)"

definition check_entry :: "nat \<Rightarrow> keyring_entry \<Rightarrow> keyring_reason + unit" where
  "check_entry i e =
     and_then (when_some (ke_description e)
       (\<lambda>d. require (length d \<le> 1024 \<and> \<not> has_unsafe_chars d False) (BadDescription i))) (\<lambda>_.
     and_then (case (ke_not_before e, ke_not_after e) of
         (Some a, Some b) \<Rightarrow> require (a \<le> b) (BadWindow i)
       | _ \<Rightarrow> Ok ()) (\<lambda>_.
     require (ke_roles e \<noteq> []) (EmptyRoles i)))"

definition add_entry ::
  "'sig minisign \<Rightarrow> trusted_keys \<Rightarrow> nat \<times> keyring_entry \<Rightarrow> trusted_keys \<times> (keyring_reason + key_id)" where
  "add_entry ms ks ie =
     (case ie of (i, e) \<Rightarrow>
       st_then (ks, check_entry i e) (\<lambda>ks _.
       let existed = entry_existed e ks
       in case add_key_text ms (ke_public_key e) ks of
            Err r \<Rightarrow> (ks, Err (BadKey i r))
          | Ok (ks, kid) \<Rightarrow>
              if \<not> eq_ignore_ascii_case (key_id_str kid) (ke_id e) then (ks, Err (IdMismatch i))
              else (ks\<lparr>ks_keys := update_first (\<lambda>k. tk_id k = kid) (narrow_key existed e) (ks_keys ks)\<rparr>,
                    Ok kid)))"

definition floor_name_ok :: "string \<Rightarrow> bool" where
  "floor_name_ok n \<longleftrightarrow>
     n \<noteq> [] \<and> length n \<le> 128 \<and>
     list_all (\<lambda>b. is_ascii_alphanumeric b \<or> b \<in> set ''._-'') n"

definition add_floor ::
  "trusted_keys \<Rightarrow> nat \<times> bundle_floor \<Rightarrow> trusted_keys \<times> (keyring_reason + unit)" where
  "add_floor ks if' =
     (case if' of (i, f) \<Rightarrow>
       if \<not> floor_name_ok (bf_name f) then (ks, Err (BadFloorName i))
       else (let old = (case ks_min_sequences ks (bf_name f) of None \<Rightarrow> 0 | Some n \<Rightarrow> n)
             in (ks\<lparr>ks_min_sequences := (ks_min_sequences ks)(bf_name f \<mapsto> max old (bf_min_sequence f))\<rparr>,
                 Ok ())))"

definition add_policy :: "keyring_file \<Rightarrow> trusted_keys \<Rightarrow> trusted_keys \<times> (keyring_reason + unit)" where
  "add_policy file ks =
     (case kf_policy file of
        None \<Rightarrow> (ks, Ok ())
      | Some t \<Rightarrow>
          if \<not> (1 \<le> t \<and> t \<le> MAX_THRESHOLD) then (ks, Err BadThreshold)
          else (ks\<lparr>ks_threshold := max (ks_threshold ks) t\<rparr>, Ok ()))"

definition check_keyring :: "keyring_file \<Rightarrow> keyring_reason + unit" where
  "check_keyring file =
     (if kf_format file \<noteq> KEYRING_FORMAT then Err KeyringFormat
      else if kf_format_version file \<noteq> 1 then Err (KeyringVersion (kf_format_version file))
      else if MAX_KEYRING_KEYS < length (kf_keys file) then Err TooManyKeys
      else Ok ())"

text \<open>\<open>TrustedKeys::add_keyring\<close>; \<open>parse\<close> is \<open>serde_json\<close>.\<close>

definition add_keyring ::
  "'sig minisign \<Rightarrow> (bytes \<Rightarrow> keyring_file option) \<Rightarrow> bytes \<Rightarrow> trusted_keys \<Rightarrow>
     trusted_keys \<times> (keyring_reason + key_id list)" where
  "add_keyring ms parse json ks =
     st_then (ks, ok_or KeyringJson (parse json)) (\<lambda>ks file.
     st_then (ks, check_keyring file) (\<lambda>ks _.
     st_then (add_policy file ks) (\<lambda>ks _.
     st_then (st_fold add_floor ks (enumerate 0 (kf_bundles file))) (\<lambda>ks _.
     st_fold (add_entry ms) ks (enumerate 0 (kf_keys file))))))"

section \<open>Verification\<close>

fun verify_loop ::
  "'sig minisign \<Rightarrow> bytes \<Rightarrow> 'sig \<Rightarrow> string \<Rightarrow> instant \<Rightarrow> trusted_key list \<Rightarrow>
     trust_error + (key_id \<times> string)" where
  "verify_loop ms data sig path now [] = Err (Untrusted path)"
| "verify_loop ms data sig path now (k # ks) =
     (if ms_verify ms (tk_key k) data sig then
        if tk_revoked k then Err (KeyRevoked path (key_id_str (tk_id k)))
        else if \<not> valid_at k now then Err (KeyOutsideValidity path (key_id_str (tk_id k)))
        else Ok (tk_id k, ms_comment ms sig)
      else verify_loop ms data sig path now ks)"

definition verify_role ::
  "'sig minisign \<Rightarrow> trusted_keys \<Rightarrow> bytes \<Rightarrow> string \<Rightarrow> string \<Rightarrow> instant \<Rightarrow> key_role \<Rightarrow>
     trust_error + (key_id \<times> string)" where
  "verify_role ms ks data signature_text path now role =
     and_then (ok_or (InvalidSignature path) (ms_decode ms signature_text)) (\<lambda>sig.
     verify_loop ms data sig path now (filter (\<lambda>k. role \<in> set (tk_roles k)) (ks_keys ks)))"

definition verify ::
  "'sig minisign \<Rightarrow> trusted_keys \<Rightarrow> bytes \<Rightarrow> string \<Rightarrow> string \<Rightarrow> instant \<Rightarrow>
     trust_error + (key_id \<times> string)" where
  "verify ms ks data signature_text path now = verify_role ms ks data signature_text path now RoleContent"

section \<open>Loading individually signed files\<close>

text \<open>Opening and reading a file is the parameter \<open>read\<close>: the content at a path, or the error's
  kind. \<open>read_bounded\<close> keeps at most \<open>limit + 1\<close> bytes of it.\<close>

definition read_bounded :: "(string \<Rightarrow> io_kind + bytes) \<Rightarrow> string \<Rightarrow> u64 \<Rightarrow> trust_error + bytes" where
  "read_bounded read path limit =
     and_then (map_err (TrustIo path) (read path)) (\<lambda>content.
     let data = take (unat (limit + 1)) content
     in if limit < len64 data then Err (TrustTooLarge path limit) else Ok data)"

definition MAX_SIGNATURE_BYTES :: u64 where
  "MAX_SIGNATURE_BYTES = 4096"

definition signature_path :: "string \<Rightarrow> string" where
  "signature_path path = path @ ''.minisig''"

record loaded_content =
  lc_path :: string
  lc_data :: bytes
  lc_signer :: "key_id option"
  lc_trusted_comment :: "string option"

text \<open>A missing signature file is \<open>Ok None\<close>, any other read error is passed on.\<close>

definition read_signature :: "(string \<Rightarrow> io_kind + bytes) \<Rightarrow> string \<Rightarrow> trust_error + bytes option" where
  "read_signature read sig_path =
     (case read_bounded read sig_path MAX_SIGNATURE_BYTES of
        Ok s \<Rightarrow> Ok (Some s)
      | Err e \<Rightarrow> (case e of TrustIo p NotFoundKind \<Rightarrow> Ok None | _ \<Rightarrow> Err e))"

text \<open>The match on the signature that ends \<open>load_content\<close>.\<close>

definition check_loaded ::
  "'sig minisign \<Rightarrow> instant \<Rightarrow> string \<Rightarrow> trusted_keys \<Rightarrow> signature_policy \<Rightarrow> bytes \<Rightarrow> bytes option \<Rightarrow>
     trust_error + loaded_content" where
  "check_loaded ms now path ks policy data sig =
     (case sig of
        None \<Rightarrow>
          if policy = AllowUnsigned
          then Ok \<lparr>lc_path = path, lc_data = data, lc_signer = None, lc_trusted_comment = None\<rparr>
          else Err (Unsigned path (signature_path path))
      | Some s \<Rightarrow>
          if 1 < threshold ks then Err (ThresholdRequiresBundle path (threshold ks))
          else
            and_then (ok_or (InvalidSignature (signature_path path)) (from_utf8 s)) (\<lambda>txt.
            and_then (verify ms ks data txt path now) (\<lambda>(kid, comment).
            Ok \<lparr>lc_path = path, lc_data = data, lc_signer = Some kid,
                lc_trusted_comment = Some comment\<rparr>)))"

definition load_content ::
  "'sig minisign \<Rightarrow> (string \<Rightarrow> io_kind + bytes) \<Rightarrow> instant \<Rightarrow> string \<Rightarrow> u64 \<Rightarrow> trusted_keys \<Rightarrow>
     signature_policy \<Rightarrow> trust_error + loaded_content" where
  "load_content ms read now path max_bytes ks policy =
     (if policy = RequireTrusted \<and> keys_empty ks then Err NoTrustedKeys
      else if policy = RequireTrusted \<and> 1 < threshold ks
           then Err (ThresholdRequiresBundle path (threshold ks))
      else
        and_then (read_bounded read path max_bytes) (\<lambda>data.
        and_then (read_signature read (signature_path path)) (\<lambda>sig.
        check_loaded ms now path ks policy data sig)))"

end
