(* ===== verification/Trust_Props.thy ===== *)
theory Trust_Props
  imports Trust
begin

text \<open>
  Facts about the key set of \<open>Trust\<close>: identifiers stay distinct, restrictions only grow,
  verification accepts only a signature of an unrevoked key within its window, and what
  \<open>load_content\<close> returns was verified. The loop of \<open>verify\<close> is the interface
  \<open>signature_verifier\<close> that bundles are checked through.
\<close>

section \<open>Restriction order\<close>

definition narrower :: "trusted_key \<Rightarrow> trusted_key \<Rightarrow> bool" where
  "narrower k k' \<longleftrightarrow>
     tk_id k' = tk_id k \<and> tk_key k' = tk_key k \<and> (tk_revoked k \<longrightarrow> tk_revoked k') \<and>
     (\<forall>now. valid_at k' now \<longrightarrow> valid_at k now)"

definition floor_of :: "trusted_keys \<Rightarrow> string \<Rightarrow> u64" where
  "floor_of ks n = (case min_sequence ks n of None \<Rightarrow> 0 | Some m \<Rightarrow> m)"

definition restricts :: "trusted_keys \<Rightarrow> trusted_keys \<Rightarrow> bool" where
  "restricts ks ks' \<longleftrightarrow>
     (\<forall>i < length (ks_keys ks). i < length (ks_keys ks') \<and> narrower (ks_keys ks ! i) (ks_keys ks' ! i)) \<and>
     threshold ks \<le> threshold ks' \<and> (\<forall>n. floor_of ks n \<le> floor_of ks' n)"

definition keys_ok :: "trusted_keys \<Rightarrow> bool" where
  "keys_ok ks \<longleftrightarrow> distinct (map tk_id (ks_keys ks))"

lemma narrower_refl [simp]: "narrower k k"
  by (simp add: narrower_def)

lemma narrower_trans: "narrower a b \<Longrightarrow> narrower b c \<Longrightarrow> narrower a c"
  by (auto simp: narrower_def)

lemma restricts_refl [simp]: "restricts ks ks"
  by (simp add: restricts_def)

lemma restricts_trans:
  assumes ab: "restricts a b" and bc: "restricts b c"
  shows "restricts a c"
proof -
  have "i < length (ks_keys c) \<and> narrower (ks_keys a ! i) (ks_keys c ! i)" if i: "i < length (ks_keys a)" for i
  proof -
    from ab i have "i < length (ks_keys b)" "narrower (ks_keys a ! i) (ks_keys b ! i)"
      by (simp_all add: restricts_def)
    moreover from bc this(1) have "i < length (ks_keys c)" "narrower (ks_keys b ! i) (ks_keys c ! i)"
      by (simp_all add: restricts_def)
    ultimately show ?thesis by (blast intro: narrower_trans)
  qed
  moreover have "threshold a \<le> threshold c"
    using ab bc by (simp add: restricts_def)
  moreover have "floor_of a n \<le> floor_of c n" for n
    using ab bc order_trans [of "floor_of a n" "floor_of b n" "floor_of c n"] by (simp add: restricts_def)
  ultimately show ?thesis by (simp add: restricts_def)
qed

lemma valid_at_narrow: "valid_at (narrow_key ex e k) now \<Longrightarrow> valid_at k now"
  by (cases "tk_not_before k"; cases "ke_not_before e"; cases "tk_not_after k"; cases "ke_not_after e")
    (simp_all add: valid_at_def narrow_key_def opt_max_def opt_min_def)

lemma narrower_narrow_key: "narrower k (narrow_key ex e k)"
  unfolding narrower_def
proof (intro conjI allI impI)
  show "tk_key (narrow_key ex e k) = tk_key k" by (simp add: narrow_key_def)
  show "tk_revoked k \<Longrightarrow> tk_revoked (narrow_key ex e k)" by (simp add: narrow_key_def)
  show "valid_at (narrow_key ex e k) now \<Longrightarrow> valid_at k now" for now by (rule valid_at_narrow)
qed (simp add: narrow_key_def)

lemma length_update_first [simp]: "length (update_first P f xs) = length xs"
  by (induction xs) auto

lemma update_first_nth:
  "i < length xs \<Longrightarrow> update_first P f xs ! i = xs ! i \<or> update_first P f xs ! i = f (xs ! i)"
  by (induction xs arbitrary: i) (auto simp: nth_Cons split: nat.splits)

lemma map_update_first: "(\<And>x. g (f x) = g x) \<Longrightarrow> map g (update_first P f xs) = map g xs"
  by (induction xs) auto

lemma narrow_key_id [simp]: "tk_id (narrow_key ex e k) = tk_id k"
  by (simp add: narrow_key_def)

lemma restricts_insert_key: "restricts ks (insert_key kid key ks)"
  by (auto simp: restricts_def insert_key_def nth_append threshold_def floor_of_def min_sequence_def)

lemma keys_ok_insert_key: "keys_ok ks \<Longrightarrow> keys_ok (insert_key kid key ks)"
  by (auto simp: keys_ok_def insert_key_def list_ex_iff)

lemma restricts_update:
  "restricts ks (ks\<lparr>ks_keys := update_first P (narrow_key ex e) (ks_keys ks)\<rparr>)"
  unfolding restricts_def threshold_def floor_of_def min_sequence_def
  using update_first_nth [of _ "ks_keys ks" P "narrow_key ex e"]
  by (simp, metis narrower_narrow_key narrower_refl)

lemma keys_ok_update: "keys_ok (ks\<lparr>ks_keys := update_first P (narrow_key ex e) (ks_keys ks)\<rparr>) = keys_ok ks"
  by (simp add: keys_ok_def map_update_first)

lemma add_key_text_Ok:
  "add_key_text ms s ks = Ok (ks', kid) \<Longrightarrow> \<exists>key. ks' = insert_key kid key ks"
  by (auto simp: add_key_text_def result_simps)

lemma restricts_add_entry: "restricts ks (fst (add_entry ms ks ie))"
proof (cases ie)
  case (Pair i e)
  show ?thesis
  proof (cases "check_entry i e")
    case (Inr u)
    show ?thesis
    proof (cases "add_key_text ms (ke_public_key e) ks")
      case (Inr p)
      obtain ks' kid where p: "p = (ks', kid)" by (cases p)
      then have "restricts ks ks'"
        using add_key_text_Ok [of ms _ ks ks' kid] Inr restricts_insert_key by metis
      then show ?thesis
        using Pair Inr p \<open>check_entry i e = Inr u\<close> restricts_update restricts_trans
        by (fastforce simp: add_entry_def Let_def)
    qed (use Pair Inr in \<open>simp add: add_entry_def Let_def\<close>)
  qed (use Pair in \<open>simp add: add_entry_def\<close>)
qed

lemma keys_ok_add_entry: "keys_ok ks \<Longrightarrow> keys_ok (fst (add_entry ms ks ie))"
proof (cases ie)
  case (Pair i e)
  assume ok: "keys_ok ks"
  show ?thesis
  proof (cases "check_entry i e")
    case (Inr u)
    show ?thesis
    proof (cases "add_key_text ms (ke_public_key e) ks")
      case (Inr p)
      obtain ks' kid where p: "p = (ks', kid)" by (cases p)
      then have "keys_ok ks'"
        using add_key_text_Ok [of ms _ ks ks' kid] Inr keys_ok_insert_key ok by metis
      then show ?thesis
        using Pair Inr p \<open>check_entry i e = Inr u\<close>
        by (auto simp: add_entry_def Let_def keys_ok_update)
    qed (use Pair Inr ok in \<open>simp add: add_entry_def Let_def\<close>)
  qed (use Pair ok in \<open>simp add: add_entry_def\<close>)
qed

lemma restricts_add_floor: "restricts ks (fst (add_floor ks jf))"
  by (cases jf) (auto simp: add_floor_def restricts_def threshold_def floor_of_def min_sequence_def Let_def
      split: option.splits)

lemma restricts_add_policy: "restricts ks (fst (add_policy file ks))"
  by (auto simp: add_policy_def restricts_def threshold_def floor_of_def min_sequence_def split: option.splits)

lemma keys_ok_add_floor: "keys_ok ks \<Longrightarrow> keys_ok (fst (add_floor ks jf))"
  by (cases jf) (auto simp: add_floor_def keys_ok_def Let_def)

lemma keys_ok_add_policy: "keys_ok ks \<Longrightarrow> keys_ok (fst (add_policy file ks))"
  by (auto simp: add_policy_def keys_ok_def split: option.splits)

lemma restricts_keyring: "restricts ks (fst (add_keyring ms parse json ks))"
  unfolding add_keyring_def
  by (intro st_then_rel [where R = restricts, OF _ _ restricts_trans]
      st_fold_rel [where R = restricts, OF _ restricts_refl restricts_trans]
      restricts_add_entry restricts_add_floor restricts_add_policy)
    auto

lemma keys_ok_keyring: "keys_ok ks \<Longrightarrow> keys_ok (fst (add_keyring ms parse json ks))"
  unfolding add_keyring_def
  by (intro st_then_inv [where P = keys_ok] st_fold_inv [where P = keys_ok]
      keys_ok_add_entry keys_ok_add_floor keys_ok_add_policy)
    auto

lemma restricts_revoke: "restricts ks (fst (revoke kid ks))"
  by (auto simp: revoke_def restricts_def Let_def threshold_def floor_of_def min_sequence_def narrower_def valid_at_def)

lemma keys_ok_revoke: "keys_ok (fst (revoke kid ks)) = keys_ok ks"
  by (simp add: keys_ok_def revoke_def Let_def comp_def if_distrib cong: if_cong)

section \<open>Operations on the key set\<close>

datatype key_op = OpRevoke string | OpAddKey string | OpAddKeyring bytes

fun apply_key_op ::
  "'sig minisign \<Rightarrow> (bytes \<Rightarrow> keyring_file option) \<Rightarrow> trusted_keys \<Rightarrow> key_op \<Rightarrow> trusted_keys" where
  "apply_key_op ms parse ks (OpRevoke kid) = fst (revoke kid ks)"
| "apply_key_op ms parse ks (OpAddKey s) =
     (case add_key_text ms s ks of Err _ \<Rightarrow> ks | Ok (ks', _) \<Rightarrow> ks')"
| "apply_key_op ms parse ks (OpAddKeyring json) = fst (add_keyring ms parse json ks)"

definition run_key_ops ::
  "'sig minisign \<Rightarrow> (bytes \<Rightarrow> keyring_file option) \<Rightarrow> key_op list \<Rightarrow> trusted_keys \<Rightarrow> trusted_keys" where
  "run_key_ops ms parse ops ks = foldl (apply_key_op ms parse) ks ops"

lemma apply_key_op_rel: "restricts ks (apply_key_op ms parse ks op) \<and>
    (keys_ok ks \<longrightarrow> keys_ok (apply_key_op ms parse ks op))"
proof (cases op)
  case (OpAddKey s)
  show ?thesis
  proof (cases "add_key_text ms s ks")
    case (Inr p)
    obtain ks' kid where p: "p = (ks', kid)" by (cases p)
    then obtain key where "ks' = insert_key kid key ks"
      using add_key_text_Ok [of ms s ks ks' kid] Inr by metis
    then show ?thesis
      using OpAddKey Inr p restricts_insert_key keys_ok_insert_key by simp
  qed (use OpAddKey in simp)
qed (simp_all add: restricts_revoke keys_ok_revoke restricts_keyring keys_ok_keyring)

lemma run_key_ops_rel:
  "restricts ks (run_key_ops ms parse ops ks) \<and> (keys_ok ks \<longrightarrow> keys_ok (run_key_ops ms parse ops ks))"
  unfolding run_key_ops_def
proof (induction ops arbitrary: ks)
  case (Cons op ops)
  then show ?case
    using apply_key_op_rel [of ks ms parse op] restricts_trans by (simp, blast)
qed simp

section \<open>Verification\<close>

lemma verify_loop_Ok:
  "verify_loop ms data sig path now ks = Ok (kid, c) \<Longrightarrow>
     \<exists>k \<in> set ks. tk_id k = kid \<and> ms_verify ms (tk_key k) data sig \<and> \<not> tk_revoked k \<and> valid_at k now"
  by (induction ks) (auto split: if_splits)

definition accepted_by ::
  "'sig minisign \<Rightarrow> trusted_keys \<Rightarrow> key_role \<Rightarrow> instant \<Rightarrow> bytes \<Rightarrow> string \<Rightarrow> key_id \<Rightarrow> bool" where
  "accepted_by ms ks role now data signature_text kid \<longleftrightarrow>
     (\<exists>sig. ms_decode ms signature_text = Some sig \<and>
       (\<exists>k \<in> set (ks_keys ks). tk_id k = kid \<and> role \<in> set (tk_roles k) \<and>
          ms_verify ms (tk_key k) data sig \<and> \<not> tk_revoked k \<and> valid_at k now))"

lemma verify_role_Ok:
  "verify_role ms ks data txt path now role = Ok (kid, c) \<Longrightarrow> accepted_by ms ks role now data txt kid"
  by (fastforce simp: verify_role_def accepted_by_def result_simps dest: verify_loop_Ok)

lemma revoked_not_accepted:
  assumes ok: "keys_ok ks" and k: "k \<in> set (ks_keys ks)" "tk_revoked k"
  shows "\<not> accepted_by ms (run_key_ops ms' parse ops ks) role now data txt (tk_id k)"
proof
  let ?ks = "run_key_ops ms' parse ops ks"
  assume "accepted_by ms ?ks role now data txt (tk_id k)"
  then obtain k' where k': "k' \<in> set (ks_keys ?ks)" "tk_id k' = tk_id k" "\<not> tk_revoked k'"
    by (auto simp: accepted_by_def)
  from k(1) obtain i where i: "i < length (ks_keys ks)" "ks_keys ks ! i = k"
    by (auto simp: in_set_conv_nth)
  from run_key_ops_rel [of ks ms' parse ops] ok i
  have j: "i < length (ks_keys ?ks)" "narrower k (ks_keys ?ks ! i)"
    and d: "distinct (map tk_id (ks_keys ?ks))"
    by (auto simp: restricts_def keys_ok_def)
  from j(2) k(2) have "tk_id (ks_keys ?ks ! i) = tk_id k" "tk_revoked (ks_keys ?ks ! i)"
    by (auto simp: narrower_def)
  with d j(1) k' show False
    by (metis (no_types) distinct_map inj_on_eq_iff nth_mem)
qed

section \<open>The verifier interface\<close>

text \<open>What a caller that checks several signatures over the same data relies on: a returned
  key identifier is one that is trusted for it.\<close>

locale signature_verifier =
  fixes check :: "bytes \<Rightarrow> string \<Rightarrow> trust_error + (key_id \<times> string)"
    and trusted :: "bytes \<Rightarrow> key_id \<Rightarrow> bool"
  assumes check_sound: "check data txt = Ok (kid, c) \<Longrightarrow> trusted data kid"

interpretation role_verifier: signature_verifier
  "\<lambda>data txt. verify_role ms ks data txt path now role"
  "\<lambda>data kid. \<exists>txt. accepted_by ms ks role now data txt kid"
  for ms ks path now role
  by unfold_locales (auto dest: verify_role_Ok)

section \<open>Loading\<close>

lemma read_bounded_Ok:
  assumes "read_bounded read path limit = Ok data" and "limit \<noteq> - 1"
  shows "read path = Ok data \<and> length data \<le> unat limit"
proof -
  from assms(1) obtain content where c: "read path = Ok content"
    and d: "data = take (unat (limit + 1)) content" and l: "\<not> limit < len64 data"
    by (auto simp: read_bounded_def result_simps Let_def split: if_splits)
  have u: "unat (limit + 1) = Suc (unat limit)"
    by (rule unat_plus_one [OF assms(2)])
  have "length data < 18446744073709551616"
    using d u unat_u64_bound [of "limit + 1"] by simp
  then have "unat (len64 data :: u64) = length data"
    by (rule unat_len64)
  with l have "length data \<le> unat limit"
    by (simp add: word_less_nat_alt)
  with c d u show ?thesis by auto
qed

lemma load_content_Ok:
  assumes "load_content ms read now path max_bytes ks policy = Ok lc"
  shows "lc_path lc = path \<and> read_bounded read path max_bytes = Ok (lc_data lc) \<and>
    (case lc_signer lc of
       None \<Rightarrow> policy = AllowUnsigned
     | Some kid \<Rightarrow> threshold ks = 1 \<and> (\<exists>txt. accepted_by ms ks RoleContent now (lc_data lc) txt kid))"
proof -
  from assms obtain data sig where data: "read_bounded read path max_bytes = Ok data"
    and rest: "check_loaded ms now path ks policy data sig = Ok lc"
    by (auto simp: load_content_def result_simps split: if_splits)
  show ?thesis
  proof (cases sig)
    case None
    with rest data show ?thesis by (auto simp: check_loaded_def split: if_splits)
  next
    case (Some s)
    with rest obtain t kid c where v: "verify_role ms ks data t path now RoleContent = Ok (kid, c)"
      and lc: "lc = \<lparr>lc_path = path, lc_data = data, lc_signer = Some kid, lc_trusted_comment = Some c\<rparr>"
      and thr: "\<not> 1 < threshold ks"
      by (auto simp: check_loaded_def result_simps verify_def split: if_splits)
    from thr have "threshold ks = 1" by (simp add: threshold_def)
    with lc data verify_role_Ok [OF v] show ?thesis by auto
  qed
qed

end
