(* ===== verification/Bundle.thy ===== *)
theory Bundle
  imports Trust_Props
begin

text \<open>
  \<open>crates/engine/src/bundle.rs\<close>: signed content bundles.

  Parameters: \<open>read\<close> reads a file by path, \<open>open_dir\<close> is \<open>cap_std\<close> opening the bundle
  directory and gives a function that reads a file below it without following a final link
  (the error is the operating system's text), \<open>sha\<close> is SHA-256, \<open>parse\<close> is \<open>serde_json\<close>.
  A message that describes why a manifest is refused is a constructor of \<open>manifest_reason\<close>.
\<close>

section \<open>Types\<close>

definition MANIFEST_FORMAT :: string where
  "MANIFEST_FORMAT = ''abyssal-warden.content-manifest''"

definition MANIFEST_FILE :: string where
  "MANIFEST_FILE = ''manifest.json''"

definition MAX_MANIFEST_BYTES :: u64 where
  "MAX_MANIFEST_BYTES = 1024 * 1024"

definition MAX_SIGNATURES :: nat where
  "MAX_SIGNATURES = 16"

definition MAX_REVOCATIONS :: nat where
  "MAX_REVOCATIONS = 64"

definition MAX_FILES :: nat where
  "MAX_FILES = 10000"

definition MAX_CONTENT_FILE_BYTES :: u64 where
  "MAX_CONTENT_FILE_BYTES = 256 * 1024 * 1024"

definition MAX_NAME_LEN :: nat where
  "MAX_NAME_LEN = 128"

definition MAX_PATH_LEN :: nat where
  "MAX_PATH_LEN = 512"

datatype content_kind = HashDatabase | YaraRules | Notice

record manifest_file =
  mf_path :: string
  mf_kind :: content_kind
  mf_size :: u64
  mf_sha256 :: digest

record manifest =
  m_format :: string
  m_format_version :: u32
  m_name :: string
  m_sequence :: u64
  m_issued :: instant
  m_expires :: instant
  m_files :: "manifest_file list"
  m_revoke_keys :: "string list"

datatype manifest_reason =
    ManifestJson | ManifestFormat | ManifestVersion u32 | BadName | ZeroSequence | ExpiresBeforeIssued
  | NoFiles | TooManyFiles | TooManyRevocations | BadRevocation string | BadFilePath string
  | DuplicateFilePath string | FileTooLarge string

datatype sig_problem =
    ProblemNotUtf8 string
  | ProblemDuplicate string key_id
  | ProblemVerify string trust_error

datatype file_reason = OpenFailed string | SizeMismatch nat u64 | HashMismatch digest digest

datatype bundle_error =
    BundleTrust trust_error
  | BundleUnsigned string string
  | InsufficientSignatures string nat nat "sig_problem list"
  | InvalidManifest manifest_reason
  | BundleExpired string u64 instant
  | BundleFileError string file_reason

record bundle_file =
  bfile_path :: string
  bfile_kind :: content_kind
  bfile_data :: bytes

record verified_bundle =
  vb_dir :: string
  vb_manifest :: manifest
  vb_manifest_sha256 :: digest
  vb_signers :: "key_id list"
  vb_expired :: bool
  vb_files :: "bundle_file list"

record load_options =
  lo_allow_expired :: bool
  lo_now :: instant

definition new_manifest :: "string \<Rightarrow> u64 \<Rightarrow> instant \<Rightarrow> instant \<Rightarrow> manifest" where
  "new_manifest name sequence issued expires =
     \<lparr>m_format = MANIFEST_FORMAT, m_format_version = 1, m_name = name, m_sequence = sequence,
      m_issued = issued, m_expires = expires, m_files = [], m_revoke_keys = []\<rparr>"

section \<open>Structural rules\<close>

definition valid_name :: "string \<Rightarrow> bool" where
  "valid_name name \<longleftrightarrow>
     name \<noteq> [] \<and> length name \<le> MAX_NAME_LEN \<and>
     list_all (\<lambda>b. is_ascii_alphanumeric b \<or> b \<in> set ''._-'') name"

definition valid_key_id :: "string \<Rightarrow> bool" where
  "valid_key_id kid \<longleftrightarrow> length kid = 16 \<and> list_all is_ascii_hexdigit kid"

definition valid_relative_path :: "string \<Rightarrow> bool" where
  "valid_relative_path path \<longleftrightarrow>
     path \<noteq> [] \<and> length path \<le> MAX_PATH_LEN \<and>
     CHR 0x5C \<notin> set path \<and> CHR '':'' \<notin> set path \<and>
     \<not> has_unsafe_chars path False \<and>
     list_all (\<lambda>c. c \<noteq> [] \<and> c \<noteq> ''.'' \<and> c \<noteq> ''..'') (split_on (CHR ''/'') path)"

definition truncate_80 :: "string \<Rightarrow> string" where
  "truncate_80 s = truncate_chars 80 s"

text \<open>The loop over the files; \<open>seen\<close> holds the paths so far.\<close>

fun check_files :: "string set \<Rightarrow> manifest_file list \<Rightarrow> manifest_reason + unit" where
  "check_files seen [] = Ok ()"
| "check_files seen (f # fs) =
     (if \<not> valid_relative_path (mf_path f) then Err (BadFilePath (truncate_80 (mf_path f)))
      else if mf_path f \<in> seen then Err (DuplicateFilePath (truncate_80 (mf_path f)))
      else if MAX_CONTENT_FILE_BYTES < mf_size f then Err (FileTooLarge (mf_path f))
      else check_files (insert (mf_path f) seen) fs)"

definition validate_manifest :: "manifest \<Rightarrow> manifest_reason + unit" where
  "validate_manifest m =
     (if m_format m \<noteq> MANIFEST_FORMAT then Err ManifestFormat
      else if m_format_version m \<noteq> 1 then Err (ManifestVersion (m_format_version m))
      else if \<not> valid_name (m_name m) then Err BadName
      else if m_sequence m = 0 then Err ZeroSequence
      else if m_expires m \<le> m_issued m then Err ExpiresBeforeIssued
      else if m_files m = [] then Err NoFiles
      else if MAX_FILES < length (m_files m) then Err TooManyFiles
      else if MAX_REVOCATIONS < length (m_revoke_keys m) then Err TooManyRevocations
      else case find (\<lambda>k. \<not> valid_key_id k) (m_revoke_keys m) of
        Some k \<Rightarrow> Err (BadRevocation (truncate_80 k))
      | None \<Rightarrow> check_files {} (m_files m))"

section \<open>Signatures\<close>

definition signature_paths :: "string \<Rightarrow> string list" where
  "signature_paths manifest_path =
     (let first = signature_path manifest_path
      in first # map (\<lambda>n. first @ ''.'' @ show_nat n) [2..<Suc MAX_SIGNATURES])"

text \<open>The loop of \<open>verify_signatures\<close>; \<open>check\<close> is \<open>TrustedKeys::verify\<close> for the data and
  time at hand. The accumulators are the signers, the problems and whether any file was found.\<close>

fun signature_loop ::
  "(bytes \<Rightarrow> string \<Rightarrow> trust_error + (key_id \<times> string)) \<Rightarrow> (string \<Rightarrow> io_kind + bytes) \<Rightarrow> bytes \<Rightarrow>
     string list \<Rightarrow> key_id list \<Rightarrow> sig_problem list \<Rightarrow> bool \<Rightarrow>
     bundle_error + (key_id list \<times> sig_problem list \<times> bool)" where
  "signature_loop check read data [] signers problems found = Ok (signers, problems, found)"
| "signature_loop check read data (p # ps) signers problems found =
     (case read_signature read p of
        Err e \<Rightarrow> Err (BundleTrust e)
      | Ok None \<Rightarrow> signature_loop check read data ps signers problems found
      | Ok (Some sig) \<Rightarrow>
          (case from_utf8 sig of
             None \<Rightarrow> signature_loop check read data ps signers (problems @ [ProblemNotUtf8 p]) True
           | Some t \<Rightarrow>
               (case check data t of
                  Ok (kid, _) \<Rightarrow>
                    if kid \<notin> set signers
                    then signature_loop check read data ps (signers @ [kid]) problems True
                    else signature_loop check read data ps signers (problems @ [ProblemDuplicate p kid]) True
                | Err e \<Rightarrow>
                    signature_loop check read data ps signers (problems @ [ProblemVerify p e]) True)))"

definition verify_signatures ::
  "'sig minisign \<Rightarrow> (string \<Rightarrow> io_kind + bytes) \<Rightarrow> string \<Rightarrow> string \<Rightarrow> bytes \<Rightarrow> trusted_keys \<Rightarrow> instant \<Rightarrow>
     bundle_error + key_id list" where
  "verify_signatures ms read dir manifest_path data ks now =
     and_then
       (signature_loop (\<lambda>d t. verify ms ks d t manifest_path now) read data
          (signature_paths manifest_path) [] [] False)
       (\<lambda>(signers, problems, found).
         if \<not> found then Err (BundleUnsigned dir (signature_path manifest_path))
         else if length signers < threshold ks
         then Err (InsufficientSignatures dir (length signers) (threshold ks) problems)
         else Ok signers)"

section \<open>Loading\<close>

definition read_listed ::
  "(bytes \<Rightarrow> digest) \<Rightarrow> (string \<Rightarrow> string + bytes) \<Rightarrow> manifest_file \<Rightarrow> bundle_error + bytes" where
  "read_listed sha root entry =
     and_then (map_err (\<lambda>e. BundleFileError (mf_path entry) (OpenFailed e)) (root (mf_path entry))) (\<lambda>content.
     let data = take (unat (sat_add (mf_size entry) 1)) content
     in if len64 data \<noteq> mf_size entry
        then Err (BundleFileError (mf_path entry) (SizeMismatch (length data) (mf_size entry)))
        else if sha data \<noteq> mf_sha256 entry
        then Err (BundleFileError (mf_path entry) (HashMismatch (sha data) (mf_sha256 entry)))
        else Ok data)"

definition read_bundle_file ::
  "(bytes \<Rightarrow> digest) \<Rightarrow> (string \<Rightarrow> string + bytes) \<Rightarrow> manifest_file \<Rightarrow> bundle_error + bundle_file" where
  "read_bundle_file sha root entry =
     and_then (read_listed sha root entry) (\<lambda>data.
     Ok \<lparr>bfile_path = mf_path entry, bfile_kind = mf_kind entry, bfile_data = data\<rparr>)"

definition load_bundle ::
  "'sig minisign \<Rightarrow> (bytes \<Rightarrow> digest) \<Rightarrow> (bytes \<Rightarrow> manifest option) \<Rightarrow> (string \<Rightarrow> io_kind + bytes) \<Rightarrow>
     (string \<Rightarrow> string + (string \<Rightarrow> string + bytes)) \<Rightarrow> string \<Rightarrow> trusted_keys \<Rightarrow> load_options \<Rightarrow>
     bundle_error + verified_bundle" where
  "load_bundle ms sha parse read open_dir dir ks opts =
     (if keys_empty ks then Err (BundleTrust NoTrustedKeys)
      else let manifest_path = path_join dir MANIFEST_FILE in
        and_then (map_err BundleTrust (read_bounded read manifest_path MAX_MANIFEST_BYTES)) (\<lambda>data.
        and_then (verify_signatures ms read dir manifest_path data ks (lo_now opts)) (\<lambda>signers.
        and_then (ok_or (InvalidManifest ManifestJson) (parse data)) (\<lambda>manifest.
        and_then (map_err InvalidManifest (validate_manifest manifest)) (\<lambda>_.
        let expired = m_expires manifest < lo_now opts in
        if expired \<and> \<not> lo_allow_expired opts
        then Err (BundleExpired (m_name manifest) (m_sequence manifest) (m_expires manifest))
        else
          and_then (map_err (\<lambda>e. BundleFileError dir (OpenFailed e)) (open_dir dir)) (\<lambda>root.
          and_then (try_map (read_bundle_file sha root) (m_files manifest)) (\<lambda>files.
          Ok \<lparr>vb_dir = dir, vb_manifest = manifest, vb_manifest_sha256 = sha data,
              vb_signers = signers, vb_expired = expired, vb_files = files\<rparr>)))))))"

section \<open>What a loaded bundle satisfies\<close>

lemma check_files_Ok:
  "check_files seen fs = Ok () \<longleftrightarrow>
     (\<forall>f \<in> set fs. valid_relative_path (mf_path f) \<and> mf_size f \<le> MAX_CONTENT_FILE_BYTES \<and> mf_path f \<notin> seen) \<and>
     distinct (map mf_path fs)"
  by (induction fs arbitrary: seen) (auto simp: not_less image_iff)

definition manifest_ok :: "manifest \<Rightarrow> bool" where
  "manifest_ok m \<longleftrightarrow>
     m_format m = MANIFEST_FORMAT \<and> m_format_version m = 1 \<and> valid_name (m_name m) \<and>
     0 < m_sequence m \<and> m_issued m < m_expires m \<and>
     m_files m \<noteq> [] \<and> length (m_files m) \<le> MAX_FILES \<and>
     length (m_revoke_keys m) \<le> MAX_REVOCATIONS \<and> list_all valid_key_id (m_revoke_keys m) \<and>
     list_all (\<lambda>f. valid_relative_path (mf_path f) \<and> mf_size f \<le> MAX_CONTENT_FILE_BYTES) (m_files m) \<and>
     distinct (map mf_path (m_files m))"

lemma validate_manifest_Ok: "validate_manifest m = Ok () \<longleftrightarrow> manifest_ok m"
  by (auto simp: validate_manifest_def manifest_ok_def check_files_Ok list_all_iff find_None_iff
      find_Some_iff word_gt_0 not_less not_le split: option.splits if_splits)

context signature_verifier
begin

lemma loop_signers:
  assumes "signature_loop check read data ps signers problems found = Ok (signers', problems', found')"
    and "distinct signers" and "\<forall>kid \<in> set signers. trusted data kid"
  shows "distinct signers' \<and> (\<forall>kid \<in> set signers'. trusted data kid)"
  using assms
proof (induction ps arbitrary: signers problems found)
  case Nil
  then show ?case by simp
next
  case (Cons p ps)
  from Cons.prems show ?case
    by (auto split: sum.splits option.splits if_splits dest!: Cons.IH)
      (metis check_sound)+
qed

end

lemma verify_signatures_Ok:
  assumes "verify_signatures ms read dir manifest_path data ks now = Ok signers"
  shows "distinct signers \<and> threshold ks \<le> length signers \<and>
    (\<forall>kid \<in> set signers. \<exists>t. accepted_by ms ks RoleContent now data t kid)"
proof -
  from assms obtain problems found where
    loop: "signature_loop (\<lambda>d t. verify ms ks d t manifest_path now) read data
      (signature_paths manifest_path) [] [] False = Ok (signers, problems, found)"
    and len: "threshold ks \<le> length signers"
    by (auto simp: verify_signatures_def result_simps not_less split: if_splits)
  from role_verifier.loop_signers [OF loop [unfolded verify_def]] len show ?thesis by simp
qed

lemma read_listed_Ok:
  assumes "read_listed sha root entry = Ok data" and small: "mf_size entry \<noteq> - 1"
  shows "root (mf_path entry) = Ok data \<and> length data = unat (mf_size entry) \<and> sha data = mf_sha256 entry"
proof -
  let ?n = "unat (sat_add (mf_size entry) 1)"
  from assms(1) obtain content where c: "root (mf_path entry) = Ok content" and d: "data = take ?n content"
    and l: "len64 data = mf_size entry" and h: "sha data = mf_sha256 entry"
    by (auto simp: read_listed_def result_simps Let_def split: if_splits)
  have n: "?n = Suc (unat (mf_size entry))"
    using unat_plus_one [OF small] unat_u64_bound [of "mf_size entry + 1"] unat_sat_add [of "mf_size entry" 1]
    by simp
  have "length data \<le> ?n" using d by simp
  then have "length data < 18446744073709551616"
    using unat_u64_bound [of "sat_add (mf_size entry) 1"] by simp
  then have len: "length data = unat (mf_size entry)"
    using unat_len64 l by metis
  then have "data = content" using d n by (cases "length content \<le> ?n") auto
  with c len h show ?thesis by simp
qed

definition files_match ::
  "(bytes \<Rightarrow> digest) \<Rightarrow> (string \<Rightarrow> string + bytes) \<Rightarrow> manifest_file list \<Rightarrow> bundle_file list \<Rightarrow> bool" where
  "files_match sha root entries files \<longleftrightarrow>
     list_all2 (\<lambda>e f. bfile_path f = mf_path e \<and> bfile_kind f = mf_kind e \<and>
       root (mf_path e) = Ok (bfile_data f) \<and> length (bfile_data f) = unat (mf_size e) \<and>
       sha (bfile_data f) = mf_sha256 e) entries files"

lemma read_bundle_file_Ok:
  assumes "read_bundle_file sha root e = Ok f" and "mf_size e \<le> MAX_CONTENT_FILE_BYTES"
  shows "bfile_path f = mf_path e \<and> bfile_kind f = mf_kind e \<and>
    root (mf_path e) = Ok (bfile_data f) \<and> length (bfile_data f) = unat (mf_size e) \<and>
    sha (bfile_data f) = mf_sha256 e"
proof -
  have "mf_size e \<noteq> - 1"
    using assms(2) by (auto simp: MAX_CONTENT_FILE_BYTES_def word_le_nat_alt unat_max_word)
  with assms(1) show ?thesis
    by (auto simp: read_bundle_file_def result_simps dest: read_listed_Ok)
qed

lemma load_bundle_Ok:
  assumes "load_bundle ms sha parse read open_dir dir ks opts = Ok vb"
  shows "\<exists>data root. read_bounded read (path_join dir MANIFEST_FILE) MAX_MANIFEST_BYTES = Ok data \<and>
      parse data = Some (vb_manifest vb) \<and> vb_manifest_sha256 vb = sha data \<and>
      manifest_ok (vb_manifest vb) \<and>
      vb_expired vb = (m_expires (vb_manifest vb) < lo_now opts) \<and>
      (vb_expired vb \<longrightarrow> lo_allow_expired opts) \<and>
      distinct (vb_signers vb) \<and> threshold ks \<le> length (vb_signers vb) \<and>
      (\<forall>kid \<in> set (vb_signers vb). \<exists>t. accepted_by ms ks RoleContent (lo_now opts) data t kid) \<and>
      open_dir dir = Ok root \<and> files_match sha root (m_files (vb_manifest vb)) (vb_files vb)"
proof -
  from assms obtain data signers m root files where
    rd: "read_bounded read (path_join dir MANIFEST_FILE) MAX_MANIFEST_BYTES = Ok data"
    and sg: "verify_signatures ms read dir (path_join dir MANIFEST_FILE) data ks (lo_now opts) = Ok signers"
    and m: "parse data = Some m" "validate_manifest m = Ok ()"
    and ex: "m_expires m < lo_now opts \<longrightarrow> lo_allow_expired opts"
    and root: "open_dir dir = Ok root" and fs: "try_map (read_bundle_file sha root) (m_files m) = Ok files"
    and vb: "vb = \<lparr>vb_dir = dir, vb_manifest = m, vb_manifest_sha256 = sha data,
              vb_signers = signers, vb_expired = (m_expires m < lo_now opts), vb_files = files\<rparr>"
    by (auto simp: load_bundle_def result_simps Let_def split: if_splits)
  from m(2) have ok: "manifest_ok m" by (simp add: validate_manifest_Ok)
  have "files_match sha root (m_files m) files"
    using fs ok unfolding files_match_def try_map_Ok manifest_ok_def list_all_iff
    by (elim list.rel_mono_strong conjE) (blast dest!: read_bundle_file_Ok)
  with verify_signatures_Ok [OF sg] rd m(1) ok ex root show ?thesis
    unfolding vb by (intro exI [of _ data] exI [of _ root]) simp
qed

text \<open>A valid path names a place below the bundle directory, whatever the directory is.\<close>

lemma valid_relative_path_contained:
  assumes "valid_relative_path p"
  shows "resolve base (split_on (CHR ''/'') p) = base @ split_on (CHR ''/'') p"
  using assms by (intro resolve_normal) (auto simp: valid_relative_path_def list_all_iff)

lemma valid_relative_path_relative: "valid_relative_path p \<Longrightarrow> \<not> prefix ''/'' p"
  by (cases p) (auto simp: valid_relative_path_def)

end
