(* ===== verification/Atomic_File.thy ===== *)
theory Atomic_File
  imports Rust_Str
begin

text \<open>
  Files as a crash leaves them, for the places that write a temporary file, flush it and
  rename it over the target.

  \<open>blocks\<close> is what a read of an inode returns while the system runs. A crash keeps the
  content of an inode that was flushed after its last change (\<open>clean\<close>) and may leave any
  bytes in one that was not. A change of the directory may or may not have reached the disk
  before the directory itself is flushed: \<open>dirs\<close> lists the current name table first and
  then every earlier one back to the last flush, and a crash may leave any of them. This is
  the documented behaviour of \<open>rename\<close> and \<open>fsync\<close>, on which the code relies.
\<close>

record disk =
  dirs :: "(string \<rightharpoonup> nat) list"
  blocks :: "nat \<Rightarrow> bytes"
  clean :: "nat \<Rightarrow> bool"
  next_inode :: nat

datatype fs_op =
    OpenTruncate string
  | WriteAll string bytes
  | SyncFile string
  | Rename string string
  | RemoveFile string
  | SyncDir

definition names :: "disk \<Rightarrow> string \<rightharpoonup> nat" where
  "names d = hd (dirs d)"

fun fs_step :: "disk \<Rightarrow> fs_op \<Rightarrow> disk" where
  "fs_step d (OpenTruncate p) =
     (case names d p of
        Some i \<Rightarrow> d\<lparr>blocks := (blocks d)(i := []), clean := (clean d)(i := False)\<rparr>
      | None \<Rightarrow> d\<lparr>dirs := (names d)(p \<mapsto> next_inode d) # dirs d,
                 blocks := (blocks d)(next_inode d := []), clean := (clean d)(next_inode d := False),
                 next_inode := Suc (next_inode d)\<rparr>)"
| "fs_step d (WriteAll p bs) =
     (case names d p of
        Some i \<Rightarrow> d\<lparr>blocks := (blocks d)(i := blocks d i @ bs), clean := (clean d)(i := False)\<rparr>
      | None \<Rightarrow> d)"
| "fs_step d (SyncFile p) =
     (case names d p of Some i \<Rightarrow> d\<lparr>clean := (clean d)(i := True)\<rparr> | None \<Rightarrow> d)"
| "fs_step d (Rename a b) =
     (case names d a of
        Some i \<Rightarrow> d\<lparr>dirs := (names d)(a := None, b := Some i) # dirs d\<rparr>
      | None \<Rightarrow> d)"
| "fs_step d (RemoveFile p) = d\<lparr>dirs := (names d)(p := None) # dirs d\<rparr>"
| "fs_step d SyncDir = d\<lparr>dirs := [names d]\<rparr>"

definition fs_run :: "disk \<Rightarrow> fs_op list \<Rightarrow> disk" where
  "fs_run d ops = foldl fs_step d ops"

definition fs_read :: "disk \<Rightarrow> string \<Rightarrow> bytes option" where
  "fs_read d p = map_option (blocks d) (names d p)"

text \<open>\<open>v\<close> may be what \<open>p\<close> holds after a crash.\<close>

definition crash_read :: "disk \<Rightarrow> string \<Rightarrow> bytes option \<Rightarrow> bool" where
  "crash_read d p v \<longleftrightarrow>
     (\<exists>t \<in> set (dirs d). case t p of
        None \<Rightarrow> v = None
      | Some i \<Rightarrow> (if clean d i then v = Some (blocks d i) else v \<noteq> None))"

definition replace_ops :: "string \<Rightarrow> string \<Rightarrow> bytes \<Rightarrow> fs_op list" where
  "replace_ops tmp path data = [OpenTruncate tmp, WriteAll tmp data, SyncFile tmp, Rename tmp path, SyncDir]"

text \<open>A quiet disk: every change of the directory is flushed, the target's content too, names
  below \<open>next_inode\<close> and the temporary name not a link to the target.\<close>

definition quiet :: "disk \<Rightarrow> string \<Rightarrow> string \<Rightarrow> bool" where
  "quiet d tmp path \<longleftrightarrow>
     length (dirs d) = 1 \<and> tmp \<noteq> path \<and>
     (\<forall>p i. names d p = Some i \<longrightarrow> i < next_inode d) \<and>
     (\<forall>i. names d path = Some i \<longrightarrow> clean d i \<and> names d tmp \<noteq> Some i)"

lemma quiet_dirs: "quiet d tmp path \<Longrightarrow> \<exists>t. dirs d = [t] \<and> names d = t"
  by (cases "dirs d") (auto simp: quiet_def names_def)

lemma fs_run_simps [simp]:
  "fs_run d [] = d" "fs_run d (op # ops) = fs_run (fs_step d op) ops"
  by (simp_all add: fs_run_def)

text \<open>The inode the temporary file gets.\<close>

definition tmp_inode :: "disk \<Rightarrow> string \<Rightarrow> nat" where
  "tmp_inode d tmp = (case names d tmp of Some i \<Rightarrow> i | None \<Rightarrow> next_inode d)"

lemma replace_prefix_crash:
  assumes q: "quiet d tmp path" and pre: "prefix ops (replace_ops tmp path data)"
    and cr: "crash_read (fs_run d ops) path v"
  shows "v = fs_read d path \<or> v = Some data"
proof -
  let ?i = "tmp_inode d tmp"
  have tp: "tmp \<noteq> path" "path \<noteq> tmp" using q by (auto simp: quiet_def)
  obtain N where dd: "dirs d = [N]" and nn: "names d = N"
    using quiet_dirs [OF q] by blast
  have old: "clean d j \<and> j \<noteq> ?i" if "names d path = Some j" for j
    using q that by (auto simp: quiet_def tmp_inode_def split: option.splits)
  have keep: "crash_read d' path v \<Longrightarrow> v = fs_read d path"
    if "\<forall>t \<in> set (dirs d'). t path = names d path" and "dirs d' \<noteq> []"
      and "\<forall>j. j \<noteq> ?i \<longrightarrow> clean d' j = clean d j \<and> blocks d' j = blocks d j" for d'
    using that old by (auto simp: crash_read_def fs_read_def split: option.splits if_splits)
  define d1 where "d1 = fs_step d (OpenTruncate tmp)"
  define d2 where "d2 = fs_step d1 (WriteAll tmp data)"
  define d3 where "d3 = fs_step d2 (SyncFile tmp)"
  define d4 where "d4 = fs_step d3 (Rename tmp path)"
  define d5 where "d5 = fs_step d4 SyncDir"
  have n1: "names d1 tmp = Some ?i" and p1: "\<forall>t \<in> set (dirs d1). t path = names d path" "dirs d1 \<noteq> []"
    and b1: "blocks d1 ?i = []" "\<forall>j. j \<noteq> ?i \<longrightarrow> clean d1 j = clean d j \<and> blocks d1 j = blocks d j"
    using tp by (cases "N tmp"; simp add: d1_def tmp_inode_def nn dd names_def)+
  have n2: "names d2 tmp = Some ?i" "dirs d2 = dirs d1"
    and b2: "blocks d2 ?i = data" "\<forall>j. j \<noteq> ?i \<longrightarrow> clean d2 j = clean d j \<and> blocks d2 j = blocks d j"
    using n1 b1 by (auto simp: d2_def names_def)
  have n3: "names d3 tmp = Some ?i" "dirs d3 = dirs d1"
    and b3: "blocks d3 ?i = data" "clean d3 ?i"
      "\<forall>j. j \<noteq> ?i \<longrightarrow> clean d3 j = clean d j \<and> blocks d3 j = blocks d j"
    using n2 b2 by (auto simp: d3_def names_def)
  have n4: "dirs d4 = (names d3)(tmp := None, path := Some ?i) # dirs d1"
    and b4: "blocks d4 = blocks d3" "clean d4 = clean d3"
    using n3 by (simp_all add: d4_def)
  have n5: "dirs d5 = [(names d3)(tmp := None, path := Some ?i)]"
    and b5: "blocks d5 = blocks d3" "clean d5 = clean d3"
    using n4 b4 by (simp_all add: d5_def names_def)
  from pre consider "ops = []" | "fs_run d ops = d1" | "fs_run d ops = d2" | "fs_run d ops = d3"
    | "fs_run d ops = d4" | "fs_run d ops = d5"
    by (auto simp: replace_ops_def prefix_Cons d1_def d2_def d3_def d4_def d5_def)
  then show ?thesis
  proof cases
    case 1
    with cr dd nn keep [of d] show ?thesis by simp
  next
    case 2
    with cr keep [OF p1 b1(2)] show ?thesis by simp
  next
    case 3
    with cr keep [of d2] p1 n2(2) b2(2) show ?thesis by metis
  next
    case 4
    with cr keep [of d3] p1 n3(2) b3(3) show ?thesis by metis
  next
    case 5
    with cr obtain t where t: "t \<in> set (dirs d4)" and tv: "case t path of None \<Rightarrow> v = None
        | Some i \<Rightarrow> (if clean d4 i then v = Some (blocks d4 i) else v \<noteq> None)"
      by (auto simp: crash_read_def)
    show ?thesis
    proof (cases "t \<in> set (dirs d1)")
      case True
      with tv have "crash_read d3 path v"
        unfolding crash_read_def b4 n3(2) by blast
      with keep [of d3] p1 n3(2) b3(3) show ?thesis by metis
    next
      case False
      with t n4 have "t path = Some (tmp_inode d tmp)" by simp
      with tv b4 b3 show ?thesis by simp
    qed
  next
    case 6
    with cr n5 b5 b3 show ?thesis by (auto simp: crash_read_def)
  qed
qed

lemma replace_done:
  assumes q: "quiet d tmp path"
  shows "fs_read (fs_run d (replace_ops tmp path data)) path = Some data \<and>
    (crash_read (fs_run d (replace_ops tmp path data)) path v \<longleftrightarrow> v = Some data)"
proof -
  obtain N where N: "dirs d = [N]" "names d = N"
    using quiet_dirs [OF q] by blast
  have "tmp \<noteq> path" using q by (simp add: quiet_def)
  with N show ?thesis
    by (cases "N tmp") (simp_all add: replace_ops_def names_def fs_read_def crash_read_def)
qed

end
