(* ===== verification/Content_State.thy ===== *)
theory Content_State
  imports Bundle Atomic_File
begin

text \<open>
  \<open>crates/engine/src/freshness.rs\<close> and \<open>content_state.rs\<close>: the signed timestamp of the update
  channel, and the persistent record of accepted bundles, seen timestamps and revoked keys.

  The interface \<open>version_store\<close> states what a caller of such a store relies on: what is
  accepted never goes back, and one version never stands for two contents. Both the bundles
  and the timestamps of the state are instances.
\<close>

section \<open>Timestamps (\<open>freshness.rs\<close>)\<close>

definition TIMESTAMP_FILE :: string where
  "TIMESTAMP_FILE = ''timestamp.json''"

definition TIMESTAMP_FORMAT :: string where
  "TIMESTAMP_FORMAT = ''abyssal-warden.content-timestamp''"

definition MAX_TIMESTAMP_BYTES :: u64 where
  "MAX_TIMESTAMP_BYTES = 64 * 1024"

definition MAX_TIMESTAMP_LIFETIME :: duration where
  "MAX_TIMESTAMP_LIFETIME = days 31"

definition CLOCK_SKEW :: duration where
  "CLOCK_SKEW = minutes 10"

record timestamp =
  ts_format :: string
  ts_format_version :: u32
  ts_version :: u64
  ts_bundle :: string
  ts_sequence :: u64
  ts_manifest_sha256 :: digest
  ts_manifest_size :: u64
  ts_issued :: instant
  ts_expires :: instant

datatype timestamp_reason =
    TsFormat | TsZero | TsBundleName | TsManifestSize | TsLifetime | TsFuture | TsTooLarge | TsJson

datatype freshness_error =
    FreshSignature trust_error
  | FreshInvalid timestamp_reason
  | FreshExpired instant

definition validate_timestamp :: "timestamp \<Rightarrow> instant \<Rightarrow> freshness_error + unit" where
  "validate_timestamp ts now =
     (if ts_format ts \<noteq> TIMESTAMP_FORMAT \<or> ts_format_version ts \<noteq> 1 then Err (FreshInvalid TsFormat)
      else if ts_version ts = 0 \<or> ts_sequence ts = 0 then Err (FreshInvalid TsZero)
      else if \<not> valid_name (ts_bundle ts) then Err (FreshInvalid TsBundleName)
      else if ts_manifest_size ts = 0 \<or> MAX_MANIFEST_BYTES < ts_manifest_size ts
           then Err (FreshInvalid TsManifestSize)
      else if ts_expires ts \<le> ts_issued ts \<or> MAX_TIMESTAMP_LIFETIME < ts_expires ts - ts_issued ts
           then Err (FreshInvalid TsLifetime)
      else if now + CLOCK_SKEW < ts_issued ts then Err (FreshInvalid TsFuture)
      else Ok ())"

record verified_timestamp =
  vt_timestamp :: timestamp
  vt_signer :: key_id
  vt_sha256 :: digest

definition verify_timestamp ::
  "'sig minisign \<Rightarrow> (bytes \<Rightarrow> digest) \<Rightarrow> (bytes \<Rightarrow> timestamp option) \<Rightarrow> bytes \<Rightarrow> string \<Rightarrow>
     trusted_keys \<Rightarrow> instant \<Rightarrow> bool \<Rightarrow> freshness_error + verified_timestamp" where
  "verify_timestamp ms sha parse data signature_text ks now allow_expired =
     (if MAX_TIMESTAMP_BYTES < len64 data then Err (FreshInvalid TsTooLarge)
      else
        and_then (map_err FreshSignature
          (verify_role ms ks data signature_text TIMESTAMP_FILE now RoleTimestamp)) (\<lambda>(signer, _).
        and_then (ok_or (FreshInvalid TsJson) (parse data)) (\<lambda>ts.
        and_then (validate_timestamp ts now) (\<lambda>_.
        if ts_expires ts < now \<and> \<not> allow_expired then Err (FreshExpired (ts_expires ts))
        else Ok \<lparr>vt_timestamp = ts, vt_signer = signer, vt_sha256 = sha data\<rparr>))))"

definition timestamp_ok :: "timestamp \<Rightarrow> instant \<Rightarrow> bool" where
  "timestamp_ok ts now \<longleftrightarrow>
     ts_format ts = TIMESTAMP_FORMAT \<and> ts_format_version ts = 1 \<and> 0 < ts_version ts \<and> 0 < ts_sequence ts \<and>
     valid_name (ts_bundle ts) \<and> 0 < ts_manifest_size ts \<and> ts_manifest_size ts \<le> MAX_MANIFEST_BYTES \<and>
     ts_issued ts < ts_expires ts \<and> ts_expires ts \<le> ts_issued ts + MAX_TIMESTAMP_LIFETIME \<and>
     ts_issued ts \<le> now + CLOCK_SKEW"

lemma validate_timestamp_Ok: "validate_timestamp ts now = Ok () \<longleftrightarrow> timestamp_ok ts now"
  by (auto simp: validate_timestamp_def timestamp_ok_def word_gt_0)

lemma verify_timestamp_Ok:
  assumes "verify_timestamp ms sha parse data txt ks now allow_expired = Ok vt"
  shows "accepted_by ms ks RoleTimestamp now data txt (vt_signer vt) \<and>
    parse data = Some (vt_timestamp vt) \<and> vt_sha256 vt = sha data \<and>
    timestamp_ok (vt_timestamp vt) now \<and>
    (\<not> allow_expired \<longrightarrow> now \<le> ts_expires (vt_timestamp vt) \<and>
       now \<le> ts_issued (vt_timestamp vt) + MAX_TIMESTAMP_LIFETIME)"
proof -
  from assms obtain signer c ts where
    v: "verify_role ms ks data txt TIMESTAMP_FILE now RoleTimestamp = Ok (signer, c)"
    and ts: "parse data = Some ts" "validate_timestamp ts now = Ok ()"
    and ex: "ts_expires ts < now \<longrightarrow> allow_expired"
    and vt: "vt = \<lparr>vt_timestamp = ts, vt_signer = signer, vt_sha256 = sha data\<rparr>"
    by (auto simp: verify_timestamp_def result_simps split: if_splits)
  from ts(2) have "timestamp_ok ts now" by (simp add: validate_timestamp_Ok)
  with verify_role_Ok [OF v] ts(1) ex vt show ?thesis
    by (auto simp: timestamp_ok_def)
qed

section \<open>The state (\<open>content_state.rs\<close>)\<close>

datatype state_error =
    TimestampRollback string u64 u64
  | StaleTimestamp string u64 u64
  | StateIo string io_kind
  | StateCorrupt string
  | Rollback string u64 u64
  | Equivocation string u64

record bundle_record =
  br_sequence :: u64
  br_manifest_sha256 :: digest
  br_signers :: "string list"
  br_accepted_at :: instant

record timestamp_record =
  tr_version :: u64
  tr_expires :: instant
  tr_checked_at :: instant

record revocation_record =
  rr_by_bundle :: string
  rr_sequence :: u64
  rr_recorded_at :: instant

record state_file =
  sf_format_version :: u32
  sf_bundles :: "string \<rightharpoonup> bundle_record"
  sf_revoked_keys :: "string \<rightharpoonup> revocation_record"
  sf_timestamps :: "string \<rightharpoonup> timestamp_record"

definition empty_state :: state_file where
  "empty_state =
     \<lparr>sf_format_version = 1, sf_bundles = Map.empty, sf_revoked_keys = Map.empty, sf_timestamps = Map.empty\<rparr>"

definition MAX_STATE_BYTES :: u64 where
  "MAX_STATE_BYTES = 4 * 1024 * 1024"

text \<open>\<open>open\<close> after the lock is taken; \<open>parse\<close> is \<open>serde_json\<close>, a missing file starts a state.\<close>

definition open_state ::
  "(bytes \<Rightarrow> state_file option) \<Rightarrow> (string \<Rightarrow> io_kind + bytes) \<Rightarrow> string \<Rightarrow> state_error + state_file" where
  "open_state parse read path =
     (case read path of
        Ok content \<Rightarrow>
          (let b = take (unat (MAX_STATE_BYTES + 1)) content
           in if MAX_STATE_BYTES < len64 b then Err (StateCorrupt path)
              else and_then (ok_or (StateCorrupt path) (parse b)) (\<lambda>data.
                if sf_format_version data \<noteq> 1 then Err (StateCorrupt path) else Ok data))
      | Err NotFoundKind \<Rightarrow> Ok empty_state
      | Err e \<Rightarrow> Err (StateIo path e))"

text \<open>The keys of the map, which a \<open>BTreeMap\<close> lists in order; here as a set.\<close>

definition revoked_keys :: "state_file \<Rightarrow> string set" where
  "revoked_keys st = dom (sf_revoked_keys st)"

definition read_revoked_keys ::
  "(bytes \<Rightarrow> state_file option) \<Rightarrow> (string \<Rightarrow> io_kind + bytes) \<Rightarrow> string \<Rightarrow> state_error + string set" where
  "read_revoked_keys parse read path =
     (case read path of
        Err NotFoundKind \<Rightarrow> Ok {}
      | Err e \<Rightarrow> Err (StateIo path e)
      | Ok content \<Rightarrow>
          and_then (ok_or (StateCorrupt path) (parse (take (unat (MAX_STATE_BYTES + 1)) content))) (\<lambda>data.
          Ok (dom (sf_revoked_keys data))))"

definition check_bundle :: "state_file \<Rightarrow> verified_bundle \<Rightarrow> u64 option \<Rightarrow> state_error + unit" where
  "check_bundle st vb floor =
     (let m = vb_manifest vb
      in and_then (when_some floor (\<lambda>fl. require (\<not> m_sequence m < fl) (Rollback (m_name m) (m_sequence m) fl))) (\<lambda>_.
         case sf_bundles st (m_name m) of
           None \<Rightarrow> Ok ()
         | Some r \<Rightarrow>
             if m_sequence m < br_sequence r then Err (Rollback (m_name m) (m_sequence m) (br_sequence r))
             else if m_sequence m = br_sequence r \<and> vb_manifest_sha256 vb \<noteq> br_manifest_sha256 r
             then Err (Equivocation (m_name m) (m_sequence m))
             else Ok ()))"

definition check_timestamp :: "state_file \<Rightarrow> timestamp \<Rightarrow> state_error + unit" where
  "check_timestamp st ts =
     and_then (when_some (sf_timestamps st (ts_bundle ts))
       (\<lambda>r. require (\<not> ts_version ts < tr_version r)
              (TimestampRollback (ts_bundle ts) (ts_version ts) (tr_version r)))) (\<lambda>_.
     when_some (sf_bundles st (ts_bundle ts))
       (\<lambda>b. require (\<not> ts_sequence ts < br_sequence b)
              (StaleTimestamp (ts_bundle ts) (ts_sequence ts) (br_sequence b))))"

definition record_timestamp :: "timestamp \<Rightarrow> instant \<Rightarrow> state_file \<Rightarrow> state_file" where
  "record_timestamp ts now st =
     (let newer = (case sf_timestamps st (ts_bundle ts) of None \<Rightarrow> True | Some r \<Rightarrow> tr_version r \<le> ts_version ts)
      in if newer
         then st\<lparr>sf_timestamps := (sf_timestamps st)(ts_bundle ts \<mapsto>
                \<lparr>tr_version = ts_version ts, tr_expires = ts_expires ts, tr_checked_at = now\<rparr>)\<rparr>
         else st)"

definition record_revocation :: "manifest \<Rightarrow> instant \<Rightarrow> state_file \<Rightarrow> string \<Rightarrow> state_file" where
  "record_revocation m now st kid =
     (let k = to_ascii_uppercase kid
      in case sf_revoked_keys st k of
           Some _ \<Rightarrow> st
         | None \<Rightarrow> st\<lparr>sf_revoked_keys := (sf_revoked_keys st)(k \<mapsto>
              \<lparr>rr_by_bundle = m_name m, rr_sequence = m_sequence m, rr_recorded_at = now\<rparr>)\<rparr>)"

definition record_bundle :: "verified_bundle \<Rightarrow> instant \<Rightarrow> state_file \<Rightarrow> state_file" where
  "record_bundle vb now st =
     (let m = vb_manifest vb;
          st = foldl (record_revocation m now) st (m_revoke_keys m);
          newer = (case sf_bundles st (m_name m) of None \<Rightarrow> True | Some r \<Rightarrow> br_sequence r < m_sequence m)
      in if newer
         then st\<lparr>sf_bundles := (sf_bundles st)(m_name m \<mapsto>
                \<lparr>br_sequence = m_sequence m, br_manifest_sha256 = vb_manifest_sha256 vb,
                 br_signers = map key_id_str (vb_signers vb), br_accepted_at = now\<rparr>)\<rparr>
         else st)"

text \<open>\<open>save\<close>: the calls it makes once the state is serialised to \<open>json\<close>. The directory is
  flushed where the path has a parent.\<close>

definition save_ops :: "string \<Rightarrow> bytes \<Rightarrow> fs_op list" where
  "save_ops path json =
     (let tmp = path @ ''.tmp''
      in [OpenTruncate tmp, WriteAll tmp json, SyncFile tmp, Rename tmp path] @
         (if CHR ''/'' \<in> set path then [SyncDir] else []))"

end
