(* ===== verification/Content_State_Props.thy ===== *)
theory Content_State_Props
  imports Content_State
begin

text \<open>
  Rollback protection over whole histories. \<open>offer\<close> is what the callers of the state do with
  a bundle or a timestamp: check it, and record it if the check passes.
\<close>

section \<open>The interface of a version store\<close>

text \<open>The events a machine accepts, in order.\<close>

fun accepted :: "('s \<Rightarrow> 'e \<Rightarrow> 's \<times> bool) \<Rightarrow> 's \<Rightarrow> 'e list \<Rightarrow> 'e list" where
  "accepted step s [] = []"
| "accepted step s (e # es) =
     (if snd (step s e) then [e] else []) @ accepted step (fst (step s e)) es"

definition final :: "('s \<Rightarrow> 'e \<Rightarrow> 's \<times> bool) \<Rightarrow> 's \<Rightarrow> 'e list \<Rightarrow> 's" where
  "final step s es = foldl (\<lambda>s e. fst (step s e)) s es"

text \<open>\<open>proj e\<close> is the name, version and content tag that \<open>e\<close> offers, \<open>latest\<close> what the
  store has recorded for a name.\<close>

definition supersedes :: "'v::linorder \<times> 'h \<Rightarrow> 'v \<times> 'h \<Rightarrow> bool" where
  "supersedes a b \<longleftrightarrow> fst a \<le> fst b \<and> (fst a = fst b \<longrightarrow> snd a = snd b)"

text \<open>What a list of events offers for one name, in order.\<close>

definition history :: "('e \<Rightarrow> (string \<times> 'v) option) \<Rightarrow> string \<Rightarrow> 'e list \<Rightarrow> 'v list" where
  "history proj n es =
     concat (map (\<lambda>e. case proj e of None \<Rightarrow> [] | Some (m, v) \<Rightarrow> (if m = n then [v] else [])) es)"

definition recorded_first :: "'a option \<Rightarrow> 'a list" where
  "recorded_first r = (case r of None \<Rightarrow> [] | Some v \<Rightarrow> [v])"

definition last_of :: "'a list \<Rightarrow> 'a option" where
  "last_of xs = (if xs = [] then None else Some (last xs))"

locale version_store =
  fixes step :: "'s \<Rightarrow> 'e \<Rightarrow> 's \<times> bool"
    and proj :: "'e \<Rightarrow> (string \<times> 'v::linorder \<times> 'h) option"
    and latest :: "'s \<Rightarrow> string \<Rightarrow> ('v \<times> 'h) option"
  assumes refused: "\<not> snd (step s e) \<Longrightarrow> latest (fst (step s e)) = latest s"
    and unrelated: "proj e = None \<Longrightarrow> latest (fst (step s e)) = latest s"
    and accept_newer: "snd (step s e) \<Longrightarrow> proj e = Some (n, vh) \<Longrightarrow> latest s n = Some old \<Longrightarrow> supersedes old vh"
    and accept_records: "snd (step s e) \<Longrightarrow> proj e = Some (n, vh) \<Longrightarrow>
          latest (fst (step s e)) = (latest s)(n \<mapsto> vh)"
begin

lemma supersedes_trans: "supersedes a b \<Longrightarrow> supersedes b c \<Longrightarrow> supersedes a c"
  for a b c :: "'v \<times> 'h"
  by (auto simp: supersedes_def)

text \<open>What is recorded of a name, followed by what is accepted for it, is ordered, and its
  last element is what is recorded in the end.\<close>

lemma history_ordered:
  "sorted_wrt supersedes (recorded_first (latest s n) @ history proj n (accepted step s es)) \<and>
   latest (final step s es) n =
     last_of (recorded_first (latest s n) @ history proj n (accepted step s es))"
proof (induction es arbitrary: s)
  case Nil
  then show ?case
    by (cases "latest s n") (simp_all add: recorded_first_def last_of_def history_def final_def)
next
  case (Cons e es)
  let ?s = "fst (step s e)"
  let ?h = "history proj n (accepted step ?s es)"
  have fin: "final step s (e # es) = final step ?s es"
    by (simp add: final_def)
  show ?case
  proof (cases "snd (step s e) \<and> (\<exists>vh. proj e = Some (n, vh))")
    case True
    then obtain vh where p: "proj e = Some (n, vh)" "snd (step s e)" by auto
    then have l: "latest ?s n = Some vh"
      using accept_records [OF p(2,1)] by simp
    have h: "history proj n (accepted step s (e # es)) = vh # ?h"
      using p by (simp add: history_def)
    have older: "supersedes old vh" if "latest s n = Some old" for old
      using accept_newer [OF p(2,1) that] .
    from Cons [of ?s] l have srt: "sorted_wrt supersedes (vh # ?h)" and
      lst: "latest (final step ?s es) n = last_of (vh # ?h)"
      by (simp_all add: recorded_first_def)
    show ?thesis
      unfolding fin h
    proof (cases "latest s n")
      case None
      with srt lst show "sorted_wrt supersedes (recorded_first (latest s n) @ vh # ?h) \<and>
          latest (final step ?s es) n = last_of (recorded_first (latest s n) @ vh # ?h)"
        by (simp add: recorded_first_def)
    next
      case (Some old)
      have "supersedes old v" if "v \<in> set (vh # ?h)" for v
        using that srt older [OF Some] supersedes_trans [of old vh v] by auto
      with srt lst Some show "sorted_wrt supersedes (recorded_first (latest s n) @ vh # ?h) \<and>
          latest (final step ?s es) n = last_of (recorded_first (latest s n) @ vh # ?h)"
        by (simp add: recorded_first_def last_of_def)
    qed
  next
    case False
    then have l: "latest ?s n = latest s n"
    proof (cases "snd (step s e) \<and> proj e \<noteq> None")
      case True
      then obtain m vh where p: "proj e = Some (m, vh)" "snd (step s e)" by auto
      with False have "m \<noteq> n" by auto
      with accept_records [OF p(2,1)] show ?thesis by simp
    next
      case other: False
      then show ?thesis using refused unrelated by metis
    qed
    have h: "history proj n (accepted step s (e # es)) = ?h"
      using False by (auto simp: history_def split: option.splits)
    show ?thesis
      unfolding fin h using Cons [of ?s] l by simp
  qed
qed

end

section \<open>The content state as a version store\<close>

datatype state_event =
    OfferBundle verified_bundle "u64 option" instant
  | OfferTimestamp timestamp instant

fun offer :: "state_file \<Rightarrow> state_event \<Rightarrow> state_file \<times> bool" where
  "offer st (OfferBundle vb floor now) =
     (case check_bundle st vb floor of
        Err _ \<Rightarrow> (st, False) | Ok _ \<Rightarrow> (record_bundle vb now st, True))"
| "offer st (OfferTimestamp ts now) =
     (case check_timestamp st ts of
        Err _ \<Rightarrow> (st, False) | Ok _ \<Rightarrow> (record_timestamp ts now st, True))"

fun bundle_offer :: "state_event \<Rightarrow> (string \<times> u64 \<times> digest) option" where
  "bundle_offer (OfferBundle vb _ _) =
     Some (m_name (vb_manifest vb), m_sequence (vb_manifest vb), vb_manifest_sha256 vb)"
| "bundle_offer (OfferTimestamp _ _) = None"

fun timestamp_offer :: "state_event \<Rightarrow> (string \<times> u64 \<times> unit) option" where
  "timestamp_offer (OfferTimestamp ts _) = Some (ts_bundle ts, ts_version ts, ())"
| "timestamp_offer (OfferBundle _ _ _) = None"

definition latest_bundle :: "state_file \<Rightarrow> string \<Rightarrow> (u64 \<times> digest) option" where
  "latest_bundle st n = map_option (\<lambda>r. (br_sequence r, br_manifest_sha256 r)) (sf_bundles st n)"

definition latest_timestamp :: "state_file \<Rightarrow> string \<Rightarrow> (u64 \<times> unit) option" where
  "latest_timestamp st n = map_option (\<lambda>r. (tr_version r, ())) (sf_timestamps st n)"

lemma record_revocation_frame [simp]:
  "sf_bundles (record_revocation m now st kid) = sf_bundles st"
  "sf_timestamps (record_revocation m now st kid) = sf_timestamps st"
  by (simp_all add: record_revocation_def Let_def split: option.splits)

lemma record_revocations_frame [simp]:
  "sf_bundles (foldl (record_revocation m now) st kids) = sf_bundles st"
  "sf_timestamps (foldl (record_revocation m now) st kids) = sf_timestamps st"
  by (induction kids arbitrary: st) auto

lemma record_bundle_timestamps [simp]: "sf_timestamps (record_bundle vb now st) = sf_timestamps st"
  by (simp add: record_bundle_def Let_def)

lemma record_timestamp_frame [simp]:
  "sf_bundles (record_timestamp ts now st) = sf_bundles st"
  "sf_revoked_keys (record_timestamp ts now st) = sf_revoked_keys st"
  by (simp_all add: record_timestamp_def Let_def)

lemma check_bundle_Ok:
  "check_bundle st vb floor = Ok () \<longleftrightarrow>
     (case floor of None \<Rightarrow> True | Some fl \<Rightarrow> fl \<le> m_sequence (vb_manifest vb)) \<and>
     (case latest_bundle st (m_name (vb_manifest vb)) of None \<Rightarrow> True
      | Some old \<Rightarrow> supersedes old (m_sequence (vb_manifest vb), vb_manifest_sha256 vb))"
  by (auto simp: check_bundle_def Let_def result_simps latest_bundle_def supersedes_def not_less
      split: option.splits if_splits)

lemma check_timestamp_Ok:
  "check_timestamp st ts = Ok () \<longleftrightarrow>
     (case sf_timestamps st (ts_bundle ts) of None \<Rightarrow> True | Some r \<Rightarrow> tr_version r \<le> ts_version ts) \<and>
     (case sf_bundles st (ts_bundle ts) of None \<Rightarrow> True | Some b \<Rightarrow> br_sequence b \<le> ts_sequence ts)"
  by (auto simp: check_timestamp_def result_simps not_less split: option.splits)

lemma record_bundle_latest:
  assumes "check_bundle st vb floor = Ok ()"
  shows "latest_bundle (record_bundle vb now st) =
    (latest_bundle st)(m_name (vb_manifest vb) \<mapsto> (m_sequence (vb_manifest vb), vb_manifest_sha256 vb))"
  using assms
  by (auto simp: check_bundle_Ok record_bundle_def Let_def latest_bundle_def supersedes_def fun_eq_iff
      split: option.splits)

lemma record_timestamp_latest:
  assumes "check_timestamp st ts = Ok ()"
  shows "latest_timestamp (record_timestamp ts now st) = (latest_timestamp st)(ts_bundle ts \<mapsto> (ts_version ts, ()))"
  using assms
  by (auto simp: check_timestamp_Ok record_timestamp_def Let_def latest_timestamp_def fun_eq_iff
      split: option.splits)

interpretation bundle_store: version_store offer bundle_offer latest_bundle
proof
  fix st e
  show "\<not> snd (offer st e) \<Longrightarrow> latest_bundle (fst (offer st e)) = latest_bundle st"
    by (cases e) (auto split: sum.splits)
  show "bundle_offer e = None \<Longrightarrow> latest_bundle (fst (offer st e)) = latest_bundle st"
    by (cases e) (auto simp: latest_bundle_def fun_eq_iff split: sum.splits)
next
  fix st e n vh old
  assume "snd (offer st e)" "bundle_offer e = Some (n, vh)" "latest_bundle st n = Some old"
  then show "supersedes old vh"
    by (cases e) (auto simp: check_bundle_Ok split: sum.splits)
next
  fix st e n vh
  assume "snd (offer st e)" "bundle_offer e = Some (n, vh)"
  then show "latest_bundle (fst (offer st e)) = (latest_bundle st)(n \<mapsto> vh)"
    by (cases e) (auto simp: record_bundle_latest split: sum.splits)
qed

interpretation timestamp_store: version_store offer timestamp_offer latest_timestamp
proof
  fix st e
  show "\<not> snd (offer st e) \<Longrightarrow> latest_timestamp (fst (offer st e)) = latest_timestamp st"
    by (cases e) (auto split: sum.splits)
  show "timestamp_offer e = None \<Longrightarrow> latest_timestamp (fst (offer st e)) = latest_timestamp st"
    by (cases e) (auto simp: latest_timestamp_def fun_eq_iff split: sum.splits)
next
  fix st e n vh old
  assume "snd (offer st e)" "timestamp_offer e = Some (n, vh)" "latest_timestamp st n = Some old"
  then show "supersedes old vh"
    by (cases e) (auto simp: check_timestamp_Ok latest_timestamp_def supersedes_def split: sum.splits)
next
  fix st e n vh
  assume "snd (offer st e)" "timestamp_offer e = Some (n, vh)"
  then show "latest_timestamp (fst (offer st e)) = (latest_timestamp st)(n \<mapsto> vh)"
    by (cases e) (auto simp: record_timestamp_latest split: sum.splits)
qed

section \<open>Revocations\<close>

lemma record_revocation_keys:
  "dom (sf_revoked_keys (record_revocation m now st kid)) =
     insert (to_ascii_uppercase kid) (dom (sf_revoked_keys st))"
  by (auto simp: record_revocation_def Let_def split: option.splits)

lemma record_revocation_kept:
  "sf_revoked_keys st k = Some r \<Longrightarrow> sf_revoked_keys (record_revocation m now st kid) k = Some r"
  by (auto simp: record_revocation_def Let_def split: option.splits)

lemma record_revocations:
  "dom (sf_revoked_keys (foldl (record_revocation m now) st kids)) =
     to_ascii_uppercase ` set kids \<union> dom (sf_revoked_keys st)"
  "sf_revoked_keys st k = Some r \<Longrightarrow> sf_revoked_keys (foldl (record_revocation m now) st kids) k = Some r"
  by (induction kids arbitrary: st) (auto simp: record_revocation_keys record_revocation_kept)

lemma record_bundle_revoked:
  "revoked_keys (record_bundle vb now st) =
     to_ascii_uppercase ` set (m_revoke_keys (vb_manifest vb)) \<union> revoked_keys st"
  by (simp add: revoked_keys_def record_bundle_def Let_def record_revocations(1))

lemma record_timestamp_revoked: "revoked_keys (record_timestamp ts now st) = revoked_keys st"
  by (simp add: revoked_keys_def)

fun event_revocations :: "state_event \<Rightarrow> string set" where
  "event_revocations (OfferBundle vb _ _) = to_ascii_uppercase ` set (m_revoke_keys (vb_manifest vb))"
| "event_revocations (OfferTimestamp _ _) = {}"

lemma offer_revoked:
  "revoked_keys (fst (offer st e)) =
     (case e of OfferBundle vb _ _ \<Rightarrow>
        (if snd (offer st e) then to_ascii_uppercase ` set (m_revoke_keys (vb_manifest vb)) else {}) \<union> revoked_keys st
      | OfferTimestamp _ _ \<Rightarrow> revoked_keys st)"
  by (cases e) (auto simp: record_bundle_revoked record_timestamp_revoked split: sum.splits)

lemma final_revoked:
  "revoked_keys (final offer st es) = revoked_keys st \<union> \<Union> (event_revocations ` set (accepted offer st es))"
proof (induction es arbitrary: st)
  case (Cons e es)
  have "revoked_keys (fst (offer st e)) =
      revoked_keys st \<union> (if snd (offer st e) then event_revocations e else {})"
    unfolding offer_revoked by (cases e) (simp_all add: Un_commute del: offer.simps)
  with Cons [of "fst (offer st e)"] show ?case
    by (simp add: final_def del: offer.simps) blast
qed (simp add: final_def)

section \<open>Saving\<close>

lemma save_ops_prefix:
  "prefix ops (save_ops path json) \<Longrightarrow> prefix ops (replace_ops (path @ ''.tmp'') path json)"
  by (auto simp: save_ops_def replace_ops_def Let_def prefix_Cons split: if_splits)

end
