(* ===== verification/Signatures.thy ===== *)
theory Signatures
  imports Core_Finding Trust
begin

text \<open>
  \<open>crates/engine/src/signatures.rs\<close>: the exact-hash signature database and its detector.

  The two \<open>serde_json\<close> parses (the lenient header, the strict database) are parameters, as are
  reading the file, the random identifier and the time of a finding, and the engine's version.
\<close>

section \<open>The database\<close>

definition FORMAT_ID :: string where
  "FORMAT_ID = ''abyssal-warden.hash-signatures''"

definition FORMAT_VERSION :: u32 where
  "FORMAT_VERSION = 1"

definition MAX_DATABASE_BYTES :: u64 where
  "MAX_DATABASE_BYTES = 256 * 1024 * 1024"

definition MAX_DB_SIGNATURES :: nat where
  "MAX_DB_SIGNATURES = 2000000"

definition MAX_ID_LEN :: nat where
  "MAX_ID_LEN = 128"

definition MAX_SIG_NAME_LEN :: nat where
  "MAX_SIG_NAME_LEN = 256"

definition MAX_VERSION_LEN :: nat where
  "MAX_VERSION_LEN = 64"

definition MAX_TEXT_LEN :: nat where
  "MAX_TEXT_LEN = 4096"

definition HASH_DETECTOR_ID :: string where
  "HASH_DETECTOR_ID = ''hash-signatures''"

datatype signature_db_error =
    DbIo io_kind
  | DbTooLarge u64
  | DbJson
  | WrongFormat string
  | UnsupportedVersion u32
  | TooManySignatures
  | InvalidField string string string
  | DuplicateId string
  | DuplicateHash digest string string

record database_meta =
  dm_name :: string
  dm_version :: string
  dm_description :: "string option"
  dm_license :: "string option"

record hash_signature =
  hs_id :: string
  hs_name :: string
  hs_sha256 :: digest
  hs_category :: threat_category
  hs_severity :: severity
  hs_rule_version :: u32
  hs_description :: "string option"
  hs_remediation :: "string option"

text \<open>\<open>Header\<close> is the pair of format and version, \<open>RawDatabase\<close> the pair of metadata and
  signatures.\<close>

record hash_database =
  hd_meta :: database_meta
  hd_signatures :: "hash_signature list"
  hd_by_hash :: "digest \<rightharpoonup> nat"

definition invalid :: "string \<Rightarrow> string \<Rightarrow> string \<Rightarrow> signature_db_error" where
  "invalid location field reason = InvalidField location field reason"

definition check_id :: "string \<Rightarrow> string \<Rightarrow> signature_db_error + unit" where
  "check_id location i =
     (if i = [] \<or> MAX_ID_LEN < length i
      then Err (invalid location ''id'' ''must be 1 to 128 characters'')
      else if \<not> list_all (\<lambda>b. is_ascii_alphanumeric b \<or> b \<in> set ''._-:'') i
      then Err (invalid location ''id''
        (''may contain only ASCII letters, digits, '' @ [CHR 0x27] @ ''.'' @ [CHR 0x27] @ '', '' @ [CHR 0x27] @
         ''_'' @ [CHR 0x27] @ '', '' @ [CHR 0x27] @ ''-'' @ [CHR 0x27] @ '' and '' @ [CHR 0x27] @ '':'' @ [CHR 0x27]))
      else Ok ())"

definition check_text :: "string \<Rightarrow> string \<Rightarrow> string \<Rightarrow> nat \<Rightarrow> bool \<Rightarrow> bool \<Rightarrow> signature_db_error + unit" where
  "check_text location field v max_len allow_newlines required =
     (if required \<and> trim v = [] then Err (invalid location field ''must not be empty'')
      else if max_len < length v
      then Err (invalid location field (''must be at most '' @ show_nat max_len @ '' bytes''))
      else if has_unsafe_chars v allow_newlines
      then Err (invalid location field ''contains control or bidirectional formatting characters'')
      else Ok ())"

definition check_meta :: "database_meta \<Rightarrow> signature_db_error + unit" where
  "check_meta m =
     (let db = ''database'' in
      and_then (check_text db ''name'' (dm_name m) MAX_SIG_NAME_LEN False True) (\<lambda>_.
      and_then (check_text db ''version'' (dm_version m) MAX_VERSION_LEN False True) (\<lambda>_.
      and_then (when_some (dm_description m) (\<lambda>d. check_text db ''description'' d MAX_TEXT_LEN True False)) (\<lambda>_.
      when_some (dm_license m) (\<lambda>l. check_text db ''license'' l MAX_SIG_NAME_LEN False True)))))"

text \<open>The checks of one signature that do not depend on the others.\<close>

definition check_signature :: "nat \<Rightarrow> hash_signature \<Rightarrow> signature_db_error + unit" where
  "check_signature i sig =
     (let loc = ''signatures['' @ show_nat i @ '']'' in
      and_then (check_id loc (hs_id sig)) (\<lambda>_.
      and_then (check_text loc ''name'' (hs_name sig) MAX_SIG_NAME_LEN False True) (\<lambda>_.
      and_then (when_some (hs_description sig) (\<lambda>d. check_text loc ''description'' d MAX_TEXT_LEN True False)) (\<lambda>_.
      and_then (when_some (hs_remediation sig) (\<lambda>r. check_text loc ''remediation'' r MAX_TEXT_LEN True False)) (\<lambda>_.
      require (hs_rule_version sig \<noteq> 0) (invalid loc ''rule_version'' ''must be at least 1''))))))"

text \<open>The loop: the identifiers and the index built so far, over the rest of \<open>all\<close> from \<open>i\<close> on.\<close>

fun index_signatures ::
  "hash_signature list \<Rightarrow> nat \<Rightarrow> string set \<Rightarrow> (digest \<rightharpoonup> nat) \<Rightarrow> hash_signature list \<Rightarrow>
     signature_db_error + (digest \<rightharpoonup> nat)" where
  "index_signatures all i ids by_hash [] = Ok by_hash"
| "index_signatures all i ids by_hash (sig # rest) =
     and_then (check_signature i sig) (\<lambda>_.
     if hs_id sig \<in> ids then Err (DuplicateId (hs_id sig))
     else case by_hash (hs_sha256 sig) of
       Some prev \<Rightarrow> Err (DuplicateHash (hs_sha256 sig) (hs_id (all ! prev)) (hs_id sig))
     | None \<Rightarrow>
         index_signatures all (Suc i) (insert (hs_id sig) ids) (by_hash(hs_sha256 sig \<mapsto> i)) rest)"

definition validate_database ::
  "database_meta \<Rightarrow> hash_signature list \<Rightarrow> signature_db_error + hash_database" where
  "validate_database m sigs =
     (if MAX_DB_SIGNATURES < length sigs then Err TooManySignatures
      else
        and_then (check_meta m) (\<lambda>_.
        and_then (index_signatures sigs 0 {} Map.empty sigs) (\<lambda>by_hash.
        Ok \<lparr>hd_meta = m, hd_signatures = sigs, hd_by_hash = by_hash\<rparr>)))"

definition database_from_slice ::
  "(bytes \<Rightarrow> (string \<times> u32) option) \<Rightarrow> (bytes \<Rightarrow> (database_meta \<times> hash_signature list) option) \<Rightarrow>
     bytes \<Rightarrow> signature_db_error + hash_database" where
  "database_from_slice parse_header parse_raw data =
     (if MAX_DATABASE_BYTES < len64 data then Err (DbTooLarge MAX_DATABASE_BYTES)
      else
        and_then (ok_or DbJson (parse_header data)) (\<lambda>(format, version).
        if format \<noteq> FORMAT_ID then Err (WrongFormat (truncate_chars 64 format))
        else if version \<noteq> FORMAT_VERSION then Err (UnsupportedVersion version)
        else and_then (ok_or DbJson (parse_raw data)) (\<lambda>(m, sigs). validate_database m sigs)))"

text \<open>\<open>from_path\<close>: \<open>file\<close> gives the length of the metadata and the content of the open file.\<close>

definition database_from_path ::
  "(bytes \<Rightarrow> (string \<times> u32) option) \<Rightarrow> (bytes \<Rightarrow> (database_meta \<times> hash_signature list) option) \<Rightarrow>
     io_kind + (u64 \<times> bytes) \<Rightarrow> signature_db_error + hash_database" where
  "database_from_path parse_header parse_raw file =
     and_then (map_err DbIo file) (\<lambda>(len, content).
     if MAX_DATABASE_BYTES < len then Err (DbTooLarge MAX_DATABASE_BYTES)
     else database_from_slice parse_header parse_raw (take (unat (MAX_DATABASE_BYTES + 1)) content))"

definition lookup :: "hash_database \<Rightarrow> digest \<Rightarrow> hash_signature option" where
  "lookup db h = map_option (\<lambda>i. hd_signatures db ! i) (hd_by_hash db h)"

section \<open>The detector\<close>

record hash_detector =
  det_db :: hash_database
  det_signer :: "string option"

definition detector_new :: "hash_database \<Rightarrow> hash_detector" where
  "detector_new db = \<lparr>det_db = db, det_signer = None\<rparr>"

definition detector_verified_by :: "hash_database \<Rightarrow> key_id list \<Rightarrow> hash_detector" where
  "detector_verified_by db signers =
     \<lparr>det_db = db,
      det_signer = (if signers = [] then None else Some (join_with '','' (map key_id_str signers)))\<rparr>"

definition detector_verified :: "hash_database \<Rightarrow> key_id \<Rightarrow> hash_detector" where
  "detector_verified db signer = detector_verified_by db [signer]"

definition detector_info_of :: "string \<Rightarrow> hash_detector \<Rightarrow> detector_info" where
  "detector_info_of engine_version d =
     \<lparr>di_id = HASH_DETECTOR_ID, di_version = engine_version,
      di_database = Some
        \<lparr>dbi_name = dm_name (hd_meta (det_db d)), dbi_version = dm_version (hd_meta (det_db d)),
         dbi_entries = len64 (hd_signatures (det_db d)), dbi_signer = det_signer d\<rparr>\<rparr>"

definition category_action :: "threat_category \<Rightarrow> recommended_action" where
  "category_action c =
     (case c of Malware \<Rightarrow> Quarantine | TestIndicator \<Rightarrow> ActionNone | _ \<Rightarrow> Review)"

definition hash_finding ::
  "string \<Rightarrow> string \<Rightarrow> instant \<Rightarrow> database_meta \<Rightarrow> hash_signature \<Rightarrow> file_observation \<Rightarrow> finding" where
  "hash_finding engine_version fid now m sig file =
     \<lparr>f_id = fid, f_kind = KnownIndicator, f_name = hs_name sig, f_severity = hs_severity sig,
      f_confidence = Confirmed, f_category = hs_category sig, f_target = obs_target file,
      f_source =
        \<lparr>src_detector = HASH_DETECTOR_ID, src_detector_version = engine_version,
         src_rule_id = Some (hs_id sig), src_rule_version = Some (hs_rule_version sig),
         src_database_name = Some (dm_name m), src_database_version = Some (dm_version m)\<rparr>,
      f_evidence =
        [\<lparr>ev_kind = ExactSha256Match,
          ev_summary = ''SHA-256 '' @ to_hex (obs_sha256 file) @ '' equals signature '' @ hs_id sig @
            '' (rule version '' @ show_nat (unat (hs_rule_version sig)) @ '')''\<rparr>],
      f_explanation =
        ''The file is byte-for-byte identical to the indicator recorded as signature '' @ hs_id sig @
        '' in database '' @ quoted (dm_name m) @ '' version '' @ dm_version m @
        ''. The label '' @ quoted (hs_name sig) @ '' is only as accurate as that database entry.'',
      f_recommended_action = category_action (hs_category sig),
      f_remediation_guidance = hs_remediation sig,
      f_remediation_status = NotAttempted, f_remediation_detail = None, f_detected_at = now\<rparr>"

definition hash_inspect ::
  "string \<Rightarrow> string \<Rightarrow> instant \<Rightarrow> hash_detector \<Rightarrow> file_observation \<Rightarrow> finding list" where
  "hash_inspect engine_version fid now d file =
     (case lookup (det_db d) (obs_sha256 file) of
        None \<Rightarrow> []
      | Some sig \<Rightarrow> [hash_finding engine_version fid now (hd_meta (det_db d)) sig file])"

section \<open>The index\<close>

definition database_ok :: "hash_database \<Rightarrow> bool" where
  "database_ok db \<longleftrightarrow>
     distinct (map hs_id (hd_signatures db)) \<and> distinct (map hs_sha256 (hd_signatures db)) \<and>
     (\<forall>h i. hd_by_hash db h = Some i \<longleftrightarrow> i < length (hd_signatures db) \<and> hs_sha256 (hd_signatures db ! i) = h)"

lemma index_signatures_Ok:
  assumes "index_signatures all (length pre) ids by_hash rest = Ok by_hash'"
    and "all = pre @ rest" and "ids = hs_id ` set pre"
    and "distinct (map hs_id pre)" and "distinct (map hs_sha256 pre)"
    and "\<forall>h i. by_hash h = Some i \<longleftrightarrow> i < length pre \<and> hs_sha256 (pre ! i) = h"
  shows "distinct (map hs_id all) \<and> distinct (map hs_sha256 all) \<and>
    (\<forall>h i. by_hash' h = Some i \<longleftrightarrow> i < length all \<and> hs_sha256 (all ! i) = h)"
  using assms
proof (induction rest arbitrary: pre ids by_hash)
  case Nil
  then show ?case by simp
next
  case (Cons sig rest)
  from Cons.prems(1) have new: "hs_id sig \<notin> ids" "by_hash (hs_sha256 sig) = None"
    and rec: "index_signatures all (Suc (length pre)) (insert (hs_id sig) ids)
      (by_hash(hs_sha256 sig \<mapsto> length pre)) rest = Ok by_hash'"
    by (auto simp: result_simps split: if_splits option.splits)
  have fresh: "hs_sha256 sig \<notin> hs_sha256 ` set pre"
    using new(2) Cons.prems(6) by (metis image_iff in_set_conv_nth option.distinct(1))
  then have fresh': "i < length pre \<Longrightarrow> hs_sha256 (pre ! i) \<noteq> hs_sha256 sig" for i
    by (metis imageI nth_mem)
  show ?case
  proof (rule Cons.IH [of "pre @ [sig]"])
    show "index_signatures all (length (pre @ [sig])) (insert (hs_id sig) ids)
      (by_hash(hs_sha256 sig \<mapsto> length pre)) rest = Ok by_hash'"
      using rec by simp
    show "\<forall>h i. (by_hash(hs_sha256 sig \<mapsto> length pre)) h = Some i \<longleftrightarrow>
        i < length (pre @ [sig]) \<and> hs_sha256 ((pre @ [sig]) ! i) = h"
      using Cons.prems(6) fresh' by (auto simp: nth_append less_Suc_eq)
  qed (use Cons.prems new fresh in auto)
qed

lemma validate_database_Ok:
  assumes "validate_database m sigs = Ok db"
  shows "hd_meta db = m \<and> hd_signatures db = sigs \<and> database_ok db"
proof -
  from assms obtain by_hash where i: "index_signatures sigs 0 {} Map.empty sigs = Ok by_hash"
    and db: "db = \<lparr>hd_meta = m, hd_signatures = sigs, hd_by_hash = by_hash\<rparr>"
    by (auto simp: validate_database_def result_simps split: if_splits)
  from index_signatures_Ok [of sigs "[]" "{}" Map.empty sigs by_hash] i db show ?thesis
    by (simp add: database_ok_def)
qed

lemma lookup_Some:
  assumes "database_ok db"
  shows "lookup db h = Some sig \<longleftrightarrow> sig \<in> set (hd_signatures db) \<and> hs_sha256 sig = h"
proof
  assume "lookup db h = Some sig"
  then show "sig \<in> set (hd_signatures db) \<and> hs_sha256 sig = h"
    using assms by (auto simp: lookup_def database_ok_def)
next
  assume "sig \<in> set (hd_signatures db) \<and> hs_sha256 sig = h"
  then obtain i where "i < length (hd_signatures db)" "hd_signatures db ! i = sig" "hs_sha256 sig = h"
    by (auto simp: in_set_conv_nth)
  then show "lookup db h = Some sig"
    using assms by (auto simp: lookup_def database_ok_def)
qed

lemma from_slice_ok:
  assumes "database_from_slice ph pr data = Ok db"
  shows "database_ok db"
  using assms validate_database_Ok
  by (fastforce simp: database_from_slice_def result_simps split: if_splits)

lemma filter_key_single:
  "distinct (map f xs) \<Longrightarrow> x \<in> set xs \<Longrightarrow> filter (\<lambda>y. f y = f x) xs = [x]"
proof (induction xs)
  case (Cons y xs)
  show ?case
  proof (cases "x = y")
    case True
    with Cons.prems(1) show ?thesis by (auto simp: filter_empty_conv image_iff dest: sym)
  next
    case False
    with Cons show ?thesis by (auto simp: image_iff)
  qed
qed simp

lemma hash_inspect_filter:
  assumes "database_ok (det_db d)"
  shows "hash_inspect engine_version fid now d file =
    map (\<lambda>sig. hash_finding engine_version fid now (hd_meta (det_db d)) sig file)
      (filter (\<lambda>sig. hs_sha256 sig = obs_sha256 file) (hd_signatures (det_db d)))"
proof (cases "lookup (det_db d) (obs_sha256 file)")
  case None
  then have "\<forall>sig \<in> set (hd_signatures (det_db d)). hs_sha256 sig \<noteq> obs_sha256 file"
    using lookup_Some [OF assms] by force
  with None show ?thesis by (simp add: hash_inspect_def filter_empty_conv)
next
  case (Some sig)
  then have "sig \<in> set (hd_signatures (det_db d))" "hs_sha256 sig = obs_sha256 file"
    using lookup_Some [OF assms] by auto
  moreover have "distinct (map hs_sha256 (hd_signatures (det_db d)))"
    using assms by (simp add: database_ok_def)
  ultimately have "filter (\<lambda>sig. hs_sha256 sig = obs_sha256 file) (hd_signatures (det_db d)) = [sig]"
    by (metis filter_key_single)
  with Some show ?thesis by (simp add: hash_inspect_def)
qed

lemma hash_inspect_length: "length (hash_inspect engine_version fid now d file) \<le> 1"
  by (simp add: hash_inspect_def split: option.splits)

end
