(* ===== verification/Content_Theorems.thy ===== *)
theory Content_Theorems
  imports Content_State_Props Signatures
begin

text \<open>
  The properties of the content pipeline of \<open>crates/engine\<close>: keys and keyrings, signed files,
  bundles, timestamps, the recorded state and the signature database. The sample values that
  the instances below evaluate come first.
\<close>

section \<open>Sample values\<close>

text \<open>A signature scheme over texts: the key is the text it was decoded from, a signature text
  is its own decoding and verifies with the key it repeats.\<close>

definition sample_minisign :: "string minisign" where
  "sample_minisign =
     \<lparr>ms_key_from_base64 = (\<lambda>s. Some (as_bytes s)), ms_decode = Some,
      ms_verify = (\<lambda>key data sig. as_bytes sig = key), ms_comment = (\<lambda>_. [])\<rparr>"

definition sample_key :: trusted_key where
  "sample_key =
     \<lparr>tk_id = KeyId (replicate 8 1), tk_key = as_bytes ''key'', tk_roles = [RoleContent, RoleTimestamp],
      tk_not_before = None, tk_not_after = Some 1000, tk_revoked = False\<rparr>"

definition sample_keys :: trusted_keys where
  "sample_keys = \<lparr>ks_keys = [sample_key], ks_threshold = 0, ks_min_sequences = Map.empty\<rparr>"

definition sample_sha :: "bytes \<Rightarrow> digest" where
  "sample_sha bs = Sha256Digest (replicate 32 (of_nat (length bs)))"

definition sample_manifest :: manifest where
  "sample_manifest =
     \<lparr>m_format = MANIFEST_FORMAT, m_format_version = 1, m_name = ''base'', m_sequence = 7,
      m_issued = 0, m_expires = 100,
      m_files = [\<lparr>mf_path = ''a'', mf_kind = HashDatabase, mf_size = 2, mf_sha256 = sample_sha [1, 2]\<rparr>],
      m_revoke_keys = []\<rparr>"

definition sample_read :: "string \<Rightarrow> io_kind + bytes" where
  "sample_read p =
     (if p = ''b/manifest.json'' then Ok [1, 2, 3]
      else if p = ''b/manifest.json.minisig'' then Ok (as_bytes ''key'')
      else Err NotFoundKind)"

definition sample_root :: "string \<Rightarrow> string + bytes" where
  "sample_root p = (if p = ''a'' then Ok [1, 2] else Err ''missing'')"

definition sample_options :: load_options where
  "sample_options = \<lparr>lo_allow_expired = False, lo_now = 50\<rparr>"

definition sample_load :: "bundle_error + verified_bundle" where
  "sample_load =
     load_bundle sample_minisign sample_sha (\<lambda>_. Some sample_manifest) sample_read
       (\<lambda>_. Ok sample_root) ''b'' sample_keys sample_options"

definition sample_bundle :: verified_bundle where
  "sample_bundle =
     \<lparr>vb_dir = ''b'', vb_manifest = sample_manifest, vb_manifest_sha256 = sample_sha [1, 2, 3],
      vb_signers = [KeyId (replicate 8 1)], vb_expired = False,
      vb_files = [\<lparr>bfile_path = ''a'', bfile_kind = HashDatabase, bfile_data = [1, 2]\<rparr>]\<rparr>"

lemma absent_signatures:
  "\<forall>p \<in> set ps. read p = Err NotFoundKind \<Longrightarrow>
     signature_loop check read data ps signers problems found = Ok (signers, problems, found)"
  by (induction ps) (auto simp: read_signature_def read_bounded_def)

lemma sample_manifest_ok: "manifest_ok sample_manifest"
  by (simp add: has_unsafe_ascii manifest_ok_def sample_manifest_def valid_name_def MAX_NAME_LEN_def MAX_FILES_def
      MAX_REVOCATIONS_def valid_relative_path_def MAX_PATH_LEN_def MAX_CONTENT_FILE_BYTES_def
      is_ascii_alphanumeric_def is_ascii_alphabetic_def is_ascii_lower_def code_def)

lemma sample_verify:
  "verify sample_minisign sample_keys [1, 2, 3] ''key'' p 50 = Ok (KeyId (replicate 8 1), [])"
  by (simp add: verify_def verify_role_def sample_minisign_def sample_keys_def sample_key_def valid_at_def
      result_simps)

lemma sample_threshold: "threshold sample_keys = 1 \<and> \<not> keys_empty sample_keys"
  by (simp add: threshold_def sample_keys_def keys_empty_def)

lemma sample_signature: "read_signature sample_read ''b/manifest.json.minisig'' = Ok (Some (as_bytes ''key''))"
  by (simp add: read_signature_def read_bounded_def sample_read_def MAX_SIGNATURE_BYTES_def Let_def
      as_bytes_def)

lemma sample_utf8: "from_utf8 (as_bytes ''key'') = Some ''key''"
  by (simp add: from_utf8_Some valid_ascii code_def)

lemma sample_signatures:
  "verify_signatures sample_minisign sample_read ''b'' ''b/manifest.json'' [1, 2, 3] sample_keys 50 =
     Ok [KeyId (replicate 8 1)]"
proof -
  have "signature_paths ''b/manifest.json'' =
      ''b/manifest.json.minisig'' # map (\<lambda>n. ''b/manifest.json.minisig.'' @ show_nat n) [2..<Suc MAX_SIGNATURES]"
    by (simp add: signature_paths_def signature_path_def Let_def)
  moreover have "\<forall>p \<in> set (map (\<lambda>n. ''b/manifest.json.minisig.'' @ show_nat n) [2..<Suc MAX_SIGNATURES]).
      sample_read p = Err NotFoundKind"
    by (simp add: sample_read_def)
  ultimately show ?thesis
    by (simp add: verify_signatures_def sample_verify sample_signature sample_utf8 absent_signatures sample_threshold result_simps
        del: upt_Suc)
qed

lemma sample_load: "sample_load = Ok sample_bundle"
proof -
  have "read_bounded sample_read ''b/manifest.json'' MAX_MANIFEST_BYTES = Ok [1, 2, 3]"
    by (simp add: read_bounded_def sample_read_def MAX_MANIFEST_BYTES_def Let_def)
  moreover have "read_listed sample_sha sample_root (hd (m_files sample_manifest)) = Ok [1, 2]"
    by (simp add: read_listed_def sample_root_def sample_manifest_def Let_def sat_add_def)
  ultimately show ?thesis
    using sample_signatures sample_manifest_ok
    by (simp add: sample_load_def load_bundle_def sample_bundle_def sample_options_def validate_manifest_Ok
        path_join_def MANIFEST_FILE_def sample_manifest_def read_bundle_file_def Let_def sample_threshold result_simps)
qed

section \<open>Properties\<close>

text \<open>C1: A loaded bundle is exactly what its signed manifest lists. Its manifest was read
  within the size limit, satisfies every structural rule and has not expired unless the caller
  allowed it; at least the threshold of distinct keys, none revoked and each trusted for
  content at that time, signed those bytes; and every listed file has the listed size and
  digest, in the order of the manifest.\<close>

theorem loaded_bundle_verified:
  assumes "load_bundle ms sha parse read open_dir dir ks opts = Ok vb"
  shows "\<exists>data root. read_bounded read (path_join dir MANIFEST_FILE) MAX_MANIFEST_BYTES = Ok data \<and>
      parse data = Some (vb_manifest vb) \<and> vb_manifest_sha256 vb = sha data \<and>
      manifest_ok (vb_manifest vb) \<and>
      (lo_allow_expired opts \<or> lo_now opts \<le> m_expires (vb_manifest vb)) \<and>
      distinct (vb_signers vb) \<and> threshold ks \<le> length (vb_signers vb) \<and>
      (\<forall>kid \<in> set (vb_signers vb). \<exists>t. accepted_by ms ks RoleContent (lo_now opts) data t kid) \<and>
      open_dir dir = Ok root \<and> files_match sha root (m_files (vb_manifest vb)) (vb_files vb)"
  using load_bundle_Ok [OF assms] by (elim exE conjE, intro exI conjI) (assumption | linarith | metis not_le)+

theorem loaded_bundle_verified_witness:
  "\<exists>data t. vb_manifest_sha256 sample_bundle = sample_sha data \<and>
     accepted_by sample_minisign sample_keys RoleContent 50 data t (KeyId (replicate 8 1))"
  using loaded_bundle_verified [OF sample_load [unfolded sample_load_def]]
  by (auto simp: sample_bundle_def sample_options_def)

text \<open>A file loaded on its own is the file as read within the size limit. It has a signer
  only if that key is unrevoked, valid at the time, trusted for content and made a signature
  over those bytes, and only where one signature is enough; without a signer it is returned
  only under the policy that allows unsigned files.\<close>

theorem loaded_content_verified:
  assumes "load_content ms read now path max_bytes ks policy = Ok lc"
  shows "lc_path lc = path \<and> read_bounded read path max_bytes = Ok (lc_data lc) \<and>
    (case lc_signer lc of
       None \<Rightarrow> policy = AllowUnsigned
     | Some kid \<Rightarrow> threshold ks = 1 \<and> (\<exists>txt. accepted_by ms ks RoleContent now (lc_data lc) txt kid))"
  by (rule load_content_Ok [OF assms])

theorem loaded_content_verified_witness:
  "accepted_by sample_minisign sample_keys RoleContent 50 [1, 2, 3] ''key'' (KeyId (replicate 8 1)) \<and>
   (\<exists>txt. accepted_by sample_minisign sample_keys RoleContent 50 [1, 2, 3] txt (KeyId (replicate 8 1)))"
proof -
  have m: "read_bounded sample_read ''b/manifest.json'' 10 = Ok [1, 2, 3]"
    by (simp add: read_bounded_def sample_read_def Let_def)
  have "load_content sample_minisign sample_read 50 ''b/manifest.json'' 10 sample_keys RequireTrusted =
      Ok \<lparr>lc_path = ''b/manifest.json'', lc_data = [1, 2, 3], lc_signer = Some (KeyId (replicate 8 1)),
          lc_trusted_comment = Some []\<rparr>"
    using sample_threshold
    by (simp add: load_content_def m sample_signature signature_path_def check_loaded_def sample_verify
        sample_utf8 result_simps)
  from loaded_content_verified [OF this] show ?thesis
    by (auto simp: accepted_by_def sample_minisign_def sample_keys_def sample_key_def valid_at_def)
qed

text \<open>C10: A key marked as revoked never verifies anything again: no sequence of revocations,
  added keys and merged keyrings makes any role, data, signature or time acceptable for it.\<close>

theorem revocation_permanent:
  assumes "keys_ok ks" and "k \<in> set (ks_keys ks)" and "tk_revoked k"
  shows "verify_role ms (run_key_ops ms' parse ops ks) data txt path now role \<noteq> Ok (tk_id k, comment)"
  using revoked_not_accepted [OF assms] verify_role_Ok by blast

theorem revocation_permanent_witness:
  "verify_role sample_minisign
     (run_key_ops sample_minisign (\<lambda>_. None) [OpAddKey ''key'', OpAddKeyring [1]]
        (fst (revoke ''0101010101010101'' sample_keys)))
     [1] ''key'' ''f'' 50 RoleContent \<noteq> Ok (KeyId (replicate 8 1), [])"
proof -
  let ?k = "sample_key\<lparr>tk_revoked := True\<rparr>"
  have r: "ks_keys (fst (revoke ''0101010101010101'' sample_keys)) = [?k]"
    by code_simp
  show ?thesis
    using revocation_permanent [of "fst (revoke ''0101010101010101'' sample_keys)" ?k] r
    by (simp add: keys_ok_def sample_key_def)
qed

text \<open>C24: Merging a keyring, whatever it contains and whether or not it is accepted, keeps
  every key with its identity, its revocation and a validity window that is no wider, and never
  lowers the signature threshold or the least sequence number of any bundle.\<close>

theorem keyring_never_relaxes: "restricts ks (fst (add_keyring ms parse json ks))"
  by (rule restricts_keyring)

definition padded_entry :: keyring_entry where
  "padded_entry =
     \<lparr>ke_id = ''0000000000000000'', ke_public_key = '' AAAAAAAAAAAAAAAA'', ke_description = None,
      ke_not_before = None, ke_not_after = None, ke_revoked = False, ke_roles = [RoleContent]\<rparr>"

definition padded_keyring :: keyring_file where
  "padded_keyring =
     \<lparr>kf_format = KEYRING_FORMAT, kf_format_version = 1, kf_keys = [padded_entry], kf_policy = None,
      kf_bundles = []\<rparr>"

definition zero_key :: "key_role list \<Rightarrow> trusted_key" where
  "zero_key roles =
     \<lparr>tk_id = KeyId (replicate 8 0), tk_key = as_bytes ''AAAAAAAAAAAAAAAA'', tk_roles = roles,
      tk_not_before = None, tk_not_after = None, tk_revoked = False\<rparr>"

text \<open>A keyring can widen the roles of a key that was given before it. The check for
  a known key decodes the entry's text as it stands, adding the key trims it first; so an entry
  whose public key starts with a blank names the known key, counts as new and replaces its
  roles: here a key trusted for timestamps only becomes trusted for content.\<close>

theorem keyring_widens_roles:
  "\<exists>ms parse json ids. add_keyring (ms :: string minisign) parse json
       \<lparr>ks_keys = [zero_key [RoleTimestamp]], ks_threshold = 0, ks_min_sequences = Map.empty\<rparr> =
     (\<lparr>ks_keys = [zero_key [RoleContent]], ks_threshold = 0, ks_min_sequences = Map.empty\<rparr>, Ok ids)"
proof -
  let ?ks = "\<lparr>ks_keys = [zero_key [RoleTimestamp]], ks_threshold = 0, ks_min_sequences = Map.empty\<rparr>"
  have check: "check_entry 0 padded_entry = Ok ()"
    by (simp add: check_entry_def padded_entry_def)
  have unknown: "\<not> entry_existed padded_entry ?ks"
    by (simp add: entry_existed_def padded_entry_def base64_decode_def)
  have parsed: "parse_key_text sample_minisign (ke_public_key padded_entry) =
      Ok (KeyId (replicate 8 0), as_bytes ''AAAAAAAAAAAAAAAA'')"
  proof -
    have "str_lines '' AAAAAAAAAAAAAAAA'' = ['' AAAAAAAAAAAAAAAA'']"
      by code_simp
    moreover have "trim '' AAAAAAAAAAAAAAAA'' = ''AAAAAAAAAAAAAAAA''"
      by (simp add: trim_def trim_chars_def is_whitespace_def chars_ascii utf8_def utf8_char_def code_def
          flip: code_inject)
    ultimately have "key_line (ke_public_key padded_entry) = Some ''AAAAAAAAAAAAAAAA''"
      by (simp add: key_line_def padded_entry_def)
    moreover have "Option.bind (base64_decode ''AAAAAAAAAAAAAAAA'') get_2_10 = Some [0, 0, 0, 0, 0, 0, 0, 0]"
      by code_simp
    ultimately show ?thesis
      by (auto simp: parse_key_text_def sample_minisign_def eval_nat_numeral result_simps split: bind_splits)
  qed
  have kid: "eq_ignore_ascii_case (key_id_str (KeyId (replicate 8 0))) (ke_id padded_entry)"
    by code_simp
  have "add_entry sample_minisign ?ks (0, padded_entry) =
      (\<lparr>ks_keys = [zero_key [RoleContent]], ks_threshold = 0, ks_min_sequences = Map.empty\<rparr>,
       Ok (KeyId (replicate 8 0)))"
    using check unknown parsed kid
    by (simp add: add_entry_def add_key_text_def insert_key_def narrow_key_def zero_key_def opt_max_def
        opt_min_def padded_entry_def result_simps)
  then have "add_keyring sample_minisign (\<lambda>_. Some padded_keyring) [] ?ks =
      (\<lparr>ks_keys = [zero_key [RoleContent]], ks_threshold = 0, ks_min_sequences = Map.empty\<rparr>,
       Ok [KeyId (replicate 8 0)])"
    by (simp add: add_keyring_def check_keyring_def add_policy_def padded_keyring_def MAX_KEYRING_KEYS_def
        result_simps)
  then show ?thesis by blast
qed

text \<open>C9: What the recorded state accepts for one bundle name, starting from what it already
  holds, never goes back to a smaller sequence number and never changes the manifest of a
  sequence number, whatever else is offered in between, and the state holds the last of it.\<close>

theorem bundle_history_ordered:
  "sorted_wrt supersedes
     (recorded_first (latest_bundle st n) @ history bundle_offer n (accepted offer st es)) \<and>
   latest_bundle (final offer st es) n =
     last_of (recorded_first (latest_bundle st n) @ history bundle_offer n (accepted offer st es))"
  by (rule bundle_store.history_ordered)

text \<open>The same holds of the version numbers of the timestamps accepted for a bundle name.\<close>

theorem timestamp_history_ordered:
  "sorted_wrt supersedes
     (recorded_first (latest_timestamp st n) @ history timestamp_offer n (accepted offer st es)) \<and>
   latest_timestamp (final offer st es) n =
     last_of (recorded_first (latest_timestamp st n) @ history timestamp_offer n (accepted offer st es))"
  by (rule timestamp_store.history_ordered)

text \<open>The recorded revocations are exactly those held at the start and those of the
  accepted bundles; offers that are refused add none and nothing removes one.\<close>

theorem recorded_revocations_exact:
  "revoked_keys (final offer st es) = revoked_keys st \<union> \<Union> (event_revocations ` set (accepted offer st es))"
  by (rule final_revoked)

text \<open>C12: Saving the state survives a crash: whenever the machine stops, before, during or
  after the calls of \<open>save\<close>, the state file is found with its old content or with
  exactly the new one.\<close>

theorem state_save_crash_safe:
  assumes "quiet d (path @ ''.tmp'') path" and "prefix ops (save_ops path json)"
    and "crash_read (fs_run d ops) path v"
  shows "v = fs_read d path \<or> v = Some json"
  using replace_prefix_crash [OF assms(1) save_ops_prefix [OF assms(2)] assms(3)] .

definition sample_disk :: disk where
  "sample_disk =
     \<lparr>dirs = [[''/v/s'' \<mapsto> 0]], blocks = (\<lambda>_. [9]), clean = (\<lambda>_. True), next_inode = 1\<rparr>"

theorem state_save_crash_safe_witness:
  "fs_read sample_disk ''/v/s'' = Some [9] \<and>
   (Some [4] = fs_read sample_disk ''/v/s'' \<or> Some [4] = Some [4 :: u8])"
proof -
  have q: "quiet sample_disk (''/v/s'' @ ''.tmp'') ''/v/s''"
    by (simp add: quiet_def sample_disk_def names_def)
  have c: "crash_read (fs_run sample_disk (save_ops ''/v/s'' [4])) ''/v/s'' (Some [4])"
    by (simp add: save_ops_def sample_disk_def names_def crash_read_def Let_def)
  show ?thesis
    using state_save_crash_safe [OF q prefix_order.refl c] by (simp add: fs_read_def sample_disk_def names_def)
qed

text \<open>An accepted timestamp was signed by an unrevoked key trusted for timestamps,
  satisfies every structural rule, is not from the future beyond the allowed skew and, unless
  expired ones are allowed, is at most as old as the longest lifetime.\<close>

theorem timestamp_verified:
  assumes "verify_timestamp ms sha parse data txt ks now allow_expired = Ok vt"
  shows "accepted_by ms ks RoleTimestamp now data txt (vt_signer vt) \<and>
    parse data = Some (vt_timestamp vt) \<and> vt_sha256 vt = sha data \<and>
    timestamp_ok (vt_timestamp vt) now \<and>
    (allow_expired \<or> now \<le> min (ts_expires (vt_timestamp vt))
       (ts_issued (vt_timestamp vt) + MAX_TIMESTAMP_LIFETIME))"
  using verify_timestamp_Ok [OF assms] by auto

definition sample_timestamp :: timestamp where
  "sample_timestamp =
     \<lparr>ts_format = TIMESTAMP_FORMAT, ts_format_version = 1, ts_version = 3, ts_bundle = ''base'',
      ts_sequence = 7, ts_manifest_sha256 = sample_sha [1, 2, 3], ts_manifest_size = 3,
      ts_issued = 0, ts_expires = 100\<rparr>"

theorem timestamp_verified_witness:
  "accepted_by sample_minisign sample_keys RoleTimestamp 50 [5] ''key'' (KeyId (replicate 8 1)) \<and>
   timestamp_ok sample_timestamp 50"
proof -
  have ok: "timestamp_ok sample_timestamp 50"
    by (simp add: timestamp_ok_def sample_timestamp_def valid_name_def MAX_NAME_LEN_def MAX_MANIFEST_BYTES_def
        MAX_TIMESTAMP_LIFETIME_def CLOCK_SKEW_def is_ascii_alphanumeric_def
        is_ascii_alphabetic_def is_ascii_lower_def code_def)
  have "verify_role sample_minisign sample_keys [5] ''key'' TIMESTAMP_FILE 50 RoleTimestamp =
      Ok (KeyId (replicate 8 1), [])"
    by (simp add: verify_role_def sample_minisign_def sample_keys_def sample_key_def valid_at_def result_simps)
  then have "verify_timestamp sample_minisign sample_sha (\<lambda>_. Some sample_timestamp) [5] ''key'' sample_keys 50 False =
      Ok \<lparr>vt_timestamp = sample_timestamp, vt_signer = KeyId (replicate 8 1), vt_sha256 = sample_sha [5]\<rparr>"
    using ok by (simp add: verify_timestamp_def validate_timestamp_Ok MAX_TIMESTAMP_BYTES_def result_simps)
      (simp add: sample_timestamp_def)
  from timestamp_verified [OF this] show ?thesis by simp
qed

text \<open>C13: A loaded signature database matches exactly by digest: a file produces a finding
  when some signature lists its digest, exactly one, confirmed, about that file and carrying
  the signature's name and severity, and nothing otherwise.\<close>

theorem hash_detector_exact:
  assumes "database_from_slice parse_header parse_raw data = Ok (det_db d)"
  shows "hash_inspect engine_version fid now d file =
    map (\<lambda>sig. hash_finding engine_version fid now (hd_meta (det_db d)) sig file)
      (filter (\<lambda>sig. hs_sha256 sig = obs_sha256 file) (hd_signatures (det_db d))) \<and>
    length (hash_inspect engine_version fid now d file) \<le> 1"
  using hash_inspect_filter [OF from_slice_ok [OF assms]] hash_inspect_length by blast

definition sample_signature_entry :: hash_signature where
  "sample_signature_entry =
     \<lparr>hs_id = ''s1'', hs_name = ''n'', hs_sha256 = sample_sha [1, 2], hs_category = Malware,
      hs_severity = SevHigh, hs_rule_version = 1, hs_description = None, hs_remediation = None\<rparr>"

definition sample_database :: hash_database where
  "sample_database =
     \<lparr>hd_meta = \<lparr>dm_name = ''d'', dm_version = ''v'', dm_description = None, dm_license = None\<rparr>,
      hd_signatures = [sample_signature_entry], hd_by_hash = [sample_sha [1, 2] \<mapsto> 0]\<rparr>"

lemma sample_database:
  "database_from_slice (\<lambda>_. Some (FORMAT_ID, FORMAT_VERSION))
     (\<lambda>_. Some (hd_meta sample_database, [sample_signature_entry])) [] = Ok sample_database"
proof -
  have t: "trim [c] = [c]" "\<not> has_unsafe_chars [c] b" if "33 \<le> code c" "code c \<le> 126" for c b
    using that by (simp_all add: trim_def trim_chars_def is_whitespace_def chars_ascii utf8_def utf8_char_def
        has_unsafe_ascii)
  show ?thesis
    by (simp add: database_from_slice_def sample_database_def sample_signature_entry_def validate_database_def
        check_meta_def check_text_def check_signature_def check_id_def t code_def MAX_DB_SIGNATURES_def
        MAX_SIG_NAME_LEN_def MAX_VERSION_LEN_def MAX_ID_LEN_def MAX_DATABASE_BYTES_def
        is_ascii_alphanumeric_def is_ascii_alphabetic_def is_ascii_lower_def is_ascii_digit_def Let_def result_simps)
qed

definition sample_file :: file_observation where
  "sample_file =
     \<lparr>obs_path = ''f'', obs_sha256 = sample_sha [1, 2],
      obs_metadata = \<lparr>meta_size = 2, meta_modified = None, meta_unix_mode = None\<rparr>,
      obs_content = None, obs_deadline = 0, obs_member = None\<rparr>"

theorem hash_detector_exact_witness:
  "hash_inspect ''0.1'' ''id'' 0 (detector_new sample_database) sample_file =
     [hash_finding ''0.1'' ''id'' 0 (hd_meta sample_database) sample_signature_entry sample_file]"
proof -
  have "database_from_slice (\<lambda>_. Some (FORMAT_ID, FORMAT_VERSION))
     (\<lambda>_. Some (hd_meta sample_database, [sample_signature_entry])) [] = Ok (det_db (detector_new sample_database))"
    using sample_database by (simp add: detector_new_def)
  from hash_detector_exact [OF this, of "''0.1''" "''id''" 0 sample_file] show ?thesis
    by (simp add: detector_new_def sample_database_def sample_file_def) (simp add: sample_signature_entry_def)
qed

text \<open>C27: A path that a manifest may list stays below the bundle directory: it is relative,
  and resolving it from any base only appends its components, with no way up.\<close>

theorem listed_path_contained:
  assumes "valid_relative_path p"
  shows "resolve base (split_on (CHR ''/'') p) = base @ split_on (CHR ''/'') p \<and>
    \<not> prefix ''/'' p \<and> ''..'' \<notin> set (split_on (CHR ''/'') p)"
  using valid_relative_path_contained [OF assms] valid_relative_path_relative [OF assms] assms
  by (auto simp: valid_relative_path_def list_all_iff)

theorem listed_path_contained_witness:
  "resolve [''srv'', ''b''] (split_on (CHR ''/'') ''db/x.json'') = [''srv'', ''b'', ''db'', ''x.json''] \<and>
   \<not> valid_relative_path ''db/../x''"
proof -
  have "valid_relative_path ''db/x.json''"
    by (simp add: valid_relative_path_def MAX_PATH_LEN_def has_unsafe_ascii code_def)
  from listed_path_contained [OF this] show ?thesis
    by (simp add: valid_relative_path_def)
qed

end
