(* ===== verification/Ipc.thy ===== *)
theory Ipc
  imports Rust_Str
begin

text \<open>
  \<open>crates/ipc\<close>: the service protocol. Messages, request validation and the framing are from
  \<open>lib.rs\<close>, authorisation from \<open>policy.rs\<close>. A UUID is its 128-bit number, which the crate
  compares as such. \<open>serde_json\<close> is the parameter that turns a message into bytes and back;
  a JSON value that the protocol only passes on is a type variable.
\<close>

type_synonym uuid = "128 word"

definition PROTOCOL_VERSION :: u32 where
  "PROTOCOL_VERSION = 1"

definition MAX_REQUEST :: nat where
  "MAX_REQUEST = 64 * 1024"

definition MAX_RESPONSE :: nat where
  "MAX_RESPONSE = 64 * 1048576"

definition MAX_PATHS :: nat where
  "MAX_PATHS = 64"

definition MAX_PATH_BYTES :: nat where
  "MAX_PATH_BYTES = 4096"

section \<open>Requests\<close>

datatype ipc_op =
    OpPing
  | OpStatus
  | OpScan "string list" bool bool bool
  | OpSystemCheck bool
  | OpJobs
  | OpJob uuid
  | OpReport uuid
  | OpCancel uuid
  | OpSchedules
  | OpRunSchedule string
  | OpQuarantineList
  | OpQuarantineRestore string bool
  | OpQuarantineDelete string
  | OpVerifyAudit

record request =
  rq_version :: u32
  rq_id :: u64
  rq_op :: ipc_op

definition new_request :: "u64 \<Rightarrow> ipc_op \<Rightarrow> request" where
  "new_request i op = \<lparr>rq_version = PROTOCOL_VERSION, rq_id = i, rq_op = op\<rparr>"

datatype error_code =
    BadRequest | VersionMismatch | Unauthorized | NotFound | Busy | Unsupported | Internal

record rejection =
  rj_code :: error_code
  rj_message :: string

definition reject :: "error_code \<Rightarrow> string \<Rightarrow> rejection" where
  "reject c m = \<lparr>rj_code = c, rj_message = m\<rparr>"

definition valid_schedule_name :: "string \<Rightarrow> bool" where
  "valid_schedule_name s \<longleftrightarrow>
     s \<noteq> [] \<and> length s \<le> 128 \<and> list_all (\<lambda>b. is_ascii_alphanumeric b \<or> b \<in> set ''._-'') s"

definition is_absolute :: "string \<Rightarrow> bool" where
  "is_absolute p \<longleftrightarrow> prefix ''/'' p"

definition valid_quarantine_id :: "string \<Rightarrow> bool" where
  "valid_quarantine_id i \<longleftrightarrow>
     i \<noteq> [] \<and> length i \<le> 64 \<and> list_all (\<lambda>b. is_ascii_hexdigit b \<or> b = CHR ''-'') i"

definition check_scan_path :: "string \<Rightarrow> rejection + unit" where
  "check_scan_path p =
     (if MAX_PATH_BYTES < length p \<or> CHR 0x00 \<in> set p
      then Err (reject BadRequest ''path too long or contains NUL'')
      else if \<not> is_absolute p then Err (reject BadRequest (''path '' @ quoted p @ '' is not absolute''))
      else Ok ())"

definition validate_request :: "request \<Rightarrow> rejection + unit" where
  "validate_request r =
     (if rq_version r \<noteq> PROTOCOL_VERSION
      then Err (reject VersionMismatch (''protocol version '' @ show_nat (unat (rq_version r)) @
        '' is not supported (server speaks '' @ show_nat (unat PROTOCOL_VERSION) @ '')''))
      else case rq_op r of
        OpScan paths _ _ _ \<Rightarrow>
          if paths = [] \<or> MAX_PATHS < length paths
          then Err (reject BadRequest ''between 1 and 64 paths are required'')
          else try_all check_scan_path paths
      | OpRunSchedule name \<Rightarrow>
          if \<not> valid_schedule_name name then Err (reject BadRequest ''invalid schedule name'') else Ok ()
      | OpQuarantineRestore i _ \<Rightarrow>
          if \<not> valid_quarantine_id i then Err (reject BadRequest ''invalid quarantine id'') else Ok ()
      | OpQuarantineDelete i \<Rightarrow>
          if \<not> valid_quarantine_id i then Err (reject BadRequest ''invalid quarantine id'') else Ok ()
      | _ \<Rightarrow> Ok ())"

section \<open>Replies\<close>

datatype job_kind = KindScan | KindSystemCheck | KindUpdate

datatype job_state = Queued | Running | Completed | JobFailed | Cancelled | TimedOut

definition finished :: "job_state \<Rightarrow> bool" where
  "finished s \<longleftrightarrow> s \<noteq> Queued \<and> s \<noteq> Running"

record job_summary =
  js_id :: uuid
  js_kind :: job_kind
  js_state :: job_state
  js_owner :: string
  js_schedule :: "string option"
  js_paths :: "string list"
  js_heuristics :: bool
  js_quarantine :: bool
  js_as_owner :: bool
  js_created_at :: instant
  js_started_at :: "instant option"
  js_finished_at :: "instant option"
  js_exit_code :: "int option"
  js_findings :: "nat option"
  js_quarantined :: "nat option"
  js_error :: "string option"

record audit_status =
  as_checked_at :: instant
  as_chain_ok :: bool
  as_entries :: u64
  as_journal_checked :: bool
  as_matched :: u64
  as_mismatched :: "u64 list"
  as_missing_locally :: "u64 list"
  as_unanchored :: u64
  as_other_chains :: u64
  as_consistent :: bool
  as_detail :: string

record service_status =
  sv_server_version :: string
  sv_started_at :: instant
  sv_running_as_root :: bool
  sv_jobs_running :: nat
  sv_jobs_queued :: nat
  sv_schedules :: nat
  sv_caller :: string
  sv_caller_is_admin :: bool
  sv_last_audit :: "audit_status option"

record schedule_info =
  shi_name :: string
  shi_kind :: job_kind
  shi_paths :: "string list"
  shi_every_hours :: u32
  shi_at_utc :: "string option"
  shi_heuristics :: bool
  shi_quarantine :: bool
  shi_last_run :: "instant option"
  shi_next_run :: instant

record quarantine_item =
  qi_id :: string
  qi_state :: string
  qi_original_path :: string
  qi_sha256 :: string
  qi_reason :: string
  qi_created_at :: instant

datatype 'json reply =
    Pong string
  | RStatus service_status
  | JobStarted uuid
  | RJobs "job_summary list"
  | RJob job_summary
  | RReport uuid 'json
  | RSchedules "schedule_info list"
  | RQuarantine "quarantine_item list"
  | RDone string
  | RAudit audit_status
  | RError error_code string

record 'json response =
  rs_version :: u32
  rs_id :: u64
  rs_reply :: "'json reply"

definition new_response :: "u64 \<Rightarrow> 'json reply \<Rightarrow> 'json response" where
  "new_response i r = \<lparr>rs_version = PROTOCOL_VERSION, rs_id = i, rs_reply = r\<rparr>"

definition error_response :: "u64 \<Rightarrow> rejection \<Rightarrow> 'json response" where
  "error_response i r = new_response i (RError (rj_code r) (rj_message r))"

section \<open>Framing\<close>

datatype frame_error =
    FrameClosed
  | FrameTooLarge nat nat
  | FrameMalformed
  | FrameIo io_kind

text \<open>A reader hands out its bytes and then reports the end of the stream or an error.\<close>

record stream =
  sm_data :: bytes
  sm_end :: io_kind

definition read_exact :: "nat \<Rightarrow> stream \<Rightarrow> (io_kind + bytes) \<times> stream" where
  "read_exact n s =
     (if n \<le> length (sm_data s)
      then (Ok (take n (sm_data s)), s\<lparr>sm_data := drop n (sm_data s)\<rparr>)
      else (Err (sm_end s), s\<lparr>sm_data := []\<rparr>))"

text \<open>The bytes \<open>write_frame\<close> hands to the writer.\<close>

definition write_frame :: "('m \<Rightarrow> bytes option) \<Rightarrow> 'm \<Rightarrow> nat \<Rightarrow> frame_error + bytes" where
  "write_frame to_json msg max_len =
     and_then (ok_or FrameMalformed (to_json msg)) (\<lambda>body.
     if max_len < length body \<or> 2 ^ 32 \<le> length body then Err (FrameTooLarge (length body) max_len)
     else Ok (u32_be_bytes (of_nat (length body)) @ body))"

definition decode :: "(bytes \<Rightarrow> 'm option) \<Rightarrow> bytes \<Rightarrow> frame_error + 'm" where
  "decode from_json body = ok_or FrameMalformed (from_json body)"

definition read_frame :: "(bytes \<Rightarrow> 'm option) \<Rightarrow> nat \<Rightarrow> stream \<Rightarrow> (frame_error + 'm) \<times> stream" where
  "read_frame from_json max_len s =
     (case read_exact 4 s of
        (Err UnexpectedEofKind, s) \<Rightarrow> (Err FrameClosed, s)
      | (Err e, s) \<Rightarrow> (Err (FrameIo e), s)
      | (Ok h, s) \<Rightarrow>
          (let len = unat (u32_from_be (h ! 0) (h ! 1) (h ! 2) (h ! 3))
           in if max_len < len then (Err (FrameTooLarge len max_len), s)
              else case read_exact len s of
                (Err e, s) \<Rightarrow> (Err (FrameIo e), s)
              | (Ok body, s) \<Rightarrow> (decode from_json body, s)))"

section \<open>Authorisation (\<open>policy.rs\<close>)\<close>

record caller =
  cl_principal :: string
  cl_admin :: bool

definition admin_only :: "ipc_op \<Rightarrow> bool" where
  "admin_only op =
     (case op of
        OpPing \<Rightarrow> False | OpStatus \<Rightarrow> False | OpJobs \<Rightarrow> False | OpJob _ \<Rightarrow> False | OpReport _ \<Rightarrow> False
      | OpCancel _ \<Rightarrow> False | OpSchedules \<Rightarrow> False
      | OpScan _ _ _ quarantine \<Rightarrow> quarantine
      | _ \<Rightarrow> True)"

definition authorize :: "caller \<Rightarrow> ipc_op \<Rightarrow> rejection + unit" where
  "authorize c op =
     (if admin_only op \<and> \<not> cl_admin c
      then Err (reject Unauthorized
        ''this operation needs an administrator (root, or a member of the configured admin group)'')
      else Ok ())"

definition can_access_job :: "caller \<Rightarrow> string \<Rightarrow> bool" where
  "can_access_job c owner \<longleftrightarrow> cl_admin c \<or> cl_principal c = owner"

definition scan_as_caller :: "caller \<Rightarrow> bool" where
  "scan_as_caller c \<longleftrightarrow> \<not> cl_admin c"

section \<open>Properties of the framing\<close>

lemma u32_be_bytes_4: "\<exists>a b c d. u32_be_bytes n = [a, b, c, d]"
  by (simp add: u32_be_bytes_def)

lemma write_frame_Ok:
  "write_frame to_json msg max_len = Ok bs \<longleftrightarrow>
     (\<exists>body. to_json msg = Some body \<and> length body \<le> max_len \<and> length body < 2 ^ 32 \<and>
       bs = u32_be_bytes (of_nat (length body)) @ body)"
  by (auto simp: write_frame_def result_simps not_less not_le split: if_splits)

lemma read_write_frame:
  assumes "write_frame to_json msg max_len = Ok bs" and "sm_data s = bs @ rest"
  shows "\<exists>body. to_json msg = Some body \<and>
    read_frame from_json max_len s = (decode from_json body, s\<lparr>sm_data := rest\<rparr>)"
proof -
  from assms(1) obtain body where body: "to_json msg = Some body" "length body \<le> max_len" "length body < 2 ^ 32"
    and bs: "bs = u32_be_bytes (of_nat (length body)) @ body"
    by (auto simp: write_frame_Ok)
  obtain a b c d where h: "u32_be_bytes (of_nat (length body)) = [a, b, c, d]"
    using u32_be_bytes_4 by blast
  have len: "unat (u32_from_be a b c d) = length body"
    using u32_from_to_be [OF h] body(3) by (simp add: unat_of_nat take_bit_eq_mod)
  show ?thesis
    using body assms(2) by (simp add: read_frame_def read_exact_def bs h len Let_def)
qed

text \<open>A header that announces more than the limit is refused with nothing read after it.\<close>

lemma read_frame_bounded:
  "fst (read_frame from_json max_len s) = Err (FrameTooLarge len max_len) \<Longrightarrow>
     max_len < len \<and> sm_data (snd (read_frame from_json max_len s)) = drop 4 (sm_data s)"
  by (auto simp: read_frame_def read_exact_def Let_def decode_def ok_or_def
      split: if_splits option.splits io_kind.splits prod.splits)

lemma read_frame_consumed:
  "length (sm_data s) \<le> length (sm_data (snd (read_frame from_json max_len s))) + 4 + max_len \<or>
   fst (read_frame from_json max_len s) \<in> {Err FrameClosed} \<union> range (\<lambda>e. Err (FrameIo e))"
  by (auto simp: read_frame_def read_exact_def Let_def split: if_splits io_kind.splits prod.splits)

end
