(* ===== verification/Service_Config.thy ===== *)
theory Service_Config
  imports Ipc
begin

text \<open>
  \<open>crates/service\<close>: the configuration (\<open>config.rs\<close>), the account databases and the
  administrator decision (\<open>accounts.rs\<close>), and the time of a schedule's next run
  (\<open>schedule.rs\<close>). Paths are Unix paths. The messages of the configuration check are
  replaced by a constructor for the rule that fails.
\<close>

section \<open>Configuration (\<open>config.rs\<close>)\<close>

record schedule =
  sch_name :: string
  sch_kind :: job_kind
  sch_paths :: "string list"
  sch_every_hours :: u32
  sch_at_utc :: "string option"
  sch_heuristics :: bool
  sch_quarantine :: bool

record service_config =
  cfg_socket :: string
  cfg_socket_group :: "string option"
  cfg_state_dir :: string
  cfg_quarantine_store :: string
  cfg_admin_users :: "string list"
  cfg_admin_group :: "string option"
  cfg_scanner_user :: string
  cfg_scanner_binary :: "string option"
  cfg_content :: "string list"
  cfg_keyrings :: "string list"
  cfg_update_source :: "string option"
  cfg_max_concurrent_jobs :: u32
  cfg_max_queued_jobs :: u32
  cfg_job_timeout_minutes :: u32
  cfg_history_limit :: u32
  cfg_audit_check_hours :: u32
  cfg_schedules :: "schedule list"

definition MAX_SCHEDULES :: nat where
  "MAX_SCHEDULES = 64"

definition default_service_config :: service_config where
  "default_service_config =
     \<lparr>cfg_socket = ''/run/abyssal-warden/wardend.sock'', cfg_socket_group = None,
      cfg_state_dir = ''/var/lib/abyssal-warden/service'',
      cfg_quarantine_store = ''/var/lib/abyssal-warden/quarantine'',
      cfg_admin_users = [], cfg_admin_group = None, cfg_scanner_user = ''abyssal-warden'',
      cfg_scanner_binary = None, cfg_content = [], cfg_keyrings = [], cfg_update_source = None,
      cfg_max_concurrent_jobs = 1, cfg_max_queued_jobs = 32, cfg_job_timeout_minutes = 240,
      cfg_history_limit = 200, cfg_audit_check_hours = 24, cfg_schedules = []\<rparr>"

text \<open>\<open>s.len() == 5\<close> is the only condition on the shape besides the colon.\<close>

definition parse_hhmm :: "string \<Rightarrow> (nat \<times> nat) option" where
  "parse_hhmm s =
     (case split_once (CHR '':'') s of
        None \<Rightarrow> None
      | Some (h, m) \<Rightarrow>
          (case (parse_uint 255 h, parse_uint 255 m) of
             (Some h, Some m) \<Rightarrow> if h < 24 \<and> m < 60 \<and> length s = 5 then Some (h, m) else None
           | _ \<Rightarrow> None))"

datatype service_config_error =
    OutOfRange string
  | NotAbsolute string
  | SocketTooLong
  | ContentNotAbsolute string
  | BadUpdateSource
  | TooManySchedules
  | BadScheduleName string
  | BadTime string
  | TimeNeedsDays string
  | ScanPathCount string
  | ScanPathNotAbsolute string
  | SystemCheckOptions string
  | UpdateOptions string
  | UpdateNeedsSource string

definition in_range :: "u32 \<Rightarrow> u32 \<Rightarrow> u32 \<Rightarrow> string \<Rightarrow> service_config_error + unit" where
  "in_range v lo hi what = require (lo \<le> v \<and> v \<le> hi) (OutOfRange what)"

definition update_source_ok :: "string \<Rightarrow> bool" where
  "update_source_ok src \<longleftrightarrow>
     (prefix ''https://'' src \<and> 8 < length src \<or> is_absolute src \<and> \<not> contains_str src ''://'') \<and>
     length src \<le> 2048 \<and> \<not> list_ex is_control (chars src)"

definition check_schedule_kind :: "service_config \<Rightarrow> schedule \<Rightarrow> service_config_error + unit" where
  "check_schedule_kind c s =
     (case sch_kind s of
        KindScan \<Rightarrow>
          if sch_paths s = [] \<or> MAX_PATHS < length (sch_paths s) then Err (ScanPathCount (sch_name s))
          else if list_ex (\<lambda>p. \<not> is_absolute p \<or> CHR 0x00 \<in> set p) (sch_paths s)
          then Err (ScanPathNotAbsolute (sch_name s))
          else Ok ()
      | KindSystemCheck \<Rightarrow>
          require (sch_paths s = [] \<and> \<not> sch_quarantine s) (SystemCheckOptions (sch_name s))
      | KindUpdate \<Rightarrow>
          and_then (require (sch_paths s = [] \<and> \<not> sch_quarantine s \<and> \<not> sch_heuristics s)
            (UpdateOptions (sch_name s))) (\<lambda>_.
          require (cfg_update_source c \<noteq> None) (UpdateNeedsSource (sch_name s))))"

definition check_schedule :: "service_config \<Rightarrow> schedule \<Rightarrow> service_config_error + unit" where
  "check_schedule c s =
     and_then (in_range (sch_every_hours s) 1 (24 * 366) ''every_hours'') (\<lambda>_.
     and_then (when_some (sch_at_utc s) (\<lambda>at.
       and_then (require (parse_hhmm at \<noteq> None) (BadTime (sch_name s))) (\<lambda>_.
       require (unat (sch_every_hours s) mod 24 = 0) (TimeNeedsDays (sch_name s))))) (\<lambda>_.
     check_schedule_kind c s))"

text \<open>The loop over the schedules, with the names seen so far.\<close>

fun check_schedules :: "service_config \<Rightarrow> string set \<Rightarrow> schedule list \<Rightarrow> service_config_error + unit" where
  "check_schedules c names [] = Ok ()"
| "check_schedules c names (s # ss) =
     (if \<not> valid_schedule_name (sch_name s) \<or> sch_name s \<in> names then Err (BadScheduleName (sch_name s))
      else and_then (check_schedule c s) (\<lambda>_. check_schedules c (insert (sch_name s) names) ss))"

definition validate_service_config :: "service_config \<Rightarrow> service_config_error + unit" where
  "validate_service_config c =
     and_then (in_range (cfg_max_concurrent_jobs c) 1 8 ''max_concurrent_jobs'') (\<lambda>_.
     and_then (in_range (cfg_max_queued_jobs c) 1 1000 ''max_queued_jobs'') (\<lambda>_.
     and_then (in_range (cfg_job_timeout_minutes c) 1 (7 * 24 * 60) ''job_timeout_minutes'') (\<lambda>_.
     and_then (in_range (cfg_history_limit c) 1 100000 ''history_limit'') (\<lambda>_.
     and_then (in_range (cfg_audit_check_hours c) 0 (24 * 365) ''audit_check_hours'') (\<lambda>_.
     and_then (try_all (\<lambda>p. require (is_absolute p) (NotAbsolute p))
       [cfg_socket c, cfg_state_dir c, cfg_quarantine_store c]) (\<lambda>_.
     and_then (require (length (cfg_socket c) < 108) SocketTooLong) (\<lambda>_.
     and_then (try_all (\<lambda>p. require (is_absolute p) (ContentNotAbsolute p)) (cfg_content c @ cfg_keyrings c)) (\<lambda>_.
     and_then (when_some (cfg_update_source c) (\<lambda>src. require (update_source_ok src) BadUpdateSource)) (\<lambda>_.
     and_then (require (length (cfg_schedules c) \<le> MAX_SCHEDULES) TooManySchedules) (\<lambda>_.
     check_schedules c {} (cfg_schedules c)))))))))))"

text \<open>\<open>check_trusted_file\<close>: the owner and the mode of the file's metadata.\<close>

definition check_trusted_file :: "nat \<Rightarrow> u32 \<Rightarrow> bool" where
  "check_trusted_file uid mode \<longleftrightarrow> uid = 0 \<and> mode AND 0x12 = 0"

datatype config_load_error =
    CfgIo io_kind
  | CfgUntrusted
  | CfgNotUtf8
  | CfgTooLarge
  | CfgJson
  | CfgInvalid service_config_error

definition MAX_CONFIG :: nat where
  "MAX_CONFIG = 1048576"

text \<open>\<open>file\<close> is what opening the configuration gives: the owner, the mode and the content.\<close>

definition load_service_config ::
  "(string \<Rightarrow> service_config option) \<Rightarrow> bool \<Rightarrow> io_kind + (nat \<times> u32 \<times> bytes) \<Rightarrow>
     config_load_error + service_config" where
  "load_service_config parse require_secure file =
     (case file of
        Err NotFoundKind \<Rightarrow>
          and_then (map_err CfgInvalid (validate_service_config default_service_config)) (\<lambda>_.
          Ok default_service_config)
      | Err e \<Rightarrow> Err (CfgIo e)
      | Ok (uid, mode, content) \<Rightarrow>
          if require_secure \<and> \<not> check_trusted_file uid mode then Err CfgUntrusted
          else
            and_then (ok_or CfgNotUtf8 (from_utf8 (take (MAX_CONFIG + 1) content))) (\<lambda>t.
            if MAX_CONFIG < length t then Err CfgTooLarge
            else
              and_then (ok_or CfgJson (parse t)) (\<lambda>c.
              and_then (map_err CfgInvalid (validate_service_config c)) (\<lambda>_. Ok c))))"

section \<open>Accounts (\<open>accounts.rs\<close>)\<close>

record user =
  us_name :: string
  us_uid :: nat
  us_gid :: nat

record group =
  gr_name :: string
  gr_gid :: nat
  gr_members :: "string list"

record accounts =
  ac_users :: "user list"
  ac_groups :: "group list"

abbreviation parse_u32 :: "string \<Rightarrow> nat option" where
  "parse_u32 \<equiv> parse_uint 4294967295"

definition passwd_line :: "string \<Rightarrow> user option" where
  "passwd_line l =
     (let f = split_on (CHR '':'') l
      in if 7 \<le> length f \<and> f ! 0 \<noteq> []
         then (case (parse_u32 (f ! 2), parse_u32 (f ! 3)) of
             (Some u, Some g) \<Rightarrow> Some \<lparr>us_name = f ! 0, us_uid = u, us_gid = g\<rparr>
           | _ \<Rightarrow> None)
         else None)"

definition group_line :: "string \<Rightarrow> group option" where
  "group_line l =
     (let f = split_on (CHR '':'') l
      in if 4 \<le> length f \<and> f ! 0 \<noteq> []
         then (case parse_u32 (f ! 2) of
             Some g \<Rightarrow> Some \<lparr>gr_name = f ! 0, gr_gid = g,
               gr_members = filter (\<lambda>m. m \<noteq> []) (split_on (CHR '','') (f ! 3))\<rparr>
           | None \<Rightarrow> None)
         else None)"

definition parse_passwd :: "string \<Rightarrow> user list" where
  "parse_passwd t = List.map_filter passwd_line (take 200000 (str_lines t))"

definition parse_group :: "string \<Rightarrow> group list" where
  "parse_group t = List.map_filter group_line (take 200000 (str_lines t))"

definition load_accounts :: "(string \<Rightarrow> string option) \<Rightarrow> accounts" where
  "load_accounts read =
     \<lparr>ac_users = parse_passwd (case read ''/etc/passwd'' of None \<Rightarrow> [] | Some t \<Rightarrow> t),
      ac_groups = parse_group (case read ''/etc/group'' of None \<Rightarrow> [] | Some t \<Rightarrow> t)\<rparr>"

definition user_by_uid :: "accounts \<Rightarrow> nat \<Rightarrow> user option" where
  "user_by_uid a uid = find (\<lambda>u. us_uid u = uid) (ac_users a)"

definition user_by_name :: "accounts \<Rightarrow> string \<Rightarrow> user option" where
  "user_by_name a n = find (\<lambda>u. us_name u = n) (ac_users a)"

definition group_by_name :: "accounts \<Rightarrow> string \<Rightarrow> group option" where
  "group_by_name a n = find (\<lambda>g. gr_name g = n) (ac_groups a)"

definition is_admin :: "accounts \<Rightarrow> nat \<Rightarrow> service_config \<Rightarrow> bool" where
  "is_admin a uid c =
     (if uid = 0 then True
      else let u = user_by_uid a uid in
        if list_ex (\<lambda>s. parse_u32 s = Some uid \<or> (case u of None \<Rightarrow> False | Some u \<Rightarrow> us_name u = s)) (cfg_admin_users c)
        then True
        else case (Option.bind (cfg_admin_group c) (group_by_name a), u) of
          (Some g, Some u) \<Rightarrow> us_gid u = gr_gid g \<or> us_name u \<in> set (gr_members g)
        | _ \<Rightarrow> False)"

section \<open>Schedules (\<open>schedule.rs\<close>)\<close>

text \<open>An instant's date is its day since the epoch; \<open>with_time\<close> puts a time of day on a date.\<close>

definition date_of :: "instant \<Rightarrow> int" where
  "date_of t = t div days 1"

definition with_time :: "int \<Rightarrow> nat \<Rightarrow> nat \<Rightarrow> instant" where
  "with_time d h m = d * days 1 + minutes (int (h * 60 + m))"

definition next_due :: "schedule \<Rightarrow> instant option \<Rightarrow> instant \<Rightarrow> instant" where
  "next_due s last_run now =
     (let interval = minutes (60 * int (unat (sch_every_hours s)))
      in case Option.bind (sch_at_utc s) parse_hhmm of
           None \<Rightarrow> (case last_run of None \<Rightarrow> now | Some l \<Rightarrow> l + interval)
         | Some (h, m) \<Rightarrow>
             (case last_run of
                Some l \<Rightarrow> with_time (date_of l + int (unat (sch_every_hours s) div 24)) h m
              | None \<Rightarrow>
                  (let today = with_time (date_of now) h m
                   in if now \<le> today then today else today + days 1)))"

definition schedule_info_of :: "(string \<rightharpoonup> instant) \<Rightarrow> instant \<Rightarrow> schedule \<Rightarrow> schedule_info" where
  "schedule_info_of state now s =
     \<lparr>shi_name = sch_name s, shi_kind = sch_kind s, shi_paths = sch_paths s,
      shi_every_hours = sch_every_hours s, shi_at_utc = sch_at_utc s,
      shi_heuristics = sch_heuristics s, shi_quarantine = sch_quarantine s,
      shi_last_run = state (sch_name s), shi_next_run = next_due s (state (sch_name s)) now\<rparr>"

definition schedules_info :: "service_config \<Rightarrow> (string \<rightharpoonup> instant) \<Rightarrow> instant \<Rightarrow> schedule_info list" where
  "schedules_info c state now = map (schedule_info_of state now) (cfg_schedules c)"

section \<open>Properties\<close>

definition schedule_ok :: "service_config \<Rightarrow> schedule \<Rightarrow> bool" where
  "schedule_ok c s \<longleftrightarrow>
     valid_schedule_name (sch_name s) \<and> 1 \<le> sch_every_hours s \<and> sch_every_hours s \<le> 24 * 366 \<and>
     (case sch_at_utc s of None \<Rightarrow> True | Some t \<Rightarrow> parse_hhmm t \<noteq> None \<and> unat (sch_every_hours s) mod 24 = 0) \<and>
     check_schedule_kind c s = Ok ()"

lemma check_schedule_Ok: "check_schedule c s = Ok () \<and> valid_schedule_name (sch_name s) \<longleftrightarrow> schedule_ok c s"
  by (auto simp: check_schedule_def schedule_ok_def in_range_def result_simps split: option.splits)

lemma check_schedules_Ok:
  "check_schedules c names ss = Ok () \<longleftrightarrow>
     list_all (schedule_ok c) ss \<and> distinct (map sch_name ss) \<and> set (map sch_name ss) \<inter> names = {}"
proof (induction ss arbitrary: names)
  case (Cons s ss)
  then show ?case
    using check_schedule_Ok [of c s] by (auto simp: result_simps schedule_ok_def)
qed simp

lemma validate_service_config_schedules:
  "validate_service_config c = Ok () \<Longrightarrow>
     list_all (schedule_ok c) (cfg_schedules c) \<and> distinct (map sch_name (cfg_schedules c)) \<and>
     length (cfg_schedules c) \<le> 64 \<and>
     1 \<le> cfg_max_concurrent_jobs c \<and> cfg_max_concurrent_jobs c \<le> 8 \<and>
     1 \<le> cfg_max_queued_jobs c \<and> cfg_max_queued_jobs c \<le> 1000"
  by (simp add: validate_service_config_def in_range_def check_schedules_Ok MAX_SCHEDULES_def result_simps)

lemma parse_hhmm_bounds: "parse_hhmm s = Some (h, m) \<Longrightarrow> h < 24 \<and> m < 60"
  by (auto simp: parse_hhmm_def split: option.splits prod.splits if_splits)

text \<open>A schedule that has run is not due again in the same hour, or with a fixed time of day,
  on the same day.\<close>

lemma next_due_after:
  assumes "schedule_ok c s"
  shows "l < next_due s (Some l) now"
proof -
  have hours: "1 \<le> unat (sch_every_hours s)"
    using assms by (simp add: schedule_ok_def word_le_nat_alt)
  have pos: "0 < uint (sch_every_hours s)"
    using assms by (simp add: schedule_ok_def word_le_def)
  show ?thesis
  proof (cases "Option.bind (sch_at_utc s) parse_hhmm")
    case None
    with pos show ?thesis by (simp add: next_due_def)
  next
    case (Some hm)
    obtain h m where hm: "hm = (h, m)" by (cases hm)
    from Some obtain t where "sch_at_utc s = Some t" by (cases "sch_at_utc s") auto
    with assms have "unat (sch_every_hours s) mod 24 = 0" by (simp add: schedule_ok_def)
    with hours have "1 \<le> unat (sch_every_hours s) div 24" by auto
    then have "(date_of l + 1) * days 1 \<le> (date_of l + int (unat (sch_every_hours s) div 24)) * days 1"
      by simp
    moreover have "l < (date_of l + 1) * days 1"
      by (simp add: date_of_def)
    ultimately show ?thesis
      using Some hm by (simp add: next_due_def with_time_def)
  qed
qed

lemma next_due_upper:
  assumes "schedule_ok c s"
  shows "next_due s (Some l) now \<le> l + minutes (60 * int (unat (sch_every_hours s))) + days 1"
proof (cases "Option.bind (sch_at_utc s) parse_hhmm")
  case None
  then show ?thesis by (simp add: next_due_def)
next
  case (Some hm)
  obtain h m where hm: "hm = (h, m)" by (cases hm)
  from Some obtain t where t: "sch_at_utc s = Some t" "parse_hhmm t = Some (h, m)" by (cases "sch_at_utc s") (auto simp: hm)
  have time: "h < 24 \<and> m < 60" by (rule parse_hhmm_bounds [OF t(2)])
  from assms t have "unat (sch_every_hours s) mod 24 = 0" by (simp add: schedule_ok_def)
  then obtain d where "unat (sch_every_hours s) = 24 * d" by (meson dvd_def mod_0_imp_dvd)
  moreover have "date_of l * days 1 \<le> l" by (simp add: date_of_def)
  moreover have "minutes (int (h * 60 + m)) \<le> days 1"
    using time by simp
  ultimately show ?thesis
    using t by (simp add: next_due_def with_time_def algebra_simps)
qed

end
