(* ===== verification/Remediation_Policy.thy ===== *)
theory Remediation_Policy
  imports Core_Config
begin

text \<open>
  \<open>crates/remediation\<close>: the safety policy (\<open>policy.rs\<close>), the records of quarantined items
  (\<open>record.rs\<close>), the allow-list (\<open>allowlist.rs\<close>) and the automatic quarantine of a report
  (\<open>report.rs\<close>). The quarantine store of \<open>quarantine_report\<close> is an argument with its own
  state, so that what is asked of it can be observed.
\<close>

section \<open>Records (\<open>record.rs\<close>)\<close>

datatype quarantine_id = QuarantineId string

primrec id_str :: "quarantine_id \<Rightarrow> string" where
  "id_str (QuarantineId s) = s"

datatype id_error = InvalidId string

definition parse_id :: "string \<Rightarrow> id_error + quarantine_id" where
  "parse_id s =
     (if length s = 32 \<and> list_all (\<lambda>b. b \<in> set hex_table) s
      then Ok (QuarantineId s)
      else Err (InvalidId (truncate_chars 64 s)))"

datatype item_state = Pending | ItemQuarantined | Restored | Deleted | RolledBack | ItemFailed

record original_file =
  of_path :: observed_path
  of_size :: u64
  of_sha256 :: digest
  of_mode :: u32
  of_uid :: nat
  of_gid :: nat
  of_dev :: u64
  of_ino :: u64
  of_owner_sid :: "string option"
  of_modified :: "instant option"

record quarantine_reason =
  qr_finding_id :: "string option"
  qr_detection_name :: "string option"
  qr_detector :: "string option"
  qr_rule_id :: "string option"
  qr_database_version :: "string option"
  qr_note :: "string option"

record quarantine_record =
  rec_format_version :: u32
  rec_id :: quarantine_id
  rec_state :: item_state
  rec_original :: original_file
  rec_key_hex :: string
  rec_reason :: quarantine_reason
  rec_actor_uid :: nat
  rec_created_at :: instant
  rec_updated_at :: instant
  rec_restored_to :: "observed_path option"
  rec_notes :: "string list"

definition hex :: "bytes \<Rightarrow> string" where
  "hex bs = concat (map (\<lambda>b. [hex_table ! unat (drop_bit 4 b), hex_table ! unat (b AND 0x0f)]) bs)"

text \<open>\<open>u8::from_str_radix(.., 16)\<close> of two bytes, which takes a plus sign as the first.\<close>

definition radix_pair :: "char \<Rightarrow> char \<Rightarrow> u8 option" where
  "radix_pair a b =
     (if a = CHR ''+'' then hex_value (u8_of_char b)
      else case (hex_value (u8_of_char a), hex_value (u8_of_char b)) of
        (Some hi, Some lo) \<Rightarrow> Some (push_bit 4 hi OR lo)
      | _ \<Rightarrow> None)"

fun unhex_pairs :: "string \<Rightarrow> bytes option" where
  "unhex_pairs (a # b # r) =
     (case radix_pair a b of None \<Rightarrow> None | Some v \<Rightarrow> map_option ((#) v) (unhex_pairs r))"
| "unhex_pairs _ = Some []"

definition unhex :: "string \<Rightarrow> bytes option" where
  "unhex s = (if length s mod 2 \<noteq> 0 then None else unhex_pairs s)"

section \<open>Policy (\<open>policy.rs\<close>)\<close>

definition PROTECTED_PREFIXES :: "string list" where
  "PROTECTED_PREFIXES =
     [''/bin'', ''/boot'', ''/dev'', ''/etc'', ''/lib'', ''/lib32'', ''/lib64'', ''/libx32'', ''/proc'',
      ''/sbin'', ''/sys'', ''/usr'', ''/var/lib/dpkg'', ''/var/lib/rpm'']"

definition is_protected_path :: "string \<Rightarrow> bool" where
  "is_protected_path p = list_ex (path_starts_with p) PROTECTED_PREFIXES"

text \<open>The form a Windows path is compared in.\<close>

definition windows_norm :: "string \<Rightarrow> string" where
  "windows_norm s =
     (let s = map (\<lambda>c. if c = CHR ''/'' then CHR 0x5C else c) s;
          pre = [CHR 0x5C, CHR 0x5C, CHR ''?'', CHR 0x5C];
          s = (case strip_prefix pre s of None \<Rightarrow> s | Some t \<Rightarrow> t);
          s = to_ascii_lowercase s
      in rev (dropWhile (\<lambda>c. c = CHR 0x5C) (rev s)))"

definition windows_path_under :: "string \<Rightarrow> string list \<Rightarrow> bool" where
  "windows_path_under path roots =
     (let p = windows_norm path
      in list_ex (\<lambda>r. p = r \<or> prefix (r @ [CHR 0x5C]) p)
           (filter (\<lambda>r. r \<noteq> []) (map windows_norm roots)))"

definition native_path :: "observed_path \<Rightarrow> string option" where
  "native_path p =
     (case raw_hex p of None \<Rightarrow> Some (path_text p) | Some h \<Rightarrow> map_option str_of_bytes (unhex h))"

datatype not_eligible =
    NotConfirmed | NotMalware | NotRecommended | InsideArchive | NoFileByHash | NoNativePath | UnderProtected

definition auto_quarantine_target :: "finding \<Rightarrow> not_eligible + (string \<times> digest)" where
  "auto_quarantine_target f =
     (if f_kind f \<noteq> KnownIndicator \<or> f_confidence f \<noteq> Confirmed then Err NotConfirmed
      else if f_category f \<noteq> Malware then Err NotMalware
      else if f_recommended_action f \<noteq> Quarantine then Err NotRecommended
      else case f_target f of
        TFile path (Some sha256) _ \<Rightarrow>
          (case native_path path of
             None \<Rightarrow> Err NoNativePath
           | Some p \<Rightarrow> if is_protected_path p then Err UnderProtected else Ok (p, sha256))
      | TArchiveMember _ _ _ _ \<Rightarrow> Err InsideArchive
      | _ \<Rightarrow> Err NoFileByHash)"

section \<open>The allow-list (\<open>allowlist.rs\<close>)\<close>

record allow_entry =
  ae_sha256 :: digest
  ae_added_at :: instant
  ae_reason :: string
  ae_item :: "string option"
  ae_detection_name :: "string option"

record allowlist_file =
  alf_format_version :: u32
  alf_entries :: "allow_entry list"

definition MAX_ALLOWLIST_BYTES :: u64 where
  "MAX_ALLOWLIST_BYTES = 4 * 1024 * 1024"

datatype allowlist_error =
    AllowIo io_kind
  | AllowNotRegular
  | AllowTooLarge
  | AllowUnreadable
  | AllowVersion

definition parse_allowlist :: "(bytes \<Rightarrow> allowlist_file option) \<Rightarrow> bytes \<Rightarrow> allowlist_error + allowlist_file" where
  "parse_allowlist parse bs =
     and_then (ok_or AllowUnreadable (parse bs)) (\<lambda>f.
     if alf_format_version f \<noteq> 1 then Err AllowVersion else Ok f)"

text \<open>\<open>is_regular\<close> is what \<open>symlink_metadata\<close> finds, \<open>content\<close> what reading gives.\<close>

definition read_allowlist ::
  "(bytes \<Rightarrow> allowlist_file option) \<Rightarrow> io_kind + bool \<Rightarrow> io_kind + bytes \<Rightarrow> allowlist_error + allow_entry list" where
  "read_allowlist parse is_regular content =
     (case is_regular of
        Err NotFoundKind \<Rightarrow> Ok []
      | Err e \<Rightarrow> Err (AllowIo e)
      | Ok regular \<Rightarrow>
          if \<not> regular then Err AllowNotRegular
          else
            and_then (map_err AllowIo content) (\<lambda>c.
            let bs = take (unat (MAX_ALLOWLIST_BYTES + 1)) c
            in if MAX_ALLOWLIST_BYTES < len64 bs then Err AllowTooLarge
               else and_then (parse_allowlist parse bs) (\<lambda>f. Ok (alf_entries f))))"

section \<open>Reports (\<open>report.rs\<close>)\<close>

text \<open>\<open>date\<close> prints the day of an instant.\<close>

definition mark_finding :: "(instant \<Rightarrow> string) \<Rightarrow> allow_entry list \<Rightarrow> finding \<Rightarrow> finding" where
  "mark_finding date entries f =
     (case target_sha256 (f_target f) of
        None \<Rightarrow> f
      | Some sha \<Rightarrow>
          (case find (\<lambda>e. ae_sha256 e = sha) entries of
             None \<Rightarrow> f
           | Some e \<Rightarrow> f\<lparr>f_remediation_status := Allowed,
               f_remediation_detail := Some (''SHA-256 allow-listed on '' @ date (ae_added_at e) @
                 '' ('' @ ae_reason e @ '')'')\<rparr>))"

definition mark_allowed :: "(instant \<Rightarrow> string) \<Rightarrow> allow_entry list \<Rightarrow> finding list \<Rightarrow> finding list \<times> nat" where
  "mark_allowed date entries fs =
     (map (mark_finding date entries) fs,
      length (filter (\<lambda>f. case target_sha256 (f_target f) of
          None \<Rightarrow> False | Some sha \<Rightarrow> list_ex (\<lambda>e. ae_sha256 e = sha) entries) fs))"

definition reason_for :: "finding \<Rightarrow> quarantine_reason" where
  "reason_for f =
     \<lparr>qr_finding_id = Some (f_id f), qr_detection_name = Some (f_name f),
      qr_detector = Some (src_detector (f_source f)), qr_rule_id = src_rule_id (f_source f),
      qr_database_version = src_database_version (f_source f), qr_note = None\<rparr>"

record quarantine_request =
  req_path :: string
  req_expected_sha256 :: "digest option"
  req_reason :: quarantine_reason
  req_max_size :: u64
  req_allow_protected :: bool
  req_kill_processes :: bool

definition request_for :: "u64 \<Rightarrow> bool \<Rightarrow> finding \<Rightarrow> string \<times> digest \<Rightarrow> quarantine_request" where
  "request_for max_size kill f t =
     \<lparr>req_path = fst t, req_expected_sha256 = Some (snd t), req_reason = reason_for f,
      req_max_size = max_size, req_allow_protected = False, req_kill_processes = kill\<rparr>"

type_synonym 'q quarantine_op = "'q \<Rightarrow> quarantine_request \<Rightarrow> 'q \<times> (string + quarantine_record)"

definition not_eligible_text :: "not_eligible \<Rightarrow> string" where
  "not_eligible_text r =
     (case r of
        NotConfirmed \<Rightarrow> ''only confirmed known-indicator matches are remediated automatically''
      | NotMalware \<Rightarrow> ''only findings categorised as malware are remediated automatically''
      | NotRecommended \<Rightarrow> ''the detection does not recommend quarantine''
      | InsideArchive \<Rightarrow> ''the detection is inside an archive; review it and quarantine the archive manually if appropriate''
      | NoFileByHash \<Rightarrow> ''the finding does not identify a file by hash''
      | NoNativePath \<Rightarrow> ''the file path could not be reconstructed''
      | UnderProtected \<Rightarrow> ''the file is under a protected system directory'')"

definition set_outcome :: "remediation_status \<Rightarrow> string \<Rightarrow> finding \<Rightarrow> finding" where
  "set_outcome st detail f = f\<lparr>f_remediation_status := st, f_remediation_detail := Some detail\<rparr>"

text \<open>One iteration of the loop of \<open>quarantine_report\<close>. The store is \<open>None\<close> if it was not
  opened, or the result of opening it.\<close>

definition quarantine_finding ::
  "'q quarantine_op \<Rightarrow> u64 \<Rightarrow> bool \<Rightarrow> (string + 'q) option \<Rightarrow> finding \<Rightarrow>
     (string + 'q) option \<times> finding \<times> string list" where
  "quarantine_finding op max_size kill store f =
     (if f_remediation_status f = Allowed then (store, f, [])
      else case auto_quarantine_target f of
        Err why \<Rightarrow> (store, set_outcome NotEligible (not_eligible_text why) f, [])
      | Ok t \<Rightarrow>
          (let (store', result) =
             (case store of
                Some (Ok q) \<Rightarrow> (let (q', r) = op q (request_for max_size kill f t) in (Some (Ok q'), r))
              | Some (Err e) \<Rightarrow> (store, Err (''quarantine store unavailable: '' @ e))
              | None \<Rightarrow> (store, Err ''quarantine store unavailable''))
           in case result of
                Ok rec \<Rightarrow> (store', set_outcome Quarantined
                  (concat ((''quarantine ID '' @ id_str (rec_id rec)) # map (\<lambda>n. ''; '' @ n) (rec_notes rec))) f, [])
              | Err e \<Rightarrow> (store', set_outcome RemFailed e f, [e])))"

fun quarantine_findings ::
  "'q quarantine_op \<Rightarrow> u64 \<Rightarrow> bool \<Rightarrow> (string + 'q) option \<Rightarrow> finding list \<Rightarrow>
     (string + 'q) option \<times> finding list \<times> string list" where
  "quarantine_findings op max_size kill store [] = (store, [], [])"
| "quarantine_findings op max_size kill store (f # fs) =
     (let (store1, f', errs) = quarantine_finding op max_size kill store f;
          (store2, fs', errs') = quarantine_findings op max_size kill store1 fs
      in (store2, f' # fs', errs @ errs'))"

definition eligible :: "finding \<Rightarrow> bool" where
  "eligible f \<longleftrightarrow> f_remediation_status f \<noteq> Allowed \<and> is_ok (auto_quarantine_target f)"

definition quarantine_report ::
  "'q quarantine_op \<Rightarrow> string + 'q \<Rightarrow> u64 \<Rightarrow> bool \<Rightarrow> finding list \<Rightarrow>
     (string + 'q) option \<times> finding list \<times> string list" where
  "quarantine_report op opened max_size kill fs =
     quarantine_findings op max_size kill (if list_ex eligible fs then Some opened else None) fs"

section \<open>Properties\<close>

lemma hex_eq_encode: "hex bs = hex_encode bs"
  by (induction bs) (simp_all add: hex_def)

lemma hex_table_no_plus: "n < 16 \<Longrightarrow> hex_table ! n \<noteq> CHR ''+''"
  by (erule all_nibbles [rotated]) (simp add: hex_table_def)

lemma unhex_pairs_hex: "unhex_pairs (hex_encode bs) = Some bs"
proof (induction bs)
  case (Cons b bs)
  have "radix_pair (hex_table ! unat (drop_bit 4 b)) (hex_table ! unat (b AND 0x0f)) = Some b"
    by (simp add: radix_pair_def hex_table_no_plus hex_value_table nibbles)
  with Cons show ?case by simp
qed simp

lemma unhex_hex: "unhex (hex bs) = Some bs"
  by (simp add: unhex_def hex_eq_encode unhex_pairs_hex)

lemma native_path_from_path: "native_path (from_path p) = Some p"
  by (simp add: native_path_def from_path_def native_hex_def unhex_hex [unfolded hex_eq_encode])

lemma auto_quarantine_target_Ok:
  "auto_quarantine_target f = Ok (p, sha) \<longleftrightarrow>
     f_kind f = KnownIndicator \<and> f_confidence f = Confirmed \<and> f_category f = Malware \<and>
     f_recommended_action f = Quarantine \<and>
     (\<exists>path meta. f_target f = TFile path (Some sha) meta \<and> native_path path = Some p) \<and>
     \<not> is_protected_path p"
  by (auto simp: auto_quarantine_target_def split: finding_target.splits option.splits)

text \<open>The requests a report gives rise to, in order.\<close>

definition report_requests :: "u64 \<Rightarrow> bool \<Rightarrow> finding list \<Rightarrow> quarantine_request list" where
  "report_requests max_size kill fs =
     concat (map (\<lambda>f. case auto_quarantine_target f of
         Err _ \<Rightarrow> [] | Ok t \<Rightarrow> if f_remediation_status f = Allowed then [] else [request_for max_size kill f t]) fs)"

lemma report_requests_Cons:
  "report_requests max_size kill (f # fs) = report_requests max_size kill [f] @ report_requests max_size kill fs"
  by (simp add: report_requests_def)

lemma quarantine_finding_store:
  "fst (quarantine_finding op max_size kill (Some (Ok q)) f) =
     Some (Ok (foldl (\<lambda>q r. fst (op q r)) q (report_requests max_size kill [f])))"
  by (auto simp: quarantine_finding_def report_requests_def Let_def split: prod.splits sum.splits)

lemma quarantine_findings_Cons:
  "fst (quarantine_findings op max_size kill store (f # fs)) =
     fst (quarantine_findings op max_size kill (fst (quarantine_finding op max_size kill store f)) fs)"
  by (simp add: Let_def split: prod.splits)

lemma quarantine_findings_store:
  "fst (quarantine_findings op max_size kill (Some (Ok q)) fs) =
     Some (Ok (foldl (\<lambda>q r. fst (op q r)) q (report_requests max_size kill fs)))"
proof (induction fs arbitrary: q)
  case (Cons f fs)
  show ?case
    unfolding quarantine_findings_Cons quarantine_finding_store Cons
    by (subst report_requests_Cons) simp
qed (simp add: report_requests_def)

lemma quarantine_finding_same:
  "\<exists>st d. fst (snd (quarantine_finding op max_size kill store f)) =
     f\<lparr>f_remediation_status := st, f_remediation_detail := d\<rparr>"
  by (intro exI [of _ "f_remediation_status (fst (snd (quarantine_finding op max_size kill store f)))"]
      exI [of _ "f_remediation_detail (fst (snd (quarantine_finding op max_size kill store f)))"])
    (auto simp: quarantine_finding_def set_outcome_def Let_def split: sum.splits prod.splits)

lemma report_requests_safe:
  assumes "r \<in> set (report_requests max_size kill fs)"
  shows "\<exists>f sha. f \<in> set fs \<and> f_remediation_status f \<noteq> Allowed \<and>
    auto_quarantine_target f = Ok (req_path r, sha) \<and> req_expected_sha256 r = Some sha \<and>
    \<not> req_allow_protected r \<and> req_max_size r = max_size"
  using assms by (fastforce simp: report_requests_def request_for_def split: sum.splits if_splits)

lemma report_requests_empty: "\<not> list_ex eligible fs \<Longrightarrow> report_requests max_size kill fs = []"
  by (induction fs) (auto simp: report_requests_def eligible_def is_ok_def split: sum.splits)

lemma quarantine_report_store:
  "fst (quarantine_report op (Ok q) max_size kill fs) =
     (if list_ex eligible fs
      then Some (Ok (foldl (\<lambda>q r. fst (op q r)) q (report_requests max_size kill fs)))
      else None)"
proof (cases "list_ex eligible fs")
  case False
  have "\<forall>f \<in> set fs. \<not> eligible f \<Longrightarrow> fst (quarantine_findings op max_size kill None fs) = None"
    by (induction fs) (auto simp: quarantine_finding_def eligible_def is_ok_def Let_def split: sum.splits prod.splits)
  with False show ?thesis by (simp add: quarantine_report_def list_ex_iff)
qed (simp add: quarantine_report_def quarantine_findings_store)

lemma parse_id_Ok: "parse_id s = Ok i \<longleftrightarrow> i = QuarantineId s \<and> length s = 32 \<and> set s \<subseteq> set hex_table"
  by (auto simp: parse_id_def list_all_iff)

end
