(* ===== verification/Service_Jobs.thy ===== *)
theory Service_Jobs
  imports Service_Config Remediation_Policy
begin

text \<open>
  \<open>crates/service/src/jobs.rs\<close>, \<open>runner.rs\<close> and \<open>store.rs\<close>: the job table and its
  operations, the identity and command line of the child process of a job, and what its
  outcome makes of the job. Every operation of the manager holds its lock throughout, so each
  is one function on the manager's state; the results of saving a file are arguments.
\<close>

section \<open>Jobs and their children\<close>

datatype run_as = RunService | RunCaller nat nat

definition is_caller :: "run_as \<Rightarrow> bool" where
  "is_caller r = (case r of RunCaller _ _ \<Rightarrow> True | RunService \<Rightarrow> False)"

record job_spec =
  sp_kind :: job_kind
  sp_paths :: "string list"
  sp_heuristics :: bool
  sp_no_archives :: bool
  sp_quarantine :: bool
  sp_run_as :: run_as

record environment =
  env_cfg :: service_config
  env_binary :: string
  env_setpriv :: "string option"
  env_scanner :: "(nat \<times> nat) option"

text \<open>\<open>runner::Identity\<close> and the capabilities of each kind of job.\<close>

datatype identity = Inherit | Account nat nat "string list" | User nat nat

definition SCAN_CAPS :: "string list" where
  "SCAN_CAPS = [''dac_read_search'']"

definition SYSTEM_CHECK_CAPS :: "string list" where
  "SYSTEM_CHECK_CAPS = [''dac_read_search'', ''sys_ptrace'']"

definition UPDATE_CAPS :: "string list" where
  "UPDATE_CAPS = []"

definition kind_caps :: "job_kind \<Rightarrow> string list" where
  "kind_caps k =
     (case k of KindScan \<Rightarrow> SCAN_CAPS | KindSystemCheck \<Rightarrow> SYSTEM_CHECK_CAPS | KindUpdate \<Rightarrow> UPDATE_CAPS)"

text \<open>\<open>Manager::identity\<close>; \<open>euid\<close> is the service's own user.\<close>

definition job_identity :: "environment \<Rightarrow> nat \<Rightarrow> job_spec \<Rightarrow> string + identity" where
  "job_identity env euid spec =
     (case (sp_run_as spec, env_scanner env) of
        (RunService, Some (uid, gid)) \<Rightarrow> Ok (Account uid gid (kind_caps (sp_kind spec)))
      | (RunCaller uid gid, Some _) \<Rightarrow> Ok (User uid gid)
      | (RunService, None) \<Rightarrow> Ok Inherit
      | (RunCaller uid _, None) \<Rightarrow>
          if uid = euid then Ok Inherit
          else Err ''the service is not running as root, so it cannot scan as another user'')"

definition caps_arg :: "string list \<Rightarrow> string" where
  "caps_arg caps = ''-all'' @ concat (map (\<lambda>c. '',+'' @ c) caps)"

definition setpriv_args :: "identity \<Rightarrow> string list" where
  "setpriv_args i =
     (case i of
        Inherit \<Rightarrow> []
      | Account uid gid caps \<Rightarrow>
          [''--reuid='' @ show_nat uid, ''--regid='' @ show_nat gid, ''--clear-groups''] @
          [''--inh-caps='' @ caps_arg caps] @
          (if caps \<noteq> [] then [''--ambient-caps='' @ caps_arg caps] else []) @
          [''--bounding-set='' @ caps_arg caps, ''--no-new-privs'', ''--'']
      | User uid gid \<Rightarrow>
          [''--reuid='' @ show_nat uid, ''--regid='' @ show_nat gid, ''--init-groups'',
           ''--inh-caps=-all'', ''--bounding-set=-all'', ''--no-new-privs'', ''--''])"

text \<open>A command: the program and its arguments. The fixed environment is left out.\<close>

definition child_command ::
  "string option \<Rightarrow> string \<Rightarrow> identity \<Rightarrow> string list \<Rightarrow> string + (string \<times> string list)" where
  "child_command setpriv binary i args =
     (case (i, setpriv) of
        (Inherit, _) \<Rightarrow> Ok (binary, args)
      | (_, Some sp) \<Rightarrow> Ok (sp, setpriv_args i @ [binary] @ args)
      | (_, None) \<Rightarrow> Err ''changing identity needs setpriv (util-linux)'')"

definition flag_values :: "string \<Rightarrow> string list \<Rightarrow> string list" where
  "flag_values opt vs = concat (map (\<lambda>v. [opt, v]) vs)"

text \<open>\<open>child_args\<close>; \<open>scan_timeout\<close> is in seconds.\<close>

definition child_args ::
  "job_spec \<Rightarrow> service_config \<Rightarrow> string \<Rightarrow> string \<Rightarrow> bool \<Rightarrow> nat \<Rightarrow> string list" where
  "child_args spec c state_file installed use_installed timeout_secs =
     (if sp_kind spec = KindUpdate
      then [''update'', ''--format'', ''json'', ''--source'',
            (case cfg_update_source c of None \<Rightarrow> [] | Some s \<Rightarrow> s),
            ''--content-dir'', installed, ''--content-state'', state_file] @
           flag_values ''--keyring'' (cfg_keyrings c)
      else
        (if sp_kind spec = KindScan
         then [''scan'', ''--format'', ''json'', ''--no-progress'', ''--no-allowlist'',
               ''--scan-timeout'', show_nat timeout_secs] @
              (if sp_no_archives spec then [''--no-archives''] else [])
         else [''system-check'', ''--format'', ''json'']) @
        (if sp_heuristics spec then [''--heuristics''] else []) @
        flag_values ''--content'' (cfg_content c) @
        flag_values ''--keyring'' (cfg_keyrings c) @
        (if use_installed then [''--installed'', ''--content-dir'', installed] else []) @
        (if cfg_content c \<noteq> [] \<or> use_installed then [''--content-state'', state_file] else []) @
        (if sp_kind spec = KindScan then [''--''] @ sp_paths spec else []))"

section \<open>The store (\<open>store.rs\<close>)\<close>

text \<open>The readable job records and the reports on disk.\<close>

record job_store =
  sto_jobs :: "job_summary list"
  sto_reports :: "uuid \<rightharpoonup> bytes"

text \<open>A table ordered by identifier, as a \<open>BTreeMap\<close> lists its values.\<close>

fun jobs_insert :: "job_summary \<Rightarrow> job_summary list \<Rightarrow> job_summary list" where
  "jobs_insert j [] = [j]"
| "jobs_insert j (k # ks) =
     (if js_id j < js_id k then j # k # ks
      else if js_id j = js_id k then j # ks
      else k # jobs_insert j ks)"

definition jobs_get :: "uuid \<Rightarrow> job_summary list \<Rightarrow> job_summary option" where
  "jobs_get i js = find (\<lambda>j. js_id j = i) js"

definition jobs_update :: "uuid \<Rightarrow> (job_summary \<Rightarrow> job_summary) \<Rightarrow> job_summary list \<Rightarrow> job_summary list" where
  "jobs_update i f js = map (\<lambda>j. if js_id j = i then f j else j) js"

definition jobs_remove :: "uuid list \<Rightarrow> job_summary list \<Rightarrow> job_summary list" where
  "jobs_remove ids js = filter (\<lambda>j. js_id j \<notin> set ids) js"

definition store_save_job :: "bool \<Rightarrow> job_summary \<Rightarrow> job_store \<Rightarrow> job_store \<times> (string + unit)" where
  "store_save_job ok j st =
     (if ok then (st\<lparr>sto_jobs := jobs_insert j (sto_jobs st)\<rparr>, Ok ()) else (st, Err ''not saved''))"

definition store_save_report :: "bool \<Rightarrow> uuid \<Rightarrow> bytes \<Rightarrow> job_store \<Rightarrow> job_store \<times> (string + unit)" where
  "store_save_report ok i d st =
     (if ok then (st\<lparr>sto_reports := (sto_reports st)(i \<mapsto> d)\<rparr>, Ok ()) else (st, Err ''not saved''))"

text \<open>\<open>prune\<close>: the first finished jobs of the list as it is given, all but \<open>keep\<close> of them.
  \<open>can_remove\<close> tells whose record the file system lets go.\<close>

definition prune :: "(uuid \<Rightarrow> bool) \<Rightarrow> job_summary list \<Rightarrow> nat \<Rightarrow> job_store \<Rightarrow> job_store \<times> uuid list" where
  "prune can_remove jobs keep st =
     (let done_jobs = filter (\<lambda>j. finished (js_state j)) jobs;
          victims = map js_id (take (length done_jobs - keep) done_jobs);
          removed = filter can_remove victims
      in (st\<lparr>sto_jobs := jobs_remove removed (sto_jobs st),
             sto_reports := (\<lambda>i. if i \<in> set victims then None else sto_reports st i)\<rparr>,
          removed))"

definition load_jobs :: "job_store \<Rightarrow> job_summary list" where
  "load_jobs st = sort_key js_created_at (sto_jobs st)"

section \<open>The outcome of a child\<close>

text \<open>What the loop of \<open>runner::run\<close> sees each time it looks: the child has exited, or it has not
  and the deadline has passed or the job was cancelled.\<close>

datatype poll = Exited "int option" | StillRunning bool bool

text \<open>The exit code, \<open>timed_out\<close> and \<open>cancelled\<close>; \<open>killed\<close> is the code after \<open>kill_tree\<close>.\<close>

fun poll_loop :: "int option \<Rightarrow> poll list \<Rightarrow> (int option \<times> bool \<times> bool) option" where
  "poll_loop killed [] = None"
| "poll_loop killed (Exited c # ps) = Some (c, False, False)"
| "poll_loop killed (StillRunning expired cancelled # ps) =
     (if expired \<or> cancelled then Some (killed, expired, \<not> expired) else poll_loop killed ps)"

record outcome =
  oc_exit_code :: "int option"
  oc_stdout :: bytes
  oc_stdout_truncated :: bool
  oc_stderr_tail :: string
  oc_timed_out :: bool
  oc_cancelled :: bool

definition MAX_OUTPUT :: nat where
  "MAX_OUTPUT = 256 * 1048576"

definition finish_outcome :: "nat \<Rightarrow> bytes \<Rightarrow> string \<Rightarrow> int option \<times> bool \<times> bool \<Rightarrow> outcome" where
  "finish_outcome max_stdout written stderr r =
     (case r of (c, timed_out, cancelled) \<Rightarrow>
       \<lparr>oc_exit_code = c, oc_stdout = take max_stdout written,
        oc_stdout_truncated = (max_stdout < length written),
        oc_stderr_tail = stderr, oc_timed_out = timed_out, oc_cancelled = cancelled\<rparr>)"

record job_result =
  jr_state :: job_state
  jr_exit_code :: "int option"
  jr_findings :: "nat option"
  jr_quarantined :: "nat option"
  jr_error :: "string option"

definition default_result :: job_result where
  "default_result =
     \<lparr>jr_state = JobFailed, jr_exit_code = None, jr_findings = None, jr_quarantined = None, jr_error = None\<rparr>"

definition failed_result :: "string \<Rightarrow> job_result" where
  "failed_result e = default_result\<lparr>jr_error := Some e\<rparr>"

definition apply_result :: "job_result \<Rightarrow> job_summary \<Rightarrow> job_summary" where
  "apply_result r j =
     j\<lparr>js_state := jr_state r, js_exit_code := jr_exit_code r, js_findings := jr_findings r,
       js_quarantined := jr_quarantined r, js_error := jr_error r\<rparr>"

definition sanitize :: "string \<Rightarrow> string" where
  "sanitize = escape_unsafe_chars"

text \<open>\<open>remediate\<close>. \<open>allow\<close> is \<open>None\<close> where there is no quarantine store, else what reading its
  allow-list gives; \<open>op\<close> and \<open>opened\<close> are the store's.\<close>

definition remediate ::
  "(instant \<Rightarrow> string) \<Rightarrow> (string + allow_entry list) option \<Rightarrow> 'q quarantine_op \<Rightarrow> string + 'q \<Rightarrow>
     job_spec \<Rightarrow> scan_report \<Rightarrow> job_result \<Rightarrow> (string + 'q) option \<times> scan_report \<times> job_result" where
  "remediate date allow op opened spec report result =
     (let report = (case allow of
            None \<Rightarrow> report
          | Some (Ok entries) \<Rightarrow> report\<lparr>rp_findings := fst (mark_allowed date entries (rp_findings report))\<rparr>
          | Some (Err e) \<Rightarrow> report\<lparr>rp_warnings := rp_warnings report @ [''allow-list not applied: '' @ e]\<rparr>)
      in if \<not> sp_quarantine spec then (None, report, result)
         else if rp_status report \<noteq> ScanCompleted
         then (None, report\<lparr>rp_warnings := rp_warnings report @
                 [''the scan did not complete; nothing was quarantined'']\<rparr>, result)
         else
           (let (store, fs, _) = quarantine_report op opened (ss_max_file_size (rp_settings report)) False
                  (rp_findings report)
            in (store, report\<lparr>rp_findings := fs\<rparr>,
                result\<lparr>jr_quarantined :=
                  Some (length (filter (\<lambda>f. f_remediation_status f = Quarantined) fs))\<rparr>)))"

text \<open>The part of \<open>execute\<close> after the child has ended. \<open>parse_report\<close> and \<open>parse_value\<close> are
  \<open>serde_json\<close> (the latter gives the number of findings of a system report), \<open>to_json\<close> writes
  the report back; the last component is what is saved as the report.\<close>

definition job_outcome ::
  "(bytes \<Rightarrow> scan_report option) \<Rightarrow> (bytes \<Rightarrow> nat option option) \<Rightarrow> (scan_report \<Rightarrow> bytes) \<Rightarrow>
     (scan_report \<Rightarrow> job_result \<Rightarrow> (string + 'q) option \<times> scan_report \<times> job_result) \<Rightarrow> nat \<Rightarrow>
     job_kind \<Rightarrow> outcome \<Rightarrow> (string + 'q) option \<times> job_result \<times> bytes option" where
  "job_outcome parse_report parse_value to_json remedy timeout_minutes kind oc =
     (let stderr = sanitize (trim (oc_stderr_tail oc));
          start = default_result\<lparr>jr_state := Completed, jr_exit_code := oc_exit_code oc\<rparr>
      in if oc_cancelled oc
         then (None, default_result\<lparr>jr_state := Cancelled, jr_exit_code := oc_exit_code oc\<rparr>, None)
         else if oc_timed_out oc
         then (None, default_result\<lparr>jr_state := TimedOut,
                 jr_error := Some (''killed after '' @ show_nat (timeout_minutes + 1) @ '' minutes'')\<rparr>, None)
         else if oc_exit_code oc = Some 2 \<or> oc_exit_code oc = None \<or> oc_stdout_truncated oc
         then (None, (failed_result (if oc_stdout_truncated oc then ''report larger than 256 MiB'' else stderr))
                 \<lparr>jr_exit_code := oc_exit_code oc\<rparr>, None)
         else case kind of
           KindScan \<Rightarrow>
             (case parse_report (oc_stdout oc) of
                None \<Rightarrow> (None, failed_result (''unreadable scan report: '' @ stderr), None)
              | Some report \<Rightarrow>
                  (let (store, report, result) = remedy report start
                   in (store, result\<lparr>jr_findings :=
                         Some (length (filter (\<lambda>f. f_remediation_status f \<noteq> Allowed) (rp_findings report)))\<rparr>,
                       Some (to_json report))))
         | KindUpdate \<Rightarrow>
             (case parse_value (oc_stdout oc) of
                None \<Rightarrow> (None, failed_result (''unreadable update report: '' @ stderr), None)
              | Some _ \<Rightarrow> (None, start, Some (oc_stdout oc)))
         | KindSystemCheck \<Rightarrow>
             (case parse_value (oc_stdout oc) of
                None \<Rightarrow> (None, failed_result (''unreadable system report: '' @ stderr), None)
              | Some n \<Rightarrow> (None, start\<lparr>jr_findings := n\<rparr>, Some (oc_stdout oc))))"

end
