(* ===== verification/Service_Manager.thy ===== *)
theory Service_Manager
  imports Service_Jobs
begin

text \<open>
  The job manager of \<open>crates/service/src/jobs.rs\<close> as a state machine. Every operation holds
  the manager's lock, so the worker threads, the clients and the scheduler interleave whole
  operations. A worker thread is \<open>busy\<close> with one job between taking it from the queue and
  finishing it; that list is the model's record of the threads, the code keeps it on their
  stacks. The clock, new identifiers and the results of saving are arguments.
\<close>

section \<open>The state\<close>

record manager =
  mg_jobs :: "job_summary list"
  mg_specs :: "uuid \<rightharpoonup> job_spec"
  mg_queue :: "uuid list"
  mg_cancels :: "uuid \<rightharpoonup> bool"
  mg_shutdown :: bool
  mg_store :: job_store
  mg_busy :: "uuid list"

text \<open>\<open>Manager::new\<close>: jobs that were queued or running are marked failed. \<open>saved\<close> tells whose
  record could be saved.\<close>

definition interrupt_job :: "instant \<Rightarrow> job_summary \<Rightarrow> job_summary" where
  "interrupt_job now j =
     (if finished (js_state j) then j
      else j\<lparr>js_state := JobFailed, js_error := Some ''interrupted: the service stopped'',
             js_finished_at := Some now\<rparr>)"

definition load_one :: "(uuid \<Rightarrow> bool) \<Rightarrow> instant \<Rightarrow> manager \<Rightarrow> job_summary \<Rightarrow> manager" where
  "load_one saved now m j =
     (let k = interrupt_job now j
      in m\<lparr>mg_jobs := jobs_insert k (mg_jobs m),
           mg_store := (if finished (js_state j) then mg_store m
                        else fst (store_save_job (saved (js_id j)) k (mg_store m)))\<rparr>)"

definition new_manager :: "(uuid \<Rightarrow> bool) \<Rightarrow> instant \<Rightarrow> job_store \<Rightarrow> manager" where
  "new_manager saved now store =
     foldl (load_one saved now)
       \<lparr>mg_jobs = [], mg_specs = Map.empty, mg_queue = [], mg_cancels = Map.empty, mg_shutdown = False,
        mg_store = store, mg_busy = []\<rparr>
       (load_jobs store)"

section \<open>Operations\<close>

definition new_summary :: "uuid \<Rightarrow> instant \<Rightarrow> string \<Rightarrow> string option \<Rightarrow> job_spec \<Rightarrow> job_summary" where
  "new_summary i now owner sched spec =
     \<lparr>js_id = i, js_kind = sp_kind spec, js_state = Queued, js_owner = owner, js_schedule = sched,
      js_paths = sp_paths spec, js_heuristics = sp_heuristics spec, js_quarantine = sp_quarantine spec,
      js_as_owner = is_caller (sp_run_as spec), js_created_at = now, js_started_at = None,
      js_finished_at = None, js_exit_code = None, js_findings = None, js_quarantined = None,
      js_error = None\<rparr>"

definition submit ::
  "service_config \<Rightarrow> uuid \<Rightarrow> instant \<Rightarrow> bool \<Rightarrow> string \<Rightarrow> string option \<Rightarrow> job_spec \<Rightarrow> manager \<Rightarrow>
     manager \<times> (rejection + uuid)" where
  "submit c i now saved owner sched spec m =
     (if mg_shutdown m then (m, Err (reject Busy ''the service is shutting down''))
      else if unat (cfg_max_queued_jobs c) \<le> length (mg_queue m)
      then (m, Err (reject Busy ''too many queued jobs; try again later''))
      else
        let j = new_summary i now owner sched spec in
        case store_save_job saved j (mg_store m) of
          (st, Err e) \<Rightarrow> (m\<lparr>mg_store := st\<rparr>, Err (reject Internal e))
        | (st, Ok _) \<Rightarrow>
            (m\<lparr>mg_store := st, mg_jobs := jobs_insert j (mg_jobs m), mg_specs := (mg_specs m)(i \<mapsto> spec),
               mg_queue := mg_queue m @ [i]\<rparr>, Ok i))"

definition get_job :: "manager \<Rightarrow> uuid \<Rightarrow> job_summary option" where
  "get_job m i = jobs_get i (mg_jobs m)"

definition MAX_LISTED :: nat where
  "MAX_LISTED = 500"

definition list_jobs :: "(job_summary \<Rightarrow> bool) \<Rightarrow> manager \<Rightarrow> job_summary list" where
  "list_jobs visible m = take MAX_LISTED (sort_key (\<lambda>j. - js_created_at j) (filter visible (mg_jobs m)))"

definition counts :: "manager \<Rightarrow> nat \<times> nat" where
  "counts m = (card (dom (mg_cancels m)), length (mg_queue m))"

text \<open>Setting a state and saving the record, ignoring whether it was saved.\<close>

definition update_saved :: "bool \<Rightarrow> uuid \<Rightarrow> (job_summary \<Rightarrow> job_summary) \<Rightarrow> manager \<Rightarrow> manager" where
  "update_saved saved i f m =
     (case jobs_get i (mg_jobs m) of
        None \<Rightarrow> m
      | Some j \<Rightarrow> m\<lparr>mg_jobs := jobs_update i f (mg_jobs m),
                  mg_store := fst (store_save_job saved (f j) (mg_store m))\<rparr>)"

definition cancel_job :: "uuid \<Rightarrow> instant \<Rightarrow> bool \<Rightarrow> manager \<Rightarrow> manager \<times> (rejection + unit)" where
  "cancel_job i now saved m =
     (if mg_cancels m i \<noteq> None then (m\<lparr>mg_cancels := (mg_cancels m)(i \<mapsto> True)\<rparr>, Ok ())
      else if i \<in> set (mg_queue m) then
        (update_saved saved i (\<lambda>j. j\<lparr>js_state := Cancelled, js_finished_at := Some now\<rparr>)
           (m\<lparr>mg_queue := remove1 i (mg_queue m), mg_specs := (mg_specs m)(i := None)\<rparr>), Ok ())
      else (m, Err (reject NotFound ''the job is not queued or running'')))"

definition shutdown_manager :: "manager \<Rightarrow> manager" where
  "shutdown_manager m = m\<lparr>mg_shutdown := True, mg_cancels := (\<lambda>i. map_option (\<lambda>_. True) (mg_cancels m i))\<rparr>"

text \<open>The first half of the loop of \<open>worker\<close>: queued identifiers without a specification are
  passed over. \<open>None\<close> where the worker waits or stops.\<close>

fun first_with_spec :: "(uuid \<rightharpoonup> job_spec) \<Rightarrow> uuid list \<Rightarrow> (uuid \<times> job_spec \<times> uuid list) option" where
  "first_with_spec specs [] = None"
| "first_with_spec specs (i # q) =
     (case specs i of None \<Rightarrow> first_with_spec specs q | Some s \<Rightarrow> Some (i, s, q))"

definition take_job :: "instant \<Rightarrow> bool \<Rightarrow> manager \<Rightarrow> manager \<times> (uuid \<times> job_spec) option" where
  "take_job now saved m =
     (if mg_shutdown m then (m, None)
      else case first_with_spec (mg_specs m) (mg_queue m) of
        None \<Rightarrow> (m\<lparr>mg_queue := []\<rparr>, None)
      | Some (i, s, q) \<Rightarrow>
          (update_saved saved i (\<lambda>j. j\<lparr>js_state := Running, js_started_at := Some now\<rparr>)
             (m\<lparr>mg_queue := q, mg_specs := (mg_specs m)(i := None), mg_cancels := (mg_cancels m)(i \<mapsto> False),
                mg_busy := i # mg_busy m\<rparr>), Some (i, s)))"

text \<open>The second half: the result is applied and saved, and old jobs are pruned.\<close>

definition finish_job ::
  "service_config \<Rightarrow> (uuid \<Rightarrow> bool) \<Rightarrow> uuid \<Rightarrow> job_result \<Rightarrow> instant \<Rightarrow> bool \<Rightarrow> manager \<Rightarrow> manager" where
  "finish_job c can_remove i r now saved m =
     (let m = update_saved saved i (\<lambda>j. apply_result r (j\<lparr>js_finished_at := Some now\<rparr>))
            (m\<lparr>mg_cancels := (mg_cancels m)(i := None), mg_busy := remove1 i (mg_busy m)\<rparr>);
          (st, removed) = prune can_remove (mg_jobs m) (unat (cfg_history_limit c)) (mg_store m)
      in m\<lparr>mg_store := st, mg_jobs := jobs_remove removed (mg_jobs m)\<rparr>)"

definition save_report :: "bool \<Rightarrow> uuid \<Rightarrow> bytes \<Rightarrow> manager \<Rightarrow> manager" where
  "save_report saved i d m = m\<lparr>mg_store := fst (store_save_report saved i d (mg_store m))\<rparr>"

section \<open>Runs\<close>

text \<open>A step of the service. A new identifier is one no job has had in the table, as random
  UUIDs are; a worker takes a job only while fewer than the configured number are busy, and a
  job finishes with a result whose state is final, as \<open>job_outcome\<close> gives it.\<close>

inductive manager_step :: "service_config \<Rightarrow> manager \<Rightarrow> manager \<Rightarrow> bool" for c where
  Submit: "jobs_get i (mg_jobs m) = None \<Longrightarrow>
     manager_step c m (fst (submit c i now saved owner sched spec m))"
| Cancel: "manager_step c m (fst (cancel_job i now saved m))"
| Shutdown: "manager_step c m (shutdown_manager m)"
| Take: "length (mg_busy m) < unat (cfg_max_concurrent_jobs c) \<Longrightarrow>
     manager_step c m (fst (take_job now saved m))"
| Report: "i \<in> set (mg_busy m) \<Longrightarrow> manager_step c m (save_report saved i d m)"
| Finish: "i \<in> set (mg_busy m) \<Longrightarrow> finished (jr_state r) \<Longrightarrow>
     manager_step c m (finish_job c can_remove i r now saved m)"

end
