(* ===== verification/Service_Manager_Props.thy ===== *)
theory Service_Manager_Props
  imports Service_Manager
begin

text \<open>
  The invariant of the job manager and the life of a job, for every interleaving of the
  operations of \<open>Service_Manager\<close>.
\<close>

section \<open>Job tables\<close>

definition table :: "job_summary list \<Rightarrow> bool" where
  "table js \<longleftrightarrow> sorted_wrt (<) (map js_id js)"

lemma table_distinct: "table js \<Longrightarrow> distinct (map js_id js)"
  by (simp add: table_def strict_sorted_iff)

lemma jobs_get_Some: "table js \<Longrightarrow> jobs_get i js = Some j \<longleftrightarrow> j \<in> set js \<and> js_id j = i"
  using table_distinct [of js]
proof (induction js)
  case (Cons k ks)
  then show ?case
    by (cases "js_id k = i") (auto simp: jobs_get_def table_def)
qed (simp add: jobs_get_def)

lemma jobs_get_None: "jobs_get i js = None \<longleftrightarrow> i \<notin> js_id ` set js"
  by (auto simp: jobs_get_def find_None_iff)

lemma set_jobs_insert: "table js \<Longrightarrow> set (jobs_insert j js) = insert j {k \<in> set js. js_id k \<noteq> js_id j}"
  by (induction js) (auto simp: table_def)

lemma table_jobs_insert: "table js \<Longrightarrow> table (jobs_insert j js)"
proof (induction js)
  case (Cons k ks)
  then have "set (jobs_insert j ks) = insert j {k \<in> set ks. js_id k \<noteq> js_id j}"
    by (simp add: set_jobs_insert table_def)
  with Cons show ?case by (auto simp: table_def)
qed (simp add: table_def)

lemma jobs_get_insert:
  assumes "table js"
  shows "jobs_get i (jobs_insert j js) = (if i = js_id j then Some j else jobs_get i js)"
proof (cases "i = js_id j")
  case True
  then show ?thesis
    using jobs_get_Some [OF table_jobs_insert [OF assms]] by (simp add: set_jobs_insert assms)
next
  case False
  then have "jobs_get i (jobs_insert j js) = Some k \<longleftrightarrow> jobs_get i js = Some k" for k
    using jobs_get_Some [OF table_jobs_insert [OF assms]] jobs_get_Some [OF assms]
    by (auto simp: set_jobs_insert assms)
  with False show ?thesis
    by (metis option.exhaust)
qed

lemma table_jobs_update: "(\<And>j. js_id (f j) = js_id j) \<Longrightarrow> table (jobs_update i f js) = table js"
  by (simp add: table_def jobs_update_def comp_def if_distrib cong: if_cong)

lemma jobs_get_update:
  "(\<And>j. js_id (f j) = js_id j) \<Longrightarrow>
     jobs_get k (jobs_update i f js) = (if k = i then map_option f (jobs_get k js) else jobs_get k js)"
  by (induction js) (auto simp: jobs_get_def jobs_update_def)

lemma table_jobs_remove: "table js \<Longrightarrow> table (jobs_remove ids js)"
  by (induction js) (auto simp: table_def jobs_remove_def)

lemma jobs_get_remove: "jobs_get i (jobs_remove ids js) = (if i \<in> set ids then None else jobs_get i js)"
  by (induction js) (auto simp: jobs_get_def jobs_remove_def)

lemma prune_victims:
  assumes "table jobs"
  shows "i \<in> set (snd (prune can_remove jobs keep st)) \<Longrightarrow> \<exists>j. jobs_get i jobs = Some j \<and> finished (js_state j)"
  using jobs_get_Some [OF assms]
  by (fastforce simp: prune_def Let_def dest!: in_set_takeD)

section \<open>The invariant\<close>

definition manager_ok :: "service_config \<Rightarrow> manager \<Rightarrow> bool" where
  "manager_ok c m \<longleftrightarrow>
     table (mg_jobs m) \<and> distinct (mg_queue m) \<and> distinct (mg_busy m) \<and>
     set (mg_queue m) \<inter> set (mg_busy m) = {} \<and>
     dom (mg_specs m) = set (mg_queue m) \<and> dom (mg_cancels m) = set (mg_busy m) \<and>
     length (mg_busy m) \<le> unat (cfg_max_concurrent_jobs c) \<and>
     length (mg_queue m) \<le> unat (cfg_max_queued_jobs c) \<and>
     (\<forall>i. (i \<in> set (mg_queue m)) = (map_option js_state (get_job m i) = Some Queued)) \<and>
     (\<forall>i. (i \<in> set (mg_busy m)) = (map_option js_state (get_job m i) = Some Running))"

lemma update_saved_frame [simp]:
  "mg_specs (update_saved saved i f m) = mg_specs m"
  "mg_queue (update_saved saved i f m) = mg_queue m"
  "mg_cancels (update_saved saved i f m) = mg_cancels m"
  "mg_shutdown (update_saved saved i f m) = mg_shutdown m"
  "mg_busy (update_saved saved i f m) = mg_busy m"
  by (simp_all add: update_saved_def split: option.splits)

lemma jobs_update_absent: "jobs_get i js = None \<Longrightarrow> jobs_update i f js = js"
  by (induction js) (auto simp: jobs_get_def jobs_update_def split: if_splits)

lemma update_saved_jobs [simp]: "mg_jobs (update_saved saved i f m) = jobs_update i f (mg_jobs m)"
  by (simp add: update_saved_def jobs_update_absent split: option.splits)

lemma first_with_spec_head:
  "dom specs = set q \<Longrightarrow> first_with_spec specs q =
     (case q of [] \<Rightarrow> None | i # r \<Rightarrow> Some (i, the (specs i), r))"
  by (cases q) (auto split: option.splits)

lemma manager_ok_cong:
  "manager_ok c m \<Longrightarrow> mg_jobs m' = mg_jobs m \<Longrightarrow> mg_queue m' = mg_queue m \<Longrightarrow> mg_busy m' = mg_busy m \<Longrightarrow>
     dom (mg_specs m') = dom (mg_specs m) \<Longrightarrow> dom (mg_cancels m') = dom (mg_cancels m) \<Longrightarrow> manager_ok c m'"
  by (simp add: manager_ok_def get_job_def)

lemma manager_ok_table: "manager_ok c m \<Longrightarrow> table (mg_jobs m)"
  by (simp add: manager_ok_def)

lemma submit_Ok:
  assumes "submit c i now saved owner sched spec m = (m', Ok i')"
  shows "i' = i \<and> saved \<and> \<not> mg_shutdown m \<and> length (mg_queue m) < unat (cfg_max_queued_jobs c) \<and>
    m' = m\<lparr>mg_store := fst (store_save_job True (new_summary i now owner sched spec) (mg_store m)),
           mg_jobs := jobs_insert (new_summary i now owner sched spec) (mg_jobs m),
           mg_specs := (mg_specs m)(i \<mapsto> spec), mg_queue := mg_queue m @ [i]\<rparr>"
  using assms
  by (auto simp: submit_def store_save_job_def Let_def not_le split: if_splits)

lemma submit_Err:
  assumes "submit c i now saved owner sched spec m = (m', Err e)"
  shows "m' = m"
  using assms by (auto simp: submit_def store_save_job_def Let_def split: if_splits)

lemma submit_ok:
  assumes "manager_ok c m" and "jobs_get i (mg_jobs m) = None"
  shows "manager_ok c (fst (submit c i now saved owner sched spec m))"
proof -
  obtain m' r where s: "submit c i now saved owner sched spec m = (m', r)" by fastforce
  show ?thesis
  proof (cases r)
    case (Inl e)
    with s submit_Err assms(1) show ?thesis by (metis fst_conv)
  next
    case (Inr i')
    from submit_Ok [OF s [unfolded Inr]] have q: "length (mg_queue m) < unat (cfg_max_queued_jobs c)" and
      m': "m' = m\<lparr>mg_store := fst (store_save_job True (new_summary i now owner sched spec) (mg_store m)),
           mg_jobs := jobs_insert (new_summary i now owner sched spec) (mg_jobs m),
           mg_specs := (mg_specs m)(i \<mapsto> spec), mg_queue := mg_queue m @ [i]\<rparr>" by blast+
    have new: "i \<notin> set (mg_queue m)" "i \<notin> set (mg_busy m)"
      using assms by (auto simp: manager_ok_def get_job_def)
    have g: "get_job m' k = (if k = i then Some (new_summary i now owner sched spec) else get_job m k)" for k
      using manager_ok_table [OF assms(1)] by (simp add: m' get_job_def jobs_get_insert new_summary_def)
    show ?thesis
      using assms(1) new q unfolding s fst_conv manager_ok_def g
      by (simp add: m' table_jobs_insert new_summary_def)
  qed
qed

lemma cancel_queued:
  assumes "manager_ok c m" and "i \<in> set (mg_queue m)"
  shows "cancel_job i now saved m =
    (update_saved saved i (\<lambda>j. j\<lparr>js_state := Cancelled, js_finished_at := Some now\<rparr>)
       (m\<lparr>mg_queue := remove1 i (mg_queue m), mg_specs := (mg_specs m)(i := None)\<rparr>), Ok ())"
proof -
  have "i \<notin> dom (mg_cancels m)"
    using assms by (auto simp: manager_ok_def)
  with assms(2) show ?thesis by (simp add: cancel_job_def domIff)
qed

lemma cancel_ok:
  assumes "manager_ok c m"
  shows "manager_ok c (fst (cancel_job i now saved m))"
proof (cases "i \<in> set (mg_queue m)")
  case True
  let ?f = "\<lambda>j. j\<lparr>js_state := Cancelled, js_finished_at := Some now\<rparr>"
  let ?m = "fst (cancel_job i now saved m)"
  have g: "get_job ?m k = (if k = i then map_option ?f (get_job m k) else get_job m k)" for k
    by (simp add: cancel_queued [OF assms True] get_job_def jobs_get_update)
  have i: "i \<notin> set (mg_busy m)"
    using assms True by (auto simp: manager_ok_def)
  have st: "map_option js_state (get_job ?m k) =
      (if k = i then map_option (\<lambda>_. Cancelled) (get_job m k) else map_option js_state (get_job m k))" for k
    by (simp add: g option.map_comp comp_def)
  show ?thesis
    unfolding manager_ok_def st
    using assms i by (auto simp: cancel_queued [OF assms True] manager_ok_def table_jobs_update
        length_remove1 dest: in_set_remove1)
next
  case False
  show ?thesis
  proof (cases "mg_cancels m i")
    case None
    with False assms show ?thesis by (simp add: cancel_job_def)
  next
    case (Some b)
    show ?thesis
      by (rule manager_ok_cong [OF assms]) (use Some in \<open>auto simp: cancel_job_def\<close>)
  qed
qed

lemma shutdown_ok: "manager_ok c m \<Longrightarrow> manager_ok c (shutdown_manager m)"
  by (erule manager_ok_cong) (auto simp: shutdown_manager_def)

lemma save_report_ok: "manager_ok c m \<Longrightarrow> manager_ok c (save_report saved i d m)"
  by (erule manager_ok_cong) (auto simp: save_report_def)

lemma take_job_cases:
  assumes "manager_ok c m"
  shows "take_job now saved m =
    (if mg_shutdown m then (m, None)
     else case mg_queue m of [] \<Rightarrow> (m\<lparr>mg_queue := []\<rparr>, None)
     | i # q \<Rightarrow>
       (update_saved saved i (\<lambda>j. j\<lparr>js_state := Running, js_started_at := Some now\<rparr>)
         (m\<lparr>mg_queue := q, mg_specs := (mg_specs m)(i := None), mg_cancels := (mg_cancels m)(i \<mapsto> False),
            mg_busy := i # mg_busy m\<rparr>), Some (i, the (mg_specs m i))))"
  using assms
  by (simp add: manager_ok_def take_job_def first_with_spec_head split: list.splits)

lemma take_ok:
  assumes ok: "manager_ok c m" and free: "length (mg_busy m) < unat (cfg_max_concurrent_jobs c)"
  shows "manager_ok c (fst (take_job now saved m))"
proof (cases "mg_shutdown m \<or> mg_queue m = []")
  case True
  then have "fst (take_job now saved m) = m"
    by (auto simp: take_job_cases [OF ok])
  with ok show ?thesis by simp
next
  case False
  then obtain i q where iq: "mg_queue m = i # q" "\<not> mg_shutdown m" by (cases "mg_queue m") auto
  let ?f = "\<lambda>j. j\<lparr>js_state := Running, js_started_at := Some now\<rparr>"
  let ?m = "fst (take_job now saved m)"
  have m: "?m = update_saved saved i ?f (m\<lparr>mg_queue := q, mg_specs := (mg_specs m)(i := None),
      mg_cancels := (mg_cancels m)(i \<mapsto> False), mg_busy := i # mg_busy m\<rparr>)"
    using iq by (simp add: take_job_cases [OF ok])
  have st: "map_option js_state (get_job ?m k) =
      (if k = i then map_option (\<lambda>_. Running) (get_job m k) else map_option js_state (get_job m k))" for k
    unfolding m by (simp add: get_job_def jobs_get_update option.map_comp comp_def)
  have q: "i \<notin> set q" "i \<notin> set (mg_busy m)" "map_option js_state (get_job m i) = Some Queued"
    using ok iq by (auto simp: manager_ok_def)
  show ?thesis
    unfolding manager_ok_def st
    unfolding m using ok iq q free by (auto simp: manager_ok_def table_jobs_update)
qed

lemma finish_job_get:
  assumes "table (mg_jobs m)"
  shows "\<exists>removed. (\<forall>k \<in> set removed. \<exists>j. finished (js_state j) \<and>
        jobs_get k (jobs_update i (\<lambda>j. apply_result r (j\<lparr>js_finished_at := Some now\<rparr>)) (mg_jobs m)) = Some j) \<and>
    mg_jobs (finish_job c can_remove i r now saved m) =
      jobs_remove removed (jobs_update i (\<lambda>j. apply_result r (j\<lparr>js_finished_at := Some now\<rparr>)) (mg_jobs m)) \<and>
    mg_queue (finish_job c can_remove i r now saved m) = mg_queue m \<and>
    mg_specs (finish_job c can_remove i r now saved m) = mg_specs m \<and>
    mg_busy (finish_job c can_remove i r now saved m) = remove1 i (mg_busy m) \<and>
    mg_cancels (finish_job c can_remove i r now saved m) = (mg_cancels m)(i := None)"
proof -
  let ?f = "\<lambda>j. apply_result r (j\<lparr>js_finished_at := Some now\<rparr>)"
  let ?m = "update_saved saved i ?f (m\<lparr>mg_cancels := (mg_cancels m)(i := None), mg_busy := remove1 i (mg_busy m)\<rparr>)"
  obtain st removed where p: "prune can_remove (mg_jobs ?m) (unat (cfg_history_limit c)) (mg_store ?m) = (st, removed)"
    by fastforce
  have t: "table (mg_jobs ?m)"
    using assms by (simp add: table_jobs_update apply_result_def)
  from prune_victims [OF t, of _ can_remove "unat (cfg_history_limit c)" "mg_store ?m"] p
  have "\<forall>k \<in> set removed. \<exists>j. jobs_get k (mg_jobs ?m) = Some j \<and> finished (js_state j)" by simp
  with p show ?thesis
    by (intro exI [of _ removed]) (auto simp: finish_job_def Let_def)
qed

lemma finish_ok:
  assumes ok: "manager_ok c m" and busy: "i \<in> set (mg_busy m)" and fin: "finished (jr_state r)"
  shows "manager_ok c (finish_job c can_remove i r now saved m)"
proof -
  let ?f = "\<lambda>j. apply_result r (j\<lparr>js_finished_at := Some now\<rparr>)"
  let ?m = "finish_job c can_remove i r now saved m"
  from finish_job_get [OF manager_ok_table [OF ok]] obtain removed where
    rm: "\<forall>k \<in> set removed. \<exists>j. finished (js_state j) \<and> jobs_get k (jobs_update i ?f (mg_jobs m)) = Some j"
    and jobs: "mg_jobs ?m = jobs_remove removed (jobs_update i ?f (mg_jobs m))"
    and rest: "mg_queue ?m = mg_queue m" "mg_specs ?m = mg_specs m" "mg_busy ?m = remove1 i (mg_busy m)"
      "mg_cancels ?m = (mg_cancels m)(i := None)"
    by blast
  have g: "jobs_get k (jobs_update i ?f (mg_jobs m)) = (if k = i then map_option ?f (get_job m k) else get_job m k)" for k
    by (simp add: jobs_get_update apply_result_def get_job_def)
  have i: "i \<notin> set (mg_queue m)" using ok busy by (auto simp: manager_ok_def)
  have live: "map_option js_state (get_job ?m k) = Some s \<longleftrightarrow> k \<noteq> i \<and> map_option js_state (get_job m k) = Some s"
    if "\<not> finished s" for k s
  proof (cases "k \<in> set removed")
    case True
    with rm obtain j where "finished (js_state j)" "(if k = i then map_option ?f (get_job m k) else get_job m k) = Some j"
      unfolding g by blast
    with True that show ?thesis
      by (auto simp: get_job_def jobs jobs_get_remove split: if_splits)
  next
    case False
    then have "get_job ?m k = (if k = i then map_option ?f (get_job m k) else get_job m k)"
      by (simp only: get_job_def [of ?m] jobs jobs_get_remove g if_False)
    with that fin show ?thesis
      by (auto simp: apply_result_def)
  qed
  have t: "table (mg_jobs ?m)"
    using manager_ok_table [OF ok] by (simp add: jobs table_jobs_remove table_jobs_update apply_result_def)
  have "\<not> finished Queued" "\<not> finished Running" by (simp_all add: finished_def)
  with live have qr: "map_option js_state (get_job ?m k) = Some Queued \<longleftrightarrow> k \<noteq> i \<and> map_option js_state (get_job m k) = Some Queued"
    "map_option js_state (get_job ?m k) = Some Running \<longleftrightarrow> k \<noteq> i \<and> map_option js_state (get_job m k) = Some Running" for k
    by blast+
  show ?thesis
    unfolding manager_ok_def qr rest
    using ok t i by (auto simp: manager_ok_def length_remove1)
qed

lemma manager_step_ok: "manager_step c m m' \<Longrightarrow> manager_ok c m \<Longrightarrow> manager_ok c m'"
  by (induction rule: manager_step.induct)
    (auto intro: submit_ok cancel_ok shutdown_ok take_ok save_report_ok finish_ok simp: get_job_def)

inductive_cases manager_stepE: "manager_step c m m'"

section \<open>The life of a job\<close>

text \<open>What one step may make of a job: \<open>None\<close> is a job that is not in the table.\<close>

definition life :: "job_summary option \<Rightarrow> job_summary option \<Rightarrow> bool" where
  "life a b \<longleftrightarrow>
     (case a of
        None \<Rightarrow> b = None \<or> map_option js_state b = Some Queued
      | Some j \<Rightarrow>
          if js_state j = Queued then map_option js_state b \<in> {Some Queued, Some Running, Some Cancelled}
          else if js_state j = Running then b = None \<or> b = a \<or> map_option (finished \<circ> js_state) b = Some True
          else b = None \<or> b = a)"

lemma life_refl [simp]: "life a a"
  by (auto simp: life_def split: option.splits)

lemma life_same_jobs: "mg_jobs m' = mg_jobs m \<Longrightarrow> life (get_job m k) (get_job m' k)"
  by (simp add: get_job_def)

lemma manager_step_life:
  assumes "manager_step c m m'" and ok: "manager_ok c m"
  shows "life (get_job m k) (get_job m' k)"
  using assms(1)
proof (cases rule: manager_step.cases)
  case (Submit i now saved owner sched spec)
  obtain r where s: "submit c i now saved owner sched spec m = (m', r)"
    using Submit(1) by (metis prod.collapse)
  show ?thesis
  proof (cases r)
    case (Inl e)
    with submit_Err s show ?thesis by (metis life_refl)
  next
    case (Inr i')
    from submit_Ok [OF s [unfolded Inr]] manager_ok_table [OF ok] have
      "get_job m' k = (if k = i then Some (new_summary i now owner sched spec) else get_job m k)"
      by (auto simp: get_job_def jobs_get_insert new_summary_def)
    moreover have "get_job m i = None" using Submit(2) by (simp add: get_job_def)
    ultimately show ?thesis
      by (cases "k = i") (simp_all add: life_def new_summary_def)
  qed
next
  case (Cancel i now saved)
  show ?thesis
  proof (cases "i \<in> set (mg_queue m)")
    case True
    then have "map_option js_state (get_job m i) = Some Queued" using ok by (auto simp: manager_ok_def)
    moreover have "get_job m' k = (if k = i then map_option (\<lambda>j. j\<lparr>js_state := Cancelled, js_finished_at := Some now\<rparr>) (get_job m k)
        else get_job m k)"
      unfolding Cancel cancel_queued [OF ok True] by (simp add: get_job_def jobs_get_update)
    ultimately show ?thesis by (cases "k = i") (auto simp: life_def)
  next
    case False
    then have "mg_jobs m' = mg_jobs m" unfolding Cancel by (simp add: cancel_job_def)
    then show ?thesis by (rule life_same_jobs)
  qed
next
  case (Take now saved)
  show ?thesis
  proof (cases "mg_shutdown m \<or> mg_queue m = []")
    case True
    then have "m' = m" unfolding Take by (auto simp: take_job_cases [OF ok])
    then show ?thesis by simp
  next
    case False
    then obtain i q where iq: "mg_queue m = i # q" "\<not> mg_shutdown m" by (cases "mg_queue m") auto
    then have "map_option js_state (get_job m i) = Some Queued" using ok by (auto simp: manager_ok_def)
    moreover have "get_job m' k = (if k = i then map_option (\<lambda>j. j\<lparr>js_state := Running, js_started_at := Some now\<rparr>) (get_job m k)
        else get_job m k)"
      unfolding Take using iq by (simp add: take_job_cases [OF ok] get_job_def jobs_get_update)
    ultimately show ?thesis by (cases "k = i") (auto simp: life_def)
  qed
next
  case (Finish i r can_remove now saved)
  let ?f = "\<lambda>j. apply_result r (j\<lparr>js_finished_at := Some now\<rparr>)"
  from finish_job_get [OF manager_ok_table [OF ok]] obtain removed where
    rm: "\<forall>k \<in> set removed. \<exists>j. finished (js_state j) \<and> jobs_get k (jobs_update i ?f (mg_jobs m)) = Some j"
    and jobs: "mg_jobs m' = jobs_remove removed (jobs_update i ?f (mg_jobs m))"
    unfolding Finish by blast
  have g: "jobs_get k (jobs_update i ?f (mg_jobs m)) = (if k = i then map_option ?f (get_job m k) else get_job m k)" for k
    by (simp add: jobs_get_update apply_result_def get_job_def)
  have i: "map_option js_state (get_job m i) = Some Running"
    using ok Finish by (auto simp: manager_ok_def)
  show ?thesis
  proof (cases "k \<in> set removed")
    case True
    then have "get_job m' k = None" by (simp add: get_job_def jobs jobs_get_remove)
    with True rm i show ?thesis
      unfolding g by (cases "k = i") (auto simp: life_def finished_def)
  next
    case False
    then have "get_job m' k = (if k = i then map_option ?f (get_job m k) else get_job m k)"
      by (simp add: get_job_def [of m'] jobs jobs_get_remove g)
    with i Finish show ?thesis by (cases "k = i") (auto simp: life_def apply_result_def finished_def)
  qed
qed (simp_all add: life_same_jobs shutdown_manager_def save_report_def)

section \<open>Restarting\<close>

lemma interrupt_job_finished [simp]: "finished (js_state (interrupt_job now j))" "js_id (interrupt_job now j) = js_id j"
  by (simp_all add: interrupt_job_def finished_def)

lemma load_one_frame [simp]:
  "mg_jobs (load_one saved now m j) = jobs_insert (interrupt_job now j) (mg_jobs m)"
  "mg_queue (load_one saved now m j) = mg_queue m" "mg_specs (load_one saved now m j) = mg_specs m"
  "mg_cancels (load_one saved now m j) = mg_cancels m" "mg_busy (load_one saved now m j) = mg_busy m"
  "mg_shutdown (load_one saved now m j) = mg_shutdown m"
  by (simp_all add: load_one_def Let_def)

lemma load_all_frame:
  "mg_queue (foldl (load_one saved now) m js) = mg_queue m" "mg_specs (foldl (load_one saved now) m js) = mg_specs m"
  "mg_cancels (foldl (load_one saved now) m js) = mg_cancels m" "mg_busy (foldl (load_one saved now) m js) = mg_busy m"
  "mg_shutdown (foldl (load_one saved now) m js) = mg_shutdown m"
  by (induction js arbitrary: m) simp_all

lemma load_all_jobs:
  "table (mg_jobs m) \<Longrightarrow> table (mg_jobs (foldl (load_one saved now) m js)) \<and>
     set (mg_jobs (foldl (load_one saved now) m js)) \<subseteq> set (mg_jobs m) \<union> interrupt_job now ` set js \<and>
     js_id ` set (mg_jobs (foldl (load_one saved now) m js)) = js_id ` set (mg_jobs m) \<union> js_id ` set js"
proof (induction js arbitrary: m)
  case (Cons j js)
  let ?m = "load_one saved now m j"
  have t: "table (mg_jobs ?m)" by (simp add: table_jobs_insert Cons.prems)
  have "set (mg_jobs ?m) \<subseteq> insert (interrupt_job now j) (set (mg_jobs m))"
    "js_id ` set (mg_jobs ?m) = insert (js_id j) (js_id ` set (mg_jobs m))"
    by (auto simp: set_jobs_insert [OF Cons.prems])
  with Cons.IH [OF t] show ?case
    unfolding foldl_Cons by auto
qed simp

lemma new_manager_jobs:
  "table (mg_jobs (new_manager saved now st))"
  "set (mg_jobs (new_manager saved now st)) \<subseteq> interrupt_job now ` set (sto_jobs st)"
  "js_id ` set (mg_jobs (new_manager saved now st)) = js_id ` set (sto_jobs st)"
  using load_all_jobs [of "\<lparr>mg_jobs = [], mg_specs = Map.empty, mg_queue = [], mg_cancels = Map.empty,
    mg_shutdown = False, mg_store = st, mg_busy = []\<rparr>" saved now "load_jobs st"]
  by (simp_all add: new_manager_def load_jobs_def table_def)

lemma new_manager_frame [simp]:
  "mg_queue (new_manager saved now st) = []" "mg_specs (new_manager saved now st) = Map.empty"
  "mg_cancels (new_manager saved now st) = Map.empty" "mg_busy (new_manager saved now st) = []"
  by (simp_all add: new_manager_def load_all_frame)

lemma new_manager_job:
  "get_job (new_manager saved now st) k = Some j \<Longrightarrow> \<exists>j0 \<in> set (sto_jobs st). js_id j0 = k \<and> j = interrupt_job now j0"
  unfolding get_job_def jobs_get_Some [OF new_manager_jobs(1)] using new_manager_jobs(2) by fastforce

lemma new_manager_ok: "manager_ok c (new_manager saved now st)"
proof -
  have "finished (js_state j)" if "get_job (new_manager saved now st) k = Some j" for k j
    using new_manager_job [OF that] by auto
  then have "map_option js_state (get_job (new_manager saved now st) k) \<noteq> Some s" if "\<not> finished s" for k s
    using that by (cases "get_job (new_manager saved now st) k") auto
  moreover have "\<not> finished Queued" "\<not> finished Running" by (simp_all add: finished_def)
  ultimately show ?thesis
    unfolding manager_ok_def by (simp add: new_manager_jobs(1))
qed

abbreviation reachable :: "service_config \<Rightarrow> (uuid \<Rightarrow> bool) \<Rightarrow> instant \<Rightarrow> job_store \<Rightarrow> manager \<Rightarrow> bool" where
  "reachable c saved now st \<equiv> (manager_step c)\<^sup>*\<^sup>* (new_manager saved now st)"

lemma reachable_ok: "reachable c saved now st m \<Longrightarrow> manager_ok c m"
  by (induction rule: rtranclp_induct) (auto intro: new_manager_ok manager_step_ok)

end
