(* ===== verification/Remediation_Audit.thy ===== *)
theory Remediation_Audit
  imports Remediation_Policy
begin

text \<open>
  \<open>crates/remediation/src/audit.rs\<close> and \<open>anchors.rs\<close>: the hash-chained audit log, the text of
  the anchors sent to the system log (\<open>common.rs\<close>), and the comparison of the two. SHA-256
  and \<open>serde_json\<close> are parameters. Counters are \<open>u64\<close>; where the code subtracts them without
  a check the model wraps, as the release build does.
\<close>

section \<open>The chain (\<open>audit.rs\<close>)\<close>

definition GENESIS :: string where
  "GENESIS = replicate 64 (CHR ''0'')"

definition MAX_LINE :: nat where
  "MAX_LINE = 256 * 1024"

record audit_entry =
  ent_seq :: u64
  ent_time :: instant
  ent_actor_uid :: nat
  ent_actor_sid :: "string option"
  ent_on_behalf_of :: "string option"
  ent_action :: string
  ent_item :: "string option"
  ent_path :: "observed_path option"
  ent_sha256 :: "digest option"
  ent_outcome :: string
  ent_detail :: "string option"
  ent_prev :: string

datatype broken_reason = IncompleteLine | NotAnEntry | WrongSequence u64 | HashMismatchPrev

datatype audit_error = AuditBroken u64 broken_reason | AuditSerialize

record chain_head =
  ch_seq :: u64
  ch_hash :: string
  ch_first :: "string option"

definition genesis :: chain_head where
  "genesis = \<lparr>ch_seq = 0, ch_hash = GENESIS, ch_first = None\<rparr>"

definition chain_id :: "string \<Rightarrow> string" where
  "chain_id first_entry_hash = truncate_chars 16 first_entry_hash"

definition head_chain_id :: "chain_head \<Rightarrow> string option" where
  "head_chain_id h = map_option chain_id (ch_first h)"

definition line_hash :: "(bytes \<Rightarrow> digest) \<Rightarrow> bytes \<Rightarrow> string" where
  "line_hash sha line = to_hex (sha line)"

text \<open>The head after a line with the given number and hash.\<close>

definition next_head :: "chain_head \<Rightarrow> string \<Rightarrow> chain_head" where
  "next_head h hash =
     \<lparr>ch_seq = ch_seq h + 1, ch_hash = hash,
      ch_first = (case ch_first h of Some f \<Rightarrow> Some f | None \<Rightarrow> Some hash)\<rparr>"

definition encode_entry ::
  "(bytes \<Rightarrow> digest) \<Rightarrow> (audit_entry \<Rightarrow> bytes option) \<Rightarrow> audit_entry \<Rightarrow> chain_head \<Rightarrow>
     audit_error + (bytes \<times> chain_head)" where
  "encode_entry sha to_json entry h =
     (let entry = entry\<lparr>ent_seq := ch_seq h + 1, ent_prev := ch_hash h\<rparr>
      in and_then (ok_or AuditSerialize (to_json entry)) (\<lambda>line.
         Ok (line @ [10], next_head h (line_hash sha line))))"

text \<open>\<open>take(n).read_until(b'\n')\<close>: the bytes up to and with the first line feed, at most \<open>n\<close>.\<close>

definition read_until_lf :: "nat \<Rightarrow> bytes \<Rightarrow> bytes" where
  "read_until_lf n bs =
     (let t = take n bs; k = length (takeWhile (\<lambda>b. b \<noteq> 10) t) in take (Suc k) t)"

definition check_line ::
  "(bytes \<Rightarrow> audit_entry option) \<Rightarrow> chain_head \<Rightarrow> bytes \<Rightarrow> audit_error + bytes" where
  "check_line parse h line =
     (let lineno = ch_seq h + 1
      in if last line \<noteq> 10 then Err (AuditBroken lineno IncompleteLine)
         else case parse (butlast line) of
           None \<Rightarrow> Err (AuditBroken lineno NotAnEntry)
         | Some e \<Rightarrow>
             if ent_seq e \<noteq> lineno then Err (AuditBroken lineno (WrongSequence (ent_seq e)))
             else if ent_prev e \<noteq> ch_hash h then Err (AuditBroken lineno HashMismatchPrev)
             else Ok (butlast line))"

lemma read_until_lf_shorter:
  assumes "read_until_lf n bs \<noteq> []"
  shows "length (drop (length (read_until_lf n bs)) bs) < length bs"
proof -
  have "bs \<noteq> []" using assms by (auto simp: read_until_lf_def)
  with assms show ?thesis by simp
qed

function walk_chain ::
  "(bytes \<Rightarrow> digest) \<Rightarrow> (bytes \<Rightarrow> audit_entry option) \<Rightarrow> chain_head \<Rightarrow> bytes \<Rightarrow>
     audit_error + (chain_head \<times> (u64 \<times> string) list)" where
  "walk_chain sha parse h bs =
     (let line = read_until_lf (MAX_LINE + 1) bs
      in if line = [] then Ok (h, [])
         else
           and_then (check_line parse h line) (\<lambda>l.
           let hash = line_hash sha l
           in and_then (walk_chain sha parse (next_head h hash) (drop (length line) bs)) (\<lambda>(h', out).
              Ok (h', (ch_seq h + 1, hash) # out))))"
  by pat_completeness auto
termination
  by (relation "measure (\<lambda>(_, _, _, bs). length bs)") (auto dest: read_until_lf_shorter simp del: length_drop)

declare walk_chain.simps [simp del]

definition verify_chain ::
  "(bytes \<Rightarrow> digest) \<Rightarrow> (bytes \<Rightarrow> audit_entry option) \<Rightarrow> bytes \<Rightarrow> audit_error + chain_head" where
  "verify_chain sha parse bs = and_then (walk_chain sha parse genesis bs) (\<lambda>(h, _). Ok h)"

definition verify_audit_log ::
  "(bytes \<Rightarrow> digest) \<Rightarrow> (bytes \<Rightarrow> audit_entry option) \<Rightarrow> bytes \<Rightarrow> audit_error + u64" where
  "verify_audit_log sha parse bs = and_then (verify_chain sha parse bs) (\<lambda>h. Ok (ch_seq h))"

definition audit_chain ::
  "(bytes \<Rightarrow> digest) \<Rightarrow> (bytes \<Rightarrow> audit_entry option) \<Rightarrow> bytes \<Rightarrow> audit_error + (u64 \<times> string) list" where
  "audit_chain sha parse bs = and_then (walk_chain sha parse genesis bs) (\<lambda>(_, out). Ok out)"

section \<open>Anchors (\<open>anchors.rs\<close>)\<close>

record anchor =
  an_seq :: u64
  an_hash :: string
  an_chain :: "string option"

definition clean :: "nat \<Rightarrow> string \<Rightarrow> string" where
  "clean n s = take n (filter (\<lambda>c. is_ascii_alphanumeric c \<or> c = CHR ''_'') s)"

definition anchor_text :: "u64 \<Rightarrow> string \<Rightarrow> string \<Rightarrow> string \<Rightarrow> string \<Rightarrow> string" where
  "anchor_text seq hash chain action outcome =
     ''audit seq='' @ show_nat (unat seq) @ '' hash='' @ clean 64 hash @ '' chain='' @ clean 16 chain @
     '' action='' @ clean 32 action @ '' outcome='' @ clean 32 outcome"

definition MAX_U64 :: nat where
  "MAX_U64 = 2 ^ 64 - 1"

definition hex_field :: "nat \<Rightarrow> string \<Rightarrow> bool" where
  "hex_field n v \<longleftrightarrow> length v = n \<and> list_all is_ascii_hexdigit v"

text \<open>The fields read so far: the number, the hash and the chain.\<close>

type_synonym anchor_fields = "u64 option \<times> string option \<times> string option"

fun read_fields :: "anchor_fields \<Rightarrow> string list \<Rightarrow> anchor_fields option" where
  "read_fields st [] = Some st"
| "read_fields (seq, hash, chain) (w # ws) =
     (case split_once (CHR ''='') w of
        None \<Rightarrow> None
      | Some (k, v) \<Rightarrow>
          read_fields
            (if k = ''seq'' then (map_option of_nat (parse_uint MAX_U64 v), hash, chain)
             else if k = ''hash'' \<and> hex_field 64 v then (seq, Some (to_ascii_lowercase v), chain)
             else if k = ''chain'' \<and> hex_field 16 v then (seq, hash, Some (to_ascii_lowercase v))
             else (seq, hash, chain)) ws)"

definition parse_anchor :: "string \<Rightarrow> anchor option" where
  "parse_anchor message =
     (case find_str ''audit seq='' message of
        None \<Rightarrow> None
      | Some s \<Rightarrow>
          (case read_fields (None, None, None) (split_whitespace (drop 6 s)) of
             Some (Some seq, Some hash, chain) \<Rightarrow> Some \<lparr>an_seq = seq, an_hash = hash, an_chain = chain\<rparr>
           | _ \<Rightarrow> None))"

record anchor_comparison =
  cmp_entries :: u64
  cmp_matched :: u64
  cmp_mismatched :: "u64 list"
  cmp_missing_locally :: "u64 list"
  cmp_unanchored :: u64
  cmp_other_chains :: u64

definition comparison_consistent :: "anchor_comparison \<Rightarrow> bool" where
  "comparison_consistent c \<longleftrightarrow> cmp_mismatched c = [] \<and> cmp_missing_locally c = []"

text \<open>One iteration of the loop; \<open>local\<close> maps the local sequence numbers to their hashes,
  \<open>anchored\<close> are the numbers matched so far.\<close>

fun compare_anchor ::
  "string option \<Rightarrow> (u64 \<rightharpoonup> string) \<Rightarrow> u64 \<Rightarrow> anchor_comparison \<times> u64 set \<Rightarrow> anchor \<Rightarrow>
     anchor_comparison \<times> u64 set" where
  "compare_anchor cid local_map head_seq (out, anchored) a =
     (if an_chain a = None \<or> an_chain a \<noteq> cid
      then (out\<lparr>cmp_other_chains := cmp_other_chains out + 1\<rparr>, anchored)
      else case local_map (an_seq a) of
        Some h \<Rightarrow>
          if h = an_hash a then
            (if an_seq a \<notin> anchored
             then (out\<lparr>cmp_matched := cmp_matched out + 1\<rparr>, insert (an_seq a) anchored)
             else (out, anchored))
          else if an_seq a \<notin> set (cmp_mismatched out)
          then (out\<lparr>cmp_mismatched := cmp_mismatched out @ [an_seq a]\<rparr>, anchored)
          else (out, anchored)
      | None \<Rightarrow>
          if head_seq < an_seq a \<and> an_seq a \<notin> set (cmp_missing_locally out)
          then (out\<lparr>cmp_missing_locally := cmp_missing_locally out @ [an_seq a]\<rparr>, anchored)
          else (out, anchored))"

definition compare_anchors :: "(u64 \<times> string) list \<Rightarrow> anchor list \<Rightarrow> anchor_comparison" where
  "compare_anchors chain anchors =
     (let cid = (case chain of [] \<Rightarrow> None | (_, h) # _ \<Rightarrow> Some (chain_id h));
          local_map = map_of (rev chain);
          head_seq = (if chain = [] then 0 else fst (last chain));
          start = \<lparr>cmp_entries = len64 chain, cmp_matched = 0, cmp_mismatched = [],
                   cmp_missing_locally = [], cmp_unanchored = 0, cmp_other_chains = 0\<rparr>;
          (out, _) = foldl (compare_anchor cid local_map head_seq) (start, {}) anchors
      in out\<lparr>cmp_unanchored := cmp_entries out - cmp_matched out - len64 (cmp_mismatched out)\<rparr>)"

section \<open>What a verified log is\<close>

text \<open>The lines of a log, without their line feeds, each of which continues the chain.\<close>

definition line_ok :: "(bytes \<Rightarrow> audit_entry option) \<Rightarrow> chain_head \<Rightarrow> bytes \<Rightarrow> bool" where
  "line_ok parse h l \<longleftrightarrow>
     10 \<notin> set l \<and> length l \<le> MAX_LINE \<and>
     (\<exists>e. parse l = Some e \<and> ent_seq e = ch_seq h + 1 \<and> ent_prev e = ch_hash h)"

definition step_head :: "(bytes \<Rightarrow> digest) \<Rightarrow> chain_head \<Rightarrow> bytes \<Rightarrow> chain_head" where
  "step_head sha h l = next_head h (line_hash sha l)"

fun lines_ok :: "(bytes \<Rightarrow> digest) \<Rightarrow> (bytes \<Rightarrow> audit_entry option) \<Rightarrow> chain_head \<Rightarrow> bytes list \<Rightarrow> bool" where
  "lines_ok sha parse h [] = True"
| "lines_ok sha parse h (l # ls) = (line_ok parse h l \<and> lines_ok sha parse (step_head sha h l) ls)"

definition unlines :: "bytes list \<Rightarrow> bytes" where
  "unlines ls = concat (map (\<lambda>l. l @ [10]) ls)"

lemma unlines_simps [simp]: "unlines [] = []" "unlines (l # ls) = l @ 10 # unlines ls"
  "unlines (ls @ ms) = unlines ls @ unlines ms"
  by (simp_all add: unlines_def)

lemma lines_ok_append [simp]:
  "lines_ok sha parse h (ls @ ms) = (lines_ok sha parse h ls \<and> lines_ok sha parse (foldl (step_head sha) h ls) ms)"
  by (induction ls arbitrary: h) auto

lemma takeWhile_line: "x \<notin> set l \<Longrightarrow> takeWhile (\<lambda>b. b \<noteq> x) (l @ x # r) = l"
  by (induction l) auto

lemma read_until_lf_line:
  assumes "10 \<notin> set l" and "length l \<le> n"
  shows "read_until_lf (n + 1) (l @ 10 # rest) = l @ [10]"
proof -
  obtain k where k: "n + 1 - length l = Suc k"
    using assms(2) by (metis Suc_diff_le Suc_eq_plus1)
  have "take (n + 1) (l @ 10 # rest) = l @ 10 # take k rest"
    using assms(2) k by simp
  with takeWhile_line [OF assms(1)] show ?thesis by (simp add: read_until_lf_def Let_def)
qed

lemma read_until_lf_last:
  assumes "read_until_lf (n + 1) bs \<noteq> []" and "last (read_until_lf (n + 1) bs) = 10"
  shows "\<exists>l rest. bs = l @ 10 # rest \<and> 10 \<notin> set l \<and> length l \<le> n \<and> read_until_lf (n + 1) bs = l @ [10]"
proof -
  define t where "t = take (n + 1) bs"
  define w where "w = takeWhile (\<lambda>b. b \<noteq> 10) t"
  have r: "read_until_lf (n + 1) bs = take (Suc (length w)) t"
    by (simp add: read_until_lf_def Let_def t_def w_def)
  have w: "10 \<notin> set w" unfolding w_def by (metis (mono_tags) set_takeWhileD)
  have bs: "bs = t @ drop (n + 1) bs" unfolding t_def by (rule append_take_drop_id [symmetric])
  show ?thesis
  proof (cases "10 \<in> set t")
    case False
    then have "w = t" unfolding w_def by (metis (mono_tags, lifting) takeWhile_eq_all_conv)
    with assms w r show ?thesis by (metis last_in_set take_all le_SucI order_refl)
  next
    case True
    then obtain v cs where t: "t = v @ 10 # cs" "10 \<notin> set v" by (meson split_list_first)
    then have wv: "w = v" unfolding w_def by (simp add: takeWhile_line)
    have "length t \<le> n + 1" by (simp add: t_def)
    then have "length v \<le> n" using t by simp
    moreover have "bs = v @ 10 # (cs @ drop (n + 1) bs)" using bs t by simp
    moreover have "read_until_lf (n + 1) bs = v @ [10]" unfolding r wv t by simp
    ultimately show ?thesis using t(2) by blast
  qed
qed

lemma check_line_Ok:
  "check_line parse h (l @ [10]) = Ok l' \<longleftrightarrow>
     l' = l \<and> (\<exists>e. parse l = Some e \<and> ent_seq e = ch_seq h + 1 \<and> ent_prev e = ch_hash h)"
  by (auto simp: check_line_def Let_def split: option.splits if_splits)

fun log_entries :: "(bytes \<Rightarrow> digest) \<Rightarrow> chain_head \<Rightarrow> bytes list \<Rightarrow> (u64 \<times> string) list" where
  "log_entries sha h [] = []"
| "log_entries sha h (l # ls) = (ch_seq h + 1, line_hash sha l) # log_entries sha (step_head sha h l) ls"

lemma walk_chain_lines:
  assumes "lines_ok sha parse h ls"
  shows "walk_chain sha parse h (unlines ls) = Ok (foldl (step_head sha) h ls, log_entries sha h ls)"
  using assms
proof (induction ls arbitrary: h)
  case Nil
  then show ?case by (simp add: walk_chain.simps [of _ _ _ "[]"] read_until_lf_def)
next
  case (Cons l ls)
  then have l: "10 \<notin> set l" "length l \<le> MAX_LINE" "check_line parse h (l @ [10]) = Ok l"
    by (auto simp: line_ok_def check_line_Ok)
  have "read_until_lf (MAX_LINE + 1) (l @ 10 # unlines ls) = l @ [10]"
    by (rule read_until_lf_line [OF l(1,2)])
  with l(3) Cons show ?case
    by (simp add: walk_chain.simps [of _ _ _ "l @ 10 # unlines ls"] step_head_def Let_def result_simps)
qed

lemma walk_chain_Ok:
  "walk_chain sha parse h bs = Ok (h', out) \<Longrightarrow>
     \<exists>ls. bs = unlines ls \<and> lines_ok sha parse h ls"
proof (induction sha parse h bs arbitrary: h' out rule: walk_chain.induct)
  case (1 sha parse h bs)
  let ?line = "read_until_lf (MAX_LINE + 1) bs"
  show ?case
  proof (cases "?line = []")
    case True
    then have "bs = []" by (auto simp: read_until_lf_def Let_def)
    then show ?thesis by (intro exI [of _ "[]"]) simp
  next
    case False
    with "1.prems" obtain l h1 out1 where l: "check_line parse h ?line = Ok l"
      and rec: "walk_chain sha parse (next_head h (line_hash sha l)) (drop (length ?line) bs) = Ok (h1, out1)"
      by (auto simp: walk_chain.simps [of _ _ _ bs] Let_def result_simps)
    from l have "last ?line = 10" by (auto simp: check_line_def Let_def split: if_splits)
    from read_until_lf_last [OF False this] obtain k rest where k: "bs = k @ 10 # rest" "10 \<notin> set k"
      "length k \<le> MAX_LINE" "?line = k @ [10]" by blast
    from l k(4) have lk: "l = k" and ok: "line_ok parse h k"
      using k(2,3) by (auto simp: check_line_Ok line_ok_def)
    from "1.IH" [OF refl False refl rec] k obtain ls where
      "drop (length ?line) bs = unlines ls" "lines_ok sha parse (next_head h (line_hash sha l)) ls" by blast
    with k lk ok show ?thesis
      by (intro exI [of _ "k # ls"]) (simp add: step_head_def)
  qed
qed

text \<open>A log verifies exactly if it is such a sequence of lines; what verification returns is
  then determined by them.\<close>

lemma verify_chain_iff:
  "verify_chain sha parse bs = Ok h \<longleftrightarrow>
     (\<exists>ls. bs = unlines ls \<and> lines_ok sha parse genesis ls \<and> h = foldl (step_head sha) genesis ls)"
proof
  assume "verify_chain sha parse bs = Ok h"
  then obtain out where "walk_chain sha parse genesis bs = Ok (h, out)"
    by (auto simp: verify_chain_def result_simps)
  from walk_chain_Ok [OF this] this show "\<exists>ls. bs = unlines ls \<and> lines_ok sha parse genesis ls \<and>
      h = foldl (step_head sha) genesis ls"
    by (auto simp: walk_chain_lines)
qed (auto simp: verify_chain_def walk_chain_lines result_simps)

section \<open>Appending and tampering\<close>

lemma encode_entry_Ok:
  assumes "encode_entry sha to_json e h = Ok (line, h')"
  shows "\<exists>l. to_json (e\<lparr>ent_seq := ch_seq h + 1, ent_prev := ch_hash h\<rparr>) = Some l \<and>
    line = l @ [10] \<and> h' = step_head sha h l"
  using assms by (auto simp: encode_entry_def step_head_def Let_def result_simps)

lemma encode_verifies:
  assumes "verify_chain sha parse log = Ok h" and "encode_entry sha to_json e h = Ok (line, h')"
    and "parse (butlast line) = Some (e\<lparr>ent_seq := ch_seq h + 1, ent_prev := ch_hash h\<rparr>)"
    and "10 \<notin> set (butlast line)" and "length line \<le> MAX_LINE + 1"
  shows "verify_chain sha parse (log @ line) = Ok h'"
proof -
  obtain ls where ls: "log = unlines ls" "lines_ok sha parse genesis ls" "h = foldl (step_head sha) genesis ls"
    using assms(1) by (auto simp: verify_chain_iff)
  obtain l where l: "line = l @ [10]" "h' = step_head sha h l"
    using encode_entry_Ok [OF assms(2)] by blast
  with assms(3-5) have "line_ok parse h l" by (simp add: line_ok_def)
  with ls l show ?thesis
    unfolding verify_chain_iff by (intro exI [of _ "ls @ [l]"]) simp
qed

lemma step_head_hash: "ch_hash (foldl (step_head sha) genesis (ls @ [l])) = line_hash sha l"
  by (simp add: step_head_def next_head_def)

text \<open>Two logs with one head hash are equal, or two lines collide, or one hashes to the
  genesis value.\<close>

lemma lines_head_hash:
  assumes "lines_ok sha parse genesis ls" and "lines_ok sha parse genesis ms"
    and "ch_hash (foldl (step_head sha) genesis ls) = ch_hash (foldl (step_head sha) genesis ms)"
  shows "ls = ms \<or> (\<exists>a b. a \<noteq> b \<and> sha a = sha b) \<or> (\<exists>l. line_hash sha l = GENESIS)"
  using assms
proof (induction ls arbitrary: ms rule: rev_induct)
  case Nil
  show ?case
  proof (cases ms rule: rev_cases)
    case (snoc ms' m)
    with Nil.prems(3) have "line_hash sha m = GENESIS"
      by (simp add: step_head_hash del: foldl_append) (simp add: genesis_def)
    then show ?thesis by blast
  qed simp
next
  case (snoc l ls)
  show ?case
  proof (cases ms rule: rev_cases)
    case Nil
    with snoc.prems(3) show ?thesis by (auto simp: genesis_def step_head_def next_head_def)
  next
    case ms: (snoc ms' m)
    with snoc.prems(3) have "to_hex (sha l) = to_hex (sha m)"
      unfolding ms step_head_hash by (simp add: line_hash_def)
    then have "sha l = sha m" by (rule to_hex_inject)
    then consider "l = m" | "\<exists>a b. a \<noteq> b \<and> sha a = sha b" by blast
    then show ?thesis
    proof cases
      case 1
      with snoc.prems ms have "ch_hash (foldl (step_head sha) genesis ls) = ch_hash (foldl (step_head sha) genesis ms')"
        and "lines_ok sha parse genesis ls" "lines_ok sha parse genesis ms'"
        by (auto simp: line_ok_def)
      with snoc.IH [of ms'] 1 ms show ?thesis by auto
    qed simp
  qed
qed

lemma verify_chain_head_commits:
  assumes "verify_chain sha parse a = Ok h" and "verify_chain sha parse b = Ok h'" and "ch_hash h = ch_hash h'"
  shows "a = b \<or> (\<exists>x y. x \<noteq> y \<and> sha x = sha y) \<or> (\<exists>l. line_hash sha l = GENESIS)"
  using assms lines_head_hash unfolding verify_chain_iff by metis

section \<open>Comparing with anchors\<close>

definition anchor_mismatch :: "string option \<Rightarrow> (u64 \<rightharpoonup> string) \<Rightarrow> anchor \<Rightarrow> bool" where
  "anchor_mismatch cid m a \<longleftrightarrow>
     an_chain a \<noteq> None \<and> an_chain a = cid \<and> (\<exists>h. m (an_seq a) = Some h \<and> h \<noteq> an_hash a)"

definition anchor_missing :: "string option \<Rightarrow> (u64 \<rightharpoonup> string) \<Rightarrow> u64 \<Rightarrow> anchor \<Rightarrow> bool" where
  "anchor_missing cid m head_seq a \<longleftrightarrow>
     an_chain a \<noteq> None \<and> an_chain a = cid \<and> m (an_seq a) = None \<and> head_seq < an_seq a"

lemma compare_anchor_lists:
  "set (cmp_mismatched (fst (compare_anchor cid m hd_seq s a))) =
     set (cmp_mismatched (fst s)) \<union> (if anchor_mismatch cid m a then {an_seq a} else {})"
  "set (cmp_missing_locally (fst (compare_anchor cid m hd_seq s a))) =
     set (cmp_missing_locally (fst s)) \<union> (if anchor_missing cid m hd_seq a then {an_seq a} else {})"
  by (cases s; auto simp: anchor_mismatch_def anchor_missing_def split: option.splits)+

lemma compare_anchors_fold:
  "set (cmp_mismatched (fst (foldl (compare_anchor cid m hd_seq) s as))) =
     set (cmp_mismatched (fst s)) \<union> an_seq ` {a \<in> set as. anchor_mismatch cid m a}"
  "set (cmp_missing_locally (fst (foldl (compare_anchor cid m hd_seq) s as))) =
     set (cmp_missing_locally (fst s)) \<union> an_seq ` {a \<in> set as. anchor_missing cid m hd_seq a}"
  by (induction as arbitrary: s) (auto simp: compare_anchor_lists simp del: compare_anchor.simps)

definition first_id :: "(u64 \<times> string) list \<Rightarrow> string option" where
  "first_id chain = (case chain of [] \<Rightarrow> None | (_, h) # _ \<Rightarrow> Some (chain_id h))"

definition last_seq :: "(u64 \<times> string) list \<Rightarrow> u64" where
  "last_seq chain = (if chain = [] then 0 else fst (last chain))"

lemma consistent_iff:
  "comparison_consistent (compare_anchors chain as) \<longleftrightarrow>
     (\<forall>a \<in> set as. \<not> anchor_mismatch (first_id chain) (map_of (rev chain)) a \<and>
        \<not> anchor_missing (first_id chain) (map_of (rev chain)) (last_seq chain) a)"
proof -
  let ?s = "(\<lparr>cmp_entries = len64 chain, cmp_matched = 0, cmp_mismatched = [],
                   cmp_missing_locally = [], cmp_unanchored = 0, cmp_other_chains = 0\<rparr>, {})"
  let ?out = "fst (foldl (compare_anchor (first_id chain) (map_of (rev chain)) (last_seq chain)) ?s as)"
  have "cmp_mismatched (compare_anchors chain as) = cmp_mismatched ?out"
    "cmp_missing_locally (compare_anchors chain as) = cmp_missing_locally ?out"
    by (simp_all add: compare_anchors_def first_id_def last_seq_def Let_def split: prod.splits)
  moreover have "cmp_mismatched ?out = [] \<longleftrightarrow> (\<forall>a \<in> set as. \<not> anchor_mismatch (first_id chain) (map_of (rev chain)) a)"
    by (subst set_empty [symmetric], subst compare_anchors_fold) auto
  moreover have "cmp_missing_locally ?out = [] \<longleftrightarrow>
      (\<forall>a \<in> set as. \<not> anchor_missing (first_id chain) (map_of (rev chain)) (last_seq chain) a)"
    by (subst set_empty [symmetric], subst compare_anchors_fold) auto
  ultimately show ?thesis by (auto simp: comparison_consistent_def)
qed

lemma log_entries_length [simp]: "length (log_entries sha h ls) = length ls"
  by (induction ls arbitrary: h) auto

lemma log_entries_nth:
  "i < length ls \<Longrightarrow> log_entries sha h ls ! i = (ch_seq h + of_nat (Suc i), line_hash sha (ls ! i))"
proof (induction ls arbitrary: h i)
  case (Cons l ls)
  then show ?case
    by (cases i) (auto simp: step_head_def next_head_def ac_simps)
qed simp

lemma audit_chain_nth:
  assumes "audit_chain sha parse bs = Ok chain" and "length chain < 2 ^ 64"
  shows "\<forall>i < length chain. unat (fst (chain ! i)) = Suc i"
proof -
  from assms(1) obtain h' where w: "walk_chain sha parse genesis bs = Ok (h', chain)"
    by (auto simp: audit_chain_def result_simps)
  from walk_chain_Ok [OF w] obtain ls where ls: "bs = unlines ls" "lines_ok sha parse genesis ls" by blast
  with w have c: "chain = log_entries sha genesis ls" by (simp add: walk_chain_lines)
  have "unat (of_nat (Suc i) :: u64) = Suc i" if "i < length ls" for i
    using that assms(2) c by (simp only: unat_of_nat take_bit_eq_mod) simp
  with c show ?thesis by (simp add: log_entries_nth genesis_def)
qed

definition numbered :: "(u64 \<times> string) list \<Rightarrow> bool" where
  "numbered chain \<longleftrightarrow> (\<forall>i < length chain. unat (fst (chain ! i)) = Suc i)"

lemma numbered_map_of:
  assumes "numbered chain"
  shows "map_of (rev chain) s = Some h \<longleftrightarrow> (\<exists>i < length chain. unat s = Suc i \<and> chain ! i = (s, h))"
proof -
  have "distinct (map fst chain)"
    using assms unfolding distinct_conv_nth numbered_def
    by (metis length_map nat.inject nth_map)
  then have "map_of (rev chain) s = Some h \<longleftrightarrow> (s, h) \<in> set chain"
    by (simp add: map_of_eq_Some_iff rev_map [symmetric])
  also have "\<dots> \<longleftrightarrow> (\<exists>i < length chain. unat s = Suc i \<and> chain ! i = (s, h))"
    using assms by (auto simp: in_set_conv_nth numbered_def)
  finally show ?thesis .
qed

text \<open>A chain all of whose entries were anchored cannot later be altered or cut short without
  the comparison telling.\<close>

lemma anchored_prefix:
  assumes old: "numbered old" and new: "numbered new" and ne: "new \<noteq> []" and ids: "first_id old = first_id new"
    and anchored: "\<forall>(s, h) \<in> set old. \<exists>a \<in> set as. an_seq a = s \<and> an_hash a = h \<and> an_chain a = first_id old"
    and cons: "comparison_consistent (compare_anchors new as)"
  shows "prefix old new"
proof -
  have at: "i < length new \<and> new ! i = old ! i" if i: "i < length old" for i
  proof -
    obtain s h where sh: "old ! i = (s, h)" by fastforce
    then have s: "unat s = Suc i" using old i by (auto simp: numbered_def)
    have "(s, h) \<in> set old" using i sh by (metis nth_mem)
    with anchored ids ne obtain a where a: "a \<in> set as" "an_seq a = s" "an_hash a = h" "an_chain a = first_id new"
      "an_chain a \<noteq> None"
      by (fastforce simp: first_id_def split: list.splits prod.splits)
    have ok: "\<not> anchor_mismatch (first_id new) (map_of (rev new)) a"
      "\<not> anchor_missing (first_id new) (map_of (rev new)) (last_seq new) a"
      using cons a(1) by (simp_all add: consistent_iff)
    show ?thesis
    proof (cases "map_of (rev new) s")
      case None
      have "\<not> i < length new"
      proof
        assume "i < length new"
        moreover from this have "fst (new ! i) = s"
          using new s by (simp add: numbered_def word_unat_eq_iff)
        ultimately have "map_of (rev new) s = Some (snd (new ! i))"
          unfolding numbered_map_of [OF new] using s by (intro exI [of _ i]) (auto simp: prod_eq_iff)
        with None show False by simp
      qed
      moreover have "unat (last_seq new) = length new"
        using new ne by (simp add: last_seq_def last_conv_nth numbered_def)
      ultimately have "last_seq new < s"
        using s by (simp add: word_less_nat_alt)
      with ok(2) a None show ?thesis by (simp add: anchor_missing_def)
    next
      case (Some h')
      then obtain j where "j < length new" "unat s = Suc j" "new ! j = (s, h')"
        using numbered_map_of [OF new] by auto
      moreover have "h' = h" using ok(1) a Some by (auto simp: anchor_mismatch_def)
      ultimately show ?thesis using s sh by simp
    qed
  qed
  then have "length old \<le> length new" by (meson not_le order_less_irrefl)
  with at have "take (length old) new = old"
    by (intro nth_equalityI) auto
  then show ?thesis by (metis take_is_prefix)
qed

section \<open>The text of an anchor\<close>

lemma clean_word: "\<forall>c \<in> set (clean n s). 33 \<le> code c \<and> code c \<le> 126 \<and> c \<noteq> CHR ''=''"
  by (auto simp: clean_def is_ascii_alphanumeric_def is_ascii_alphabetic_def is_ascii_lower_def is_ascii_upper_def
      is_ascii_digit_def code_def dest!: in_set_takeD)

lemma hexdigit_alphanumeric: "is_ascii_hexdigit c \<Longrightarrow> is_ascii_alphanumeric c"
  by (auto simp: is_ascii_alphanumeric_def is_ascii_alphabetic_def is_ascii_hexdigit_def is_ascii_lower_def
      is_ascii_upper_def)

lemma clean_hex: "hex_field n v \<Longrightarrow> clean n v = v"
  by (simp add: clean_def hex_field_def list_all_iff hexdigit_alphanumeric)

lemma parse_uint_show:
  assumes "n \<le> largest"
  shows "parse_uint largest (show_nat n) = Some n"
proof -
  have "CHR ''+'' \<notin> set (show_nat n)"
    using show_nat_digits [of "CHR ''+''" n] by (auto simp: is_ascii_digit_def code_def)
  then have "\<not> prefix ''+'' (show_nat n)"
    by (auto simp: prefix_def)
  with assms show ?thesis by (simp add: parse_uint_def read_show_nat)
qed

lemma show_nat_word: "\<forall>c \<in> set (show_nat n). 33 \<le> code c \<and> code c \<le> 126"
proof
  fix c
  assume "c \<in> set (show_nat n)"
  from show_nat_digits [OF this] show "33 \<le> code c \<and> code c \<le> 126"
    by (simp add: is_ascii_digit_def)
qed

lemma anchor_round_trip:
  assumes "hex_field 64 hash" and "hex_field 16 chain"
  shows "parse_anchor (anchor_text seq hash chain action outcome) =
    Some \<lparr>an_seq = seq, an_hash = to_ascii_lowercase hash, an_chain = Some (to_ascii_lowercase chain)\<rparr>"
proof -
  define ws where "ws = [''seq='' @ show_nat (unat seq), ''hash='' @ hash, ''chain='' @ chain,
    ''action='' @ clean 32 action, ''outcome='' @ clean 32 outcome]"
  have t: "anchor_text seq hash chain action outcome = ''audit '' @ join_with '' '' ws"
    using assms by (simp add: anchor_text_def clean_hex ws_def)
  have f: "find_str ''audit seq='' (''audit '' @ join_with '' '' ws) = Some (''audit '' @ join_with '' '' ws)"
    by (rule find_str_here) (simp add: ws_def)
  have "list_all word_text ws"
    using clean_word [of 64 hash] clean_word [of 16 chain] clean_word [of 32] show_nat_word assms
    by (simp add: word_text_def clean_hex ws_def) (simp add: code_def)
  then have w: "split_whitespace (join_with '' '' ws) = ws"
    by (rule split_whitespace_words)
  have s: "parse_uint MAX_U64 (show_nat (unat seq)) = Some (unat seq)"
    using unat_u64_bound [of seq] by (intro parse_uint_show) (simp add: MAX_U64_def)
  have "read_fields (None, None, None) ws =
      Some (Some seq, Some (to_ascii_lowercase hash), Some (to_ascii_lowercase chain))"
    using assms by (simp add: split_once_def s ws_def)
  then show ?thesis
    unfolding t parse_anchor_def f by (simp add: w)
qed

end
