(* ===== verification/Service_Server.thy ===== *)
theory Service_Server
  imports Service_Manager_Props Remediation_Audit
begin

text \<open>
  \<open>crates/service/src/server.rs\<close>, \<open>schedule.rs\<close>, \<open>audit.rs\<close> and \<open>client.rs\<close>: what a request does
  to the service. The operations of the quarantine store are the fields of a record, the clock,
  new identifiers and the results of saving a file are arguments, log lines are left out.
\<close>

section \<open>Schedules (\<open>schedule.rs\<close>)\<close>

definition schedule_spec :: "schedule \<Rightarrow> job_spec" where
  "schedule_spec s =
     \<lparr>sp_kind = sch_kind s, sp_paths = (if sch_kind s = KindScan then sch_paths s else []),
      sp_heuristics = sch_heuristics s, sp_no_archives = False, sp_quarantine = sch_quarantine s,
      sp_run_as = RunService\<rparr>"

text \<open>What the environment contributes to one call: the time, a new identifier, whether the
  job's record and the schedule state could be saved.\<close>

record surroundings =
  en_now :: instant
  en_uuid :: uuid
  en_saved :: bool
  en_state_saved :: bool

text \<open>\<open>start\<close>; \<open>svc\<close> is the principal of the service itself.\<close>

definition start_schedule ::
  "service_config \<Rightarrow> string \<Rightarrow> surroundings \<Rightarrow> schedule \<Rightarrow> manager \<times> (string \<rightharpoonup> instant) \<Rightarrow>
     (manager \<times> (string \<rightharpoonup> instant)) \<times> (rejection + uuid)" where
  "start_schedule c svc en s ms =
     (case ms of (m, state) \<Rightarrow>
        (case submit c (en_uuid en) (en_now en) (en_saved en) svc (Some (sch_name s)) (schedule_spec s) m of
           (m', Err r) \<Rightarrow> ((m', state), Err r)
         | (m', Ok i) \<Rightarrow> ((m', if en_state_saved en then state(sch_name s \<mapsto> en_now en) else state), Ok i)))"

text \<open>One pass of the loop of \<open>run\<close>: the state as it was when the pass began decides what is
  due.\<close>

definition schedule_pass ::
  "service_config \<Rightarrow> string \<Rightarrow> instant \<Rightarrow> (schedule \<Rightarrow> surroundings) \<Rightarrow>
     manager \<times> (string \<rightharpoonup> instant) \<Rightarrow> manager \<times> (string \<rightharpoonup> instant)" where
  "schedule_pass c svc now en ms =
     foldl (\<lambda>ms' s. if next_due s (snd ms (sch_name s)) now \<le> now
               then fst (start_schedule c svc (en s) s ms') else ms')
       ms (cfg_schedules c)"

section \<open>The audit check (\<open>audit.rs\<close>)\<close>

text \<open>\<open>parse_event_log\<close>: every anchor text up to the next markup. The limit of ten million
  anchors is left out.\<close>

definition event_end :: "string \<Rightarrow> nat" where
  "event_end s = length (takeWhile (\<lambda>c. c \<notin> {CHR ''<'', CHR 0x0D, CHR 0x0A}) s)"

lemma find_str_shorter: "find_str p s = Some t \<Longrightarrow> length t \<le> length s"
  by (induction p s rule: find_str.induct) (auto split: if_splits)

function parse_event_log :: "string \<Rightarrow> anchor list" where
  "parse_event_log rest =
     (case find_str ''audit seq='' rest of
        None \<Rightarrow> []
      | Some tail \<Rightarrow>
          (case parse_anchor (take (event_end tail) tail) of None \<Rightarrow> [] | Some a \<Rightarrow> [a]) @
          (if tail = [] then [] else parse_event_log (drop (max 1 (event_end tail)) tail)))"
  by pat_completeness auto
termination
proof (relation "measure length")
  fix rest tail
  assume "find_str ''audit seq='' rest = Some tail" "tail \<noteq> []"
  then have "length tail \<le> length rest" "length tail - max 1 (event_end tail) < length tail"
    by (simp_all add: find_str_shorter)
  then show "(drop (max 1 (event_end tail)) tail, rest) \<in> measure length"
    by simp
qed simp

declare parse_event_log.simps [simp del]

text \<open>\<open>parse_journal\<close>; \<open>message\<close> is what \<open>serde_json\<close> makes of the \<open>MESSAGE\<close> of a line.\<close>

datatype journal_message = JText string | JBytes bytes

definition journal_anchor :: "(bytes \<Rightarrow> journal_message option) \<Rightarrow> bytes \<Rightarrow> anchor option" where
  "journal_anchor message line =
     (case message line of
        None \<Rightarrow> None
      | Some (JText s) \<Rightarrow> parse_anchor s
      | Some (JBytes b) \<Rightarrow> parse_anchor (to_string_lossy (str_of_bytes b)))"

fun split_bytes :: "u8 \<Rightarrow> bytes \<Rightarrow> bytes list" where
  "split_bytes d [] = [[]]"
| "split_bytes d (b # bs) =
     (if b = d then [] # split_bytes d bs
      else case split_bytes d bs of [] \<Rightarrow> [[b]] | l # ls \<Rightarrow> (b # l) # ls)"

definition parse_journal :: "(bytes \<Rightarrow> journal_message option) \<Rightarrow> bytes \<Rightarrow> anchor list" where
  "parse_journal message out = List.map_filter (journal_anchor message) (take 10000000 (split_bytes 10 out))"

text \<open>\<open>read_anchors\<close> on Linux: what running \<open>journalctl\<close> gave.\<close>

definition read_anchors :: "(bytes \<Rightarrow> journal_message option) \<Rightarrow> string + outcome \<Rightarrow> string + anchor list" where
  "read_anchors message run =
     (case run of
        Err e \<Rightarrow> Err e
      | Ok oc \<Rightarrow>
          if oc_exit_code oc = Some 0 \<or> oc_exit_code oc = Some 1 then Ok (parse_journal message (oc_stdout oc))
          else Err (''journal not readable: '' @ sanitize (trim (oc_stderr_tail oc))))"

text \<open>\<open>check\<close>: \<open>store\<close> is \<open>None\<close> where there is no store, else its audit chain or the error.\<close>

definition check_audit ::
  "instant \<Rightarrow> (string + (u64 \<times> string) list) option \<Rightarrow> string + anchor list \<Rightarrow> audit_status" where
  "check_audit now store anchors =
     (let status = \<lparr>as_checked_at = now, as_chain_ok = False, as_entries = 0, as_journal_checked = False,
            as_matched = 0, as_mismatched = [], as_missing_locally = [], as_unanchored = 0,
            as_other_chains = 0, as_consistent = False, as_detail = []\<rparr>
      in case store of
        None \<Rightarrow> status\<lparr>as_chain_ok := True, as_consistent := True, as_detail := ''no quarantine store yet''\<rparr>
      | Some (Err e) \<Rightarrow> status\<lparr>as_detail := ''audit chain invalid or unreadable: '' @ e\<rparr>
      | Some (Ok chain) \<Rightarrow>
          (case anchors of
             Err why \<Rightarrow> status\<lparr>as_chain_ok := True, as_entries := len64 chain, as_consistent := True,
               as_detail := ''chain valid; anchors not compared ('' @ why @ '')''\<rparr>
           | Ok as \<Rightarrow>
               (let cmp = compare_anchors chain as
                in status\<lparr>as_chain_ok := True, as_entries := len64 chain, as_journal_checked := True,
                     as_matched := cmp_matched cmp, as_consistent := comparison_consistent cmp,
                     as_mismatched := cmp_mismatched cmp, as_missing_locally := cmp_missing_locally cmp,
                     as_unanchored := cmp_unanchored cmp, as_other_chains := cmp_other_chains cmp,
                     as_detail := (if comparison_consistent cmp
                       then show_nat (unat (cmp_matched cmp)) @ '' of '' @ show_nat (length chain) @
                         '' entries anchored in the journal and matching''
                       else ''the audit log does not match the anchors in the system journal: it was altered or truncated'')\<rparr>)))"

section \<open>Requests (\<open>server.rs\<close>)\<close>

text \<open>\<open>Peer\<close> on Unix: the caller and the user and group its scans run as.\<close>

record peer =
  pe_caller :: caller
  pe_ids :: "nat \<times> nat"

text \<open>The operations of the quarantine store a request may use, on the store's state on disk.
  The first argument of the last three is whom they act for.\<close>

record 'q store_ops =
  so_exists :: "'q \<Rightarrow> bool"
  so_open :: "'q \<Rightarrow> 'q \<times> (string + unit)"
  so_list :: "'q \<Rightarrow> string + quarantine_record list"
  so_get :: "quarantine_id \<Rightarrow> 'q \<Rightarrow> string + quarantine_record"
  so_chain :: "'q \<Rightarrow> string + (u64 \<times> string) list"
  so_restore :: "string \<Rightarrow> quarantine_id \<Rightarrow> 'q \<Rightarrow> 'q \<times> (string + string)"
  so_delete :: "string \<Rightarrow> quarantine_id \<Rightarrow> 'q \<Rightarrow> 'q \<times> (string + unit)"
  so_allow :: "string \<Rightarrow> digest \<Rightarrow> string \<Rightarrow> quarantine_id \<Rightarrow> string option \<Rightarrow> 'q \<Rightarrow> 'q \<times> (string + unit)"

text \<open>\<open>Ctx\<close> with the fixed parts first, then the state of the service: the job manager, the
  schedule state on disk, the last audit check and the quarantine store.\<close>

record service_ctx =
  cx_cfg :: service_config
  cx_principal :: string
  cx_started_at :: instant
  cx_root :: bool
  cx_version :: string
  cx_uuid_text :: "uuid \<Rightarrow> string"

record 'q service =
  svc_manager :: manager
  svc_schedules :: "string \<rightharpoonup> instant"
  svc_audit :: "audit_status option"
  svc_store :: 'q

definition record_audit :: "audit_status \<Rightarrow> 'q service \<Rightarrow> 'q service" where
  "record_audit a s = s\<lparr>svc_audit := Some a\<rparr>"

definition not_found :: rejection where
  "not_found = reject NotFound ''no such job''"

definition internal :: "string \<Rightarrow> rejection" where
  "internal e = reject Internal (sanitize e)"

definition request_id :: "string \<Rightarrow> rejection + quarantine_id" where
  "request_id i = map_err (\<lambda>_. reject BadRequest ''invalid quarantine id'') (parse_id i)"

definition open_quarantine :: "'q store_ops \<Rightarrow> 'q service \<Rightarrow> 'q service \<times> (rejection + unit)" where
  "open_quarantine ops s =
     (let (q, r) = so_open ops (svc_store s) in (s\<lparr>svc_store := q\<rparr>, map_err internal r))"

definition scan_identity :: "peer \<Rightarrow> run_as" where
  "scan_identity p =
     (if \<not> scan_as_caller (pe_caller p) then RunService else RunCaller (fst (pe_ids p)) (snd (pe_ids p)))"

text \<open>The job a \<open>Scan\<close> or \<open>SystemCheck\<close> request asks for.\<close>

definition scan_spec :: "peer \<Rightarrow> string list \<Rightarrow> bool \<Rightarrow> bool \<Rightarrow> bool \<Rightarrow> job_spec" where
  "scan_spec p paths heuristics no_archives quarantine =
     \<lparr>sp_kind = KindScan, sp_paths = paths, sp_heuristics = heuristics, sp_no_archives = no_archives,
      sp_quarantine = quarantine, sp_run_as = scan_identity p\<rparr>"

definition system_check_spec :: "bool \<Rightarrow> job_spec" where
  "system_check_spec heuristics =
     \<lparr>sp_kind = KindSystemCheck, sp_paths = [], sp_heuristics = heuristics, sp_no_archives = False,
      sp_quarantine = False, sp_run_as = RunService\<rparr>"

definition submit_request ::
  "service_ctx \<Rightarrow> surroundings \<Rightarrow> string \<Rightarrow> job_spec \<Rightarrow> 'q service \<Rightarrow> 'q service \<times> (rejection + 'json reply)" where
  "submit_request cx en owner spec s =
     (case submit (cx_cfg cx) (en_uuid en) (en_now en) (en_saved en) owner None spec (svc_manager s) of
        (m, r) \<Rightarrow> (s\<lparr>svc_manager := m\<rparr>, and_then r (\<lambda>i. Ok (JobStarted i))))"

definition visible_job :: "peer \<Rightarrow> uuid \<Rightarrow> 'q service \<Rightarrow> job_summary option" where
  "visible_job p i s =
     (case get_job (svc_manager s) i of
        Some j \<Rightarrow> if can_access_job (pe_caller p) (js_owner j) then Some j else None
      | None \<Rightarrow> None)"

text \<open>\<open>Store::report\<close>: the first 32 MiB of the stored report. \<open>parse\<close> is \<open>serde_json\<close>.\<close>

definition MAX_REPORT_READ :: nat where
  "MAX_REPORT_READ = MAX_RESPONSE div 2"

definition stored_report :: "(bytes \<Rightarrow> 'json option) \<Rightarrow> uuid \<Rightarrow> job_store \<Rightarrow> string + 'json option" where
  "stored_report parse i st =
     (case sto_reports st i of
        None \<Rightarrow> Ok None
      | Some d \<Rightarrow> and_then (ok_or ''unreadable report'' (parse (take MAX_REPORT_READ d))) (\<lambda>v. Ok (Some v)))"

definition item_state_text :: "item_state \<Rightarrow> string" where
  "item_state_text st =
     (case st of
        Pending \<Rightarrow> ''pending'' | ItemQuarantined \<Rightarrow> ''quarantined'' | Restored \<Rightarrow> ''restored''
      | Deleted \<Rightarrow> ''deleted'' | RolledBack \<Rightarrow> ''rolled_back'' | ItemFailed \<Rightarrow> ''failed'')"

definition quarantine_item_of :: "quarantine_record \<Rightarrow> quarantine_item" where
  "quarantine_item_of r =
     \<lparr>qi_id = id_str (rec_id r), qi_state = item_state_text (rec_state r),
      qi_original_path = path_text (of_path (rec_original r)), qi_sha256 = to_hex (of_sha256 (rec_original r)),
      qi_reason = (case qr_detection_name (rec_reason r) of Some n \<Rightarrow> n
                   | None \<Rightarrow> (case qr_note (rec_reason r) of Some n \<Rightarrow> n | None \<Rightarrow> [])),
      qi_created_at = rec_created_at r\<rparr>"

definition with_store ::
  "('q \<Rightarrow> 'q \<times> (string + 'a)) \<Rightarrow> 'q service \<Rightarrow> 'q service \<times> (rejection + 'a)" where
  "with_store f s = (let (q, r) = f (svc_store s) in (s\<lparr>svc_store := q\<rparr>, map_err internal r))"

definition restore_request ::
  "'q store_ops \<Rightarrow> string \<Rightarrow> string \<Rightarrow> bool \<Rightarrow> 'q service \<Rightarrow> 'q service \<times> (rejection + 'json reply)" where
  "restore_request ops who i allow s =
     st_then (open_quarantine ops s) (\<lambda>s _.
     st_then (s, request_id i) (\<lambda>s qid.
     st_then (with_store (so_restore ops who qid) s) (\<lambda>s target.
       let message = ''restored '' @ id_str qid @ '' to '' @ sanitize (to_string_lossy target)
       in if \<not> allow then (s, Ok (RDone message))
          else
            st_then (s, map_err internal (so_get ops qid (svc_store s))) (\<lambda>s rec.
            st_then (with_store (so_allow ops who (of_sha256 (rec_original rec)) ''restored from quarantine'' qid
                (qr_detection_name (rec_reason rec))) s) (\<lambda>s _.
            (s, Ok (RDone (message @ ''; allow-listed''))))))))"

definition delete_request ::
  "'q store_ops \<Rightarrow> string \<Rightarrow> string \<Rightarrow> 'q service \<Rightarrow> 'q service \<times> (rejection + 'json reply)" where
  "delete_request ops who i s =
     st_then (open_quarantine ops s) (\<lambda>s _.
     st_then (s, request_id i) (\<lambda>s qid.
     st_then (with_store (so_delete ops who qid) s) (\<lambda>s _.
     (s, Ok (RDone (''deleted '' @ id_str qid))))))"

text \<open>\<open>execute\<close>. \<open>check\<close> is the audit check at this moment.\<close>

definition execute_request ::
  "service_ctx \<Rightarrow> 'q store_ops \<Rightarrow> (bytes \<Rightarrow> 'json option) \<Rightarrow> surroundings \<Rightarrow> audit_status \<Rightarrow> peer \<Rightarrow> ipc_op \<Rightarrow>
     'q service \<Rightarrow> 'q service \<times> (rejection + 'json reply)" where
  "execute_request cx ops parse en check p op s =
     (let who = cl_principal (pe_caller p); admin = cl_admin (pe_caller p); m = svc_manager s in
      case op of
        OpPing \<Rightarrow> (s, Ok (Pong (cx_version cx)))
      | OpStatus \<Rightarrow>
          (s, Ok (RStatus \<lparr>sv_server_version = cx_version cx, sv_started_at = cx_started_at cx,
             sv_running_as_root = cx_root cx, sv_jobs_running = fst (counts m), sv_jobs_queued = snd (counts m),
             sv_schedules = length (cfg_schedules (cx_cfg cx)), sv_caller = who, sv_caller_is_admin = admin,
             sv_last_audit = (if admin then svc_audit s else None)\<rparr>))
      | OpScan paths heuristics no_archives quarantine \<Rightarrow>
          submit_request cx en who (scan_spec p paths heuristics no_archives quarantine) s
      | OpSystemCheck heuristics \<Rightarrow> submit_request cx en who (system_check_spec heuristics) s
      | OpJobs \<Rightarrow> (s, Ok (RJobs (list_jobs (\<lambda>j. can_access_job (pe_caller p) (js_owner j)) m)))
      | OpJob i \<Rightarrow> (s, and_then (ok_or not_found (visible_job p i s)) (\<lambda>j. Ok (RJob j)))
      | OpReport i \<Rightarrow>
          (s, case visible_job p i s of
                None \<Rightarrow> Err not_found
              | Some _ \<Rightarrow>
                  (case stored_report parse i (mg_store m) of
                     Err e \<Rightarrow> Err (internal e)
                   | Ok (Some v) \<Rightarrow> Ok (RReport i v)
                   | Ok None \<Rightarrow> Err (reject NotFound ''no report: the job has not finished, or it failed'')))
      | OpCancel i \<Rightarrow>
          (case visible_job p i s of
             None \<Rightarrow> (s, Err not_found)
           | Some _ \<Rightarrow>
               (case cancel_job i (en_now en) (en_saved en) m of
                  (m', r) \<Rightarrow> (s\<lparr>svc_manager := m'\<rparr>,
                    and_then r (\<lambda>_. Ok (RDone (''cancelling job '' @ cx_uuid_text cx i))))))
      | OpSchedules \<Rightarrow> (s, Ok (RSchedules (schedules_info (cx_cfg cx) (svc_schedules s) (en_now en))))
      | OpRunSchedule name \<Rightarrow>
          (case find (\<lambda>sch. sch_name sch = name) (cfg_schedules (cx_cfg cx)) of
             None \<Rightarrow> (s, Err (reject NotFound ''no such schedule''))
           | Some sch \<Rightarrow>
               (case start_schedule (cx_cfg cx) (cx_principal cx) en sch (m, svc_schedules s) of
                  ((m', st), r) \<Rightarrow> (s\<lparr>svc_manager := m', svc_schedules := st\<rparr>,
                    and_then r (\<lambda>i. Ok (JobStarted i)))))
      | OpQuarantineList \<Rightarrow>
          if \<not> so_exists ops (svc_store s) then (s, Ok (RQuarantine []))
          else
            st_then (open_quarantine ops s) (\<lambda>s _.
            st_then (s, map_err internal (so_list ops (svc_store s))) (\<lambda>s rs.
            (s, Ok (RQuarantine (map quarantine_item_of rs)))))
      | OpQuarantineRestore i allow \<Rightarrow> restore_request ops who i allow s
      | OpQuarantineDelete i \<Rightarrow> delete_request ops who i s
      | OpVerifyAudit \<Rightarrow> (record_audit check s, Ok (RAudit check)))"

definition dispatch ::
  "service_ctx \<Rightarrow> 'q store_ops \<Rightarrow> (bytes \<Rightarrow> 'json option) \<Rightarrow> surroundings \<Rightarrow> audit_status \<Rightarrow> peer \<Rightarrow> request \<Rightarrow>
     'q service \<Rightarrow> 'q service \<times> 'json response" where
  "dispatch cx ops parse en check p rq s =
     (case and_then (validate_request rq) (\<lambda>_. authorize (pe_caller p) (rq_op rq)) of
        Err r \<Rightarrow> (s, error_response (rq_id rq) r)
      | Ok _ \<Rightarrow>
          (case execute_request cx ops parse en check p (rq_op rq) s of
             (s', Ok reply) \<Rightarrow> (s', new_response (rq_id rq) reply)
           | (s', Err r) \<Rightarrow> (s', error_response (rq_id rq) r)))"

section \<open>Connections\<close>

definition MAX_REQUESTS_PER_CONNECTION :: nat where
  "MAX_REQUESTS_PER_CONNECTION = 1000"

text \<open>The peer of a Unix socket: the kernel's user and group, looked up in the account
  databases.\<close>

definition unix_peer :: "accounts \<Rightarrow> service_config \<Rightarrow> nat \<Rightarrow> nat \<Rightarrow> peer" where
  "unix_peer a c uid gid =
     \<lparr>pe_caller = \<lparr>cl_principal = show_nat uid, cl_admin = is_admin a uid c\<rparr>,
      pe_ids = (uid, case user_by_uid a uid of None \<Rightarrow> gid | Some u \<Rightarrow> us_gid u)\<rparr>"

definition frame_error_text :: "frame_error \<Rightarrow> string" where
  "frame_error_text e =
     (case e of
        FrameClosed \<Rightarrow> ''connection closed''
      | FrameTooLarge n m \<Rightarrow> ''message of '' @ show_nat n @ '' bytes exceeds the '' @ show_nat m @ ''-byte limit''
      | FrameMalformed \<Rightarrow> ''malformed message''
      | FrameIo _ \<Rightarrow> ''I/O error'')"

text \<open>\<open>converse\<close>: at most \<open>n\<close> more requests of one connection. \<open>handle\<close> is \<open>dispatch\<close> for the
  requests still to come, \<open>written\<close> tells whether the client took a response of so many bytes.
  The result has the responses that were written, last first.\<close>

fun converse ::
  "(bytes \<Rightarrow> request option) \<Rightarrow> ('json response \<Rightarrow> bytes option) \<Rightarrow> (nat \<Rightarrow> bool) \<Rightarrow>
     (peer \<Rightarrow> request \<Rightarrow> 's \<Rightarrow> 's \<times> 'json response) \<Rightarrow> peer option \<Rightarrow> nat \<Rightarrow> stream \<Rightarrow> 's \<Rightarrow>
     's \<times> 'json response list" where
  "converse from_json to_json written handle peer 0 stream s = (s, [])"
| "converse from_json to_json written handle peer (Suc n) stream s =
     (case read_frame from_json MAX_REQUEST stream of
        (Ok rq, stream') \<Rightarrow>
          (case peer of
             None \<Rightarrow> (s, [])
           | Some p \<Rightarrow>
               (case handle p rq s of
                  (s', rs) \<Rightarrow>
                    (case write_frame to_json rs MAX_RESPONSE of
                       Err _ \<Rightarrow> (s', [])
                     | Ok bs \<Rightarrow>
                         if \<not> written (length bs) then (s', [])
                         else
                           (case converse from_json to_json written handle peer n stream' s' of
                              (s'', rest) \<Rightarrow> (s'', rs # rest)))))
      | (Err FrameClosed, _) \<Rightarrow> (s, [])
      | (Err (FrameIo _), _) \<Rightarrow> (s, [])
      | (Err e, _) \<Rightarrow> (s, [error_response 0 (reject BadRequest (frame_error_text e))]))"

text \<open>\<open>exchange\<close> of \<open>client.rs\<close>: \<open>answer\<close> is what the service sends back.\<close>

definition exchange ::
  "(request \<Rightarrow> bytes option) \<Rightarrow> (bytes \<Rightarrow> 'json response option) \<Rightarrow> u64 \<Rightarrow> (bytes \<Rightarrow> stream) \<Rightarrow> ipc_op \<Rightarrow>
     string + 'json reply" where
  "exchange to_json from_json client_id answer op =
     and_then (map_err frame_error_text (write_frame to_json (new_request client_id op) MAX_REQUEST)) (\<lambda>bs.
     and_then (map_err frame_error_text (fst (read_frame from_json MAX_RESPONSE (answer bs)))) (\<lambda>r.
     if rs_id r \<noteq> client_id \<and> rs_id r \<noteq> 0 then Err ''the service answered a different request''
     else Ok (rs_reply r)))"

text \<open>\<open>spawn_client\<close> and the end of its thread. \<open>con_active\<close> is the shared counter, \<open>con_threads\<close>
  the number of threads that are running.\<close>

definition MAX_CONNECTIONS :: nat where
  "MAX_CONNECTIONS = 64"

record connections =
  con_active :: nat
  con_threads :: nat

definition spawn_client :: "bool \<Rightarrow> connections \<Rightarrow> connections" where
  "spawn_client spawned c =
     (if MAX_CONNECTIONS \<le> con_active c then c
      else c\<lparr>con_active := con_active c + 1,
             con_threads := (if spawned then con_threads c + 1 else con_threads c)\<rparr>)"

definition client_ends :: "connections \<Rightarrow> connections" where
  "client_ends c = c\<lparr>con_active := con_active c - 1, con_threads := con_threads c - 1\<rparr>"

inductive connection_step :: "connections \<Rightarrow> connections \<Rightarrow> bool" where
  Accepted: "connection_step c (spawn_client spawned c)"
| Ended: "0 < con_threads c \<Longrightarrow> connection_step c (client_ends c)"

section \<open>Starting the service (\<open>lib.rs\<close>)\<close>

text \<open>\<open>run_with_stop\<close> up to the listening socket: the configuration with the command line's
  overrides, and the scanner account for a service that runs as root. \<open>setpriv\<close> is the program
  found on this machine, \<open>binary\<close> what \<open>scanner_binary\<close> gives.\<close>

datatype startup_error =
    StartConfig config_load_error
  | StartInvalid service_config_error
  | StartBinary string
  | NoSetpriv
  | NoScannerAccount string
  | ScannerIsRoot

record daemon_options =
  do_socket :: "string option"
  do_state_dir :: "string option"

definition override_config :: "daemon_options \<Rightarrow> service_config \<Rightarrow> service_config" where
  "override_config opts c =
     (let c = (case do_socket opts of None \<Rightarrow> c | Some s \<Rightarrow> c\<lparr>cfg_socket := s\<rparr>)
      in case do_state_dir opts of None \<Rightarrow> c | Some d \<Rightarrow> c\<lparr>cfg_state_dir := d\<rparr>)"

definition scanner_account ::
  "bool \<Rightarrow> string option \<Rightarrow> accounts \<Rightarrow> service_config \<Rightarrow>
     startup_error + (string option \<times> (nat \<times> nat) option)" where
  "scanner_account root setpriv a c =
     (if \<not> root then Ok (None, None)
      else
        and_then (ok_or NoSetpriv setpriv) (\<lambda>sp.
        and_then (ok_or (NoScannerAccount (cfg_scanner_user c)) (user_by_name a (cfg_scanner_user c))) (\<lambda>u.
        if us_uid u = 0 then Err ScannerIsRoot
        else Ok (Some sp, Some (us_uid u, us_gid u)))))"

definition start_service ::
  "(string \<Rightarrow> service_config option) \<Rightarrow> io_kind + (nat \<times> u32 \<times> bytes) \<Rightarrow> daemon_options \<Rightarrow> bool \<Rightarrow>
     (service_config \<Rightarrow> string + string) \<Rightarrow> string option \<Rightarrow> accounts \<Rightarrow> startup_error + environment" where
  "start_service parse file opts root binary setpriv a =
     and_then (map_err StartConfig (load_service_config parse root file)) (\<lambda>c0.
     let c = override_config opts c0 in
     and_then (map_err StartInvalid (validate_service_config c)) (\<lambda>_.
     and_then (map_err StartBinary (binary c)) (\<lambda>b.
     and_then (scanner_account root setpriv a c) (\<lambda>(sp, scanner).
     Ok \<lparr>env_cfg = c, env_binary = b, env_setpriv = sp, env_scanner = scanner\<rparr>))))"

end
