(* ===== verification/Service_Server_Props.thy ===== *)
theory Service_Server_Props
  imports Service_Server
begin

text \<open>
  Lemmas about requests and connections: what a request without administrator rights can change,
  the options of a job's child, the requests of a connection served in order, and the count of
  connections.
\<close>

section \<open>What a request changes\<close>

lemma submit_specs:
  "mg_specs (fst (submit c i now saved owner sched spec m)) k = Some sp \<Longrightarrow> mg_specs m k = Some sp \<or> sp = spec"
  by (auto simp: submit_def Let_def split: if_splits prod.splits sum.splits)

lemma submit_other_jobs:
  "k \<noteq> i \<Longrightarrow> table (mg_jobs m) \<Longrightarrow> get_job (fst (submit c i now saved owner sched spec m)) k = get_job m k"
  by (auto simp: submit_def get_job_def Let_def jobs_get_insert new_summary_def split: prod.splits sum.splits)

lemma cancel_specs:
  "mg_specs (fst (cancel_job i now saved m)) k = Some sp \<Longrightarrow> mg_specs m k = Some sp"
  by (auto simp: cancel_job_def split: if_splits)

lemma cancel_other_jobs: "k \<noteq> i \<Longrightarrow> get_job (fst (cancel_job i now saved m)) k = get_job m k"
  by (auto simp: cancel_job_def get_job_def jobs_get_update)

text \<open>The part of the service a request of this peer may touch.\<close>

definition confined :: "peer \<Rightarrow> uuid \<Rightarrow> 'q service \<Rightarrow> 'q service \<Rightarrow> bool" where
  "confined p new s s' \<longleftrightarrow>
     svc_store s' = svc_store s \<and> svc_audit s' = svc_audit s \<and> svc_schedules s' = svc_schedules s \<and>
     (\<forall>i sp. mg_specs (svc_manager s') i = Some sp \<longrightarrow>
        mg_specs (svc_manager s) i = Some sp \<or>
        sp_kind sp = KindScan \<and> \<not> sp_quarantine sp \<and> sp_run_as sp = RunCaller (fst (pe_ids p)) (snd (pe_ids p))) \<and>
     (\<forall>i j. get_job (svc_manager s) i = Some j \<and> js_owner j \<noteq> cl_principal (pe_caller p) \<and> i \<noteq> new \<longrightarrow>
        get_job (svc_manager s') i = Some j)"

lemma confined_refl [simp]: "confined p new s s"
  by (simp add: confined_def)

lemma confined_manager:
  assumes "\<And>i sp. mg_specs m i = Some sp \<Longrightarrow> mg_specs (svc_manager s) i = Some sp \<or>
      sp_kind sp = KindScan \<and> \<not> sp_quarantine sp \<and> sp_run_as sp = RunCaller (fst (pe_ids p)) (snd (pe_ids p))"
    and "\<And>i j. get_job (svc_manager s) i = Some j \<Longrightarrow> js_owner j \<noteq> cl_principal (pe_caller p) \<Longrightarrow> i \<noteq> new \<Longrightarrow>
      get_job m i = Some j"
  shows "confined p new s (s\<lparr>svc_manager := m\<rparr>)"
  using assms unfolding confined_def by simp

lemma submit_request_fst:
  "fst (submit_request cx en owner spec s) =
     s\<lparr>svc_manager := fst (submit (cx_cfg cx) (en_uuid en) (en_now en) (en_saved en) owner None spec (svc_manager s))\<rparr>"
  by (simp add: submit_request_def split: prod.splits)

lemma confined_scan:
  assumes "\<not> cl_admin (pe_caller p)" and t: "table (mg_jobs (svc_manager s))"
  shows "confined p (en_uuid en) s (fst (submit_request cx en owner (scan_spec p paths h a False) s))"
  unfolding submit_request_fst
proof (rule confined_manager)
  fix i sp
  assume "mg_specs (fst (submit (cx_cfg cx) (en_uuid en) (en_now en) (en_saved en) owner None
      (scan_spec p paths h a False) (svc_manager s))) i = Some sp"
  from submit_specs [OF this] show "mg_specs (svc_manager s) i = Some sp \<or>
      sp_kind sp = KindScan \<and> \<not> sp_quarantine sp \<and> sp_run_as sp = RunCaller (fst (pe_ids p)) (snd (pe_ids p))"
    using assms(1) by (auto simp: scan_spec_def scan_identity_def scan_as_caller_def)
qed (simp add: submit_other_jobs [OF _ t])

lemma confined_cancel:
  assumes "\<not> cl_admin (pe_caller p)" and "visible_job p i s = Some j"
  shows "confined p new s (s\<lparr>svc_manager := fst (cancel_job i now saved (svc_manager s))\<rparr>)"
proof (rule confined_manager)
  from assms have i: "get_job (svc_manager s) i = Some j" "js_owner j = cl_principal (pe_caller p)"
    by (auto simp: visible_job_def can_access_job_def split: option.splits if_splits)
  fix k j'
  assume k: "get_job (svc_manager s) k = Some j'" "js_owner j' \<noteq> cl_principal (pe_caller p)"
  with i have "k \<noteq> i" by auto
  with k show "get_job (fst (cancel_job i now saved (svc_manager s))) k = Some j'"
    by (simp add: cancel_other_jobs)
qed (blast dest: cancel_specs)

lemma execute_confined:
  assumes "\<not> cl_admin (pe_caller p)" and "\<not> admin_only op" and "table (mg_jobs (svc_manager s))"
  shows "confined p (en_uuid en) s (fst (execute_request cx ops parse en check p op s))"
proof (cases op)
  case (OpScan paths h a q)
  with assms show ?thesis
    using confined_scan by (auto simp: execute_request_def Let_def admin_only_def)
next
  case (OpCancel i)
  show ?thesis
  proof (cases "visible_job p i s")
    case None
    with OpCancel show ?thesis by (simp add: execute_request_def)
  next
    case (Some j)
    from confined_cancel [OF assms(1) this, of "en_uuid en" "en_now en" "en_saved en"] OpCancel Some show ?thesis
      by (cases "cancel_job i (en_now en) (en_saved en) (svc_manager s)") (simp add: execute_request_def Let_def)
  qed
qed (use assms in \<open>simp_all add: execute_request_def admin_only_def Let_def\<close>)

lemma dispatch_confined:
  assumes "\<not> cl_admin (pe_caller p)" and "table (mg_jobs (svc_manager s))"
  shows "confined p (en_uuid en) s (fst (dispatch cx ops parse en check p rq s))"
proof (cases "and_then (validate_request rq) (\<lambda>_. authorize (pe_caller p) (rq_op rq))")
  case (Inr u)
  then have "\<not> admin_only (rq_op rq)"
    using assms(1) by (auto simp: result_simps authorize_def split: if_splits)
  from execute_confined [OF assms(1) this assms(2), of en cx ops parse check] Inr show ?thesis
    by (cases "execute_request cx ops parse en check p (rq_op rq) s") (simp add: dispatch_def split: sum.splits)
qed (simp add: dispatch_def)

section \<open>The options of a child\<close>

text \<open>What comes before the separator and the paths of a scan.\<close>

definition scan_options :: "job_spec \<Rightarrow> service_config \<Rightarrow> string \<Rightarrow> string \<Rightarrow> bool \<Rightarrow> nat \<Rightarrow> string list" where
  "scan_options spec c state_file installed use_installed timeout_secs =
     [''scan'', ''--format'', ''json'', ''--no-progress'', ''--no-allowlist'', ''--scan-timeout'', show_nat timeout_secs] @
     (if sp_no_archives spec then [''--no-archives''] else []) @
     (if sp_heuristics spec then [''--heuristics''] else []) @
     flag_values ''--content'' (cfg_content c) @ flag_values ''--keyring'' (cfg_keyrings c) @
     (if use_installed then [''--installed'', ''--content-dir'', installed] else []) @
     (if cfg_content c \<noteq> [] \<or> use_installed then [''--content-state'', state_file] else [])"

lemma child_args_scan:
  "sp_kind spec = KindScan \<Longrightarrow> child_args spec c sf inst use t = scan_options spec c sf inst use t @ ''--'' # sp_paths spec"
  by (simp add: scan_options_def child_args_def)

lemma scan_options_paths [simp]: "scan_options (spec\<lparr>sp_paths := ps\<rparr>) = scan_options spec"
  by (intro ext) (simp add: scan_options_def)

lemma flag_values_set: "set (flag_values opt vs) = (if vs = [] then {} else insert opt (set vs))"
  by (induction vs) (auto simp: flag_values_def split: if_splits)

lemma show_nat_no_dash: "show_nat n \<noteq> CHR ''-'' # s"
  using show_nat_digits [of "CHR ''-''" n] by (auto simp: is_ascii_digit_def code_def)

text \<open>Paths in a valid configuration are absolute, so none reads as an option.\<close>

lemma valid_config_paths:
  "validate_service_config c = Ok () \<Longrightarrow> p \<in> set (cfg_content c) \<union> set (cfg_keyrings c) \<Longrightarrow> is_absolute p"
  by (auto simp: validate_service_config_def in_range_def result_simps)

lemma scan_options_plain:
  assumes c: "validate_service_config c = Ok ()" and p: "is_absolute sf" "is_absolute inst"
  shows "''--'' \<notin> set (scan_options spec c sf inst use t) \<and> ''--quarantine'' \<notin> set (scan_options spec c sf inst use t)"
proof -
  have a: "\<not> is_absolute ''--''" "\<not> is_absolute ''--quarantine''" by (simp_all add: is_absolute_def)
  with valid_config_paths [OF c] p have
    "''--'' \<notin> set (cfg_content c) \<union> set (cfg_keyrings c)" "''--quarantine'' \<notin> set (cfg_content c) \<union> set (cfg_keyrings c)"
    "sf \<noteq> ''--''" "sf \<noteq> ''--quarantine''" "inst \<noteq> ''--''" "inst \<noteq> ''--quarantine''" by blast+
  then show ?thesis
    by (simp add: scan_options_def flag_values_set not_sym [OF show_nat_no_dash])
qed

section \<open>The requests of a connection\<close>

text \<open>Requests handled one after the other, with the responses in order.\<close>

fun serve_all :: "('rq \<Rightarrow> 's \<Rightarrow> 's \<times> 'rs) \<Rightarrow> 'rq list \<Rightarrow> 's \<Rightarrow> 's \<times> 'rs list" where
  "serve_all handle [] s = (s, [])"
| "serve_all handle (rq # rqs) s =
     (case handle rq s of (s', r) \<Rightarrow> (case serve_all handle rqs s' of (s'', rs) \<Rightarrow> (s'', r # rs)))"

lemma converse_end: "sm_data sm = [] \<Longrightarrow> converse from_json to_json written handle peer n sm s = (s, [])"
  by (cases n; cases "sm_end sm") (simp_all add: read_frame_def read_exact_def split: io_kind.splits)

lemma converse_serves:
  assumes frames: "\<forall>rq \<in> set rqs. write_frame req_json rq MAX_REQUEST = Ok (frame rq)"
    and inv: "\<forall>rq j. req_json rq = Some j \<longrightarrow> from_json j = Some rq"
    and answers: "\<forall>r. \<exists>bs. write_frame to_json r MAX_RESPONSE = Ok bs" and sent: "\<forall>k. written k"
    and data: "sm_data sm = concat (map frame rqs)" and n: "length rqs \<le> n"
  shows "converse from_json to_json written handle (Some p) n sm s = serve_all (handle p) rqs s"
  using frames data n
proof (induction rqs arbitrary: n sm s)
  case Nil
  then show ?case by (simp add: converse_end)
next
  case (Cons rq rqs)
  then obtain m where m: "n = Suc m" "length rqs \<le> m" by (cases n) auto
  have "write_frame req_json rq MAX_REQUEST = Ok (frame rq)" "sm_data sm = frame rq @ concat (map frame rqs)"
    using Cons.prems by simp_all
  from read_write_frame [OF this, of from_json] obtain body where
    "req_json rq = Some body"
    "read_frame from_json MAX_REQUEST sm = (decode from_json body, sm\<lparr>sm_data := concat (map frame rqs)\<rparr>)"
    by blast
  with inv have r: "read_frame from_json MAX_REQUEST sm = (Ok rq, sm\<lparr>sm_data := concat (map frame rqs)\<rparr>)"
    by (simp add: decode_def)
  obtain s' rs where h: "handle p rq s = (s', rs)" by fastforce
  obtain bs where w: "write_frame to_json rs MAX_RESPONSE = Ok bs" using answers by blast
  show ?case
    using Cons.IH [of "sm\<lparr>sm_data := concat (map frame rqs)\<rparr>" m s'] Cons.prems(1) sent m
    by (simp add: r h w)
qed

section \<open>Starting and counting\<close>

lemma start_service_Ok:
  assumes "start_service parse file opts root binary setpriv a = Ok env"
  shows "validate_service_config (env_cfg env) = Ok () \<and>
    (root \<longrightarrow> env_setpriv env \<noteq> None \<and> (\<exists>u g. env_scanner env = Some (u, g) \<and> u \<noteq> 0)) \<and>
    (\<not> root \<longrightarrow> env_scanner env = None)"
  using assms
  by (auto simp: start_service_def scanner_account_def Let_def result_simps split: if_splits prod.splits)

lemma connection_step_leak:
  "connection_step c c' \<Longrightarrow> con_threads c \<le> con_active c \<Longrightarrow> con_active c \<le> MAX_CONNECTIONS \<Longrightarrow>
     con_threads c' \<le> con_active c' \<and> con_active c' \<le> MAX_CONNECTIONS \<and>
     con_active c - con_threads c \<le> con_active c' - con_threads c'"
  by (induction rule: connection_step.induct) (auto simp: spawn_client_def client_ends_def)

lemma connections_leak:
  "connection_step\<^sup>*\<^sup>* c c' \<Longrightarrow> con_threads c \<le> con_active c \<Longrightarrow> con_active c \<le> MAX_CONNECTIONS \<Longrightarrow>
     con_threads c' \<le> con_active c' \<and> con_active c' \<le> MAX_CONNECTIONS \<and>
     con_active c - con_threads c \<le> con_active c' - con_threads c'"
  by (induction rule: rtranclp_induct) (auto dest: connection_step_leak)

end
