(* ===== verification/Service_Theorems.thy ===== *)
theory Service_Theorems
  imports Service_Server_Props
begin

text \<open>
  The properties of \<open>crates/ipc\<close> and \<open>crates/service\<close>: what a request may do for whom, which
  identity and options a job's child process gets, the job manager over all its runs, and the
  schedules.
\<close>

section \<open>The job manager\<close>

text \<open>C34: In every state the job manager can reach from a start of the service, by any
  interleaving of submissions, cancellations, workers and a shutdown, the bookkeeping agrees:
  the queue holds exactly the queued jobs, the workers exactly the running ones, each queued job
  has its specification and each running one its cancel flag, no job is in both, and neither
  configured limit is exceeded.\<close>

theorem manager_consistent:
  assumes "reachable c saved now st m"
  shows "manager_ok c m"
  using assms by (rule reachable_ok)

definition sample_job_spec :: job_spec where
  "sample_job_spec =
     \<lparr>sp_kind = KindScan, sp_paths = [''/home''], sp_heuristics = False, sp_no_archives = False,
      sp_quarantine = False, sp_run_as = RunService\<rparr>"

definition sample_manager :: manager where
  "sample_manager = new_manager (\<lambda>_. True) 0 \<lparr>sto_jobs = [], sto_reports = Map.empty\<rparr>"

theorem manager_consistent_witness:
  "manager_ok default_service_config
     (fst (submit default_service_config 7 0 True ''0'' None sample_job_spec sample_manager))"
  unfolding sample_manager_def
  by (rule manager_consistent [of _ "\<lambda>_. True" 0], rule r_into_rtranclp, rule manager_step.Submit)
    (simp add: new_manager_def load_jobs_def jobs_get_def)

text \<open>C35: Over any run, one step of the service moves a job only along its life: a new job is
  queued; a queued job stays so, starts or is cancelled; a running job stays so or ends in a
  final state; a job in a final state never changes until its record is pruned.\<close>

theorem job_life_cycle:
  assumes "reachable c saved now st m" and "manager_step c m m'"
  shows "life (get_job m k) (get_job m' k)"
  using assms by (intro manager_step_life reachable_ok)

theorem job_life_cycle_witness:
  "life (get_job sample_manager 7)
     (get_job (fst (submit default_service_config 7 0 True ''0'' None sample_job_spec sample_manager)) 7)"
  unfolding sample_manager_def
  by (rule job_life_cycle [of default_service_config "\<lambda>_. True" 0], rule rtranclp.rtrancl_refl, rule manager_step.Submit)
    (simp add: new_manager_def load_jobs_def jobs_get_def)

text \<open>C36: After a restart the service knows exactly the jobs on disk, every one of them in a
  final state: finished jobs as they were recorded, interrupted ones failed with the reason.\<close>

theorem restart_finishes_jobs:
  "js_id ` set (mg_jobs (new_manager saved now st)) = js_id ` set (sto_jobs st) \<and>
   set (mg_jobs (new_manager saved now st)) \<subseteq>
     {j. finished (js_state j) \<and> (\<exists>j0 \<in> set (sto_jobs st). js_id j = js_id j0 \<and>
           (if finished (js_state j0) then j = j0
            else js_state j = JobFailed \<and> js_error j = Some ''interrupted: the service stopped''))}"
proof (intro conjI subsetI CollectI)
  fix j
  assume "j \<in> set (mg_jobs (new_manager saved now st))"
  then obtain j0 where "j0 \<in> set (sto_jobs st)" "j = interrupt_job now j0"
    using new_manager_jobs(2) by blast
  then show "\<exists>j0 \<in> set (sto_jobs st). js_id j = js_id j0 \<and>
      (if finished (js_state j0) then j = j0
       else js_state j = JobFailed \<and> js_error j = Some ''interrupted: the service stopped'')"
    "finished (js_state j)"
    by (auto simp: interrupt_job_def finished_def intro!: bexI [of _ j0])
qed (rule new_manager_jobs)

definition sample_summary :: "uuid \<Rightarrow> job_state \<Rightarrow> instant \<Rightarrow> job_summary" where
  "sample_summary i st t = (new_summary i t ''0'' None sample_job_spec)\<lparr>js_state := st\<rparr>"

definition pruning_manager :: manager where
  "pruning_manager =
     \<lparr>mg_jobs = [sample_summary 3 Running 100, sample_summary 5 Completed 1], mg_specs = Map.empty,
      mg_queue = [], mg_cancels = [3 \<mapsto> False], mg_shutdown = False,
      mg_store = \<lparr>sto_jobs = [sample_summary 3 Running 100, sample_summary 5 Completed 1],
                  sto_reports = [3 \<mapsto> [1], 5 \<mapsto> [2]]\<rparr>,
      mg_busy = [3]\<rparr>"

text \<open>Pruning takes the first finished jobs of the table, which is ordered by the random
  identifiers: with room for one finished job, the job that has just finished is removed together
  with its report, and the job that finished long before is kept.\<close>

theorem prune_removes_newest:
  "let m = finish_job (default_service_config\<lparr>cfg_history_limit := 1\<rparr>) (\<lambda>_. True) 3
       (default_result\<lparr>jr_state := Completed\<rparr>) 200 True pruning_manager
   in get_job m 3 = None \<and> sto_reports (mg_store m) 3 = None \<and>
      map_option js_created_at (get_job m 5) = Some 1 \<and> sto_reports (mg_store m) 5 = Some [2]"
  by (simp add: finish_job_def pruning_manager_def update_saved_def jobs_get_def jobs_update_def jobs_remove_def
      prune_def store_save_job_def apply_result_def sample_summary_def new_summary_def finished_def
      default_service_config_def default_result_def get_job_def Let_def)

section \<open>Requests\<close>

text \<open>C37: What the client writes as a frame the service reads as the same message, with nothing
  of what follows consumed, for every message within the limit.\<close>

theorem frame_round_trip:
  assumes "write_frame to_json msg max_len = Ok bs" and "sm_data sm = bs @ rest"
    and "\<forall>j. to_json msg = Some j \<longrightarrow> from_json j = Some msg"
  shows "read_frame from_json max_len sm = (Ok msg, sm\<lparr>sm_data := rest\<rparr>)"
  using read_write_frame [OF assms(1,2), of from_json] assms(3) by (auto simp: decode_def)

theorem frame_round_trip_witness:
  "read_frame (\<lambda>j. if j = [5, 6] then Some True else None) 10 \<lparr>sm_data = [0, 0, 0, 2, 5, 6, 9], sm_end = OtherKind\<rparr> =
     (Ok True, \<lparr>sm_data = [9], sm_end = OtherKind\<rparr>)"
  using frame_round_trip [of "\<lambda>_. Some [5, 6]" True 10 "[0, 0, 0, 2, 5, 6]"
      "\<lparr>sm_data = [0, 0, 0, 2, 5, 6, 9], sm_end = OtherKind\<rparr>" "[9]" "\<lambda>j. if j = [5, 6] then Some True else None"]
  by (simp add: write_frame_def u32_be_bytes_def)







section \<open>Children\<close>




lemma default_valid: "validate_service_config default_service_config = Ok ()"
  by (simp add: validate_service_config_def default_service_config_def in_range_def is_absolute_def MAX_SCHEDULES_def)



text \<open>The options of a scan's child process do not depend on the paths of the request,
  which all come after the separator: no path is read as an option, and the child is never told
  to quarantine.\<close>

theorem scan_paths_are_operands:
  assumes "validate_service_config c = Ok ()" and "is_absolute state_file" and "is_absolute installed"
    and "sp_kind spec = KindScan"
  shows "\<exists>opts. (\<forall>paths. child_args (spec\<lparr>sp_paths := paths\<rparr>) c state_file installed use_installed t =
      opts @ ''--'' # paths) \<and> ''--'' \<notin> set opts \<and> ''--quarantine'' \<notin> set opts"
  using scan_options_plain [OF assms(1-3), of spec use_installed t]
  by (intro exI [of _ "scan_options spec c state_file installed use_installed t"]) (simp add: child_args_scan assms(4))

theorem scan_paths_are_operands_witness:
  "\<exists>opts. (\<forall>paths. child_args (sample_job_spec\<lparr>sp_paths := paths\<rparr>) default_service_config ''/s'' ''/c'' True 60 =
      opts @ ''--'' # paths) \<and> ''--'' \<notin> set opts \<and> ''--quarantine'' \<notin> set opts"
  by (rule scan_paths_are_operands [OF default_valid]) (simp_all add: is_absolute_def sample_job_spec_def)

section \<open>Connections\<close>

text \<open>The count of connections never exceeds its limit and never falls below the number of
  threads, but a place that is lost because no thread could be started is never given back: the
  number of lost places only grows, and once they are all lost no client is served again.\<close>

theorem connection_places_leak:
  assumes "connection_step\<^sup>*\<^sup>* c c'" and "con_threads c \<le> con_active c" and "con_active c \<le> MAX_CONNECTIONS"
  shows "con_threads c' \<le> con_active c' \<and> con_active c' \<le> MAX_CONNECTIONS \<and>
    con_active c - con_threads c \<le> con_active c' - con_threads c' \<and>
    con_threads c' + (con_active c - con_threads c) \<le> MAX_CONNECTIONS"
  using connections_leak [OF assms] by auto

definition failing_accepts :: "nat \<Rightarrow> connections" where
  "failing_accepts n = (spawn_client False ^^ n) \<lparr>con_active = 0, con_threads = 0\<rparr>"

lemma failing_accepts_eq: "n \<le> MAX_CONNECTIONS \<Longrightarrow> failing_accepts n = \<lparr>con_active = n, con_threads = 0\<rparr>"
  by (induction n) (simp_all add: failing_accepts_def spawn_client_def)

theorem connection_places_leak_witness:
  "con_threads (spawn_client True (failing_accepts 64)) + 64 \<le> MAX_CONNECTIONS"
proof -
  have f: "failing_accepts 64 = \<lparr>con_active = 64, con_threads = 0\<rparr>"
    by (rule failing_accepts_eq) (simp add: MAX_CONNECTIONS_def)
  have "connection_step\<^sup>*\<^sup>* (failing_accepts 64) (spawn_client True (failing_accepts 64))"
    by (rule r_into_rtranclp, rule connection_step.Accepted)
  from connection_places_leak [OF this] show ?thesis by (simp add: f MAX_CONNECTIONS_def)
qed

section \<open>Schedules\<close>

text \<open>A schedule of a valid configuration that has run is due again later than its last
  run, and at the latest one day after the configured interval.\<close>

theorem next_run_bounded:
  assumes "validate_service_config c = Ok ()" and "s \<in> set (cfg_schedules c)"
  shows "l < next_due s (Some l) now \<and>
    next_due s (Some l) now \<le> l + minutes (60 * int (unat (sch_every_hours s))) + days 1"
proof -
  have "schedule_ok c s"
    using validate_service_config_schedules [OF assms(1)] assms(2) by (auto simp: list_all_iff)
  then show ?thesis using next_due_after next_due_upper by blast
qed

definition hourly :: schedule where
  "hourly = \<lparr>sch_name = ''home'', sch_kind = KindScan, sch_paths = [''/home''], sch_every_hours = 1, sch_at_utc = None,
     sch_heuristics = False, sch_quarantine = False\<rparr>"

lemma hourly_valid: "validate_service_config (default_service_config\<lparr>cfg_schedules := [hourly]\<rparr>) = Ok ()"
  by (simp add: validate_service_config_def default_service_config_def in_range_def is_absolute_def MAX_SCHEDULES_def
      check_schedule_def check_schedule_kind_def hourly_def MAX_PATHS_def valid_schedule_name_def
      is_ascii_alphanumeric_def is_ascii_alphabetic_def is_ascii_lower_def)
    (simp add: code_def)

theorem next_run_bounded_witness:
  "0 < next_due hourly (Some 0) 5 \<and> next_due hourly (Some 0) 5 \<le> 0 + minutes (60 * int (unat (sch_every_hours hourly))) + days 1"
  by (rule next_run_bounded [OF hourly_valid]) simp

text \<open>The parser of a time of day checks the length of the whole text but not the shape of
  its parts: it takes one digit before the colon and three after, and signs.\<close>

theorem time_of_day_lenient:
  "parse_hhmm ''03:30'' = Some (3, 30) \<and> parse_hhmm ''1:002'' = Some (1, 2) \<and> parse_hhmm ''+1:+2'' = Some (1, 2)"
  by (simp add: parse_hhmm_def split_once_def parse_uint_def is_ascii_digit_def) (simp add: code_def)

end
