(* ===== verification/Remediation_Theorems.thy ===== *)
theory Remediation_Theorems
  imports Remediation_Audit Remediation_Policy
begin

text \<open>
  The properties of \<open>crates/remediation\<close> that do not need the store on disk: what the automatic
  policy selects, the audit chain and its anchors, and the forms in which paths and identifiers
  are kept.
\<close>

section \<open>Automatic quarantine\<close>

definition sample_finding :: finding where
  "sample_finding =
     \<lparr>f_id = ''f1'', f_kind = KnownIndicator, f_name = ''Test.Sample'', f_severity = SevHigh, f_confidence = Confirmed,
      f_category = Malware, f_target = TFile (from_path ''/home/u/x'') (Some (Sha256Digest (replicate 32 0))) None,
      f_source = \<lparr>src_detector = ''hash'', src_detector_version = [], src_rule_id = None, src_rule_version = None,
        src_database_name = None, src_database_version = None\<rparr>,
      f_evidence = [], f_explanation = [], f_recommended_action = Quarantine, f_remediation_guidance = None,
      f_remediation_status = NotAttempted, f_remediation_detail = None, f_detected_at = 0\<rparr>"

lemma sample_eligible:
  "auto_quarantine_target sample_finding = Ok (''/home/u/x'', Sha256Digest (replicate 32 0))"
  by (simp add: auto_quarantine_target_Ok sample_finding_def native_path_from_path is_protected_path_def
      PROTECTED_PREFIXES_def path_starts_with_def components_def)

text \<open>C31: Whatever a report contains, the quarantine store only ever receives requests for
  findings of that report that are confirmed known malware in a file of its own, outside the
  protected directories and not allow-listed; each request carries the digest that was detected
  and never the override, and the store ends as after exactly these requests in order.\<close>

theorem quarantine_report_narrow:
  "fst (quarantine_report op (Ok q) max_size kill fs) =
     (if list_ex eligible fs
      then Some (Ok (foldl (\<lambda>q r. fst (op q r)) q (report_requests max_size kill fs)))
      else None) \<and>
   (\<forall>r. r \<in> set (report_requests max_size kill fs) \<longrightarrow>
     \<not> req_allow_protected r \<and> req_max_size r = max_size \<and>
     (\<exists>f sha. f \<in> set fs \<and> req_expected_sha256 r = Some sha \<and> f_remediation_status f \<noteq> Allowed \<and>
        f_kind f = KnownIndicator \<and> f_confidence f = Confirmed \<and> f_category f = Malware \<and>
        f_recommended_action f = Quarantine \<and> \<not> is_protected_path (req_path r) \<and>
        (\<exists>path meta. f_target f = TFile path (Some sha) meta \<and> native_path path = Some (req_path r))))"
proof (intro conjI allI impI)
  fix r
  assume "r \<in> set (report_requests max_size kill fs)"
  from report_requests_safe [OF this] obtain f sha where r: "f \<in> set fs" "f_remediation_status f \<noteq> Allowed"
    "auto_quarantine_target f = Ok (req_path r, sha)" "req_expected_sha256 r = Some sha"
    "\<not> req_allow_protected r" "req_max_size r = max_size" by blast
  then show "\<not> req_allow_protected r" "req_max_size r = max_size" by simp_all
  show "\<exists>f sha. f \<in> set fs \<and> req_expected_sha256 r = Some sha \<and> f_remediation_status f \<noteq> Allowed \<and>
      f_kind f = KnownIndicator \<and> f_confidence f = Confirmed \<and> f_category f = Malware \<and>
      f_recommended_action f = Quarantine \<and> \<not> is_protected_path (req_path r) \<and>
      (\<exists>path meta. f_target f = TFile path (Some sha) meta \<and> native_path path = Some (req_path r))"
    using r by (intro exI [of _ f] exI [of _ sha]) (simp add: auto_quarantine_target_Ok)
qed (rule quarantine_report_store)

theorem quarantine_report_narrow_witness:
  "\<not> is_protected_path (req_path (request_for 10 False sample_finding (''/home/u/x'', Sha256Digest (replicate 32 0))))"
  using quarantine_report_narrow [of "\<lambda>q r. (q, Err [])" "()" 10 False "[sample_finding]"] sample_eligible
  by (simp add: report_requests_def sample_finding_def)

text \<open>A path recorded in a finding is recovered exactly: reconstructing the native path
  from what was observed gives back the bytes of the path, text or not.\<close>

theorem native_path_round_trip:
  "native_path (from_path p) = Some p"
  by (rule native_path_from_path)

text \<open>A quarantine identifier is 32 lower-case hexadecimal digits and nothing else, so a
  file name made of it stays inside the store.\<close>

theorem quarantine_id_exact:
  "(parse_id s = Ok i) = (id_str i = s \<and> length s = 32 \<and> set s \<subseteq> set hex_table)"
  by (cases i) (auto simp: parse_id_Ok)

section \<open>The audit chain\<close>

text \<open>Appending an entry to a log that verifies gives a log that verifies, with the new
  head.\<close>

theorem audit_append_verifies:
  assumes "verify_chain sha parse log = Ok h" and "encode_entry sha to_json e h = Ok (line, h')"
    and "parse (butlast line) = Some (e\<lparr>ent_seq := ch_seq h + 1, ent_prev := ch_hash h\<rparr>)"
    and "10 \<notin> set (butlast line)" and "length line \<le> MAX_LINE + 1"
  shows "verify_chain sha parse (log @ line) = Ok h'"
  using assms by (rule encode_verifies)

definition sample_entry :: audit_entry where
  "sample_entry =
     \<lparr>ent_seq = 1, ent_time = 0, ent_actor_uid = 0, ent_actor_sid = None, ent_on_behalf_of = None,
      ent_action = ''quarantine'', ent_item = None, ent_path = None, ent_sha256 = None,
      ent_outcome = ''ok'', ent_detail = None, ent_prev = GENESIS\<rparr>"

definition sample_line_sha :: "bytes \<Rightarrow> digest" where
  "sample_line_sha l = Sha256Digest (replicate 32 (of_nat (length l)))"

lemma genesis_simps: "ch_seq genesis = 0" "ch_hash genesis = GENESIS"
  by (simp_all add: genesis_def)

lemma verify_empty: "verify_chain sha parse [] = Ok genesis"
  using verify_chain_iff [of sha parse "[]" genesis] by (metis foldl_Nil lines_ok.simps(1) unlines_simps(1))

theorem audit_append_verifies_witness:
  "verify_chain sample_line_sha (\<lambda>_. Some sample_entry) ([] @ [7, 10]) =
     Ok (next_head genesis (line_hash sample_line_sha [7]))"
  by (rule audit_append_verifies [where to_json = "\<lambda>_. Some [7]" and e = sample_entry])
    (simp_all add: verify_empty encode_entry_def Let_def sample_entry_def MAX_LINE_def, simp_all add: genesis_simps)



text \<open>C33: If every entry of an earlier log was anchored in the system log, and the log now has
  the same first entry and compares consistently with the anchors, then the earlier log is a
  prefix of it: nothing anchored was altered, removed or cut off.\<close>

theorem anchored_log_unaltered:
  assumes "audit_chain sha parse old_log = Ok old" and "length old < 2 ^ 64"
    and "audit_chain sha parse new_log = Ok new" and "length new < 2 ^ 64"
    and "first_id old = first_id new"
    and "\<forall>(s, h) \<in> set old. \<exists>a \<in> set as. an_seq a = s \<and> an_hash a = h \<and> an_chain a = first_id old"
    and "comparison_consistent (compare_anchors new as)"
  shows "prefix old new"
proof (cases "new = []")
  case True
  with assms(5) have "old = []" by (auto simp: first_id_def split: list.splits)
  then show ?thesis by simp
next
  case False
  from assms(1-4) have "numbered old" "numbered new"
    unfolding numbered_def using audit_chain_nth by blast+
  from anchored_prefix [OF this False assms(5-7)] show ?thesis .
qed

definition sample_log :: bytes where
  "sample_log = [7, 10]"

lemma sample_log_chain:
  "audit_chain sample_line_sha (\<lambda>_. Some sample_entry) sample_log = Ok [(1, line_hash sample_line_sha [7])]"
proof -
  have "lines_ok sample_line_sha (\<lambda>_. Some sample_entry) genesis [[7]]"
    by (simp add: line_ok_def sample_entry_def genesis_def MAX_LINE_def)
  from walk_chain_lines [OF this] show ?thesis
    by (simp add: audit_chain_def sample_log_def genesis_def)
qed

theorem anchored_log_unaltered_witness:
  "prefix [(1::u64, line_hash sample_line_sha [7])] [(1, line_hash sample_line_sha [7])]"
  by (rule anchored_log_unaltered [OF sample_log_chain _ sample_log_chain, where
        as = "[\<lparr>an_seq = 1, an_hash = line_hash sample_line_sha [7],
                an_chain = first_id [(1, line_hash sample_line_sha [7])]\<rparr>]"])
    (simp_all add: compare_anchors_def comparison_consistent_def first_id_def)

text \<open>The anchor text of an entry, as it is sent to the system log, is read back as the
  entry's number, hash and chain.\<close>

theorem anchor_text_round_trip:
  assumes "hex_field 64 hash" and "hex_field 16 chain"
  shows "parse_anchor (anchor_text seq hash chain action outcome) =
    Some \<lparr>an_seq = seq, an_hash = to_ascii_lowercase hash, an_chain = Some (to_ascii_lowercase chain)\<rparr>"
  using assms by (rule anchor_round_trip)

theorem anchor_text_round_trip_witness:
  "parse_anchor (anchor_text 3 GENESIS (replicate 16 (CHR ''a'')) ''delete'' ''ok'') =
    Some \<lparr>an_seq = 3, an_hash = to_ascii_lowercase GENESIS,
      an_chain = Some (to_ascii_lowercase (replicate 16 (CHR ''a'')))\<rparr>"
  by (rule anchor_text_round_trip)
    (simp_all add: hex_field_def list_all_iff GENESIS_def is_ascii_hexdigit_def is_ascii_digit_def code_def)

text \<open>The number of unanchored entries is not bounded by the number of entries: when one
  entry has both a matching anchor and one with another hash, it is taken off twice and the
  64-bit count wraps around.\<close>

theorem unanchored_count_wraps:
  "cmp_unanchored (compare_anchors [(1, h)]
     [\<lparr>an_seq = 1, an_hash = h, an_chain = Some (chain_id h)\<rparr>,
      \<lparr>an_seq = 1, an_hash = h @ ''0'', an_chain = Some (chain_id h)\<rparr>]) = - 1"
  by (simp add: compare_anchors_def)

end
