(* ===== verification/Remediation_Store.thy ===== *)
theory Remediation_Store
  imports Remediation_Audit Remediation_Policy
begin

text \<open>
  The Linux quarantine store: \<open>crates/remediation/src/linux.rs\<close> and the pieces of
  \<open>common.rs\<close> it uses. The machine's files are a map from the components of an absolute path to
  nodes; the store's own files are the encoded copies, their temporaries, the records, the audit
  log and the allow-list. A primitive change of the disk takes the next entry of a list of
  faults: it may succeed, fail with an I/O error and change nothing, or be the point where the
  process or the machine stops. The code flushes each change before it starts the next, so what
  a crash leaves is the result of a prefix of the changes.
\<close>

section \<open>Errors and the disk\<close>

datatype remediation_error =
    InvalidPath string
  | SymlinkInPath string
  | Protected string
  | InsideStore string
  | NotRegularFile string
  | RTooLarge string u64
  | HardLinked string nat
  | FileChanged string digest digest
  | Replaced string
  | StoreInsecure string
  | StoreBusy
  | UnknownItem quarantine_id
  | InvalidState quarantine_id item_state
  | TargetExists string
  | UnsafeTarget string string
  | CorruptItem quarantine_id string
  | RIo string
  | RAudit audit_error
  | Stopped

text \<open>\<open>Stopped\<close> is a crash, as \<open>InjectedFault\<close> is in the code's own tests.\<close>

datatype node_kind = Regular | Directory | Symlink | Special

record node =
  nd_kind :: node_kind
  nd_dev :: u64
  nd_ino :: u64
  nd_content :: bytes
  nd_mode :: u32
  nd_uid :: nat
  nd_gid :: nat
  nd_links :: nat
  nd_mtime :: "instant option"

type_synonym file_system = "string list \<rightharpoonup> node"

text \<open>A record file that cannot be read or parsed is \<open>Some None\<close>.\<close>

record store_disk =
  sd_fs :: file_system
  sd_tmp :: "quarantine_id \<rightharpoonup> bytes"
  sd_data :: "quarantine_id \<rightharpoonup> bytes"
  sd_records :: "quarantine_id \<rightharpoonup> quarantine_record option"
  sd_audit :: bytes
  sd_head :: chain_head
  sd_allow :: "allowlist_file option"
  sd_faults :: "fault list"

text \<open>What an operation takes from its surroundings: the store's directories, the user, the
  clock, a new identifier and key, how reads split a file, SHA-256, \<open>serde_json\<close> and the texts of
  errors, the processes that use the file, and what others do to the files before the original
  is looked at again.\<close>

record store_env =
  se_root :: "string list"
  se_root_id :: "u64 \<times> u64"
  se_items_id :: "u64 \<times> u64"
  se_euid :: nat
  se_behalf :: "string option"
  se_now :: instant
  se_id :: quarantine_id
  se_key :: bytes
  se_chunks :: "bytes \<Rightarrow> bytes list"
  se_sha :: "bytes \<Rightarrow> digest"
  se_to_json :: "audit_entry \<Rightarrow> bytes option"
  se_parse :: "bytes \<Rightarrow> audit_entry option"
  se_text :: "remediation_error \<Rightarrow> string"
  se_users :: "string list"
  se_process_notes :: "string list"
  se_swap :: "file_system \<Rightarrow> file_system"
  se_noreplace :: bool
  se_names :: "store_disk \<Rightarrow> quarantine_id list"
  se_tmp_names :: "store_disk \<Rightarrow> quarantine_id list"

type_synonym 'a store_result = "store_disk \<times> (remediation_error + 'a)"

definition prim :: "(store_disk \<Rightarrow> store_disk) \<Rightarrow> store_disk \<Rightarrow> unit store_result" where
  "prim f w =
     (case sd_faults w of
        [] \<Rightarrow> (f w, Ok ())
      | NoFault # fs \<Rightarrow> (f (w\<lparr>sd_faults := fs\<rparr>), Ok ())
      | IoFault # fs \<Rightarrow> (w\<lparr>sd_faults := fs\<rparr>, Err (RIo ''I/O error''))
      | CrashFault # fs \<Rightarrow> (w\<lparr>sd_faults := fs\<rparr>, Err Stopped))"

text \<open>\<open>let _ = ...\<close>: an error is ignored, a crash is not. \<open>on_error\<close> runs a clean-up where the
  operation failed without a crash.\<close>

definition ignoring :: "unit store_result \<Rightarrow> unit store_result" where
  "ignoring m = (case m of (w, Err Stopped) \<Rightarrow> (w, Err Stopped) | (w, _) \<Rightarrow> (w, Ok ()))"

definition on_error :: "'a store_result \<Rightarrow> (store_disk \<Rightarrow> unit store_result) \<Rightarrow> 'a store_result" where
  "on_error m undo =
     (case m of
        (w, Ok x) \<Rightarrow> (w, Ok x)
      | (w, Err Stopped) \<Rightarrow> (w, Err Stopped)
      | (w, Err e) \<Rightarrow> st_then (undo w) (\<lambda>w _. (w, Err e)))"

abbreviation flush :: "store_disk \<Rightarrow> unit store_result" where
  "flush \<equiv> prim (\<lambda>w. w)"

section \<open>Encoding (\<open>common.rs\<close>, \<open>write_encoded\<close>, \<open>decode_file\<close>)\<close>

definition DATA_MAGIC :: bytes where
  "DATA_MAGIC = as_bytes ''AWQDATA1''"

definition KEY_LEN :: nat where
  "KEY_LEN = 32"

definition xor_in_place :: "bytes \<Rightarrow> bytes \<Rightarrow> nat \<Rightarrow> bytes" where
  "xor_in_place buf key offset =
     map (\<lambda>(i, b). b XOR key ! ((offset + i) mod length key)) (enumerate 0 buf)"

text \<open>The loop of \<open>write_encoded\<close> over the pieces that reading gives: \<open>None\<close> once the limit is
  passed, else what is written after the header and the number of bytes.\<close>

fun encode_chunks :: "bytes \<Rightarrow> nat \<Rightarrow> nat \<Rightarrow> bytes list \<Rightarrow> (bytes \<times> nat) option" where
  "encode_chunks key limit done_len [] = Some ([], done_len)"
| "encode_chunks key limit done_len (c # cs) =
     (if limit < done_len + length c then None
      else case encode_chunks key limit (done_len + length c) cs of
        None \<Rightarrow> None
      | Some (out, t) \<Rightarrow> Some (xor_in_place c key done_len @ out, t))"

fun decode_chunks :: "bytes \<Rightarrow> nat \<Rightarrow> bytes list \<Rightarrow> bytes \<times> nat" where
  "decode_chunks key done_len [] = ([], done_len)"
| "decode_chunks key done_len (c # cs) =
     (case decode_chunks key (done_len + length c) cs of (out, t) \<Rightarrow> (xor_in_place c key done_len @ out, t))"

text \<open>\<open>decode_file\<close>: the decoded bytes, which are hashed and written out; \<open>file\<close> is the encoded
  file if it exists.\<close>

definition decode_file ::
  "store_env \<Rightarrow> quarantine_id \<Rightarrow> bytes \<Rightarrow> bytes option \<Rightarrow> remediation_error + (digest \<times> bytes)" where
  "decode_file env i key file =
     (case file of
        None \<Rightarrow> Err (RIo ''open'')
      | Some bs \<Rightarrow>
          if length bs < 8 then Err (CorruptItem i ''missing header'')
          else if take 8 bs \<noteq> DATA_MAGIC then Err (CorruptItem i ''bad header'')
          else (let (out, _) = decode_chunks key 0 (se_chunks env (drop 8 bs)) in Ok (se_sha env out, out)))"

definition write_encoded ::
  "store_env \<Rightarrow> bytes \<Rightarrow> u64 \<Rightarrow> string \<Rightarrow> store_disk \<Rightarrow> (digest \<times> nat) store_result" where
  "write_encoded env src max_size path w =
     (let i = se_id env in
      if sd_tmp w i \<noteq> None then (w, Err (RIo ''create''))
      else
        st_then (prim (\<lambda>w. w\<lparr>sd_tmp := (sd_tmp w)(i \<mapsto> [])\<rparr>) w) (\<lambda>w _.
        case encode_chunks (se_key env) (unat max_size) 0 (se_chunks env src) of
          None \<Rightarrow> (w, Err (RTooLarge path max_size))
        | Some (out, done_len) \<Rightarrow>
            st_then (prim (\<lambda>w. w\<lparr>sd_tmp := (sd_tmp w)(i \<mapsto> DATA_MAGIC @ out)\<rparr>) w) (\<lambda>w _.
            st_then (flush w) (\<lambda>w _.
            let sha = se_sha env (concat (se_chunks env src))
            in st_then (w, decode_file env i (se_key env) (sd_tmp w i)) (\<lambda>w (check, out).
               if check \<noteq> sha \<or> length out \<noteq> done_len
               then (w, Err (CorruptItem i ''verification of the written copy failed''))
               else (w, Ok (sha, done_len)))))))"

section \<open>Records, paths and the audit log\<close>

definition path_text_of :: "string list \<Rightarrow> string" where
  "path_text_of comps = concat (map (\<lambda>c. CHR ''/'' # c) comps)"

definition split_checked :: "string \<Rightarrow> remediation_error + (string list \<times> string)" where
  "split_checked path =
     (let cs = components path
      in if \<not> prefix ''/'' path \<or> ''..'' \<in> set cs \<or> cs = [] then Err (InvalidPath path)
         else Ok (butlast cs, last cs))"

text \<open>\<open>open_dir_no_symlinks\<close>: every component of the path \<open>dir\<close> must be a directory; the first that is
  not decides the error.\<close>

definition check_dir :: "file_system \<Rightarrow> string list \<Rightarrow> string list \<Rightarrow> remediation_error + unit" where
  "check_dir fs dir p =
     (case fs p of
        None \<Rightarrow> Err (RIo ''not found'')
      | Some n \<Rightarrow>
          if nd_kind n = Symlink then Err (SymlinkInPath (path_text_of dir))
          else if nd_kind n \<noteq> Directory then Err (RIo ''not a directory'')
          else Ok ())"

definition open_dir :: "file_system \<Rightarrow> string list \<Rightarrow> remediation_error + node" where
  "open_dir fs p =
     and_then (try_all (\<lambda>k. check_dir fs p (take k p)) [0..<length p + 1]) (\<lambda>_.
     ok_or (RIo ''not found'') (fs p))"

definition symlink_as_path_error :: "string \<Rightarrow> remediation_error \<Rightarrow> remediation_error" where
  "symlink_as_path_error path e = (case e of SymlinkInPath _ \<Rightarrow> SymlinkInPath path | e \<Rightarrow> e)"

definition node_id :: "node \<Rightarrow> u64 \<times> u64" where
  "node_id n = (nd_dev n, nd_ino n)"

definition reject_store_dir :: "store_env \<Rightarrow> node \<Rightarrow> string \<Rightarrow> remediation_error + unit" where
  "reject_store_dir env dir path = require (node_id dir \<notin> {se_root_id env, se_items_id env}) (InsideStore path)"

text \<open>\<open>save\<close> replaces the record by a rename and then flushes the directory.\<close>

definition save_record :: "quarantine_record \<Rightarrow> store_disk \<Rightarrow> unit store_result" where
  "save_record r w =
     st_then (prim (\<lambda>w. w\<lparr>sd_records := (sd_records w)(rec_id r \<mapsto> Some r)\<rparr>) w) (\<lambda>w _. flush w)"

definition get_record :: "quarantine_id \<Rightarrow> store_disk \<Rightarrow> remediation_error + quarantine_record" where
  "get_record i w =
     (case sd_records w i of
        None \<Rightarrow> Err (UnknownItem i)
      | Some None \<Rightarrow> Err (CorruptItem i ''invalid record'')
      | Some (Some r) \<Rightarrow>
          if rec_id r \<noteq> i \<or> rec_format_version r \<noteq> 1
          then Err (CorruptItem i ''record ID or format version mismatch'') else Ok r)"

definition event_entry ::
  "store_env \<Rightarrow> string \<Rightarrow> quarantine_id option \<Rightarrow> string option \<Rightarrow> digest option \<Rightarrow> string + string option \<Rightarrow> audit_entry" where
  "event_entry env action i path sha outcome =
     \<lparr>ent_seq = 0, ent_time = se_now env, ent_actor_uid = se_euid env, ent_actor_sid = None,
      ent_on_behalf_of = se_behalf env, ent_action = action, ent_item = map_option id_str i,
      ent_path = map_option from_path path, ent_sha256 = sha,
      ent_outcome = (case outcome of Ok _ \<Rightarrow> ''ok'' | Err _ \<Rightarrow> ''error''),
      ent_detail = (case outcome of Ok d \<Rightarrow> d | Err e \<Rightarrow> Some e), ent_prev = []\<rparr>"

text \<open>\<open>audit_event\<close>; sending the anchor to the system log changes nothing on disk.\<close>

definition audit_event ::
  "store_env \<Rightarrow> string \<Rightarrow> quarantine_id option \<Rightarrow> string option \<Rightarrow> digest option \<Rightarrow> string + string option \<Rightarrow>
     store_disk \<Rightarrow> unit store_result" where
  "audit_event env action i path sha outcome w =
     st_then (w, map_err RAudit (encode_entry (se_sha env) (se_to_json env)
         (event_entry env action i path sha outcome) (sd_head w))) (\<lambda>w (line, head).
     st_then (prim (\<lambda>w. w\<lparr>sd_audit := sd_audit w @ line\<rparr>) w) (\<lambda>w _.
     st_then (flush w) (\<lambda>w _. (w\<lparr>sd_head := head\<rparr>, Ok ()))))"

definition drop_tmp :: "quarantine_id \<Rightarrow> store_disk \<Rightarrow> unit store_result" where
  "drop_tmp i w = ignoring (prim (\<lambda>w. w\<lparr>sd_tmp := (sd_tmp w)(i := None)\<rparr>) w)"

definition drop_data :: "quarantine_id \<Rightarrow> store_disk \<Rightarrow> unit store_result" where
  "drop_data i w = ignoring (prim (\<lambda>w. w\<lparr>sd_data := (sd_data w)(i := None)\<rparr>) w)"

section \<open>Quarantining\<close>

definition pending_record ::
  "store_env \<Rightarrow> quarantine_request \<Rightarrow> node \<Rightarrow> digest \<Rightarrow> nat \<Rightarrow> quarantine_record" where
  "pending_record env req st sha copied =
     \<lparr>rec_format_version = 1, rec_id = se_id env, rec_state = Pending,
      rec_original = \<lparr>of_path = from_path (req_path req), of_size = of_nat copied, of_sha256 = sha,
        of_mode = nd_mode st AND 0xFFF, of_uid = nd_uid st, of_gid = nd_gid st, of_dev = nd_dev st,
        of_ino = nd_ino st, of_owner_sid = None, of_modified = nd_mtime st\<rparr>,
      rec_key_hex = hex (se_key env), rec_reason = req_reason req, rec_actor_uid = se_euid env,
      rec_created_at = se_now env, rec_updated_at = se_now env, rec_restored_to = None, rec_notes = []\<rparr>"

definition roll_back :: "store_env \<Rightarrow> quarantine_record \<Rightarrow> string \<Rightarrow> store_disk \<Rightarrow> unit store_result" where
  "roll_back env r why w =
     st_then (drop_data (rec_id r) w) (\<lambda>w _.
     st_then (ignoring (flush w)) (\<lambda>w _.
     save_record (r\<lparr>rec_state := RolledBack, rec_updated_at := se_now env,
       rec_notes := rec_notes r @ [''rolled back: '' @ why]\<rparr>) w))"

text \<open>What is noted about the processes that use the file.\<close>

definition process_notes :: "store_env \<Rightarrow> bool \<Rightarrow> string list" where
  "process_notes env kill =
     (if se_users env = [] then []
      else (if kill then ''killed process(es) running the file: '' @ join_with '', '' (se_users env)
            else ''still running from the quarantined file: '' @ join_with '', '' (se_users env) @
              '' (not stopped; use --kill-processes to stop them)'') # se_process_notes env)"

text \<open>Steps 6 and 7: the original is removed if its name still refers to the file that was
  copied.\<close>

definition remove_original ::
  "store_env \<Rightarrow> quarantine_request \<Rightarrow> string list \<Rightarrow> node \<Rightarrow> quarantine_record \<Rightarrow> store_disk \<Rightarrow>
     quarantine_record store_result" where
  "remove_original env req p st r w =
     (let w = w\<lparr>sd_fs := se_swap env (sd_fs w)\<rparr>
      in if map_option node_id (sd_fs w p) \<noteq> Some (node_id st)
         then st_then (roll_back env r ''the path no longer referred to the copied file'' w)
                (\<lambda>w _. (w, Err (Replaced (req_path req))))
         else
           st_then (on_error (prim (\<lambda>w. w\<lparr>sd_fs := (sd_fs w)(p := None)\<rparr>) w)
               (roll_back env r ''removing the original failed'')) (\<lambda>w _.
           st_then (flush w) (\<lambda>w _.
           let r = r\<lparr>rec_notes := process_notes env (req_kill_processes req), rec_state := ItemQuarantined,
                     rec_updated_at := se_now env\<rparr>
           in st_then (save_record r w) (\<lambda>w _.
              st_then (audit_event env ''quarantine'' (Some (rec_id r)) (Some (req_path req))
                  (Some (of_sha256 (rec_original r))) (Ok None) w) (\<lambda>w _. (w, Ok r))))))"

text \<open>Steps 4 and 5: the journal entry, then the copy gets its name.\<close>

definition commit_copy ::
  "store_env \<Rightarrow> quarantine_request \<Rightarrow> string list \<Rightarrow> node \<Rightarrow> quarantine_record \<Rightarrow> store_disk \<Rightarrow>
     quarantine_record store_result" where
  "commit_copy env req p st r w =
     (let i = rec_id r in
      st_then (save_record r w) (\<lambda>w _.
      st_then (prim (\<lambda>w. w\<lparr>sd_data := (sd_data w)(i := sd_tmp w i), sd_tmp := (sd_tmp w)(i := None)\<rparr>) w) (\<lambda>w _.
      st_then (flush w) (\<lambda>w _. remove_original env req p st r w))))"

text \<open>Steps 2 and 3: copy, verify, compare.\<close>

definition copy_original ::
  "store_env \<Rightarrow> quarantine_request \<Rightarrow> string list \<Rightarrow> node \<Rightarrow> store_disk \<Rightarrow> quarantine_record store_result" where
  "copy_original env req p st w =
     (let i = se_id env in
      st_then (on_error (write_encoded env (nd_content st) (req_max_size req) (req_path req) w) (drop_tmp i))
        (\<lambda>w (sha, copied).
      case req_expected_sha256 req of
        Some expected \<Rightarrow>
          if expected \<noteq> sha
          then st_then (drop_tmp i w) (\<lambda>w _. (w, Err (FileChanged (req_path req) expected sha)))
          else commit_copy env req p st (pending_record env req st sha copied) w
      | None \<Rightarrow> commit_copy env req p st (pending_record env req st sha copied) w))"

definition quarantine_inner ::
  "store_env \<Rightarrow> quarantine_request \<Rightarrow> store_disk \<Rightarrow> quarantine_record store_result" where
  "quarantine_inner env req w =
     (let path = req_path req in
      st_then (w, split_checked path) (\<lambda>w (parent, name).
      if \<not> req_allow_protected req \<and> is_protected_path path then (w, Err (Protected path))
      else if prefix (se_root env) (components path) then (w, Err (InsideStore path))
      else
        st_then (w, map_err (symlink_as_path_error path) (open_dir (sd_fs w) parent)) (\<lambda>w dir.
        st_then (w, reject_store_dir env dir path) (\<lambda>w _.
        st_then (flush w) (\<lambda>w _.
        case sd_fs w (parent @ [name]) of
          None \<Rightarrow> (w, Err (RIo ''open''))
        | Some st \<Rightarrow>
            if nd_kind st = Symlink then (w, Err (SymlinkInPath path))
            else if nd_kind st \<noteq> Regular then (w, Err (NotRegularFile path))
            else if unat (req_max_size req) < length (nd_content st) then (w, Err (RTooLarge path (req_max_size req)))
            else if 1 < nd_links st then (w, Err (HardLinked path (nd_links st)))
            else copy_original env req (parent @ [name]) st w)))))"

definition quarantine_file ::
  "store_env \<Rightarrow> quarantine_request \<Rightarrow> store_disk \<Rightarrow> quarantine_record store_result" where
  "quarantine_file env req w =
     (case quarantine_inner env req w of
        (w, Ok r) \<Rightarrow> (w, Ok r)
      | (w, Err Stopped) \<Rightarrow> (w, Err Stopped)
      | (w, Err e) \<Rightarrow>
          st_then (audit_event env ''quarantine'' None (Some (req_path req)) (req_expected_sha256 req)
            (Err (se_text env e)) w) (\<lambda>w _. (w, Err e)))"

end
