(* ===== verification/Remediation_Recover.thy ===== *)
theory Remediation_Recover
  imports Remediation_Store "HOL-Library.List_Lexorder" "HOL-Library.Char_ord"
begin

text \<open>
  The other operations of the Linux quarantine store (\<open>crates/remediation/src/linux.rs\<close>):
  restoring, deleting, the allow-list, listing, and opening the store with the recovery of
  interrupted operations.
\<close>

section \<open>Restoring\<close>

definition tmp_restore_name :: "quarantine_id \<Rightarrow> string" where
  "tmp_restore_name i = ''.aw-restore-'' @ id_str i"

definition set_file :: "string list \<Rightarrow> node option \<Rightarrow> store_disk \<Rightarrow> store_disk" where
  "set_file p n w = w\<lparr>sd_fs := (sd_fs w)(p := n)\<rparr>"

text \<open>The temporary as it is created, and with its final mode and owner.\<close>

definition fresh_node :: "store_env \<Rightarrow> bytes \<Rightarrow> node" where
  "fresh_node env content =
     \<lparr>nd_kind = Regular, nd_dev = 0, nd_ino = 0, nd_content = content, nd_mode = 0x180,
      nd_uid = se_euid env, nd_gid = 0, nd_links = 1, nd_mtime = None\<rparr>"

definition restored_node :: "store_env \<Rightarrow> original_file \<Rightarrow> bytes \<Rightarrow> node" where
  "restored_node env orig content =
     (fresh_node env content)\<lparr>nd_mode := of_mode orig AND 0x1FF,
      nd_uid := (if se_euid env = 0 then of_uid orig else se_euid env),
      nd_gid := (if se_euid env = 0 then of_gid orig else 0)\<rparr>"

text \<open>Where an item is restored to: the directory with its node, and the name.\<close>

definition restore_target ::
  "store_env \<Rightarrow> quarantine_record \<Rightarrow> string option \<Rightarrow> store_disk \<Rightarrow> remediation_error + (string list \<times> string)" where
  "restore_target env r dest w =
     and_then (ok_or (CorruptItem (rec_id r) ''original path cannot be reconstructed'')
         (native_path (of_path (rec_original r)))) (\<lambda>original.
     and_then (split_checked original) (\<lambda>(orig_parent, name).
     and_then (case dest of
         None \<Rightarrow> Ok orig_parent
       | Some d \<Rightarrow> and_then (split_checked d) (\<lambda>(p, n). Ok (p @ [n]))) (\<lambda>target_dir.
     let target = path_text_of (target_dir @ [name]) in
     if prefix (se_root env) (target_dir @ [name]) then Err (InsideStore target)
     else
       and_then (case open_dir (sd_fs w) target_dir of
           Err (RIo e) \<Rightarrow>
             if e = ''not found'' then Err (UnsafeTarget (path_text_of target_dir) ''the directory does not exist'')
             else Err (RIo e)
         | other \<Rightarrow> other) (\<lambda>dir.
       and_then (reject_store_dir env dir target) (\<lambda>_.
       if nd_mode dir AND 0x12 \<noteq> 0
       then Err (UnsafeTarget (path_text_of target_dir) ''the directory is writable by group or others'')
       else if nd_uid dir \<notin> {0, se_euid env, of_uid (rec_original r)}
       then Err (UnsafeTarget (path_text_of target_dir) ''the directory is owned by another user'')
       else Ok (target_dir, name))))))"

definition restore_notes :: "store_env \<Rightarrow> original_file \<Rightarrow> string list" where
  "restore_notes env orig =
     (if of_mode orig AND 0xC00 \<noteq> 0 then [''setuid/setgid bits were not restored''] else []) @
     (if se_euid env \<noteq> 0 \<and> of_uid orig \<noteq> se_euid env
      then [''owner not restored (was uid '' @ show_nat (of_uid orig) @ ''; restoring as uid '' @ show_nat (se_euid env) @ '')'']
      else [])"

text \<open>The temporary gets its final name, which must not exist. Without \<open>RENAME_NOREPLACE\<close> a link
  is made and the temporary removed.\<close>

definition place_restored ::
  "store_env \<Rightarrow> string list \<Rightarrow> string list \<Rightarrow> store_disk \<Rightarrow> unit store_result" where
  "place_restored env tmp target w =
     (if se_noreplace env then
        (if sd_fs w target \<noteq> None
         then st_then (ignoring (prim (set_file tmp None) w)) (\<lambda>w _. (w, Err (TargetExists (path_text_of target))))
         else on_error (prim (\<lambda>w. set_file tmp None (set_file target (sd_fs w tmp) w)) w)
                (\<lambda>w. ignoring (prim (set_file tmp None) w)))
      else
        (let linked = (if sd_fs w target \<noteq> None then (w, Err (TargetExists (path_text_of target)))
             else prim (\<lambda>w. set_file target (sd_fs w tmp) w) w)
         in st_then (on_error linked (\<lambda>w. ignoring (prim (set_file tmp None) w)))
              (\<lambda>w _. ignoring (prim (set_file tmp None) w))))"

text \<open>The decoded content goes to a new temporary file and is compared with the record.\<close>

definition write_restored ::
  "store_env \<Rightarrow> quarantine_record \<Rightarrow> string list \<Rightarrow> store_disk \<Rightarrow> unit store_result" where
  "write_restored env r tmp w =
     (case unhex (rec_key_hex r) of
        None \<Rightarrow> (w, Err (CorruptItem (rec_id r) ''invalid key''))
      | Some key \<Rightarrow>
          if length key \<noteq> KEY_LEN then (w, Err (CorruptItem (rec_id r) ''invalid key''))
          else if sd_fs w tmp \<noteq> None then (w, Err (RIo ''create''))
          else
            st_then (prim (set_file tmp (Some (fresh_node env []))) w) (\<lambda>w _.
            on_error
              (st_then (w, decode_file env (rec_id r) key (sd_data w (rec_id r))) (\<lambda>w (sha, out).
               st_then (prim (set_file tmp (Some (fresh_node env out))) w) (\<lambda>w _.
               if sha \<noteq> of_sha256 (rec_original r)
               then (w, Err (CorruptItem (rec_id r) ''decoded content does not match the recorded SHA-256''))
               else st_then (prim (set_file tmp (Some (restored_node env (rec_original r) out))) w) (\<lambda>w _. flush w))))
              (\<lambda>w. ignoring (prim (set_file tmp None) w))))"

definition restore_inner ::
  "store_env \<Rightarrow> quarantine_id \<Rightarrow> string option \<Rightarrow> store_disk \<Rightarrow> string list store_result" where
  "restore_inner env i dest w =
     st_then (w, get_record i w) (\<lambda>w r.
     if rec_state r \<noteq> ItemQuarantined then (w, Err (InvalidState i (rec_state r)))
     else
       st_then (w, restore_target env r dest w) (\<lambda>w (dir, name).
       let tmp = dir @ [tmp_restore_name i]; target = dir @ [name] in
       st_then (write_restored env r tmp w) (\<lambda>w _.
       st_then (place_restored env tmp target w) (\<lambda>w _.
       st_then (flush w) (\<lambda>w _.
       if sd_data w i = None then (w, Err (RIo ''remove''))
       else
         st_then (prim (\<lambda>w. w\<lparr>sd_data := (sd_data w)(i := None)\<rparr>) w) (\<lambda>w _.
         st_then (save_record (r\<lparr>rec_state := Restored, rec_updated_at := se_now env,
             rec_restored_to := Some (from_path (path_text_of target)),
             rec_notes := rec_notes r @ restore_notes env (rec_original r)\<rparr>) w) (\<lambda>w _.
         (w, Ok target))))))))"

definition audited ::
  "store_env \<Rightarrow> string \<Rightarrow> quarantine_id \<Rightarrow> ('a \<Rightarrow> string option) \<Rightarrow> 'a store_result \<Rightarrow> 'a store_result" where
  "audited env action i detail m =
     (case m of
        (w, Err Stopped) \<Rightarrow> (w, Err Stopped)
      | (w, r) \<Rightarrow>
          st_then (audit_event env action (Some i) None None
            (case r of Ok x \<Rightarrow> Ok (detail x) | Err e \<Rightarrow> Err (se_text env e)) w) (\<lambda>w _. (w, r)))"

definition restore_item ::
  "store_env \<Rightarrow> quarantine_id \<Rightarrow> string option \<Rightarrow> store_disk \<Rightarrow> string list store_result" where
  "restore_item env i dest w =
     audited env ''restore'' i (\<lambda>t. Some (''restored to '' @ path_text_of t)) (restore_inner env i dest w)"

section \<open>Deleting and the allow-list\<close>

definition delete_inner :: "store_env \<Rightarrow> quarantine_id \<Rightarrow> store_disk \<Rightarrow> unit store_result" where
  "delete_inner env i w =
     st_then (w, get_record i w) (\<lambda>w r.
     if rec_state r \<noteq> ItemQuarantined then (w, Err (InvalidState i (rec_state r)))
     else
       let missing = (sd_data w i = None) in
       st_then (prim (\<lambda>w. w\<lparr>sd_data := (sd_data w)(i := None)\<rparr>) w) (\<lambda>w _.
       st_then (flush w) (\<lambda>w _.
       save_record (r\<lparr>rec_state := Deleted, rec_updated_at := se_now env,
         rec_notes := rec_notes r @ (if missing then [''content was already missing''] else [])\<rparr>) w)))"

definition delete_item :: "store_env \<Rightarrow> quarantine_id \<Rightarrow> store_disk \<Rightarrow> unit store_result" where
  "delete_item env i w = audited env ''delete'' i (\<lambda>_. None) (delete_inner env i w)"

definition MAX_ALLOW_ENTRIES :: nat where
  "MAX_ALLOW_ENTRIES = 10000"

definition stored_allowlist :: "store_disk \<Rightarrow> remediation_error + allowlist_file" where
  "stored_allowlist w =
     (case sd_allow w of
        None \<Rightarrow> Ok \<lparr>alf_format_version = 1, alf_entries = []\<rparr>
      | Some f \<Rightarrow> if alf_format_version f \<noteq> 1 then Err (StoreInsecure ''unsupported format_version'') else Ok f)"

definition write_allowlist :: "allowlist_file \<Rightarrow> store_disk \<Rightarrow> unit store_result" where
  "write_allowlist f w = st_then (prim (\<lambda>w. w\<lparr>sd_allow := Some f\<rparr>) w) (\<lambda>w _. flush w)"

definition allow_hash ::
  "store_env \<Rightarrow> digest \<Rightarrow> string \<Rightarrow> quarantine_id option \<Rightarrow> string option \<Rightarrow> store_disk \<Rightarrow> unit store_result" where
  "allow_hash env sha reason item name w =
     st_then (w, stored_allowlist w) (\<lambda>w f.
     st_then
       (if list_ex (\<lambda>e. ae_sha256 e = sha) (alf_entries f) then (w, Ok ())
        else if MAX_ALLOW_ENTRIES \<le> length (alf_entries f) then (w, Err (StoreInsecure ''the allow-list is full''))
        else write_allowlist (f\<lparr>alf_entries := alf_entries f @
               [\<lparr>ae_sha256 = sha, ae_added_at = se_now env, ae_reason = reason,
                 ae_item = map_option id_str item, ae_detection_name = name\<rparr>]\<rparr>) w) (\<lambda>w _.
     audit_event env ''allow'' item None (Some sha) (Ok (Some reason)) w))"

definition disallow_hash :: "store_env \<Rightarrow> digest \<Rightarrow> store_disk \<Rightarrow> bool store_result" where
  "disallow_hash env sha w =
     st_then (w, stored_allowlist w) (\<lambda>w f.
     let kept = filter (\<lambda>e. ae_sha256 e \<noteq> sha) (alf_entries f) in
     if length kept = length (alf_entries f) then (w, Ok False)
     else
       st_then (write_allowlist (f\<lparr>alf_entries := kept\<rparr>) w) (\<lambda>w _.
       st_then (audit_event env ''disallow'' None None (Some sha) (Ok None) w) (\<lambda>w _. (w, Ok True))))"

section \<open>Listing and recovery\<close>

definition list_records :: "store_env \<Rightarrow> store_disk \<Rightarrow> remediation_error + quarantine_record list" where
  "list_records env w =
     and_then (try_map (\<lambda>i. get_record i w) (se_names env w)) (\<lambda>rs.
     Ok (sort_key rec_created_at (sort_key (\<lambda>r. id_str (rec_id r)) rs)))"

text \<open>\<open>resolve_pending\<close>: whether the original is still there decides, then whether the copy
  verifies.\<close>

definition original_present :: "quarantine_record \<Rightarrow> store_disk \<Rightarrow> bool" where
  "original_present r w =
     (case native_path (of_path (rec_original r)) of
        None \<Rightarrow> False
      | Some p \<Rightarrow>
          (case split_checked p of
             Err _ \<Rightarrow> False
           | Ok (parent, name) \<Rightarrow>
               is_ok (open_dir (sd_fs w) parent) \<and>
               map_option node_id (sd_fs w (parent @ [name])) = Some (of_dev (rec_original r), of_ino (rec_original r))))"

definition copy_verified :: "store_env \<Rightarrow> quarantine_record \<Rightarrow> store_disk \<Rightarrow> bool" where
  "copy_verified env r w =
     (case unhex (rec_key_hex r) of
        None \<Rightarrow> False
      | Some key \<Rightarrow>
          length key = KEY_LEN \<and>
          (case decode_file env (rec_id r) key (sd_data w (rec_id r)) of
             Err _ \<Rightarrow> False | Ok (sha, _) \<Rightarrow> sha = of_sha256 (rec_original r)))"

definition resolve_pending ::
  "store_env \<Rightarrow> quarantine_record \<Rightarrow> store_disk \<Rightarrow> (item_state \<times> string) store_result" where
  "resolve_pending env r w =
     (if original_present r w then
        st_then (drop_data (rec_id r) w) (\<lambda>w _.
        st_then (drop_tmp (rec_id r) w) (\<lambda>w _.
        st_then (ignoring (flush w)) (\<lambda>w _.
        (w, Ok (RolledBack, ''interrupted before the original was removed; the copy was discarded'')))))
      else if copy_verified env r w then
        st_then (drop_tmp (rec_id r) w) (\<lambda>w _.
        (w, Ok (ItemQuarantined, ''interrupted after the original was removed; the verified copy was kept'')))
      else (w, Ok (ItemFailed, ''original is gone and no verified copy exists; the file was removed by something other than the quarantine operation'')))"

record recovery_action =
  ra_id :: quarantine_id
  ra_outcome :: item_state
  ra_detail :: string

definition recover_one :: "store_env \<Rightarrow> store_disk \<Rightarrow> quarantine_record \<Rightarrow> recovery_action store_result" where
  "recover_one env w r =
     st_then (resolve_pending env r w) (\<lambda>w (st, detail).
     st_then (save_record (r\<lparr>rec_state := st, rec_updated_at := se_now env,
         rec_notes := rec_notes r @ [''recovery: '' @ detail]\<rparr>) w) (\<lambda>w _.
     st_then (audit_event env ''recover'' (Some (rec_id r)) (native_path (of_path (rec_original r)))
         (Some (of_sha256 (rec_original r))) (if st = ItemFailed then Err detail else Ok (Some detail)) w) (\<lambda>w _.
     (w, Ok \<lparr>ra_id = rec_id r, ra_outcome = st, ra_detail = detail\<rparr>))))"

text \<open>The temporaries whose record cannot be read are removed. The record's own temporaries are not
  part of the model: a record is replaced in one change.\<close>

definition drop_stray :: "store_disk \<Rightarrow> quarantine_id \<Rightarrow> unit store_result" where
  "drop_stray w i = (if is_ok (get_record i w) then (w, Ok ()) else drop_tmp i w)"

definition drop_strays :: "store_env \<Rightarrow> store_disk \<Rightarrow> unit store_result" where
  "drop_strays env w = st_then (st_fold drop_stray w (se_tmp_names env w)) (\<lambda>w _. (w, Ok ()))"

definition recover_store :: "store_env \<Rightarrow> store_disk \<Rightarrow> recovery_action list store_result" where
  "recover_store env w =
     st_then (w, try_map (\<lambda>i. get_record i w) (se_names env w)) (\<lambda>w rs.
     st_then (st_fold (recover_one env) w (filter (\<lambda>r. rec_state r = Pending) rs)) (\<lambda>w actions.
     st_then (drop_strays env w) (\<lambda>w _. (w, Ok actions))))"

text \<open>\<open>open_with\<close>: the store's directories must be private and its audit log must verify.
  \<open>locked\<close> tells whether another process holds the lock.\<close>

definition check_private :: "node \<Rightarrow> nat \<Rightarrow> remediation_error + unit" where
  "check_private n euid =
     (if nd_uid n \<noteq> euid then Err (StoreInsecure ''owned by another user'')
      else if nd_mode n AND 0x3F \<noteq> 0 then Err (StoreInsecure ''mode gives group/other access'')
      else Ok ())"

definition open_private_dir :: "store_env \<Rightarrow> string list \<Rightarrow> store_disk \<Rightarrow> remediation_error + unit" where
  "open_private_dir env p w =
     (case sd_fs w p of
        None \<Rightarrow> Err (RIo ''open'')
      | Some n \<Rightarrow>
          if nd_kind n \<noteq> Directory then Err (StoreInsecure ''not a directory (or a symbolic link)'')
          else check_private n (se_euid env))"

definition open_store :: "store_env \<Rightarrow> bool \<Rightarrow> node \<Rightarrow> store_disk \<Rightarrow> recovery_action list store_result" where
  "open_store env locked audit_node w =
     st_then (w, open_private_dir env (se_root env) w) (\<lambda>w _.
     st_then (w, open_private_dir env (se_root env @ [''items'']) w) (\<lambda>w _.
     if locked then (w, Err StoreBusy)
     else
       st_then (w, check_private audit_node (se_euid env)) (\<lambda>w _.
       case verify_chain (se_sha env) (se_parse env) (sd_audit w) of
         Err _ \<Rightarrow> (w, Err (StoreInsecure ''audit log failed verification''))
       | Ok h \<Rightarrow> recover_store env (w\<lparr>sd_head := h\<rparr>))))"

end
