(* ===== verification/Remediation_Store_Props.thy ===== *)
theory Remediation_Store_Props
  imports Remediation_Recover
begin

text \<open>
  Lemmas about the Linux quarantine store: the encoding and its inverse, rules for operations
  that may fail or stop at any change of the disk, and what a quarantine leaves behind wherever
  it stops.
\<close>

section \<open>The encoding\<close>

lemma length_xor [simp]: "length (xor_in_place buf key off) = length buf"
  by (simp add: xor_in_place_def)

lemma xor_nth: "n < length buf \<Longrightarrow> xor_in_place buf key off ! n = buf ! n XOR key ! ((off + n) mod length key)"
  by (simp add: xor_in_place_def nth_enumerate_eq)

lemma xor_append: "xor_in_place (a @ b) key off = xor_in_place a key off @ xor_in_place b key (off + length a)"
  by (rule nth_equalityI) (auto simp: xor_nth nth_append ac_simps)

lemma xor_xor [simp]: "xor_in_place (xor_in_place buf key off) key off = buf"
  by (rule nth_equalityI) (auto simp: xor_nth xor.assoc)

lemma xor_Nil [simp]: "xor_in_place [] key off = []"
  by (simp add: xor_in_place_def)

lemma encode_chunks_eq:
  "n \<le> limit \<Longrightarrow> encode_chunks key limit n cs =
     (if n + length (concat cs) \<le> limit then Some (xor_in_place (concat cs) key n, n + length (concat cs)) else None)"
  by (induction cs arbitrary: n) (auto simp: xor_append)

lemma decode_chunks_eq: "decode_chunks key n cs = (xor_in_place (concat cs) key n, n + length (concat cs))"
  by (induction cs arbitrary: n) (auto simp: xor_append)

definition encoded :: "bytes \<Rightarrow> bytes \<Rightarrow> bytes" where
  "encoded key content = DATA_MAGIC @ xor_in_place content key 0"

lemma length_magic [simp]: "length DATA_MAGIC = 8"
  by (simp add: DATA_MAGIC_def)

lemma decode_encoded:
  assumes "\<forall>bs. concat (se_chunks env bs) = bs"
  shows "decode_file env i key (Some (encoded key content)) = Ok (se_sha env content, content)"
  using assms by (simp add: decode_file_def encoded_def decode_chunks_eq)

section \<open>Rules for operations that may stop\<close>

interpretation store_changes: faulty_disk prim sd_faults "\<lambda>fs w. w\<lparr>sd_faults := fs\<rparr>"
proof
  have same: "w\<lparr>sd_faults := []\<rparr> = w" if "sd_faults w = []" for w :: store_disk
    using that by (cases w) simp
  show "\<exists>fs. v = f (w\<lparr>sd_faults := fs\<rparr>)" if v: "prim f w = (v, Ok ())" for f w v
  proof (cases "sd_faults w")
    case Nil
    with v have "v = f (w\<lparr>sd_faults := []\<rparr>)" unfolding same [OF Nil] by (simp add: prim_def)
    then show ?thesis by blast
  next
    case (Cons x fs)
    with v show ?thesis by (auto simp: prim_def split: fault.splits)
  qed
  show "prim f w = (v, Err e) \<Longrightarrow> \<exists>fs. v = w\<lparr>sd_faults := fs\<rparr>" for f w v e
    by (auto simp: prim_def split: list.splits fault.splits)
  show "sd_faults w = [] \<Longrightarrow> prim f w = (f w, Ok ())" for f w
    by (simp add: prim_def)
qed

lemmas hoare_prim = store_changes.hoare_change

lemma hoare_ignoring: "hoare m (\<lambda>_ w. Q () w \<and> R Stopped w) (\<lambda>e w. Q () w \<and> R Stopped w) \<Longrightarrow> hoare (ignoring m) Q R"
  by (auto simp: hoare_def ignoring_def split: prod.splits sum.splits remediation_error.splits)

lemma hoare_on_error:
  "hoare m Q (\<lambda>e w. R e w \<and> hoare (undo w) (\<lambda>_ w. R e w) R) \<Longrightarrow> hoare (on_error m undo) Q R"
  by (auto simp: hoare_def on_error_def st_then_def split: prod.splits sum.splits remediation_error.splits)

text \<open>With no faults ahead each change succeeds.\<close>

lemma prim_quiet [simp]: "sd_faults w = [] \<Longrightarrow> prim f w = (f w, Ok ())"
  by (simp add: prim_def)

lemma ignoring_Ok [simp]: "ignoring (w, Ok u) = (w, Ok ())"
  by (simp add: ignoring_def)

section \<open>What a quarantine leaves\<close>

text \<open>The record describes the file \<open>st\<close>; nothing but the item's own record has changed and the
  file is still there (\<open>kept\<close>), or the file is gone and the copy and its record are there
  (\<open>moved\<close>).\<close>

definition describes :: "store_env \<Rightarrow> quarantine_request \<Rightarrow> node \<Rightarrow> quarantine_record \<Rightarrow> bool" where
  "describes env req st r \<longleftrightarrow>
     rec_id r = se_id env \<and> rec_format_version r = 1 \<and> of_path (rec_original r) = from_path (req_path req) \<and>
     of_sha256 (rec_original r) = se_sha env (nd_content st) \<and> of_dev (rec_original r) = nd_dev st \<and>
     of_ino (rec_original r) = nd_ino st \<and> rec_key_hex r = hex (se_key env)"

definition others_kept :: "store_env \<Rightarrow> store_disk \<Rightarrow> store_disk \<Rightarrow> bool" where
  "others_kept env w0 w \<longleftrightarrow> (\<forall>j. j \<noteq> se_id env \<longrightarrow> sd_records w j = sd_records w0 j)"

definition kept :: "store_env \<Rightarrow> quarantine_request \<Rightarrow> node \<Rightarrow> store_disk \<Rightarrow> store_disk \<Rightarrow> bool" where
  "kept env req st w0 w \<longleftrightarrow>
     sd_fs w = sd_fs w0 \<and> others_kept env w0 w \<and>
     (sd_records w (se_id env) = None \<or>
      (\<exists>r. sd_records w (se_id env) = Some (Some r) \<and> describes env req st r \<and> rec_state r \<in> {Pending, RolledBack}))"

definition moved :: "store_env \<Rightarrow> quarantine_request \<Rightarrow> string list \<Rightarrow> node \<Rightarrow> store_disk \<Rightarrow> store_disk \<Rightarrow> bool" where
  "moved env req p st w0 w \<longleftrightarrow>
     sd_fs w = (sd_fs w0)(p := None) \<and> others_kept env w0 w \<and>
     sd_data w (se_id env) = Some (encoded (se_key env) (nd_content st)) \<and>
     (\<exists>r. sd_records w (se_id env) = Some (Some r) \<and> describes env req st r \<and> rec_state r \<in> {Pending, ItemQuarantined})"

definition safe :: "store_env \<Rightarrow> quarantine_request \<Rightarrow> string list \<Rightarrow> node \<Rightarrow> store_disk \<Rightarrow> store_disk \<Rightarrow> bool" where
  "safe env req p st w0 w \<longleftrightarrow> kept env req st w0 w \<or> moved env req p st w0 w"

lemma safe_updates [simp]:
  "safe env req p st w0 (w\<lparr>sd_faults := fs\<rparr>) = safe env req p st w0 w"
  "safe env req p st w0 (w\<lparr>sd_audit := a\<rparr>) = safe env req p st w0 w"
  "safe env req p st w0 (w\<lparr>sd_head := h\<rparr>) = safe env req p st w0 w"
  by (simp_all add: safe_def kept_def moved_def others_kept_def)

lemma moved_faults [simp]: "moved env req p st w0 (w\<lparr>sd_faults := fs\<rparr>) = moved env req p st w0 w"
  "kept env req st w0 (w\<lparr>sd_faults := fs\<rparr>) = kept env req st w0 w"
  by (simp_all add: moved_def kept_def others_kept_def)

lemma moved_safe: "moved env req p st w0 w \<Longrightarrow> safe env req p st w0 w"
  by (simp add: safe_def)

lemma kept_safe: "kept env req st w0 w \<Longrightarrow> safe env req p st w0 w"
  by (simp add: safe_def)

lemmas hoare_rules = hoare_then hoare_prim hoare_ignoring hoare_on_error

lemma write_encoded_kept:
  assumes "kept env req st w0 w" and chunks: "\<forall>bs. concat (se_chunks env bs) = bs"
  shows "hoare (write_encoded env (nd_content st) mx path w)
    (\<lambda>(sha, n) w'. kept env req st w0 w' \<and> sha = se_sha env (nd_content st) \<and>
       sd_tmp w' (se_id env) = Some (encoded (se_key env) (nd_content st)))
    (\<lambda>e w'. kept env req st w0 w')"
  using assms(1)
  by (auto simp: write_encoded_def Let_def encode_chunks_eq chunks kept_def others_kept_def encoded_def [symmetric]
      decode_encoded [OF chunks] split: option.splits intro!: hoare_then hoare_prim)

lemma save_record_kept:
  assumes "kept env req st w0 w" and "describes env req st r" and "rec_state r \<in> {Pending, RolledBack}"
  shows "hoare (save_record r w)
    (\<lambda>_ w'. kept env req st w0 w' \<and> sd_records w' (se_id env) = Some (Some r) \<and> sd_tmp w' = sd_tmp w \<and> sd_data w' = sd_data w)
    (\<lambda>e w'. kept env req st w0 w')"
  using assms by (auto simp: save_record_def kept_def others_kept_def describes_def intro!: hoare_then hoare_prim)

lemma drop_kept:
  "kept env req st w0 w \<Longrightarrow> hoare (drop_data i w) (\<lambda>_. kept env req st w0) (\<lambda>_. kept env req st w0)"
  "kept env req st w0 w \<Longrightarrow> hoare (drop_tmp i w) (\<lambda>_. kept env req st w0) (\<lambda>_. kept env req st w0)"
  "kept env req st w0 w \<Longrightarrow> hoare (ignoring (flush w)) (\<lambda>_. kept env req st w0) (\<lambda>_. kept env req st w0)"
  unfolding drop_data_def drop_tmp_def
  by (rule hoare_ignoring, rule hoare_prim; simp add: kept_def others_kept_def)+

lemma roll_back_kept:
  assumes "kept env req st w0 w" and "describes env req st r"
  shows "hoare (roll_back env r why w) (\<lambda>_. kept env req st w0) (\<lambda>_. kept env req st w0)"
proof -
  define r' where "r' = r\<lparr>rec_state := RolledBack, rec_updated_at := se_now env,
       rec_notes := rec_notes r @ [''rolled back: '' @ why]\<rparr>"
  have r': "describes env req st r'" "rec_state r' \<in> {Pending, RolledBack}"
    using assms(2) by (simp_all add: describes_def r'_def)
  have save: "hoare (save_record r' v) (\<lambda>_. kept env req st w0) (\<lambda>_. kept env req st w0)" if "kept env req st w0 v" for v
    using save_record_kept [OF that r'] by (rule hoare_conseq) auto
  have flushed: "hoare (st_then (ignoring (flush v)) (\<lambda>v _. save_record r' v)) (\<lambda>_. kept env req st w0) (\<lambda>_. kept env req st w0)"
    if "kept env req st w0 v" for v
    by (rule hoare_then, rule hoare_conseq [OF drop_kept(3) [OF that]]) (simp_all add: save)
  show ?thesis
    unfolding roll_back_def r'_def [symmetric]
    by (rule hoare_then, rule hoare_conseq [OF drop_kept(1) [OF assms(1)]]) (simp_all add: flushed)
qed

lemma audit_event_hoare:
  assumes "P w" and "\<And>v fs. P v \<Longrightarrow> P (v\<lparr>sd_faults := fs\<rparr>)" "\<And>v a. P v \<Longrightarrow> P (v\<lparr>sd_audit := a\<rparr>)"
    "\<And>v h. P v \<Longrightarrow> P (v\<lparr>sd_head := h\<rparr>)"
  shows "hoare (audit_event env a i path sha oc w) (\<lambda>_. P) (\<lambda>_. P)"
proof (cases "encode_entry (se_sha env) (se_to_json env) (event_entry env a i path sha oc) (sd_head w)")
  case (Inl e)
  with assms(1) show ?thesis by (simp add: audit_event_def)
next
  case (Inr lh)
  obtain line h where lh: "lh = (line, h)" by fastforce
  show ?thesis
    unfolding audit_event_def Inr lh
    by (simp, intro hoare_then hoare_prim) (simp_all add: assms)
qed

lemma audit_event_safe:
  "safe env req p st w0 w \<Longrightarrow>
     hoare (audit_event env' a i path sha oc w) (\<lambda>_. safe env req p st w0) (\<lambda>_. safe env req p st w0)"
  by (rule audit_event_hoare) simp_all

lemma finish_safe:
  assumes "moved env req p st w0 w" and "describes env req st r" and "rec_state r \<in> {Pending, ItemQuarantined}"
  shows "hoare (save_record r w) (\<lambda>_. moved env req p st w0) (\<lambda>_. moved env req p st w0)"
  unfolding save_record_def
  by (intro hoare_then hoare_prim) (use assms in \<open>auto simp: moved_def others_kept_def describes_def\<close>)

lemma remove_original_safe:
  assumes k: "kept env req st w0 w" and st: "sd_fs w0 p = Some st" and r: "describes env req st r" "rec_state r = Pending"
    and rec: "sd_records w (se_id env) = Some (Some r)"
    and data: "sd_data w (se_id env) = Some (encoded (se_key env) (nd_content st))"
    and swap: "se_swap env (sd_fs w) = sd_fs w"
  shows "hoare (remove_original env req p st r w) (\<lambda>_. safe env req p st w0) (\<lambda>_. safe env req p st w0)"
proof -
  have w: "w\<lparr>sd_fs := sd_fs w\<rparr> = w" by (cases w) simp
  define r' where "r' = r\<lparr>rec_notes := process_notes env (req_kill_processes req), rec_state := ItemQuarantined,
                     rec_updated_at := se_now env\<rparr>"
  have r': "describes env req st r'" "rec_state r' \<in> {Pending, ItemQuarantined}" "rec_id r' = rec_id r"
    "rec_original r' = rec_original r"
    using r(1) by (simp_all add: describes_def r'_def)
  have m: "moved env req p st w0 (w\<lparr>sd_fs := (sd_fs w)(p := None)\<rparr>)"
    using k rec r data by (auto simp: moved_def kept_def others_kept_def)
  have saved: "hoare (save_record r' v) (\<lambda>_ w. hoare (st_then
        (audit_event env ''quarantine'' (Some (rec_id r')) (Some (req_path req))
          (Some (of_sha256 (rec_original r'))) (Ok None) w) (\<lambda>w _. (w, Ok r')))
      (\<lambda>_. safe env req p st w0) (\<lambda>_. safe env req p st w0)) (\<lambda>_. safe env req p st w0)"
    if "moved env req p st w0 v" for v
  proof (rule hoare_conseq [OF finish_safe [OF that r'(1,2)]])
    fix x v'
    assume "moved env req p st w0 v'"
    then have "safe env req p st w0 v'" by (simp add: safe_def)
    from audit_event_safe [OF this] show "hoare (st_then (audit_event env ''quarantine'' (Some (rec_id r')) (Some (req_path req))
          (Some (of_sha256 (rec_original r'))) (Ok None) v') (\<lambda>w _. (w, Ok r')))
      (\<lambda>_. safe env req p st w0) (\<lambda>_. safe env req p st w0)"
      by (rule hoare_then [OF hoare_conseq]) simp_all
  qed (simp add: safe_def)
  have same: "map_option node_id (sd_fs w p) = Some (node_id st)"
    using k st by (simp add: kept_def)
  have rb: "hoare (roll_back env r why (w\<lparr>sd_faults := fs\<rparr>)) (\<lambda>_. safe env req p st w0) (\<lambda>_. safe env req p st w0)" for why fs
    using k by (intro hoare_conseq [OF roll_back_kept [OF _ r(1)]]) (auto simp: kept_def others_kept_def safe_def)
  show ?thesis
    unfolding remove_original_def swap w Let_def r'_def [symmetric]
    by (simp add: same, intro hoare_then hoare_on_error hoare_prim conjI)
      (use m kept_safe [OF k] moved_safe [OF m] in \<open>simp_all add: rb saved\<close>)
qed

lemma commit_copy_safe:
  assumes k: "kept env req st w0 w" and st: "sd_fs w0 p = Some st" and r: "describes env req st r" "rec_state r = Pending"
    and tmp: "sd_tmp w (se_id env) = Some (encoded (se_key env) (nd_content st))"
    and swap: "se_swap env (sd_fs w0) = sd_fs w0"
  shows "hoare (commit_copy env req p st r w) (\<lambda>_. safe env req p st w0) (\<lambda>_. safe env req p st w0)"
proof -
  have i: "rec_id r = se_id env" using r by (simp add: describes_def)
  have rm: "hoare (remove_original env req p st r v) (\<lambda>_. safe env req p st w0) (\<lambda>_. safe env req p st w0)"
    if "kept env req st w0 v" "sd_records v (se_id env) = Some (Some r)"
      "sd_data v (se_id env) = Some (encoded (se_key env) (nd_content st))" for v
    using that swap by (intro remove_original_safe [OF that(1) st r that(2,3)]) (simp add: kept_def)
  have renamed: "hoare (st_then (prim (\<lambda>w. w\<lparr>sd_data := (sd_data w)(se_id env := sd_tmp w (se_id env)),
          sd_tmp := (sd_tmp w)(se_id env := None)\<rparr>) v) (\<lambda>w _.
        st_then (flush w) (\<lambda>w _. remove_original env req p st r w)))
      (\<lambda>_. safe env req p st w0) (\<lambda>_. safe env req p st w0)"
    if v: "kept env req st w0 v" "sd_records v (se_id env) = Some (Some r)"
      "sd_tmp v (se_id env) = Some (encoded (se_key env) (nd_content st))" for v
  proof -
    have k': "kept env req st w0 (v\<lparr>sd_data := (sd_data v)(se_id env := sd_tmp v (se_id env)),
        sd_tmp := (sd_tmp v)(se_id env := None)\<rparr>)"
      using v(1) by (simp add: kept_def others_kept_def)
    show ?thesis
      by (intro hoare_then hoare_prim rm) (use v k' in \<open>simp_all add: kept_safe\<close>)
  qed
  show ?thesis
    unfolding commit_copy_def i Let_def
    by (rule hoare_then, rule hoare_conseq [OF save_record_kept [OF k r(1)]])
      (use r(2) tmp renamed in \<open>simp_all add: kept_safe\<close>)
qed

lemma pending_describes:
  "describes env req st (pending_record env req st (se_sha env (nd_content st)) n)"
  "rec_state (pending_record env req st sha n) = Pending"
  by (simp_all add: describes_def pending_record_def)

lemma copy_original_safe:
  assumes k: "kept env req st w0 w" and st: "sd_fs w0 p = Some st"
    and chunks: "\<forall>bs. concat (se_chunks env bs) = bs" and swap: "se_swap env (sd_fs w0) = sd_fs w0"
  shows "hoare (copy_original env req p st w) (\<lambda>_. safe env req p st w0) (\<lambda>_. safe env req p st w0)"
proof -
  have commit: "hoare (commit_copy env req p st (pending_record env req st (se_sha env (nd_content st)) n) v)
      (\<lambda>_. safe env req p st w0) (\<lambda>_. safe env req p st w0)"
    if "kept env req st w0 v" "sd_tmp v (se_id env) = Some (encoded (se_key env) (nd_content st))" for n v
    by (rule commit_copy_safe [OF that(1) st pending_describes that(2) swap])
  have drop: "hoare (drop_tmp (se_id env) v) (\<lambda>_. safe env req p st w0) (\<lambda>_. safe env req p st w0)"
    if "kept env req st w0 v" for v
    by (rule hoare_conseq [OF drop_kept(2) [OF that]]) (simp_all add: kept_safe)
  have drop_then: "hoare (st_then (drop_tmp (se_id env) v) (\<lambda>w _. (w, Err e))) (\<lambda>_. safe env req p st w0) (\<lambda>_. safe env req p st w0)"
    if "kept env req st w0 v" for v and e :: remediation_error
    by (rule hoare_then, rule hoare_conseq [OF drop [OF that]]) simp_all
  show ?thesis
    unfolding copy_original_def Let_def
    by (intro hoare_then hoare_on_error, rule hoare_conseq [OF write_encoded_kept [OF k chunks]])
      (auto simp: kept_safe drop drop_then commit split: option.splits)
qed

lemma flush_cases: "\<exists>fs r. flush w = (w\<lparr>sd_faults := fs\<rparr>, r)"
proof (cases "sd_faults w")
  case Nil
  then have "w\<lparr>sd_faults := []\<rparr> = w" by (cases w) simp
  with Nil show ?thesis by (metis prim_quiet)
next
  case (Cons f fs)
  then show ?thesis by (cases f) (auto simp: prim_def)
qed

lemma quarantine_inner_safe:
  assumes "sd_records w (se_id env) = None" and chunks: "\<forall>bs. concat (se_chunks env bs) = bs"
    and swap: "se_swap env (sd_fs w) = sd_fs w"
  shows "sd_fs (fst (quarantine_inner env req w)) = sd_fs w \<and> sd_records (fst (quarantine_inner env req w)) = sd_records w \<or>
    (\<exists>parent name st. split_checked (req_path req) = Ok (parent, name) \<and> is_ok (open_dir (sd_fs w) parent) \<and>
       sd_fs w (parent @ [name]) = Some st \<and> safe env req (parent @ [name]) st w (fst (quarantine_inner env req w)))"
proof -
  have k: "kept env req st w (w\<lparr>sd_faults := fs\<rparr>)" for st fs
    using assms(1) by (simp add: kept_def others_kept_def)
  have c: "safe env req (parent @ [name]) st w (fst (copy_original env req (parent @ [name]) st (w\<lparr>sd_faults := fs\<rparr>)))"
    if "sd_fs w (parent @ [name]) = Some st" for parent name st fs
    using copy_original_safe [OF k that chunks swap] by (rule hoare_fst)
  show ?thesis
  proof (cases "split_checked (req_path req)")
    case (Inr pn)
    obtain parent name where pn: "pn = (parent, name)" by fastforce
    show ?thesis
    proof (cases "open_dir (sd_fs w) parent")
      case (Inr dir)
      obtain fs r where f: "flush w = (w\<lparr>sd_faults := fs\<rparr>, r)" using flush_cases by blast
      show ?thesis
        using \<open>split_checked (req_path req) = Ok pn\<close> Inr pn c [of parent name]
        by (cases r; cases "reject_store_dir env dir (req_path req)"; cases "sd_fs w (parent @ [name])")
          (auto simp: quarantine_inner_def Let_def f)
    qed (use Inr pn in \<open>simp add: quarantine_inner_def Let_def\<close>)
  qed (simp add: quarantine_inner_def Let_def)
qed

end
