(* ===== verification/Remediation_Crash.thy ===== *)
theory Remediation_Crash
  imports Remediation_Store_Props
begin

text \<open>
  What recovery makes of an interrupted quarantine: one invariant, \<open>intact\<close>, holds wherever a
  quarantine stops and every recovery keeps it, itself interrupted or not.
\<close>

section \<open>Either the original or the copy\<close>

definition intact ::
  "store_env \<Rightarrow> quarantine_request \<Rightarrow> string list \<Rightarrow> string \<Rightarrow> node \<Rightarrow> store_disk \<Rightarrow> bool" where
  "intact env req parent name st w \<longleftrightarrow>
     (sd_fs w (parent @ [name]) = Some st \<and>
        (sd_records w (se_id env) = None \<or>
         is_ok (open_dir (sd_fs w) parent) \<and>
         (\<exists>r. sd_records w (se_id env) = Some (Some r) \<and> describes env req st r \<and> rec_state r \<in> {Pending, RolledBack}))) \<or>
     (sd_fs w (parent @ [name]) = None \<and>
        sd_data w (se_id env) = Some (encoded (se_key env) (nd_content st)) \<and>
        (\<exists>r. sd_records w (se_id env) = Some (Some r) \<and> describes env req st r \<and> rec_state r \<in> {Pending, ItemQuarantined}))"

lemma intact_updates [simp]:
  "intact env req parent name st (w\<lparr>sd_faults := fs\<rparr>) = intact env req parent name st w"
  "intact env req parent name st (w\<lparr>sd_audit := a\<rparr>) = intact env req parent name st w"
  "intact env req parent name st (w\<lparr>sd_head := h\<rparr>) = intact env req parent name st w"
  "intact env req parent name st (w\<lparr>sd_tmp := t\<rparr>) = intact env req parent name st w"
  by (simp_all add: intact_def)

text \<open>What the invariant is for.\<close>

definition readable :: "store_env \<Rightarrow> quarantine_id \<Rightarrow> store_disk \<Rightarrow> bytes option" where
  "readable env i w =
     (case get_record i w of
        Err _ \<Rightarrow> None
      | Ok r \<Rightarrow> (case unhex (rec_key_hex r) of
            None \<Rightarrow> None
          | Some key \<Rightarrow> (case decode_file env i key (sd_data w i) of
                Err _ \<Rightarrow> None
              | Ok (sha, out) \<Rightarrow> if sha = of_sha256 (rec_original r) then Some out else None)))"

lemma describes_get_record:
  "sd_records w (se_id env) = Some (Some r) \<Longrightarrow> describes env req st r \<Longrightarrow> get_record (se_id env) w = Ok r"
  by (simp add: get_record_def describes_def)

lemma intact_recoverable:
  assumes "intact env req parent name st w" and "\<forall>bs. concat (se_chunks env bs) = bs"
  shows "sd_fs w (parent @ [name]) = Some st \<or>
    sd_fs w (parent @ [name]) = None \<and> readable env (se_id env) w = Some (nd_content st)"
  using assms(1)
  by (auto simp: intact_def readable_def describes_get_record unhex_hex decode_encoded [OF assms(2)] describes_def)

lemma safe_intact:
  assumes "safe env req (parent @ [name]) st w0 w" and "sd_fs w0 (parent @ [name]) = Some st"
    and "is_ok (open_dir (sd_fs w0) parent)"
  shows "intact env req parent name st w"
  using assms by (auto simp: safe_def kept_def moved_def intact_def)

lemma quarantine_inner_intact:
  assumes "sd_records w (se_id env) = None" and "\<forall>bs. concat (se_chunks env bs) = bs"
    and "se_swap env (sd_fs w) = sd_fs w"
    and path: "split_checked (req_path req) = Ok (parent, name)" and st: "sd_fs w (parent @ [name]) = Some st"
  shows "intact env req parent name st (fst (quarantine_inner env req w))"
  using quarantine_inner_safe [OF assms(1-3), of req]
proof
  assume "sd_fs (fst (quarantine_inner env req w)) = sd_fs w \<and>
    sd_records (fst (quarantine_inner env req w)) = sd_records w"
  with assms(1) st show ?thesis by (simp add: intact_def)
qed (use path st in \<open>auto intro: safe_intact\<close>)

lemma audit_event_intact:
  "intact env req parent name st w \<Longrightarrow> hoare (audit_event env' a i path sha oc w)
     (\<lambda>_. intact env req parent name st) (\<lambda>_. intact env req parent name st)"
  by (rule audit_event_hoare) simp_all

lemma quarantine_file_intact:
  assumes "sd_records w (se_id env) = None" and "\<forall>bs. concat (se_chunks env bs) = bs"
    and "se_swap env (sd_fs w) = sd_fs w"
    and "split_checked (req_path req) = Ok (parent, name)" and "sd_fs w (parent @ [name]) = Some st"
  shows "intact env req parent name st (fst (quarantine_file env req w))"
proof -
  have inner: "intact env req parent name st (fst (quarantine_inner env req w))"
    using assms by (rule quarantine_inner_intact)
  obtain v x where v: "quarantine_inner env req w = (v, x)" by fastforce
  have after: "intact env req parent name st (fst (st_then (audit_event env ''quarantine'' None (Some (req_path req))
      (req_expected_sha256 req) (Err (se_text env e)) v) (\<lambda>w _. (w, Err e'))))" for e and e' :: remediation_error
    by (rule hoare_fst, rule hoare_then, rule hoare_conseq [OF audit_event_intact])
      (use inner v in \<open>simp_all\<close>)
  show ?thesis
    using inner v after by (cases x) (auto simp: quarantine_file_def split: remediation_error.splits)
qed


section \<open>Recovery\<close>

text \<open>The record that recovery works on is the one that was read at its start.\<close>

definition of_item :: "store_env \<Rightarrow> quarantine_request \<Rightarrow> node \<Rightarrow> quarantine_record \<Rightarrow> bool" where
  "of_item env req st r \<longleftrightarrow> (rec_id r = se_id env \<longrightarrow> describes env req st r)"

lemma intact_drop:
  assumes "intact env req parent name st w" and "i \<noteq> se_id env \<or> sd_fs w (parent @ [name]) = Some st"
  shows "hoare (drop_data i w)
      (\<lambda>_ v. intact env req parent name st v \<and> sd_fs v = sd_fs w) (\<lambda>_ v. intact env req parent name st v \<and> sd_fs v = sd_fs w)"
  unfolding drop_data_def
  by (rule hoare_ignoring, rule hoare_prim) (use assms in \<open>auto simp: intact_def\<close>)

lemma intact_drop_tmp:
  assumes "intact env req parent name st w"
  shows "hoare (drop_tmp i w)
      (\<lambda>_ v. intact env req parent name st v \<and> sd_fs v = sd_fs w \<and> sd_records v = sd_records w)
      (\<lambda>_ v. intact env req parent name st v)"
  unfolding drop_tmp_def
  by (rule hoare_ignoring, rule hoare_prim) (use assms in simp_all)

lemma present_iff:
  assumes "describes env req st r" and "split_checked (req_path req) = Ok (parent, name)"
    and "intact env req parent name st w" and "sd_records w (se_id env) \<noteq> None"
  shows "original_present r w \<longleftrightarrow> sd_fs w (parent @ [name]) = Some st"
  using assms by (auto simp: original_present_def describes_def native_path_from_path node_id_def intact_def)

lemma absent_verified:
  assumes "describes env req st r" and "intact env req parent name st w" and "sd_fs w (parent @ [name]) = None"
    and "se_sha env' = se_sha env" "\<forall>bs. concat (se_chunks env' bs) = bs" and "length (se_key env) = KEY_LEN"
  shows "copy_verified env' r w"
  using assms by (auto simp: copy_verified_def describes_def unhex_hex intact_def decode_encoded [OF assms(5)])

text \<open>The states of the disk that one recovery step may leave, given the one it starts from.\<close>

definition step_ok ::
  "store_env \<Rightarrow> quarantine_request \<Rightarrow> string list \<Rightarrow> string \<Rightarrow> node \<Rightarrow> store_disk \<Rightarrow> store_disk \<Rightarrow> bool" where
  "step_ok env req parent name st w v \<longleftrightarrow>
     intact env req parent name st v \<and> sd_fs v = sd_fs w \<and>
     (sd_records w (se_id env) \<noteq> None \<longrightarrow> sd_records v (se_id env) \<noteq> None)"

lemma step_ok_updates [simp]:
  "step_ok env req parent name st w (v\<lparr>sd_faults := fs\<rparr>) = step_ok env req parent name st w v"
  "step_ok env req parent name st w (v\<lparr>sd_audit := a\<rparr>) = step_ok env req parent name st w v"
  "step_ok env req parent name st w (v\<lparr>sd_head := h\<rparr>) = step_ok env req parent name st w v"
  "step_ok env req parent name st w (v\<lparr>sd_tmp := t\<rparr>) = step_ok env req parent name st w v"
  by (simp_all add: step_ok_def)

lemma step_ok_refl: "intact env req parent name st w \<Longrightarrow> step_ok env req parent name st w w"
  by (simp add: step_ok_def)

lemma step_ok_trans:
  "step_ok env req parent name st u v \<Longrightarrow> step_ok env req parent name st v w \<Longrightarrow> step_ok env req parent name st u w"
  by (simp add: step_ok_def)

lemma drop_tmp_step:
  "step_ok env req parent name st w v \<Longrightarrow>
     hoare (drop_tmp i v) (\<lambda>_. step_ok env req parent name st w) (\<lambda>_. step_ok env req parent name st w)"
  unfolding drop_tmp_def by (rule hoare_ignoring, rule hoare_prim) simp_all

lemma flush_step:
  "step_ok env req parent name st w v \<Longrightarrow>
     hoare (ignoring (flush v)) (\<lambda>_. step_ok env req parent name st w) (\<lambda>_. step_ok env req parent name st w)"
  by (rule hoare_ignoring, rule hoare_prim) simp_all

lemma drop_data_step:
  assumes "step_ok env req parent name st w v" and "i \<noteq> se_id env \<or> sd_fs w (parent @ [name]) = Some st"
  shows "hoare (drop_data i v) (\<lambda>_. step_ok env req parent name st w) (\<lambda>_. step_ok env req parent name st w)"
  unfolding drop_data_def
  by (rule hoare_ignoring, rule hoare_prim) (use assms in \<open>auto simp: step_ok_def intact_def\<close>)

text \<open>What the record of the item may say, given the files.\<close>

definition fits ::
  "store_env \<Rightarrow> quarantine_request \<Rightarrow> string list \<Rightarrow> string \<Rightarrow> node \<Rightarrow> store_disk \<Rightarrow> item_state \<Rightarrow> bool" where
  "fits env req parent name st w s \<longleftrightarrow>
     (if sd_fs w (parent @ [name]) = Some st then s = RolledBack else s = ItemQuarantined)"

lemma save_step:
  assumes v: "step_ok env req parent name st w v" and known: "sd_records w (se_id env) \<noteq> None"
    and r: "describes env req st r" and s: "fits env req parent name st w (rec_state r)"
  shows "hoare (save_record r v) (\<lambda>_. step_ok env req parent name st w) (\<lambda>_. step_ok env req parent name st w)"
proof -
  have "sd_records v (se_id env) \<noteq> None" using v known by (simp add: step_ok_def)
  then have "intact env req parent name st (v\<lparr>sd_records := (sd_records v)(rec_id r \<mapsto> Some r)\<rparr>)"
    using v r s by (auto simp: step_ok_def intact_def fits_def describes_def)
  then show ?thesis
    unfolding save_record_def
    by (intro hoare_then hoare_prim) (use v in \<open>auto simp: step_ok_def\<close>)
qed

lemma save_other_step:
  assumes "step_ok env req parent name st w v" and "rec_id r \<noteq> se_id env"
  shows "hoare (save_record r v) (\<lambda>_. step_ok env req parent name st w) (\<lambda>_. step_ok env req parent name st w)"
  unfolding save_record_def
  by (intro hoare_then hoare_prim) (use assms in \<open>auto simp: step_ok_def intact_def\<close>)

lemma audit_step:
  "step_ok env req parent name st w v \<Longrightarrow> hoare (audit_event env' a i path sha oc v)
     (\<lambda>_. step_ok env req parent name st w) (\<lambda>_. step_ok env req parent name st w)"
  by (rule audit_event_hoare) simp_all

lemma resolve_pending_step:
  assumes w: "intact env req parent name st w" and r: "of_item env req st r"
    and known: "rec_id r = se_id env \<Longrightarrow> sd_records w (se_id env) \<noteq> None"
    and path: "split_checked (req_path req) = Ok (parent, name)" and key: "length (se_key env) = KEY_LEN"
    and env': "se_sha env' = se_sha env" "\<forall>bs. concat (se_chunks env' bs) = bs"
  shows "hoare (resolve_pending env' r w)
    (\<lambda>(s, d) v. step_ok env req parent name st w v \<and> (rec_id r = se_id env \<longrightarrow> fits env req parent name st w s))
    (\<lambda>_. step_ok env req parent name st w)"
proof -
  have drops: "hoare (st_then (drop_tmp i v) (\<lambda>w _. st_then (ignoring (flush w)) (\<lambda>w _. (w, Ok x))))
      (\<lambda>y v. step_ok env req parent name st w v \<and> y = x) (\<lambda>_. step_ok env req parent name st w)"
    if "step_ok env req parent name st w v" for v i and x :: "item_state \<times> string"
    by (rule hoare_then, rule hoare_conseq [OF drop_tmp_step [OF that]], rule hoare_then,
        rule hoare_conseq [OF flush_step]) simp_all
  note w' = step_ok_refl [OF w]
  show ?thesis
  proof (cases "original_present r w")
    case True
    have cond: "rec_id r \<noteq> se_id env \<or> sd_fs w (parent @ [name]) = Some st"
      using present_iff [OF _ path w] r known True by (auto simp: of_item_def)
    show ?thesis
      unfolding resolve_pending_def if_P [OF True]
      by (rule hoare_then, rule hoare_conseq [OF drop_data_step [OF w' cond]], rule hoare_conseq [OF drops])
        (use cond in \<open>auto simp: fits_def\<close>)
  next
    case absent: False
    show ?thesis
    proof (cases "copy_verified env' r w")
      case True
      have "fits env req parent name st w ItemQuarantined" if "rec_id r = se_id env"
        using present_iff [OF _ path w known] r absent that by (auto simp: of_item_def fits_def)
      then show ?thesis
        using absent True
        by (simp add: resolve_pending_def) (rule hoare_then, rule hoare_conseq [OF drop_tmp_step [OF w']]; simp)
    next
      case False
      have "rec_id r \<noteq> se_id env"
      proof
        assume id: "rec_id r = se_id env"
        then have d: "describes env req st r" using r by (simp add: of_item_def)
        have "sd_fs w (parent @ [name]) = None"
          using present_iff [OF d path w known [OF id]] absent w by (auto simp: intact_def)
        from absent_verified [OF d w this env' key] False show False by simp
      qed
      then show ?thesis using absent False w' by (simp add: resolve_pending_def)
    qed
  qed
qed

lemma recover_one_step:
  assumes w: "intact env req parent name st w" and r: "of_item env req st r"
    and known: "rec_id r = se_id env \<Longrightarrow> sd_records w (se_id env) \<noteq> None"
    and path: "split_checked (req_path req) = Ok (parent, name)" and key: "length (se_key env) = KEY_LEN"
    and env': "se_sha env' = se_sha env" "\<forall>bs. concat (se_chunks env' bs) = bs"
  shows "hoare (recover_one env' w r) (\<lambda>_. step_ok env req parent name st w) (\<lambda>_. step_ok env req parent name st w)"
proof -
  have save: "hoare (save_record (r\<lparr>rec_state := s, rec_updated_at := t, rec_notes := n\<rparr>) v)
      (\<lambda>_. step_ok env req parent name st w) (\<lambda>_. step_ok env req parent name st w)"
    if "step_ok env req parent name st w v" "rec_id r = se_id env \<longrightarrow> fits env req parent name st w s" for s t n v
  proof (cases "rec_id r = se_id env")
    case True
    then show ?thesis
      using that r by (intro save_step known) (auto simp: of_item_def describes_def)
  qed (use that in \<open>auto intro: save_other_step\<close>)
  have logged: "hoare (st_then (audit_event env' a i p sha oc v) (\<lambda>w _. (w, Ok x)))
      (\<lambda>_. step_ok env req parent name st w) (\<lambda>_. step_ok env req parent name st w)"
    if "step_ok env req parent name st w v" for a i p sha oc v and x :: recovery_action
    by (rule hoare_then, rule hoare_conseq [OF audit_step [OF that]]) simp_all
  have rest: "hoare (st_then (save_record (r\<lparr>rec_state := s, rec_updated_at := t, rec_notes := n\<rparr>) v)
        (\<lambda>w _. st_then (audit_event env' a i p sha oc w) (\<lambda>w _. (w, Ok x))))
      (\<lambda>_. step_ok env req parent name st w) (\<lambda>_. step_ok env req parent name st w)"
    if "step_ok env req parent name st w v" "rec_id r = se_id env \<longrightarrow> fits env req parent name st w s"
    for s t n v a i p sha oc and x :: recovery_action
    by (rule hoare_then, rule hoare_conseq [OF save [OF that]]) (simp_all add: logged)
  show ?thesis
    unfolding recover_one_def
  proof (rule hoare_then, rule hoare_conseq [OF resolve_pending_step [OF w r known path key env']])
    fix x :: "item_state \<times> string" and v
    assume "(case x of (s, d) \<Rightarrow> \<lambda>v. step_ok env req parent name st w v \<and>
      (rec_id r = se_id env \<longrightarrow> fits env req parent name st w s)) v"
    then show "hoare (case x of (s, d) \<Rightarrow> st_then (save_record (r\<lparr>rec_state := s, rec_updated_at := se_now env',
          rec_notes := rec_notes r @ [''recovery: '' @ d]\<rparr>) v) (\<lambda>w _.
        st_then (audit_event env' ''recover'' (Some (rec_id r)) (native_path (of_path (rec_original r)))
          (Some (of_sha256 (rec_original r))) (if s = ItemFailed then Err d else Ok (Some d)) w) (\<lambda>w _.
        (w, Ok \<lparr>ra_id = rec_id r, ra_outcome = s, ra_detail = d\<rparr>))))
      (\<lambda>_. step_ok env req parent name st w) (\<lambda>_. step_ok env req parent name st w)"
      by (cases x) (simp add: rest)
  qed
qed

lemma recover_store_intact:
  assumes w: "intact env req parent name st w"
    and path: "split_checked (req_path req) = Ok (parent, name)" and key: "length (se_key env) = KEY_LEN"
    and env': "se_sha env' = se_sha env" "\<forall>bs. concat (se_chunks env' bs) = bs"
  shows "intact env req parent name st (fst (recover_store env' w))"
proof -
  have items: "of_item env req st r \<and> (rec_id r = se_id env \<longrightarrow> sd_records w (se_id env) \<noteq> None)"
    if rs: "try_map (\<lambda>i. get_record i w) is = Ok rs" "r \<in> set rs" for "is" rs r
  proof -
    obtain i where i: "get_record i w = Ok r" using try_map_member [OF rs] by blast
    then have "rec_id r = i" "sd_records w i = Some (Some r)"
      by (auto simp: get_record_def split: option.splits if_splits)
    with w show ?thesis by (auto simp: of_item_def intact_def)
  qed
  have fold: "step_ok env req parent name st w (fst (st_fold (recover_one env') w rs))"
    if "\<And>r. r \<in> set rs \<Longrightarrow> of_item env req st r \<and> (rec_id r = se_id env \<longrightarrow> sd_records w (se_id env) \<noteq> None)" for rs
  proof (rule st_fold_inv)
    fix v r
    assume r: "r \<in> set rs" and v: "step_ok env req parent name st w v"
    have "step_ok env req parent name st v (fst (recover_one env' v r))"
      using that [OF r] v
      by (intro hoare_fst [OF recover_one_step [OF _ _ _ path key env']]) (auto simp: step_ok_def)
    with v show "step_ok env req parent name st w (fst (recover_one env' v r))" by (rule step_ok_trans)
  qed (use step_ok_refl [OF w] in simp)
  have stray: "intact env req parent name st (fst (st_then (drop_strays env' v) (\<lambda>w _. (w, Ok x))))"
    if "intact env req parent name st v" for v and x :: "recovery_action list"
  proof -
    have one: "intact env req parent name st (fst (drop_stray u i))" if "intact env req parent name st u" for u i
    proof -
      have "intact env req parent name st (fst (drop_tmp i u))"
        by (rule hoare_fst, rule hoare_conseq [OF intact_drop_tmp [OF that]]) simp_all
      with that show ?thesis by (simp add: drop_stray_def)
    qed
    have "intact env req parent name st (fst (st_fold drop_stray v (se_tmp_names env' v)))"
      by (rule st_fold_inv [where P = "intact env req parent name st"]) (use one that in simp_all)
    then show ?thesis
      by (cases "st_fold drop_stray v (se_tmp_names env' v)"; cases "snd (st_fold drop_stray v (se_tmp_names env' v))")
        (auto simp: drop_strays_def)
  qed
  show ?thesis
  proof (cases "try_map (\<lambda>i. get_record i w) (se_names env' w)")
    case (Inr rs)
    define ps where "ps = filter (\<lambda>r. rec_state r = Pending) rs"
    have "step_ok env req parent name st w (fst (st_fold (recover_one env') w ps))"
      by (rule fold, rule items [OF Inr]) (simp add: ps_def)
    then have "intact env req parent name st (fst (st_fold (recover_one env') w ps))" by (simp add: step_ok_def)
    with Inr stray show ?thesis
      by (cases "st_fold (recover_one env') w ps"; cases "snd (st_fold (recover_one env') w ps)")
        (auto simp: recover_store_def ps_def)
  qed (use w in \<open>simp add: recover_store_def\<close>)
qed

end
