(* ===== verification/Remediation_Restore_Props.thy ===== *)
theory Remediation_Restore_Props
  imports Remediation_Crash
begin

text \<open>
  When a quarantine succeeds and what restoring the item then gives; what a restore may change;
  what the audit log is after an append that was not flushed.
\<close>

section \<open>A quarantine that succeeds\<close>

text \<open>Everything the code asks of the request, the file and the store, with no failure of the
  disk ahead.\<close>

definition quarantinable ::
  "store_env \<Rightarrow> quarantine_request \<Rightarrow> string list \<Rightarrow> string \<Rightarrow> node \<Rightarrow> node \<Rightarrow> store_disk \<Rightarrow> bool" where
  "quarantinable env req parent name dir st w \<longleftrightarrow>
     split_checked (req_path req) = Ok (parent, name) \<and>
     (req_allow_protected req \<or> \<not> is_protected_path (req_path req)) \<and>
     \<not> prefix (se_root env) (components (req_path req)) \<and> open_dir (sd_fs w) parent = Ok dir \<and>
     node_id dir \<notin> {se_root_id env, se_items_id env} \<and>
     sd_fs w (parent @ [name]) = Some st \<and> nd_kind st = Regular \<and>
     length (nd_content st) \<le> unat (req_max_size req) \<and> nd_links st \<le> 1 \<and>
     req_expected_sha256 req \<in> {None, Some (se_sha env (nd_content st))} \<and>
     sd_tmp w (se_id env) = None \<and> sd_faults w = []"

definition env_ok :: "store_env \<Rightarrow> bool" where
  "env_ok env \<longleftrightarrow>
     (\<forall>bs. concat (se_chunks env bs) = bs) \<and> (\<forall>e. se_to_json env e \<noteq> None) \<and>
     (\<forall>fs. se_swap env fs = fs) \<and> length (se_key env) = KEY_LEN"

lemma env_okD:
  assumes "env_ok env"
  shows "\<forall>bs. concat (se_chunks env bs) = bs" "concat (se_chunks env bs) = bs" "\<exists>l. se_to_json env e = Some l"
    "se_swap env fs = fs" "length (se_key env) = KEY_LEN"
  using assms by (auto simp: env_ok_def)

lemma audit_event_quiet:
  assumes "env_ok env" and "sd_faults w = []"
  shows "\<exists>a h. audit_event env action i path sha oc w = (w\<lparr>sd_audit := a, sd_head := h\<rparr>, Ok ())"
proof -
  obtain l where "se_to_json env ((event_entry env action i path sha oc)\<lparr>ent_seq := ch_seq (sd_head w) + 1,
      ent_prev := ch_hash (sd_head w)\<rparr>) = Some l"
    using env_okD(3) [OF assms(1)] by blast
  then have "encode_entry (se_sha env) (se_to_json env) (event_entry env action i path sha oc) (sd_head w) =
      Ok (l @ [10], next_head (sd_head w) (line_hash (se_sha env) l))"
    by (simp add: encode_entry_def Let_def result_simps)
  with assms(2) show ?thesis by (auto simp: audit_event_def result_simps)
qed

lemma write_encoded_quiet:
  assumes "env_ok env" and "sd_faults w = []" and "sd_tmp w (se_id env) = None" and "length src \<le> unat mx"
  shows "write_encoded env src mx path w =
    (w\<lparr>sd_tmp := (sd_tmp w)(se_id env \<mapsto> encoded (se_key env) src)\<rparr>, Ok (se_sha env src, length src))"
  using assms
  by (simp add: write_encoded_def Let_def encode_chunks_eq env_okD encoded_def [symmetric]
      decode_encoded [OF env_okD(1) [OF assms(1)]])

lemma save_record_quiet:
  "sd_faults w = [] \<Longrightarrow> save_record r w = (w\<lparr>sd_records := (sd_records w)(rec_id r \<mapsto> Some r)\<rparr>, Ok ())"
  by (simp add: save_record_def)

text \<open>The record of an item that was quarantined without trouble.\<close>

definition done_record :: "store_env \<Rightarrow> quarantine_request \<Rightarrow> node \<Rightarrow> quarantine_record" where
  "done_record env req st =
     (pending_record env req st (se_sha env (nd_content st)) (length (nd_content st)))
       \<lparr>rec_notes := process_notes env (req_kill_processes req), rec_state := ItemQuarantined,
        rec_updated_at := se_now env\<rparr>"

lemma pending_id [simp]: "rec_id (pending_record env req st sha n) = se_id env"
  by (simp add: pending_record_def)

lemma quarantine_quiet:
  assumes env: "env_ok env" and q: "quarantinable env req parent name dir st w"
  shows "\<exists>a h. quarantine_file env req w =
    (w\<lparr>sd_fs := (sd_fs w)(parent @ [name] := None), sd_tmp := (sd_tmp w)(se_id env := None),
       sd_data := (sd_data w)(se_id env \<mapsto> encoded (se_key env) (nd_content st)),
       sd_records := (sd_records w)(se_id env \<mapsto> Some (done_record env req st)),
       sd_audit := a, sd_head := h\<rparr>, Ok (done_record env req st))"
proof -
  note q' = q [unfolded quarantinable_def]
  define w2 where "w2 = w\<lparr>
      sd_records := (sd_records w)(se_id env \<mapsto> Some (pending_record env req st (se_sha env (nd_content st)) (length (nd_content st)))),
      sd_data := (sd_data w)(se_id env \<mapsto> encoded (se_key env) (nd_content st)),
      sd_tmp := (sd_tmp w)(se_id env := None)\<rparr>"
  define w3 where "w3 = w2\<lparr>sd_fs := (sd_fs w)(parent @ [name] := None),
      sd_records := (sd_records w)(se_id env \<mapsto> Some (done_record env req st))\<rparr>"
  have quiet: "sd_faults w2 = []" "sd_faults w3 = []" using q' by (simp_all add: w2_def w3_def)
  have rm: "remove_original env req (parent @ [name]) st
      (pending_record env req st (se_sha env (nd_content st)) (length (nd_content st))) w2 =
    st_then (audit_event env ''quarantine'' (Some (se_id env)) (Some (req_path req))
        (Some (of_sha256 (rec_original (done_record env req st)))) (Ok None) w3) (\<lambda>w _. (w, Ok (done_record env req st)))"
    using q' quiet
    by (simp add: remove_original_def Let_def env_okD [OF env] on_error_def save_record_quiet w2_def w3_def
        done_record_def)
  obtain a h where a: "audit_event env ''quarantine'' (Some (se_id env)) (Some (req_path req))
        (Some (of_sha256 (rec_original (done_record env req st)))) (Ok None) w3 = (w3\<lparr>sd_audit := a, sd_head := h\<rparr>, Ok ())"
    using audit_event_quiet [OF env quiet(2)] by blast
  have copy: "copy_original env req (parent @ [name]) st w =
      remove_original env req (parent @ [name]) st
        (pending_record env req st (se_sha env (nd_content st)) (length (nd_content st))) w2"
    using q' quiet
    by (auto simp: copy_original_def Let_def write_encoded_quiet [OF env] on_error_def commit_copy_def
        save_record_quiet w2_def split: option.splits)
  have "quarantine_inner env req w = (w3\<lparr>sd_audit := a, sd_head := h\<rparr>, Ok (done_record env req st))"
    using q' copy by (auto simp: quarantine_inner_def Let_def reject_store_dir_def require_def rm a)
  then show ?thesis
    by (intro exI [of _ a] exI [of _ h]) (simp add: quarantine_file_def w3_def w2_def)
qed

section \<open>Restoring\<close>

text \<open>What restoring asks of the directory \<open>dir\<close> that a file of \<open>owner\<close> goes back to.\<close>

definition restorable ::
  "store_env \<Rightarrow> quarantine_id \<Rightarrow> string list \<Rightarrow> string \<Rightarrow> nat \<Rightarrow> store_disk \<Rightarrow> bool" where
  "restorable env i parent name owner w \<longleftrightarrow>
     \<not> prefix (se_root env) (parent @ [name]) \<and>
     (case open_dir (sd_fs w) parent of
        Err _ \<Rightarrow> False
      | Ok dir \<Rightarrow> node_id dir \<notin> {se_root_id env, se_items_id env} \<and> nd_mode dir AND 0x12 = 0 \<and>
          nd_uid dir \<in> {0, se_euid env, owner}) \<and>
     sd_fs w (parent @ [tmp_restore_name i]) = None \<and> sd_fs w (parent @ [name]) = None \<and>
     name \<noteq> tmp_restore_name i \<and> sd_faults w = []"

lemma restore_target_Ok:
  assumes "restorable env i parent name (of_uid (rec_original r)) w"
    and "native_path (of_path (rec_original r)) = Some path" and "split_checked path = Ok (parent, name)"
  shows "restore_target env r None w = Ok (parent, name)"
  using assms
  by (auto simp: restore_target_def restorable_def reject_store_dir_def require_def result_simps Let_def
      split: sum.splits)

lemma write_restored_quiet:
  assumes "sd_faults w = []" and "sd_fs w tmp = None" and "unhex (rec_key_hex r) = Some key" "length key = KEY_LEN"
    and "\<forall>bs. concat (se_chunks env bs) = bs" and "sd_data w (rec_id r) = Some (encoded key content)"
    and "of_sha256 (rec_original r) = se_sha env content"
  shows "write_restored env r tmp w = (set_file tmp (Some (restored_node env (rec_original r) content)) w, Ok ())"
  using assms by (simp add: write_restored_def set_file_def decode_encoded [OF assms(5)] on_error_def)

lemma place_restored_quiet:
  assumes "sd_faults w = []" and "sd_fs w target = None" and "tmp \<noteq> target"
  shows "place_restored env tmp target w = (set_file tmp None (set_file target (sd_fs w tmp) w), Ok ())"
  using assms by (simp add: place_restored_def set_file_def on_error_def Let_def)

lemma restore_quiet:
  assumes rec: "get_record i w = Ok r" "rec_state r = ItemQuarantined"
    and path: "native_path (of_path (rec_original r)) = Some path" "split_checked path = Ok (parent, name)"
    and ok: "restorable env i parent name (of_uid (rec_original r)) w"
    and key: "unhex (rec_key_hex r) = Some key" "length key = KEY_LEN"
    and chunks: "\<forall>bs. concat (se_chunks env bs) = bs" and data: "sd_data w i = Some (encoded key content)"
    and sha: "of_sha256 (rec_original r) = se_sha env content"
  shows "\<exists>r'. rec_id r' = i \<and> rec_state r' = Restored \<and> restore_inner env i None w =
    (w\<lparr>sd_fs := (sd_fs w)(parent @ [name] \<mapsto> restored_node env (rec_original r) content),
       sd_data := (sd_data w)(i := None), sd_records := (sd_records w)(i \<mapsto> Some r')\<rparr>, Ok (parent @ [name]))"
proof -
  have i: "rec_id r = i" using rec(1) by (auto simp: get_record_def split: option.splits if_splits)
  define tmp where "tmp = parent @ [tmp_restore_name i]"
  define n where "n = restored_node env (rec_original r) content"
  have q: "sd_faults w = []" "sd_fs w tmp = None" "sd_fs w (parent @ [name]) = None" "tmp \<noteq> parent @ [name]"
    using ok by (auto simp: restorable_def tmp_def)
  have fs: "(sd_fs w)(tmp := Some n, parent @ [name] := Some n, tmp := None) = (sd_fs w)(parent @ [name] \<mapsto> n)"
    using q by auto
  have wrote: "write_restored env r tmp w = (set_file tmp (Some n) w, Ok ())"
    unfolding n_def by (rule write_restored_quiet) (use q key chunks data sha i in simp_all)
  have place: "place_restored env tmp (parent @ [name]) (set_file tmp (Some n) w) =
      (w\<lparr>sd_fs := (sd_fs w)(parent @ [name] \<mapsto> n)\<rparr>, Ok ())"
    using q fs by (subst place_restored_quiet) (simp_all add: set_file_def)
  define r' where "r' = r\<lparr>rec_state := Restored, rec_updated_at := se_now env,
             rec_restored_to := Some (from_path (path_text_of (parent @ [name]))),
             rec_notes := rec_notes r @ restore_notes env (rec_original r)\<rparr>"
  have r': "rec_id r' = i" "rec_state r' = Restored" by (simp_all add: r'_def i)
  have "restore_inner env i None w =
    (w\<lparr>sd_fs := (sd_fs w)(parent @ [name] \<mapsto> n), sd_data := (sd_data w)(i := None),
       sd_records := (sd_records w)(i \<mapsto> Some r')\<rparr>, Ok (parent @ [name]))"
    unfolding restore_inner_def
    using q data i
    by (simp add: rec restore_target_Ok [OF ok path] Let_def tmp_def [symmetric] wrote place
        r'_def [symmetric] save_record_quiet r')
  with r' show ?thesis unfolding n_def by blast
qed

lemma restore_item_quiet:
  assumes "restore_inner env i dest w = (v, Ok p)" and "env_ok env" and "sd_faults v = []"
  shows "\<exists>a h. restore_item env i dest w = (v\<lparr>sd_audit := a, sd_head := h\<rparr>, Ok p)"
proof -
  obtain a h where "audit_event env ''restore'' (Some i) None None (Ok (Some (''restored to '' @ path_text_of p))) v =
      (v\<lparr>sd_audit := a, sd_head := h\<rparr>, Ok ())"
    using audit_event_quiet [OF assms(2,3)] by blast
  then show ?thesis by (intro exI [of _ a] exI [of _ h]) (simp add: restore_item_def audited_def assms(1))
qed

lemma split_checked_components: "split_checked path = Ok (parent, name) \<Longrightarrow> components path = parent @ [name]"
  by (auto simp: split_checked_def Let_def split: if_splits)

section \<open>What a restore and a quarantine may change\<close>

definition files_kept :: "store_disk \<Rightarrow> store_disk \<Rightarrow> bool" where
  "files_kept w v \<longleftrightarrow> (\<forall>q n. sd_fs w q = Some n \<longrightarrow> sd_fs v q = Some n)"

lemma files_kept_updates [simp]:
  "files_kept w (v\<lparr>sd_faults := fs\<rparr>) = files_kept w v" "files_kept w (v\<lparr>sd_audit := a\<rparr>) = files_kept w v"
  "files_kept w (v\<lparr>sd_head := h\<rparr>) = files_kept w v" "files_kept w (v\<lparr>sd_data := d\<rparr>) = files_kept w v"
  "files_kept w (v\<lparr>sd_records := r\<rparr>) = files_kept w v" "files_kept w w"
  by (simp_all add: files_kept_def)

lemma set_new_file: "sd_fs w q = None \<Longrightarrow> files_kept w v \<Longrightarrow> files_kept w (set_file q n v)"
  by (auto simp: files_kept_def set_file_def)

lemma set_file_faults [simp]: "set_file q n (v\<lparr>sd_faults := fs\<rparr>) = (set_file q n v)\<lparr>sd_faults := fs\<rparr>"
  by (cases v) (simp add: set_file_def)

lemma clean_up_kept:
  assumes "sd_fs w q = None" and "files_kept w v"
  shows "hoare (ignoring (prim (set_file q None) v)) (\<lambda>_. files_kept w) (\<lambda>_. files_kept w)"
  by (rule hoare_ignoring, rule hoare_prim) (use assms set_new_file in simp_all)

lemma write_restored_kept:
  "hoare (write_restored env r tmp w) (\<lambda>_ v. files_kept w v \<and> sd_fs w tmp = None) (\<lambda>_. files_kept w)"
proof (cases "\<exists>key. unhex (rec_key_hex r) = Some key \<and> length key = KEY_LEN \<and> sd_fs w tmp = None")
  case True
  then obtain key where key: "unhex (rec_key_hex r) = Some key" "length key = KEY_LEN" and tmp: "sd_fs w tmp = None"
    by blast
  have step: "hoare (prim (set_file tmp n) v) (\<lambda>_. files_kept w) (\<lambda>_. files_kept w)" if "files_kept w v" for n v
    by (rule hoare_prim) (use that tmp in \<open>simp_all add: set_new_file\<close>)
  have flush: "hoare (flush v) (\<lambda>_. files_kept w) (\<lambda>_. files_kept w)" if "files_kept w v" for v
    by (rule hoare_prim) (use that in simp_all)
  have last: "hoare (st_then (prim (set_file tmp n) v) (\<lambda>w _. flush w)) (\<lambda>_. files_kept w) (\<lambda>_. files_kept w)"
    if "files_kept w v" for n v
    by (rule hoare_then, rule hoare_conseq [OF step [OF that]]) (simp_all add: flush)
  have body: "hoare (st_then (v, decode_file env i key d) (\<lambda>w (sha, out).
               st_then (prim (set_file tmp (Some (fresh_node env out))) w) (\<lambda>w _.
               if sha \<noteq> sha' then (w, Err e)
               else st_then (prim (set_file tmp (n' out)) w) (\<lambda>w _. flush w))))
      (\<lambda>_. files_kept w) (\<lambda>_. files_kept w)" if "files_kept w v" for v i d sha' e n'
    using that by (cases "decode_file env i key d")
      (auto intro!: hoare_then [OF hoare_conseq [OF step]] simp: last)
  have undo: "hoare (on_error m (\<lambda>w. ignoring (prim (set_file tmp None) w))) (\<lambda>_. files_kept w) (\<lambda>_. files_kept w)"
    if "hoare m (\<lambda>_. files_kept w) (\<lambda>_. files_kept w)" for m :: "unit store_result"
    by (rule hoare_on_error, rule hoare_conseq [OF that]) (simp_all add: clean_up_kept [OF tmp])
  have "hoare (write_restored env r tmp w) (\<lambda>_. files_kept w) (\<lambda>_. files_kept w)"
    unfolding write_restored_def
    by (simp add: key tmp, rule hoare_then, rule hoare_conseq [OF step]) (auto intro!: undo body)
  then show ?thesis by (rule hoare_conseq) (simp_all add: tmp)
qed (auto simp: write_restored_def split: option.splits)

lemma place_restored_kept:
  assumes tmp: "sd_fs w tmp = None" and v: "files_kept w v"
  shows "hoare (place_restored env tmp target v) (\<lambda>_. files_kept w) (\<lambda>_. files_kept w)"
proof (cases "sd_fs v target = None")
  case False
  then show ?thesis
    using clean_up_kept [OF tmp] v
    by (auto simp: place_restored_def on_error_def Let_def
        intro!: hoare_then hoare_conseq [OF clean_up_kept [OF tmp]])
next
  case True
  then have target: "sd_fs w target = None" using v by (cases "sd_fs w target") (auto simp: files_kept_def)
  have moved: "files_kept w (set_file target n v)" "files_kept w (set_file tmp None (set_file target n v))" for n
    using set_new_file [OF target v] set_new_file [OF tmp] by blast+
  show ?thesis
  proof (cases "se_noreplace env")
    case nr: True
    show ?thesis
      unfolding place_restored_def using nr True
      by (simp, intro hoare_on_error hoare_prim) (use v moved in \<open>simp_all add: clean_up_kept [OF tmp]\<close>)
  next
    case False
    have "hoare (on_error (prim (\<lambda>w. set_file target (sd_fs w tmp) w) v) (\<lambda>w. ignoring (prim (set_file tmp None) w)))
        (\<lambda>_. files_kept w) (\<lambda>_. files_kept w)"
      by (intro hoare_on_error hoare_prim) (use v moved in \<open>simp_all add: clean_up_kept [OF tmp]\<close>)
    then show ?thesis
      unfolding place_restored_def using False True
      by (simp add: Let_def, intro hoare_then) (auto elim!: hoare_conseq simp: clean_up_kept [OF tmp])
  qed
qed

lemma restore_inner_kept: "files_kept w (fst (restore_inner env i dest w))"
proof (cases "get_record i w")
  case (Inr r)
  show ?thesis
  proof (cases "rec_state r = ItemQuarantined \<and> is_ok (restore_target env r dest w)")
    case False
    then show ?thesis using Inr by (cases "restore_target env r dest w") (auto simp: restore_inner_def)
  next
    case True
    then obtain dir name where t: "restore_target env r dest w = Ok (dir, name)" "rec_state r = ItemQuarantined"
      by (cases "restore_target env r dest w") auto
    have save: "hoare (st_then (save_record r' v) (\<lambda>w _. (w, Ok x))) (\<lambda>_. files_kept w) (\<lambda>_. files_kept w)"
      if "files_kept w v" for r' v and x :: "string list"
      unfolding save_record_def by (intro hoare_then hoare_prim) (use that in simp_all)
    have remove: "hoare (st_then (prim (\<lambda>w. w\<lparr>sd_data := (sd_data w)(i := None)\<rparr>) v) (\<lambda>w _.
         st_then (save_record r' w) (\<lambda>w _. (w, Ok x)))) (\<lambda>_. files_kept w) (\<lambda>_. files_kept w)"
      if "files_kept w v" for r' v and x :: "string list"
      by (rule hoare_then, rule hoare_prim) (use that in \<open>simp_all add: save\<close>)
    have flush: "hoare (st_then (flush v) (\<lambda>w _. if sd_data w i = None then (w, Err e) else
          st_then (prim (\<lambda>w. w\<lparr>sd_data := (sd_data w)(i := None)\<rparr>) w) (\<lambda>w _.
          st_then (save_record r' w) (\<lambda>w _. (w, Ok x))))) (\<lambda>_. files_kept w) (\<lambda>_. files_kept w)"
      if "files_kept w v" for e r' v and x :: "string list"
      by (rule hoare_then, rule hoare_prim) (use that in \<open>simp_all add: remove\<close>)
    show ?thesis
      unfolding restore_inner_def Inr
      by (simp add: t, rule hoare_fst, simp add: Let_def, rule hoare_then,
          rule hoare_conseq [OF write_restored_kept])
        (auto intro!: hoare_then [OF hoare_conseq [OF place_restored_kept]] flush)
  qed
qed (simp add: restore_inner_def)

lemma audited_kept:
  assumes "files_kept w (fst m)"
  shows "files_kept w (fst (audited env action i detail m))"
proof -
  obtain v x where m: "m = (v, x)" by fastforce
  have "hoare (st_then (audit_event env action (Some i) None None oc v) (\<lambda>w _. (w, x)))
      (\<lambda>_. files_kept w) (\<lambda>_. files_kept w)" for oc
    by (rule hoare_then, rule hoare_conseq [OF audit_event_hoare [where P = "files_kept w"]])
      (use assms m in \<open>cases x; simp\<close>)+
  then show ?thesis
    using assms m by (cases x) (auto simp: audited_def intro: hoare_fst split: remediation_error.splits)
qed

text \<open>A quarantine changes the files only by removing the original, and only while its name
  still refers to the file that was copied, whatever others did to the files meanwhile.\<close>

definition files_in :: "file_system set \<Rightarrow> store_disk \<Rightarrow> bool" where
  "files_in F v \<longleftrightarrow> sd_fs v \<in> F"

lemma files_in_updates [simp]:
  "files_in F (v\<lparr>sd_faults := fs\<rparr>) = files_in F v" "files_in F (v\<lparr>sd_audit := a\<rparr>) = files_in F v"
  "files_in F (v\<lparr>sd_head := h\<rparr>) = files_in F v" "files_in F (v\<lparr>sd_data := d\<rparr>) = files_in F v"
  "files_in F (v\<lparr>sd_records := r\<rparr>) = files_in F v" "files_in F (v\<lparr>sd_tmp := t\<rparr>) = files_in F v"
  "files_in F (v\<lparr>sd_fs := g\<rparr>) = (g \<in> F)"
  by (simp_all add: files_in_def)

abbreviation keeps_in :: "file_system set \<Rightarrow> 'a store_result \<Rightarrow> bool" where
  "keeps_in F m \<equiv> hoare m (\<lambda>_. files_in F) (\<lambda>_. files_in F)"

lemma keeps_in_then:
  "keeps_in F m \<Longrightarrow> (\<And>v x. files_in F v \<Longrightarrow> keeps_in F (f v x)) \<Longrightarrow> keeps_in F (st_then m f)"
  by (rule hoare_then, erule hoare_conseq) simp_all

lemma keeps_in_basic:
  assumes "files_in F v"
  shows "keeps_in F (flush v)" "keeps_in F (ignoring (flush v))" "keeps_in F (drop_tmp i v)"
    "keeps_in F (drop_data i v)" "keeps_in F (save_record r v)" "keeps_in F (audit_event env a j path sha oc v)"
    "keeps_in F (v, x)"
proof -
  show "keeps_in F (flush v)" by (rule hoare_prim) (use assms in simp_all)
  show "keeps_in F (ignoring (flush v))" by (rule hoare_ignoring, rule hoare_prim) (use assms in simp_all)
  show "keeps_in F (drop_tmp i v)"
    unfolding drop_tmp_def by (rule hoare_ignoring, rule hoare_prim) (use assms in simp_all)
  show "keeps_in F (drop_data i v)"
    unfolding drop_data_def by (rule hoare_ignoring, rule hoare_prim) (use assms in simp_all)
  show "keeps_in F (save_record r v)"
    unfolding save_record_def by (intro hoare_then hoare_prim) (use assms in simp_all)
  show "keeps_in F (audit_event env a j path sha oc v)"
    by (rule audit_event_hoare) (use assms in simp_all)
  show "keeps_in F (v, x)" using assms by (cases x) simp_all
qed

lemma roll_back_in: "files_in F v \<Longrightarrow> keeps_in F (roll_back env r why v)"
  unfolding roll_back_def by (intro keeps_in_then keeps_in_basic)

lemma write_encoded_in:
  assumes "files_in F v"
  shows "keeps_in F (write_encoded env src mx path v)"
  unfolding write_encoded_def Let_def
  by (auto intro!: keeps_in_then hoare_prim keeps_in_basic simp: assms split: option.splits if_splits)

definition only_copied :: "store_env \<Rightarrow> string list \<Rightarrow> node \<Rightarrow> file_system \<Rightarrow> file_system set" where
  "only_copied env p st fs =
     (let fs' = se_swap env fs
      in {fs, fs'} \<union> (if map_option node_id (fs' p) = Some (node_id st) then {fs'(p := None)} else {}))"

lemma remove_original_in:
  assumes fs: "sd_fs v = fs"
  shows "keeps_in (only_copied env p st fs) (remove_original env req p st r v)"
proof -
  let ?F = "only_copied env p st fs"
  have swapped: "se_swap env fs \<in> ?F" by (simp add: only_copied_def Let_def)
  have finish: "keeps_in ?F (st_then (flush u) (\<lambda>w _. st_then (save_record r' w) (\<lambda>w _.
      st_then (audit_event env a i path sha oc w) (\<lambda>w _. (w, Ok x)))))" if "files_in ?F u" for u a i path sha oc r'
      and x :: quarantine_record
    by (intro keeps_in_then keeps_in_basic that)
  have undone: "keeps_in ?F (st_then (roll_back env r why u) (\<lambda>w _. (w, Err e)))" if "files_in ?F u" for u why
      and e :: remediation_error
    by (intro keeps_in_then keeps_in_basic roll_back_in that)
  show ?thesis
  proof (cases "map_option node_id (se_swap env fs p) = Some (node_id st)")
    case True
    have removed: "(se_swap env fs)(p := None) \<in> ?F"
      using True by (simp add: only_copied_def Let_def)
    have "keeps_in ?F (on_error (prim (\<lambda>w. w\<lparr>sd_fs := (sd_fs w)(p := None)\<rparr>) (v\<lparr>sd_fs := se_swap env fs\<rparr>))
        (roll_back env r why))" for why
      by (intro hoare_on_error hoare_prim) (use swapped removed in \<open>simp_all add: roll_back_in\<close>)
    then show ?thesis
      unfolding remove_original_def Let_def fs using True finish
      by (simp add: Let_def) (rule keeps_in_then; simp)
  next
    case False
    then show ?thesis
      unfolding remove_original_def Let_def fs using undone [of "v\<lparr>sd_fs := se_swap env fs\<rparr>"] swapped by simp
  qed
qed

lemma copy_original_in:
  assumes fs: "sd_fs v = fs"
  shows "keeps_in (only_copied env p st fs) (copy_original env req p st v)"
proof -
  let ?F = "only_copied env p st fs"
  have sub: "hoare m (\<lambda>_. files_in ?F) (\<lambda>_. files_in ?F)" if "keeps_in {fs} m" for m :: "'a store_result"
    by (rule hoare_conseq [OF that]) (simp_all add: files_in_def only_copied_def Let_def)
  have pinned: "files_in {fs} u \<longleftrightarrow> sd_fs u = fs" for u by (simp add: files_in_def)
  have commit: "keeps_in ?F (commit_copy env req p st r u)" if "sd_fs u = fs" for r u
  proof -
    have renamed: "keeps_in {fs} (prim (\<lambda>w. w\<lparr>sd_data := d w, sd_tmp := t w\<rparr>) u)" if "files_in {fs} u" for u d t
      by (rule hoare_prim) (use that in simp_all)
    have flushed: "keeps_in ?F (st_then (flush u) (\<lambda>w _. remove_original env req p st r w))" if "files_in {fs} u" for u
      by (rule hoare_then, rule hoare_conseq [OF keeps_in_basic(1) [OF that]])
        (auto simp: pinned remove_original_in, simp add: files_in_def only_copied_def Let_def)
    have named: "keeps_in ?F (st_then (prim (\<lambda>w. w\<lparr>sd_data := d w, sd_tmp := t w\<rparr>) u) (\<lambda>w _.
        st_then (flush w) (\<lambda>w _. remove_original env req p st r w)))" if "files_in {fs} u" for u d t
      by (rule hoare_then, rule hoare_conseq [OF renamed [OF that]])
        (auto simp: flushed, simp add: files_in_def only_copied_def Let_def)
    show ?thesis
      unfolding commit_copy_def Let_def
      by (rule hoare_then, rule hoare_conseq [OF keeps_in_basic(5) [of "{fs}"]])
        (use that in \<open>auto simp: pinned named, simp add: files_in_def only_copied_def Let_def\<close>)
  qed
  have base: "files_in ?F u" if "files_in {fs} u" for u
    using that by (simp add: files_in_def only_copied_def Let_def)
  have dropped: "keeps_in ?F (st_then (drop_tmp i u) (\<lambda>w _. (w, Err e)))" if "files_in {fs} u" for i u
      and e :: remediation_error
    by (rule keeps_in_then [OF keeps_in_basic(3) [OF base [OF that]] keeps_in_basic(7)])
  have commit': "keeps_in ?F (commit_copy env req p st r u)" if "files_in {fs} u" for r u
    using that by (intro commit) (simp add: pinned)
  have wrote: "keeps_in {fs} (on_error (write_encoded env src mx path v) (drop_tmp i))" for src mx path i
    by (rule hoare_on_error, rule hoare_conseq [OF write_encoded_in [of "{fs}"]])
      (simp_all add: keeps_in_basic, simp add: pinned fs)
  show ?thesis
    unfolding copy_original_def Let_def
    by (rule hoare_then, rule hoare_conseq [OF wrote])
      (simp_all add: base dropped commit' split: prod.splits option.splits)
qed

lemma quarantine_file_in:
  "sd_fs (fst (quarantine_file env req w)) = sd_fs w \<or>
   (\<exists>st. sd_fs w (components (req_path req)) = Some st \<and>
      sd_fs (fst (quarantine_file env req w)) \<in> only_copied env (components (req_path req)) st (sd_fs w))"
proof -
  have after: "keeps_in F (quarantine_file env req w)" if F: "keeps_in F (quarantine_inner env req w)" for F
  proof -
    obtain v x where v: "quarantine_inner env req w = (v, x)" by fastforce
    have "keeps_in F (st_then (audit_event env a i path sha oc v) (\<lambda>w _. (w, Err e)))"
      if "files_in F v" for a i path sha oc and e :: remediation_error
      by (intro keeps_in_then keeps_in_basic that)
    then show ?thesis
      using F v by (cases x) (auto simp: quarantine_file_def split: remediation_error.splits)
  qed
  have inner: "keeps_in {sd_fs w} (quarantine_inner env req w) \<or>
      (\<exists>st. sd_fs w (components (req_path req)) = Some st \<and>
         keeps_in (only_copied env (components (req_path req)) st (sd_fs w)) (quarantine_inner env req w))"
  proof (cases "\<exists>parent name dir. split_checked (req_path req) = Ok (parent, name) \<and> open_dir (sd_fs w) parent = Ok dir")
    case False
    then show ?thesis
      by (cases "split_checked (req_path req)"; cases "open_dir (sd_fs w) (fst (projr (split_checked (req_path req))))")
        (auto simp: quarantine_inner_def Let_def files_in_def)
  next
    case True
    then obtain parent name dir where p: "split_checked (req_path req) = Ok (parent, name)"
      "open_dir (sd_fs w) parent = Ok dir" by blast
    note comps = split_checked_components [OF p(1)]
    obtain fs r where f: "flush w = (w\<lparr>sd_faults := fs\<rparr>, r)" using flush_cases by blast
    have "keeps_in (only_copied env (parent @ [name]) st (sd_fs w))
        (copy_original env req (parent @ [name]) st (w\<lparr>sd_faults := fs\<rparr>))" for st
      by (rule copy_original_in) simp
    then show ?thesis
      using p comps
      by (cases r; cases "reject_store_dir env dir (req_path req)"; cases "sd_fs w (parent @ [name])")
        (auto simp: quarantine_inner_def Let_def f files_in_def)
  qed
  then show ?thesis
    using hoare_fst [OF after] by (auto simp: files_in_def)
qed

section \<open>The audit log after an append that was not flushed\<close>

lemma unlines_inject:
  assumes "\<forall>l \<in> set ls. 10 \<notin> set l" and "\<forall>l \<in> set ms. 10 \<notin> set l" and "unlines ls = unlines ms"
  shows "ls = ms"
  using assms
proof (induction ls arbitrary: ms)
  case Nil
  then show ?case by (cases ms) auto
next
  case (Cons l ls)
  then obtain m ms' where m: "ms = m # ms'" by (cases ms) auto
  have first: "takeWhile (\<lambda>b. b \<noteq> 10) (unlines (k # ks)) = k" if "10 \<notin> set k" for k :: bytes and ks
    using takeWhile_line [OF that] by simp
  have heads: "10 \<notin> set l" "10 \<notin> set m" "unlines (l # ls) = unlines (m # ms')"
    using Cons.prems unfolding m by simp_all
  have "l = m" using first [OF heads(1), of ls] first [OF heads(2), of ms'] heads(3) by metis
  moreover have "ls = ms'"
    by (rule Cons.IH) (use Cons.prems m \<open>l = m\<close> in simp_all)
  ultimately show ?case using m by simp
qed

lemma lines_ok_lf: "lines_ok sha parse h ls \<Longrightarrow> \<forall>l \<in> set ls. 10 \<notin> set l"
  by (induction ls arbitrary: h) (auto simp: line_ok_def)

text \<open>Two entries numbered from the same head do not verify one after the other.\<close>

lemma same_head_twice:
  assumes "verify_chain sha parse log = Ok h" and "10 \<notin> set l1" "10 \<notin> set l2"
    and "parse l2 = Some e" and "ent_seq e = ch_seq h + 1"
  shows "\<not> is_ok (verify_chain sha parse (log @ l1 @ [10] @ l2 @ [10]))"
proof
  obtain ls where ls: "log = unlines ls" "lines_ok sha parse genesis ls" "h = foldl (step_head sha) genesis ls"
    using assms(1) by (auto simp: verify_chain_iff)
  assume "is_ok (verify_chain sha parse (log @ l1 @ [10] @ l2 @ [10]))"
  then obtain ms where ms: "log @ l1 @ [10] @ l2 @ [10] = unlines ms" "lines_ok sha parse genesis ms"
    by (cases "verify_chain sha parse (log @ l1 @ [10] @ l2 @ [10])") (auto simp: verify_chain_iff)
  have "unlines (ls @ [l1, l2]) = unlines ms" using ls(1) ms(1) by simp
  then have "ms = ls @ [l1, l2]"
    using unlines_inject [of "ls @ [l1, l2]" ms] lines_ok_lf [OF ls(2)] lines_ok_lf [OF ms(2)] assms(2,3) by auto
  with ms(2) ls(3) have "line_ok parse (step_head sha h l1) l2" by simp
  with assms(4,5) show False by (simp add: line_ok_def step_head_def next_head_def)
qed

lemma audit_event_unsynced:
  assumes "sd_faults w = [NoFault, IoFault]" and "audit_event env a i path sha oc w = (v, x)"
    and "se_to_json env ((event_entry env a i path sha oc)\<lparr>ent_seq := ch_seq (sd_head w) + 1, ent_prev := ch_hash (sd_head w)\<rparr>) = Some l"
  shows "v = w\<lparr>sd_audit := sd_audit w @ l @ [10], sd_faults := []\<rparr> \<and> x = Err (RIo ''I/O error'')"
  using assms by (cases w) (auto simp: audit_event_def encode_entry_def Let_def result_simps prim_def)

lemma audit_event_appends:
  assumes "sd_faults w = []"
    and "se_to_json env ((event_entry env a i path sha oc)\<lparr>ent_seq := ch_seq (sd_head w) + 1, ent_prev := ch_hash (sd_head w)\<rparr>) = Some l"
  shows "sd_audit (fst (audit_event env a i path sha oc w)) = sd_audit w @ l @ [10]"
  using assms by (simp add: audit_event_def encode_entry_def Let_def result_simps)

section \<open>The allow-list\<close>

definition allow_ok :: "store_disk \<Rightarrow> bool" where
  "allow_ok w \<longleftrightarrow>
     (case sd_allow w of
        None \<Rightarrow> True
      | Some f \<Rightarrow> distinct (map ae_sha256 (alf_entries f)) \<and> length (alf_entries f) \<le> MAX_ALLOW_ENTRIES)"

lemma allow_ok_updates [simp]:
  "allow_ok (w\<lparr>sd_faults := fs\<rparr>) = allow_ok w" "allow_ok (w\<lparr>sd_audit := a\<rparr>) = allow_ok w"
  "allow_ok (w\<lparr>sd_head := h\<rparr>) = allow_ok w"
  by (simp_all add: allow_ok_def)

lemma write_allowlist_ok:
  assumes "allow_ok w" and "distinct (map ae_sha256 (alf_entries f))" "length (alf_entries f) \<le> MAX_ALLOW_ENTRIES"
  shows "hoare (write_allowlist f w) (\<lambda>_. allow_ok) (\<lambda>_. allow_ok)"
  unfolding write_allowlist_def
  by (intro hoare_then hoare_prim) (use assms in \<open>simp_all add: allow_ok_def\<close>)

lemma stored_allowlist_ok:
  assumes "allow_ok w" and "stored_allowlist w = Ok f"
  shows "distinct (map ae_sha256 (alf_entries f))" "length (alf_entries f) \<le> MAX_ALLOW_ENTRIES"
  using assms by (auto simp: stored_allowlist_def allow_ok_def split: option.splits if_splits)

lemma audit_allow_ok: "allow_ok w \<Longrightarrow> hoare (audit_event env a i path sha oc w) (\<lambda>_. allow_ok) (\<lambda>_. allow_ok)"
  by (rule audit_event_hoare) simp_all

lemma allow_hash_ok:
  assumes "allow_ok w"
  shows "hoare (allow_hash env sha reason item name w) (\<lambda>_. allow_ok) (\<lambda>_. allow_ok)"
proof (cases "stored_allowlist w")
  case (Inr f)
  note f = stored_allowlist_ok [OF assms Inr]
  show ?thesis
  proof (cases "list_ex (\<lambda>e. ae_sha256 e = sha) (alf_entries f)")
    case True
    then show ?thesis using Inr assms by (simp add: allow_hash_def audit_allow_ok)
  next
    case False
    then have new: "sha \<notin> ae_sha256 ` set (alf_entries f)" by (auto simp: list_ex_iff)
    show ?thesis
      using Inr False assms f new
      by (auto simp: allow_hash_def audit_allow_ok intro!: hoare_then hoare_conseq [OF write_allowlist_ok])
  qed
qed (use assms in \<open>simp add: allow_hash_def\<close>)

lemma distinct_map_filter_key: "distinct (map k xs) \<Longrightarrow> distinct (map k (filter P xs))"
  by (induction xs) auto

lemma disallow_hash_ok:
  assumes "allow_ok w"
  shows "hoare (disallow_hash env sha w) (\<lambda>_. allow_ok) (\<lambda>_. allow_ok)"
proof (cases "stored_allowlist w")
  case (Inr f)
  note f = stored_allowlist_ok [OF assms Inr]
  have "length (filter (\<lambda>e. ae_sha256 e \<noteq> sha) (alf_entries f)) \<le> MAX_ALLOW_ENTRIES"
    using f(2) by (rule order_trans [OF length_filter_le])
  then have wrote: "hoare (write_allowlist (f\<lparr>alf_entries := filter (\<lambda>e. ae_sha256 e \<noteq> sha) (alf_entries f)\<rparr>) w)
      (\<lambda>_. allow_ok) (\<lambda>_. allow_ok)"
    by (intro write_allowlist_ok assms) (simp_all add: f(1) distinct_map_filter_key)
  have "hoare (st_then (audit_event env a i p sh oc v) (\<lambda>w _. (w, Ok x))) (\<lambda>_. allow_ok) (\<lambda>_. allow_ok)"
    if "allow_ok v" for a i p sh oc v and x :: bool
    by (rule hoare_then, rule hoare_conseq [OF audit_allow_ok [OF that]]) simp_all
  then show ?thesis
    using Inr assms wrote
    by (auto simp: disallow_hash_def Let_def audit_allow_ok intro!: hoare_then hoare_conseq [OF wrote])
qed (use assms in \<open>simp add: disallow_hash_def\<close>)

end
