(* ===== verification/Remediation_Store_Theorems.thy ===== *)
theory Remediation_Store_Theorems
  imports Remediation_Restore_Props Remediation_Theorems
begin

text \<open>
  The properties of the Linux quarantine store: nothing is lost wherever it stops, restoring gives
  the file back, neither operation touches other files, and the allow-list and the audit log.
\<close>

section \<open>A sample store\<close>

definition sample_node :: node where
  "sample_node =
     \<lparr>nd_kind = Regular, nd_dev = 1, nd_ino = 7, nd_content = [1, 2, 3], nd_mode = 0x1ED, nd_uid = 1000,
      nd_gid = 1000, nd_links = 1, nd_mtime = None\<rparr>"

definition sample_dir :: node where
  "sample_dir =
     \<lparr>nd_kind = Directory, nd_dev = 1, nd_ino = 2, nd_content = [], nd_mode = 0x1ED, nd_uid = 0,
      nd_gid = 0, nd_links = 2, nd_mtime = None\<rparr>"

definition sample_env :: store_env where
  "sample_env =
     \<lparr>se_root = [''s''], se_root_id = (1, 3), se_items_id = (1, 4), se_euid = 0, se_behalf = None, se_now = 0,
      se_id = QuarantineId ''a'', se_key = replicate 32 5, se_chunks = (\<lambda>bs. [bs]),
      se_sha = (\<lambda>bs. Sha256Digest (replicate 32 (of_nat (length bs)))),
      se_to_json = (\<lambda>_. Some [7]), se_parse = (\<lambda>_. None), se_text = (\<lambda>_. ''e''), se_users = [],
      se_process_notes = [], se_swap = (\<lambda>fs. fs), se_noreplace = True, se_names = (\<lambda>_. []), se_tmp_names = (\<lambda>_. [])\<rparr>"

definition sample_disk :: "fault list \<Rightarrow> store_disk" where
  "sample_disk fs =
     \<lparr>sd_fs = [[] \<mapsto> sample_dir, [''x''] \<mapsto> sample_node], sd_tmp = Map.empty, sd_data = Map.empty,
      sd_records = Map.empty, sd_audit = [], sd_head = genesis, sd_allow = None, sd_faults = fs\<rparr>"

definition sample_request :: quarantine_request where
  "sample_request =
     \<lparr>req_path = ''/x'', req_expected_sha256 = None, req_reason = reason_for sample_finding, req_max_size = 10,
      req_allow_protected = False, req_kill_processes = False\<rparr>"

lemma sample_path: "split_checked ''/x'' = Ok ([], ''x'')"
  by (simp add: split_checked_def components_def Let_def)

lemma sample_env_ok: "env_ok sample_env"
  by (simp add: env_ok_def sample_env_def KEY_LEN_def)

lemma sample_selectors:
  "req_path sample_request = ''/x''" "se_id sample_env = QuarantineId ''a''" "se_root sample_env = [''s'']"
  "sd_fs (sample_disk fs) = [[] \<mapsto> sample_dir, [''x''] \<mapsto> sample_node]" "sd_records (sample_disk fs) = Map.empty"
  "sd_tmp (sample_disk fs) = Map.empty" "sd_faults (sample_disk fs) = fs" "sd_allow (sample_disk fs) = None"
  "sd_audit (sample_disk fs) = []" "sd_head (sample_disk fs) = genesis"
  by (simp_all add: sample_request_def sample_env_def sample_disk_def)

section \<open>Crashes\<close>

text \<open>The disks that a quarantine can leave, followed by any number of attempts to open the store
  again, each of them with failures and crashes of its own.\<close>

inductive after_crashes :: "store_env \<Rightarrow> quarantine_request \<Rightarrow> store_disk \<Rightarrow> store_disk \<Rightarrow> bool"
  for env req w where
  stopped: "after_crashes env req w (fst (quarantine_file env req w))"
| reopened: "after_crashes env req w v \<Longrightarrow> se_sha env' = se_sha env \<Longrightarrow>
    (\<forall>bs. concat (se_chunks env' bs) = bs) \<Longrightarrow>
    after_crashes env req w (fst (open_store env' locked audit_node (v\<lparr>sd_faults := fs\<rparr>)))"

lemma open_store_intact:
  assumes w: "intact env req parent name st w"
    and path: "split_checked (req_path req) = Ok (parent, name)" and key: "length (se_key env) = KEY_LEN"
    and env': "se_sha env' = se_sha env" "\<forall>bs. concat (se_chunks env' bs) = bs"
  shows "intact env req parent name st (fst (open_store env' locked audit_node w))"
proof -
  have "intact env req parent name st (fst (recover_store env' (w\<lparr>sd_head := h\<rparr>)))" for h
    by (rule recover_store_intact [OF _ path key env']) (use w in simp)
  then show ?thesis
    using w
    by (cases "open_private_dir env' (se_root env') w"; cases "open_private_dir env' (se_root env' @ [''items'']) w";
        cases "check_private audit_node (se_euid env')"; cases "verify_chain (se_sha env') (se_parse env') (sd_audit w)")
      (simp_all add: open_store_def)
qed

text \<open>C2: A quarantined file is never lost: wherever quarantining it fails or the machine stops,
  and however often opening the store then fails or stops again, the original is still in
  place, or the original is gone and its item's record and copy decode, with the recorded
  digest, to exactly its content.\<close>

theorem quarantine_crash_safe:
  assumes "after_crashes env req w v"
    and "split_checked (req_path req) = Ok (parent, name)" and "sd_fs w (parent @ [name]) = Some st"
    and "sd_records w (se_id env) = None" and "length (se_key env) = KEY_LEN"
    and "\<forall>bs. concat (se_chunks env bs) = bs" and "se_swap env (sd_fs w) = sd_fs w"
  shows "sd_fs v (parent @ [name]) = Some st \<or>
    sd_fs v (parent @ [name]) = None \<and> readable env (se_id env) v = Some (nd_content st)"
proof -
  have "intact env req parent name st v"
    using assms(1)
  proof (induction rule: after_crashes.induct)
    case stopped
    show ?case using assms(4,6,7,2,3) by (rule quarantine_file_intact)
  next
    case (reopened v env' locked audit_node fs)
    then show ?case by (intro open_store_intact [OF _ assms(2,5)]) simp_all
  qed
  then show ?thesis using assms(6) by (rule intact_recoverable)
qed

theorem quarantine_crash_safe_witness:
  "\<forall>fs fs'.
    let v = fst (open_store sample_env False sample_dir
      ((fst (quarantine_file sample_env sample_request (sample_disk fs)))\<lparr>sd_faults := fs'\<rparr>))
    in sd_fs v ([] @ [''x'']) = Some sample_node \<or>
       sd_fs v ([] @ [''x'']) = None \<and> readable sample_env (se_id sample_env) v = Some (nd_content sample_node)"
proof (intro allI)
  fix fs fs'
  let ?v = "fst (open_store sample_env False sample_dir
      ((fst (quarantine_file sample_env sample_request (sample_disk fs)))\<lparr>sd_faults := fs'\<rparr>))"
  have v: "after_crashes sample_env sample_request (sample_disk fs) ?v"
    by (rule reopened [OF stopped]) (simp_all add: sample_env_def)
  have "sd_fs ?v ([] @ [''x'']) = Some sample_node \<or>
      sd_fs ?v ([] @ [''x'']) = None \<and> readable sample_env (se_id sample_env) ?v = Some (nd_content sample_node)"
    by (rule quarantine_crash_safe [OF v]) (simp_all add: sample_selectors sample_path env_okD [OF sample_env_ok])
  then show "let v = ?v in sd_fs v ([] @ [''x'']) = Some sample_node \<or>
      sd_fs v ([] @ [''x'']) = None \<and> readable sample_env (se_id sample_env) v = Some (nd_content sample_node)"
    by (simp add: Let_def)
qed

section \<open>Restoring\<close>

text \<open>C11: Quarantining a file and restoring the item gives the file back under its own name with
  the same content, its permission bits without the set-id bits and, to root, its owner; every
  other file is as it was before.\<close>

theorem quarantine_restore_round_trip:
  assumes "env_ok env" and "quarantinable env req parent name dir st w"
    and "restorable env (se_id env) parent name (nd_uid st) (fst (quarantine_file env req w))"
  shows "\<exists>w' w'' r n. quarantine_file env req w = (w', Ok r) \<and> sd_fs w' = (sd_fs w)(parent @ [name] := None) \<and>
    restore_item env (se_id env) None w' = (w'', Ok (parent @ [name])) \<and>
    sd_fs w'' = (sd_fs w)(parent @ [name] \<mapsto> n) \<and> nd_content n = nd_content st \<and>
    nd_mode n = nd_mode st AND 0x1FF \<and> (se_euid env = 0 \<longrightarrow> nd_uid n = nd_uid st \<and> nd_gid n = nd_gid st)"
proof -
  obtain a h where q: "quarantine_file env req w =
    (w\<lparr>sd_fs := (sd_fs w)(parent @ [name] := None), sd_tmp := (sd_tmp w)(se_id env := None),
       sd_data := (sd_data w)(se_id env \<mapsto> encoded (se_key env) (nd_content st)),
       sd_records := (sd_records w)(se_id env \<mapsto> Some (done_record env req st)),
       sd_audit := a, sd_head := h\<rparr>, Ok (done_record env req st))" (is "_ = (?w', _)")
    using quarantine_quiet [OF assms(1,2)] by blast
  let ?r = "done_record env req st"
  have r: "rec_state ?r = ItemQuarantined" "rec_id ?r = se_id env" "rec_format_version ?r = 1"
    "of_path (rec_original ?r) = from_path (req_path req)" "of_uid (rec_original ?r) = nd_uid st"
    "rec_key_hex ?r = hex (se_key env)" "of_sha256 (rec_original ?r) = se_sha env (nd_content st)"
    "of_mode (rec_original ?r) = nd_mode st AND 0xFFF" "of_gid (rec_original ?r) = nd_gid st"
    by (simp_all add: done_record_def pending_record_def)
  have path: "split_checked (req_path req) = Ok (parent, name)" "sd_faults w = []"
    using assms(2) by (simp_all add: quarantinable_def)
  have rec: "get_record (se_id env) ?w' = Ok ?r" by (simp add: get_record_def r)
  have ok: "restorable env (se_id env) parent name (of_uid (rec_original ?r)) ?w'"
    using assms(3) q r(5) by simp
  obtain r' where inner: "restore_inner env (se_id env) None ?w' =
    (?w'\<lparr>sd_fs := (sd_fs ?w')(parent @ [name] \<mapsto> restored_node env (rec_original ?r) (nd_content st)),
       sd_data := (sd_data ?w')(se_id env := None), sd_records := (sd_records ?w')(se_id env \<mapsto> Some r')\<rparr>,
     Ok (parent @ [name]))" (is "_ = (?v, _)")
    using restore_quiet [OF rec r(1) _ path(1) ok _ env_okD(5,1) [OF assms(1)] _ r(7)]
    by (auto simp: r native_path_from_path unhex_hex)
  obtain a' h' where item: "restore_item env (se_id env) None ?w' =
      (?v\<lparr>sd_audit := a', sd_head := h'\<rparr>, Ok (parent @ [name]))"
    using restore_item_quiet [OF inner assms(1)] path(2) by auto
  have mask: "(m AND 0xFFF) AND 0x1FF = m AND (0x1FF :: u32)" for m
    by (simp add: and.assoc)
  let ?n = "restored_node env (rec_original ?r) (nd_content st)"
  have n: "nd_content ?n = nd_content st" "nd_mode ?n = nd_mode st AND 0x1FF"
    "se_euid env = 0 \<longrightarrow> nd_uid ?n = nd_uid st \<and> nd_gid ?n = nd_gid st"
    by (simp_all add: restored_node_def fresh_node_def r mask)
  have fs: "sd_fs (?v\<lparr>sd_audit := a', sd_head := h'\<rparr>) = (sd_fs w)(parent @ [name] \<mapsto> ?n)" by simp
  from q item fs n show ?thesis
    by (intro exI [of _ ?w'] exI [of _ "?v\<lparr>sd_audit := a', sd_head := h'\<rparr>"] exI [of _ ?r] exI [of _ ?n]) simp
qed

lemma sample_quarantinable:
  "quarantinable sample_env sample_request [] ''x'' sample_dir sample_node (sample_disk [])"
proof -
  have "open_dir [[] \<mapsto> sample_dir, [''x''] \<mapsto> sample_node] [] = Ok sample_dir"
    by (simp add: open_dir_def check_dir_def sample_dir_def result_simps)
  then show ?thesis
    by (simp add: quarantinable_def sample_selectors sample_path is_protected_path_def PROTECTED_PREFIXES_def
        path_starts_with_def components_def)
      (simp add: sample_env_def sample_node_def sample_dir_def node_id_def sample_request_def)
qed

lemma sample_restorable:
  "restorable sample_env (se_id sample_env) [] ''x'' (nd_uid sample_node)
     (fst (quarantine_file sample_env sample_request (sample_disk [])))"
proof -
  let ?w = "fst (quarantine_file sample_env sample_request (sample_disk []))"
  have w: "sd_fs ?w = [[] \<mapsto> sample_dir]" "sd_faults ?w = []"
    using quarantine_quiet [OF sample_env_ok sample_quarantinable] by (auto simp: sample_selectors)
  have "open_dir [[] \<mapsto> sample_dir] [] = Ok sample_dir"
    by (simp add: open_dir_def check_dir_def sample_dir_def result_simps)
  then show ?thesis
    by (simp add: restorable_def w sample_selectors tmp_restore_name_def)
      (simp add: sample_env_def sample_node_def sample_dir_def node_id_def)
qed

theorem quarantine_restore_round_trip_witness:
  "\<exists>w' w'' r n. quarantine_file sample_env sample_request (sample_disk []) = (w', Ok r) \<and>
    restore_item sample_env (se_id sample_env) None w' = (w'', Ok ([] @ [''x''])) \<and>
    sd_fs w'' ([] @ [''x'']) = Some n \<and> nd_content n = [1, 2, 3]"
proof -
  have content: "nd_content sample_node = [1, 2, 3]" by (simp add: sample_node_def)
  obtain w' w'' r n where "quarantine_file sample_env sample_request (sample_disk []) = (w', Ok r)"
    "restore_item sample_env (se_id sample_env) None w' = (w'', Ok ([] @ [''x'']))"
    "sd_fs w'' = (sd_fs (sample_disk []))([] @ [''x''] \<mapsto> n)" "nd_content n = nd_content sample_node"
    using quarantine_restore_round_trip [OF sample_env_ok sample_quarantinable sample_restorable] by blast
  then show ?thesis using content by (intro exI [of _ w'] exI [of _ w''] exI [of _ r] exI [of _ n]) simp
qed

text \<open>C28: Restoring an item never overwrites or removes a file: whatever fails, every file that
  existed before is there unchanged afterwards.\<close>

theorem restore_overwrites_nothing:
  "sd_fs w \<subseteq>\<^sub>m sd_fs (fst (restore_item env i dest w))"
  using audited_kept [OF restore_inner_kept] by (auto simp: restore_item_def files_kept_def map_le_def dom_def)


section \<open>The encoding\<close>

text \<open>The encoded copy decodes to the original with its digest, however reading splits the file
  when it is encoded and when it is decoded; the limit bounds what was copied.\<close>

theorem encoding_round_trip:
  assumes "encode_chunks key limit 0 pieces = Some (out, n)" and "\<forall>bs. concat (se_chunks env bs) = bs"
  shows "decode_file env i key (Some (DATA_MAGIC @ out)) = Ok (se_sha env (concat pieces), concat pieces) \<and>
    n = length (concat pieces) \<and> n \<le> limit"
proof -
  have "out = xor_in_place (concat pieces) key 0" "n = length (concat pieces)" "n \<le> limit"
    using assms(1) by (auto simp: encode_chunks_eq split: if_splits)
  then show ?thesis
    using decode_encoded [OF assms(2), of i key "concat pieces"] by (simp add: encoded_def)
qed

theorem encoding_round_trip_witness:
  "decode_file sample_env (QuarantineId ''a'') [5] (Some (DATA_MAGIC @ [4, 7, 6])) =
     Ok (se_sha sample_env [1, 2, 3], [1, 2, 3])"
proof -
  have "encode_chunks [5] 10 0 [[1], [2, 3]] = Some ([4, 7, 6], 3)"
    by (simp add: xor_in_place_def)
  from encoding_round_trip [OF this, of sample_env "QuarantineId ''a''"] show ?thesis
    by (simp add: env_okD [OF sample_env_ok])
qed

section \<open>The allow-list and the audit log\<close>

datatype allow_op = Allow digest string "quarantine_id option" "string option" | Disallow digest

definition allow_step :: "store_env \<Rightarrow> store_disk \<Rightarrow> allow_op \<Rightarrow> store_disk" where
  "allow_step env w op =
     (case op of
        Allow sha reason item name \<Rightarrow> fst (allow_hash env sha reason item name w)
      | Disallow sha \<Rightarrow> fst (disallow_hash env sha w))"

lemma allow_steps_ok: "allow_ok w \<Longrightarrow> allow_ok (foldl (allow_step env) w ops)"
proof (induction ops arbitrary: w)
  case (Cons op ops)
  have "allow_ok (allow_step env w op)"
    using hoare_fst [OF allow_hash_ok [OF Cons.prems]] hoare_fst [OF disallow_hash_ok [OF Cons.prems]]
    by (cases op) (simp_all add: allow_step_def)
  with Cons.IH show ?case by simp
qed simp

text \<open>Over any sequence of allowing and disallowing digests, with failures anywhere, the
  allow-list holds each digest at most once and at most 10000 of them.\<close>

theorem allowlist_bounded:
  "allow_ok (foldl (allow_step env) (w\<lparr>sd_allow := None\<rparr>) ops)"
  by (rule allow_steps_ok) (simp add: allow_ok_def)

text \<open>C30: An audit entry that was written but not flushed breaks the log: the store keeps the old
  head, the next entry takes the same number, and the log then no longer verifies, so that the
  store refuses to open.\<close>

theorem unsynced_entry_breaks_log:
  assumes "sd_faults w = [NoFault, IoFault]" and "verify_chain (se_sha env) (se_parse env) (sd_audit w) = Ok (sd_head w)"
    and "numbered_entry = (\<lambda>a i p s oc. (event_entry env a i p s oc)
        \<lparr>ent_seq := ch_seq (sd_head w) + 1, ent_prev := ch_hash (sd_head w)\<rparr>)"
    and "se_to_json env (numbered_entry a i p s oc) = Some l1" and "10 \<notin> set l1"
    and "se_to_json env (numbered_entry a2 i2 p2 s2 oc2) = Some l2" and "10 \<notin> set l2"
    and "se_parse env l2 = Some (numbered_entry a2 i2 p2 s2 oc2)"
  shows "\<exists>v v2. audit_event env a i p s oc w = (v, Err (RIo ''I/O error'')) \<and>
    audit_event env a2 i2 p2 s2 oc2 v = (v2, Ok ()) \<and>
    \<not> is_ok (verify_chain (se_sha env) (se_parse env) (sd_audit v2)) \<and>
    \<not> is_ok (snd (open_store env locked audit_node v2))"
proof -
  define v where "v = w\<lparr>sd_audit := sd_audit w @ l1 @ [10], sd_faults := []\<rparr>"
  have v: "audit_event env a i p s oc w = (v, Err (RIo ''I/O error''))"
    using audit_event_unsynced [OF assms(1)] assms(3,4) by (metis prod.exhaust_sel v_def)
  obtain v2 where v2: "audit_event env a2 i2 p2 s2 oc2 v = (v2, Ok ())"
    using assms(3,6) by (simp add: audit_event_def encode_entry_def Let_def result_simps v_def)
  have "sd_audit v2 = sd_audit w @ l1 @ [10] @ l2 @ [10]"
    using audit_event_appends [of v env a2 i2 p2 s2 oc2 l2] assms(3,6) v2 by (simp add: v_def)
  then have broken: "\<not> is_ok (verify_chain (se_sha env) (se_parse env) (sd_audit v2))"
    using same_head_twice [OF assms(2,5,7,8)] assms(3) by simp
  then have "\<not> is_ok (snd (open_store env locked audit_node v2))"
    by (cases "open_private_dir env (se_root env) v2"; cases "open_private_dir env (se_root env @ [''items'']) v2";
        cases "check_private audit_node (se_euid env)"; cases "verify_chain (se_sha env) (se_parse env) (sd_audit v2)")
      (simp_all add: open_store_def)
  with v v2 broken show ?thesis by blast
qed

definition sample_log_env :: store_env where
  "sample_log_env = sample_env\<lparr>se_parse := (\<lambda>_. Some ((event_entry sample_env ''delete'' None None None (Ok None))
     \<lparr>ent_seq := 1, ent_prev := GENESIS\<rparr>))\<rparr>"

lemma sample_log_entry: "event_entry sample_log_env a i p s oc = event_entry sample_env a i p s oc"
  by (simp add: event_entry_def sample_log_env_def)

theorem unsynced_entry_breaks_log_witness:
  "\<exists>v v2. audit_event sample_log_env ''delete'' None None None (Ok None) (sample_disk [NoFault, IoFault]) =
      (v, Err (RIo ''I/O error'')) \<and>
    audit_event sample_log_env ''delete'' None None None (Ok None) v = (v2, Ok ()) \<and>
    \<not> is_ok (verify_chain (se_sha sample_log_env) (se_parse sample_log_env) (sd_audit v2)) \<and>
    \<not> is_ok (snd (open_store sample_log_env False sample_dir v2))"
  by (rule unsynced_entry_breaks_log [OF _ _ refl, where ?l1.0 = "[7]" and ?l2.0 = "[7]"])
    (simp_all add: sample_selectors verify_empty sample_log_entry,
     simp_all add: sample_log_env_def sample_env_def genesis_simps)

end
