(* ===== verification/Engine_Archive.thy ===== *)
theory Engine_Archive
  imports Core_Config
begin

text \<open>
  \<open>crates/engine/src/archive.rs\<close>: expanding ZIP archives in memory within limits. The \<open>zip\<close> crate
  is a parameter: what an archive opens to, and what reading each entry gives. The clock and the
  cancellation flag answer each check in turn.
\<close>

section \<open>Archives as the library shows them\<close>

definition zip_magics :: "bytes list" where
  "zip_magics = [[0x50, 0x4B, 3, 4], [0x50, 0x4B, 5, 6], [0x50, 0x4B, 7, 8]]"

definition looks_like_zip :: "bytes \<Rightarrow> bool" where
  "looks_like_zip data \<longleftrightarrow> list_ex (\<lambda>m. prefix m data) zip_magics"

definition may_contain_zip :: "bytes \<Rightarrow> bool" where
  "may_contain_zip data \<longleftrightarrow> looks_like_zip data \<or> prefix [0x4D, 0x5A] data"

text \<open>One call of \<open>read\<close>: some bytes (none at the end), an interrupted call or an error.\<close>

datatype read_piece = Piece bytes | ReadInterrupted | ReadFailed string

datatype open_failure = UnsupportedMember | UnreadableMember string

record raw_entry =
  re_name :: string
  re_raw_name :: bytes
  re_encrypted :: bool
  re_is_dir :: bool
  re_is_symlink :: bool

record zip_entry =
  ze_raw :: "string + raw_entry"
  ze_read :: "open_failure + read_piece list"

datatype archive_event =
    EvMember "observed_path list" digest nat "bytes option"
  | EvSkipped "observed_path list" skip_reason
  | EvError "observed_path list" string

datatype stop = StopCancelled | StopDeadline

text \<open>The limits of an expansion with what it takes from its surroundings; \<open>xe_max_member\<close> is the
  scan's \<open>max_file_size\<close>.\<close>

record expand_env =
  xe_limits :: archive_limits
  xe_max_member :: u64
  xe_sha :: "bytes \<Rightarrow> digest"
  xe_open :: "bytes \<Rightarrow> string + zip_entry list"

record expander =
  ex_budget :: nat
  ex_reported :: bool
  ex_ticks :: "stop option list"
  ex_events :: "archive_event list"

type_synonym expansion = "expander \<times> (stop + unit)"

definition new_expander :: "expand_env \<Rightarrow> stop option list \<Rightarrow> expander" where
  "new_expander env ticks =
     \<lparr>ex_budget = unat (al_max_total_bytes (xe_limits env)), ex_reported = False, ex_ticks = ticks, ex_events = []\<rparr>"

definition visit :: "archive_event \<Rightarrow> expander \<Rightarrow> expander" where
  "visit ev x = x\<lparr>ex_events := ex_events x @ [ev]\<rparr>"

definition tick :: "expander \<Rightarrow> expansion" where
  "tick x =
     (case ex_ticks x of
        [] \<Rightarrow> (x, Ok ())
      | t # ts \<Rightarrow> (x\<lparr>ex_ticks := ts\<rparr>, case t of None \<Rightarrow> Ok () | Some s \<Rightarrow> Err s))"

definition member_name :: "raw_entry \<Rightarrow> observed_path" where
  "member_name e =
     \<lparr>path_text = re_name e,
      raw_hex = (if from_utf8 (re_raw_name e) = None then Some (hex_encode (re_raw_name e)) else None)\<rparr>"

section \<open>Members\<close>

text \<open>The reading loop: \<open>data\<close> was read and hashed so far, \<open>keep\<close> tells whether it is still kept.
  \<open>None\<close> means that the member was reported and is done with.\<close>

fun read_member ::
  "expand_env \<Rightarrow> observed_path list \<Rightarrow> read_piece list \<Rightarrow> bytes \<Rightarrow> bool \<Rightarrow> expander \<Rightarrow>
     expander \<times> (stop + (bytes \<times> bool) option)" where
  "read_member env chain [] data keep x = st_then (tick x) (\<lambda>x _. (x, Ok (Some (data, keep))))"
| "read_member env chain (p # ps) data keep x =
     st_then (tick x) (\<lambda>x _.
     case p of
       ReadInterrupted \<Rightarrow> read_member env chain ps data keep x
     | ReadFailed e \<Rightarrow>
         ((visit (EvError chain (''corrupt member: '' @ e)) x)\<lparr>ex_budget := ex_budget x - length data\<rparr>, Ok None)
     | Piece b \<Rightarrow>
         if b = [] then (x, Ok (Some (data, keep)))
         else if ex_budget x < length data + length b
         then (visit (EvSkipped chain ArchiveLimitReached) (x\<lparr>ex_budget := 0, ex_reported := True\<rparr>), Ok None)
         else if unat (xe_max_member env) < length data + length b
         then (visit (EvSkipped chain ExceedsMaxFileSize)
                 (x\<lparr>ex_budget := ex_budget x - (length data + length b)\<rparr>), Ok None)
         else read_member env chain ps (data @ b)
                (keep \<and> length data + length b \<le> unat (al_max_member_content (xe_limits env))) x)"

definition expand_member ::
  "(observed_path list \<Rightarrow> bytes \<Rightarrow> expander \<Rightarrow> expansion) \<Rightarrow> expand_env \<Rightarrow> observed_path list \<Rightarrow>
     zip_entry \<Rightarrow> expander \<Rightarrow> expansion" where
  "expand_member nested env chain e x =
     (case ze_read e of
        Err UnsupportedMember \<Rightarrow> (visit (EvSkipped chain ArchiveMemberUnsupported) x, Ok ())
      | Err (UnreadableMember m) \<Rightarrow> (visit (EvError chain (''unreadable member: '' @ m)) x, Ok ())
      | Ok pieces \<Rightarrow>
          st_then (read_member env chain pieces [] True x) (\<lambda>x r.
          case r of
            None \<Rightarrow> (x, Ok ())
          | Some (data, keep) \<Rightarrow>
              let x = visit (EvMember chain (xe_sha env data) (length data) (if keep then Some data else None))
                        (x\<lparr>ex_budget := ex_budget x - length data\<rparr>)
              in if keep \<and> looks_like_zip data then nested chain data x else (x, Ok ())))"

section \<open>Archives\<close>

fun expand_entries ::
  "(observed_path list \<Rightarrow> bytes \<Rightarrow> expander \<Rightarrow> expansion) \<Rightarrow> expand_env \<Rightarrow> observed_path list \<Rightarrow>
     nat \<Rightarrow> zip_entry list \<Rightarrow> expander \<Rightarrow> expansion" where
  "expand_entries nested env chain i [] x = (x, Ok ())"
| "expand_entries nested env chain i (e # es) x =
     st_then (tick x) (\<lambda>x _.
     if ex_budget x = 0
     then (if ex_reported x then x
           else visit (EvSkipped chain ArchiveLimitReached) (x\<lparr>ex_reported := True\<rparr>), Ok ())
     else case ze_raw e of
       Err m \<Rightarrow>
         expand_entries nested env chain (Suc i) es
           (visit (EvError chain (''unreadable entry #'' @ show_nat i @ '': '' @ m)) x)
     | Ok raw \<Rightarrow>
         if re_is_dir raw then expand_entries nested env chain (Suc i) es x
         else
           let chain' = chain @ [member_name raw]
           in st_then
                (if re_encrypted raw then (visit (EvSkipped chain' ArchiveMemberEncrypted) x, Ok ())
                 else if re_is_symlink raw then (visit (EvSkipped chain' ArchiveMemberUnsupported) x, Ok ())
                 else expand_member nested env chain' e x)
                (\<lambda>x _. expand_entries nested env chain (Suc i) es x))"

definition expand_with ::
  "(observed_path list \<Rightarrow> bytes \<Rightarrow> expander \<Rightarrow> expansion) \<Rightarrow> expand_env \<Rightarrow> observed_path list \<Rightarrow>
     bool \<Rightarrow> bytes \<Rightarrow> expander \<Rightarrow> expansion" where
  "expand_with nested env chain strict data x =
     (case xe_open env data of
        Err e \<Rightarrow> (if strict then visit (EvError chain (''not a readable ZIP archive: '' @ e)) x else x, Ok ())
      | Ok es \<Rightarrow>
          let limit = unat (al_max_entries (xe_limits env));
              x = (if limit < length es then visit (EvSkipped chain ArchiveLimitReached) x else x)
          in expand_entries nested env chain 0 (take limit es) x)"

text \<open>\<open>expand k\<close> is the method at a depth that is \<open>k\<close> below the largest allowed: its archives may
  be nested \<open>k\<close> levels further.\<close>

primrec expand ::
  "nat \<Rightarrow> expand_env \<Rightarrow> observed_path list \<Rightarrow> bool \<Rightarrow> bytes \<Rightarrow> expander \<Rightarrow> expansion" where
  "expand 0 = (\<lambda>env. expand_with (\<lambda>chain data x. (visit (EvSkipped chain ArchiveLimitReached) x, Ok ())) env)"
| "expand (Suc k) = (\<lambda>env. expand_with (\<lambda>chain. expand k env chain True) env)"

text \<open>Members of a file on disk are at depth 1.\<close>

definition expand_file :: "expand_env \<Rightarrow> bytes \<Rightarrow> stop option list \<Rightarrow> expansion" where
  "expand_file env data ticks =
     expand (unat (al_max_depth (xe_limits env)) - 1) env [] (looks_like_zip data) data (new_expander env ticks)"

section \<open>The listing without limits\<close>

text \<open>What there is to inspect: the members of an archive and of the archives in it, \<open>k\<close> levels
  deep; only members that are kept are looked into.\<close>

fun pieces_data :: "read_piece list \<Rightarrow> bytes option" where
  "pieces_data [] = Some []"
| "pieces_data (ReadInterrupted # ps) = pieces_data ps"
| "pieces_data (ReadFailed e # ps) = None"
| "pieces_data (Piece b # ps) = (if b = [] then Some [] else map_option ((@) b) (pieces_data ps))"

definition list_entry ::
  "(observed_path list \<Rightarrow> bytes \<Rightarrow> archive_event list) \<Rightarrow> expand_env \<Rightarrow> observed_path list \<Rightarrow>
     zip_entry \<Rightarrow> archive_event list" where
  "list_entry nested env chain e =
     (case ze_raw e of
        Err _ \<Rightarrow> []
      | Ok raw \<Rightarrow>
          if re_is_dir raw then []
          else case ze_read e of
            Err _ \<Rightarrow> []
          | Ok ps \<Rightarrow> (case pieces_data ps of
                None \<Rightarrow> []
              | Some d \<Rightarrow>
                  let keep = (length d \<le> unat (al_max_member_content (xe_limits env)));
                      chain' = chain @ [member_name raw]
                  in EvMember chain' (xe_sha env d) (length d) (if keep then Some d else None) #
                     (if keep \<and> looks_like_zip d then nested chain' d else [])))"

primrec listing :: "nat \<Rightarrow> expand_env \<Rightarrow> observed_path list \<Rightarrow> bytes \<Rightarrow> archive_event list" where
  "listing 0 = (\<lambda>env chain data. case xe_open env data of
     Err _ \<Rightarrow> [] | Ok es \<Rightarrow> concat (map (list_entry (\<lambda>_ _. []) env chain) es))"
| "listing (Suc k) = (\<lambda>env chain data. case xe_open env data of
     Err _ \<Rightarrow> [] | Ok es \<Rightarrow> concat (map (list_entry (listing k env) env chain) es))"

end
