(* ===== verification/Engine_Read.thy ===== *)
theory Engine_Read
  imports Engine_Archive
begin

text \<open>
  \<open>crates/engine/src/fsio.rs\<close> (on Linux): opening a file without following links, and the loop
  that reads it once, hashes it and keeps its content if it is small enough. The system calls
  are parameters; a read is a list of pieces as in \<open>Engine_Archive\<close>. The cap of the reader at one
  byte more than the largest size is left out: the loop returns at the first byte beyond that
  size.
\<close>

section \<open>Opening\<close>

datatype os_error = OsLoop | OsMlink | OsNoSys | OsPerm | OsEscape | OsOther io_kind

datatype file_kind = RegularFile | SymlinkFile | DirectoryFile | OtherFile

record file_handle =
  fh_kind :: file_kind
  fh_len :: nat
  fh_id :: "u64 \<times> u64"
  fh_modified :: "instant option"
  fh_mode :: u32
  fh_pieces :: "(os_error + read_piece) list"

type_synonym open_result = "os_error + file_handle"

text \<open>The calls: \<open>openat2\<close> refusing links, \<open>openat\<close> with or without \<open>O_NOFOLLOW\<close>, and opening
  relative to the root; the last argument of each tells whether \<open>O_NOATIME\<close> is given.\<close>

record os_calls =
  os_openat2 :: "string \<Rightarrow> bool \<Rightarrow> open_result"
  os_openat :: "string \<Rightarrow> bool \<Rightarrow> bool \<Rightarrow> open_result"
  os_beneath :: "string list \<Rightarrow> bool \<Rightarrow> open_result"
  os_text :: "os_error \<Rightarrow> string"

definition open_beneath :: "os_calls \<Rightarrow> string \<Rightarrow> string \<Rightarrow> bool \<Rightarrow> open_result" where
  "open_beneath os base path noatime =
     (if path_starts_with path base
      then os_beneath os (drop (length (components base)) (components path)) noatime
      else Err (OsOther OtherKind))"

definition open_flags ::
  "os_calls \<Rightarrow> symlink_policy \<Rightarrow> string option \<Rightarrow> string \<Rightarrow> bool \<Rightarrow> open_result" where
  "open_flags os policy base path noatime =
     (case policy of
        SymSkip \<Rightarrow>
          (case os_openat2 os path noatime of
             Err OsNoSys \<Rightarrow>
               (case base of
                  Some b \<Rightarrow> open_beneath os b path noatime
                | None \<Rightarrow> os_openat os path True noatime)
           | r \<Rightarrow> r)
      | SymFollow \<Rightarrow> os_openat os path False noatime)"

definition open_for_scan :: "os_calls \<Rightarrow> symlink_policy \<Rightarrow> string option \<Rightarrow> string \<Rightarrow> open_result" where
  "open_for_scan os policy base path =
     (case open_flags os policy base path True of
        Err OsPerm \<Rightarrow> open_flags os policy base path False
      | r \<Rightarrow> r)"

definition is_symlink_refusal :: "os_error \<Rightarrow> bool" where
  "is_symlink_refusal e \<longleftrightarrow> e = OsLoop \<or> e = OsMlink"

definition is_escape_refusal :: "os_error \<Rightarrow> bool" where
  "is_escape_refusal e \<longleftrightarrow> e = OsEscape"

section \<open>Reading\<close>

record hashed_file =
  hf_sha256 :: digest
  hf_metadata :: file_metadata

datatype hash_file_error =
    HashSkipped skip_reason
  | HashCancelled
  | HashTimedOut nat
  | HashIo os_error

record read_options =
  ro_policy :: symlink_policy
  ro_max_size :: u64
  ro_content_limit :: "u64 option"
  ro_deadline :: bool
  ro_tracks_seen :: bool
  ro_base :: "string option"
  ro_keep_only_archives :: bool

record read_outcome =
  ou_hashed :: hashed_file
  ou_content :: "bytes option"
  ou_zip_magic :: bool

text \<open>What a worker's reads share: the checks of the flag and the clock to come, and the files seen.\<close>

record read_state =
  rs_ticks :: "stop option list"
  rs_seen :: "(u64 \<times> u64) set"

text \<open>One check: cancellation always, the deadline if there is one.\<close>

definition read_tick :: "bool \<Rightarrow> nat \<Rightarrow> read_state \<Rightarrow> read_state \<times> (hash_file_error + unit)" where
  "read_tick deadline n s =
     (case rs_ticks s of
        [] \<Rightarrow> (s, Ok ())
      | t # ts \<Rightarrow>
          (s\<lparr>rs_ticks := ts\<rparr>,
           case t of
             None \<Rightarrow> Ok ()
           | Some StopCancelled \<Rightarrow> Err HashCancelled
           | Some StopDeadline \<Rightarrow> if deadline then Err (HashTimedOut n) else Ok ()))"

text \<open>The loop; \<open>data\<close> was read so far. The result is all that was read, whether it was kept, and
  whether the first bytes were a ZIP signature.\<close>

fun read_loop ::
  "read_options \<Rightarrow> u64 option \<Rightarrow> (os_error + read_piece) list \<Rightarrow> bytes \<Rightarrow> bool \<Rightarrow> bool \<Rightarrow> read_state \<Rightarrow>
     read_state \<times> (hash_file_error + (bytes \<times> bool \<times> bool))" where
  "read_loop opts limit [] data keep magic s =
     st_then (read_tick (ro_deadline opts) (length data) s) (\<lambda>s _. (s, Ok (data, keep, magic)))"
| "read_loop opts limit (p # ps) data keep magic s =
     st_then (read_tick (ro_deadline opts) (length data) s) (\<lambda>s _.
     case p of
       Err e \<Rightarrow> (s, Err (HashIo e))
     | Ok ReadInterrupted \<Rightarrow> read_loop opts limit ps data keep magic s
     | Ok (ReadFailed _) \<Rightarrow> (s, Err (HashIo (OsOther OtherKind)))
     | Ok (Piece b) \<Rightarrow>
         if b = [] then (s, Ok (data, keep, magic))
         else
           let magic = (if data = [] then looks_like_zip b else magic);
               keep = (if data = [] \<and> ro_keep_only_archives opts \<and> \<not> may_contain_zip b then False else keep);
               data = data @ b
           in if unat (ro_max_size opts) < length data then (s, Err (HashSkipped ExceedsMaxFileSize))
              else read_loop opts limit ps data
                     (keep \<and> (case limit of None \<Rightarrow> True | Some l \<Rightarrow> length data \<le> unat l)) magic s)"

definition read_file ::
  "os_calls \<Rightarrow> (bytes \<Rightarrow> digest) \<Rightarrow> read_options \<Rightarrow> string \<Rightarrow> read_state \<Rightarrow>
     read_state \<times> (hash_file_error + read_outcome)" where
  "read_file os sha opts path s =
     (case open_for_scan os (ro_policy opts) (ro_base opts) path of
        Err e \<Rightarrow>
          (s, Err (if is_symlink_refusal e \<or> is_escape_refusal e then HashSkipped SymlinkNotFollowed else HashIo e))
      | Ok h \<Rightarrow>
          if fh_kind h = SymlinkFile then (s, Err (HashSkipped SymlinkNotFollowed))
          else if fh_kind h \<noteq> RegularFile then (s, Err (HashSkipped NotRegularFile))
          else if unat (ro_max_size opts) < fh_len h then (s, Err (HashSkipped ExceedsMaxFileSize))
          else if ro_tracks_seen opts \<and> fh_id h \<in> rs_seen s then (s, Err (HashSkipped DuplicateFile))
          else
            let s = (if ro_tracks_seen opts then s\<lparr>rs_seen := insert (fh_id h) (rs_seen s)\<rparr> else s);
                limit = (case ro_content_limit opts of
                    None \<Rightarrow> None | Some l \<Rightarrow> if fh_len h \<le> unat l then Some l else None)
            in st_then (read_loop opts limit (fh_pieces h) [] (limit \<noteq> None) False s) (\<lambda>s (data, keep, magic).
               (s, Ok \<lparr>ou_hashed = \<lparr>hf_sha256 = sha data,
                         hf_metadata = \<lparr>meta_size = of_nat (length data), meta_modified = fh_modified h,
                           meta_unix_mode = Some (fh_mode h AND 0xFFF)\<rparr>\<rparr>,
                       ou_content = (if keep then Some data else None), ou_zip_magic = magic\<rparr>)))"

text \<open>\<open>hash_file\<close>: no content, no deadline, no tracking.\<close>

definition hash_file ::
  "os_calls \<Rightarrow> (bytes \<Rightarrow> digest) \<Rightarrow> symlink_policy \<Rightarrow> u64 \<Rightarrow> string \<Rightarrow> read_state \<Rightarrow>
     read_state \<times> (hash_file_error + hashed_file)" where
  "hash_file os sha policy max_size path s =
     st_then (read_file os sha
         \<lparr>ro_policy = policy, ro_max_size = max_size, ro_content_limit = None, ro_deadline = False,
          ro_tracks_seen = False, ro_base = None, ro_keep_only_archives = False\<rparr> path s)
       (\<lambda>s r. (s, Ok (ou_hashed r)))"

section \<open>What is read\<close>

fun file_data :: "(os_error + read_piece) list \<Rightarrow> bytes option" where
  "file_data [] = Some []"
| "file_data (p # ps) =
     (case p of
        Err _ \<Rightarrow> None
      | Ok ReadInterrupted \<Rightarrow> file_data ps
      | Ok (ReadFailed _) \<Rightarrow> None
      | Ok (Piece b) \<Rightarrow> if b = [] then Some [] else map_option ((@) b) (file_data ps))"

lemma read_tick_seen [simp]: "rs_seen (fst (read_tick d n s)) = rs_seen s"
  by (simp add: read_tick_def split: list.splits)

lemma read_loop_Ok:
  assumes "read_loop opts limit ps data keep magic s = (s', Ok (d, k, z))" and "length data \<le> unat (ro_max_size opts)"
    and "keep \<Longrightarrow> limit \<noteq> None \<and> length data \<le> unat (the limit)"
  shows "rs_seen s' = rs_seen s \<and> length d \<le> unat (ro_max_size opts) \<and>
    (\<exists>e. file_data ps = Some e \<and> d = data @ e) \<and> (k \<longrightarrow> limit \<noteq> None \<and> length d \<le> unat (the limit))"
  using assms
proof (induction opts limit ps data keep magic s rule: read_loop.induct)
  case (1 opts limit data keep magic s)
  obtain t r where t: "read_tick (ro_deadline opts) (length data) s = (t, r)" by fastforce
  show ?case using 1 t read_tick_seen [of "ro_deadline opts" "length data" s] by (cases r) auto
next
  case (2 opts limit p ps data keep magic s)
  obtain t r where t: "read_tick (ro_deadline opts) (length data) s = (t, r)" by fastforce
  have seen: "rs_seen t = rs_seen s" using read_tick_seen [of "ro_deadline opts" "length data" s] t by simp
  have r: "r = Ok ()" using 2(3) t by (cases r) auto
  show ?case
  proof (cases p)
    case (Inl e)
    with 2(3) t r show ?thesis by simp
  next
    case (Inr q)
    show ?thesis
    proof (cases q)
      case ReadInterrupted
      have "read_loop opts limit ps data keep magic t = (s', Ok (d, k, z))"
        using 2(3) by (simp add: t r Inr ReadInterrupted)
      from "2.IH"(2) [OF Inr ReadInterrupted this 2(4,5)] seen show ?thesis by (simp add: Inr ReadInterrupted)
    next
      case (ReadFailed e)
      with 2(3) show ?thesis by (simp add: t r Inr)
    next
      case (Piece b)
      show ?thesis
      proof (cases "b = []")
        case True
        with 2(3-5) seen show ?thesis by (auto simp: t r Inr Piece)
      next
        case False
        define m where "m = (if data = [] then looks_like_zip b else magic)"
        define k0 where "k0 = (if data = [] \<and> ro_keep_only_archives opts \<and> \<not> may_contain_zip b then False else keep)"
        define k1 where "k1 = (k0 \<and> (case limit of None \<Rightarrow> True | Some l \<Rightarrow> length (data @ b) \<le> unat l))"
        have run: "(if unat (ro_max_size opts) < length (data @ b) then (t, Err (HashSkipped ExceedsMaxFileSize))
            else read_loop opts limit ps (data @ b) k1 m t) = (s', Ok (d, k, z))"
          using 2(3) False
          unfolding m_def k0_def k1_def read_loop.simps t r Inr Piece st_then_simps sum.case read_piece.case Let_def
          by (simp split del: if_split)
        then have fits: "length (data @ b) \<le> unat (ro_max_size opts)"
          and rec: "read_loop opts limit ps (data @ b) k1 m t = (s', Ok (d, k, z))" by (auto split: if_splits)
        have k1: "limit \<noteq> None \<and> length (data @ b) \<le> unat (the limit)" if k1
          using that 2(5) by (auto simp: k1_def k0_def split: option.splits if_splits)
        have notlong: "\<not> unat (ro_max_size opts) < length (data @ b)" using fits by simp
        from "2.IH"(1) [OF Inr Piece False m_def k0_def refl notlong, folded k1_def, OF rec fits k1]
        obtain e where e: "rs_seen s' = rs_seen t" "length d \<le> unat (ro_max_size opts)" "file_data ps = Some e"
          "d = (data @ b) @ e" "k \<longrightarrow> limit \<noteq> None \<and> length d \<le> unat (the limit)" by blast
        then show ?thesis using False seen by (simp add: Inr Piece)
      qed
    qed
  qed
qed

end
