(* ===== verification/Engine_Files.thy ===== *)
theory Engine_Files
  imports Engine_Read
begin

text \<open>
  What a worker of \<open>crates/engine/src/scanner.rs\<close> does with one file: read it, run every detector
  on it, expand it if it may be an archive and run every detector on each member. Detectors are
  parameters with a state per worker; the checks of the clock and of the flag are answered by
  lists. The members of an archive are found first and evaluated then: each has its own checks,
  so that the order makes no difference.
\<close>

section \<open>Detectors\<close>

datatype inspection = Found "finding list" | InspectFailed string | InspectPanicked

record 'w detector =
  dt_info :: detector_info
  dt_needs_content :: bool
  dt_fresh :: 'w
  dt_inspect :: "'w \<Rightarrow> file_observation \<Rightarrow> 'w \<times> inspection"

record file_result =
  fr_findings :: "finding list"
  fr_issues :: "scan_issue list"
  fr_skips :: "(skip_reason \<times> observed_path list option) list"
  fr_members :: u64

definition empty_file_result :: file_result where
  "empty_file_result = \<lparr>fr_findings = [], fr_issues = [], fr_skips = [], fr_members = 0\<rparr>"

text \<open>A worker's detector states, its checks to come and its result so far.\<close>

record 'w worker_state =
  ws_detectors :: "'w list"
  ws_ticks :: "stop option list"
  ws_out :: file_result

definition worker_tick :: "'w worker_state \<Rightarrow> stop option \<times> 'w worker_state" where
  "worker_tick s =
     (case ws_ticks s of [] \<Rightarrow> (None, s) | t # ts \<Rightarrow> (t, s\<lparr>ws_ticks := ts\<rparr>))"

definition add_findings :: "finding list \<Rightarrow> 'w worker_state \<Rightarrow> 'w worker_state" where
  "add_findings fs s = s\<lparr>ws_out := (ws_out s)\<lparr>fr_findings := fr_findings (ws_out s) @ fs\<rparr>\<rparr>"

definition add_issue :: "scan_issue \<Rightarrow> 'w worker_state \<Rightarrow> 'w worker_state" where
  "add_issue i s = s\<lparr>ws_out := (ws_out s)\<lparr>fr_issues := fr_issues (ws_out s) @ [i]\<rparr>\<rparr>"

definition add_skip ::
  "skip_reason \<Rightarrow> observed_path list option \<Rightarrow> 'w worker_state \<Rightarrow> 'w worker_state" where
  "add_skip r m s = s\<lparr>ws_out := (ws_out s)\<lparr>fr_skips := fr_skips (ws_out s) @ [(r, m)]\<rparr>\<rparr>"

definition show_ms :: "scan_limits \<Rightarrow> string" where
  "show_ms l = show_nat (unat (sl_file_timeout_ms l))"

definition timeout_issue ::
  "scan_limits \<Rightarrow> file_observation \<Rightarrow> 'w detector list \<Rightarrow> scan_issue" where
  "timeout_issue l obs rest =
     \<lparr>si_path = Some (from_path (obs_path obs)), si_kind = IssueTimeout, si_detector = None,
      si_message = ''the '' @ show_ms l @ '' ms per-file limit was reached; detectors not run: '' @
        join_with '', '' (map (\<lambda>d. di_id (dt_info d)) rest),
      si_member = obs_member obs\<rparr>"

definition failed_issue :: "file_observation \<Rightarrow> 'w detector \<Rightarrow> string \<Rightarrow> scan_issue" where
  "failed_issue obs d m =
     \<lparr>si_path = Some (from_path (obs_path obs)), si_kind = DetectorFailed,
      si_detector = Some (di_id (dt_info d)), si_message = m, si_member = obs_member obs\<rparr>"

text \<open>The loop over the detectors from number \<open>i\<close>; the result tells whether content was missing,
  an error that the scan was cancelled.\<close>

fun run_from ::
  "scan_limits \<Rightarrow> file_observation \<Rightarrow> 'w detector list \<Rightarrow> nat \<Rightarrow> bool \<Rightarrow> 'w worker_state \<Rightarrow>
     'w worker_state \<times> (unit + bool)" where
  "run_from l obs [] i skipped s = (s, Ok skipped)"
| "run_from l obs (d # ds) i skipped s =
     (case worker_tick s of
        (Some StopCancelled, s) \<Rightarrow> (s, Err ())
      | (Some StopDeadline, s) \<Rightarrow> (add_issue (timeout_issue l obs (d # ds)) s, Ok skipped)
      | (None, s) \<Rightarrow>
          if dt_needs_content d \<and> obs_content obs = None then run_from l obs ds (Suc i) True s
          else
            let (w, res) = dt_inspect d (ws_detectors s ! i) obs;
                s = s\<lparr>ws_detectors := (ws_detectors s)[i := (if res = InspectPanicked then dt_fresh d else w)]\<rparr>
            in run_from l obs ds (Suc i) skipped
                 (case res of
                    Found fs \<Rightarrow> add_findings fs s
                  | InspectFailed m \<Rightarrow> add_issue (failed_issue obs d m) s
                  | InspectPanicked \<Rightarrow>
                      add_issue (failed_issue obs d ''detector panicked; its results for this file are missing'') s))"

definition run_detectors ::
  "scan_limits \<Rightarrow> 'w detector list \<Rightarrow> file_observation \<Rightarrow> 'w worker_state \<Rightarrow> 'w worker_state \<times> (unit + unit)" where
  "run_detectors l ds obs s =
     st_then (run_from l obs ds 0 False s) (\<lambda>s skipped.
     (if skipped then add_skip ContentNotInspected (obs_member obs) s else s, Ok ()))"

section \<open>Archives\<close>

text \<open>The environment of a worker: the limits, the detectors, what opens files and archives, the
  deadline of the file, and whether the archive parser panics after some events.\<close>

record 'w file_env =
  fe_config :: scan_config
  fe_detectors :: "'w detector list"
  fe_os :: os_calls
  fe_sha :: "bytes \<Rightarrow> digest"
  fe_zip :: "bytes \<Rightarrow> string + zip_entry list"
  fe_deadline :: instant
  fe_archive_ticks :: "stop option list"
  fe_panic :: "nat option"

definition wants_content :: "'w file_env \<Rightarrow> bool" where
  "wants_content env \<longleftrightarrow> list_ex dt_needs_content (fe_detectors env)"

definition member_observation ::
  "'w file_env \<Rightarrow> string \<Rightarrow> observed_path list \<Rightarrow> digest \<Rightarrow> nat \<Rightarrow> bytes option \<Rightarrow> file_observation" where
  "member_observation env path chain sha n content =
     \<lparr>obs_path = path, obs_sha256 = sha,
      obs_metadata = \<lparr>meta_size = of_nat n, meta_modified = None, meta_unix_mode = None\<rparr>,
      obs_content = (if wants_content env then content else None), obs_deadline = fe_deadline env,
      obs_member = Some chain\<rparr>"

definition some_chain :: "observed_path list \<Rightarrow> observed_path list option" where
  "some_chain chain = (if chain = [] then None else Some chain)"

definition archive_issue :: "string \<Rightarrow> issue_kind \<Rightarrow> observed_path list option \<Rightarrow> string \<Rightarrow> scan_issue" where
  "archive_issue path kind member m =
     \<lparr>si_path = Some (from_path path), si_kind = kind, si_detector = None, si_message = m, si_member = member\<rparr>"

text \<open>The closure that receives the events; the flag is its \<open>cancelled\<close>.\<close>

definition on_event ::
  "'w file_env \<Rightarrow> string \<Rightarrow> 'w worker_state \<times> bool \<Rightarrow> archive_event \<Rightarrow> 'w worker_state \<times> bool" where
  "on_event env path sc ev =
     (case sc of (s, cancelled) \<Rightarrow>
      case ev of
        EvMember chain sha n content \<Rightarrow>
          (case run_detectors (sc_limits (fe_config env)) (fe_detectors env)
                  (member_observation env path chain sha n content)
                  (s\<lparr>ws_out := (ws_out s)\<lparr>fr_members := fr_members (ws_out s) + 1\<rparr>\<rparr>) of
             (s, Err _) \<Rightarrow> (s, True)
           | (s, Ok _) \<Rightarrow> (s, cancelled))
      | EvSkipped chain reason \<Rightarrow> (add_skip reason (some_chain chain) s, cancelled)
      | EvError chain m \<Rightarrow> (add_issue (archive_issue path ArchiveError (some_chain chain) m) s, cancelled))"

definition expand_env_of :: "'w file_env \<Rightarrow> expand_env" where
  "expand_env_of env =
     \<lparr>xe_limits = sl_archives (sc_limits (fe_config env)), xe_max_member = sl_max_file_size (sc_limits (fe_config env)),
      xe_sha = fe_sha env, xe_open = fe_zip env\<rparr>"

definition expand_archive ::
  "'w file_env \<Rightarrow> string \<Rightarrow> bytes \<Rightarrow> 'w worker_state \<Rightarrow> 'w worker_state \<times> (unit + unit)" where
  "expand_archive env path bytes s =
     (let (x, result) = expand_file (expand_env_of env) bytes (fe_archive_ticks env);
          events = (case fe_panic env of None \<Rightarrow> ex_events x | Some n \<Rightarrow> take n (ex_events x));
          (s, cancelled) = foldl (on_event env path) (s, False) events;
          s = (case fe_panic env of
                 Some _ \<Rightarrow> add_issue (archive_issue path ArchiveError None
                   ''the archive parser panicked; remaining members were not inspected'') s
               | None \<Rightarrow>
                   if result = Err StopDeadline
                   then add_issue (archive_issue path IssueTimeout None
                     (''archive expansion stopped at the '' @ show_ms (sc_limits (fe_config env)) @
                      '' ms per-file limit; remaining members were not inspected'')) s
                   else s)
      in if fe_panic env = None \<and> result = Err StopCancelled \<or> cancelled then (s, Err ()) else (s, Ok ()))"

section \<open>One file\<close>

datatype who = Walker | Worker nat

datatype scan_msg =
    MsgDirectory
  | MsgScanned string u64 file_result
  | MsgSkipped string skip_reason
  | MsgIssue scan_issue
  | MsgExited who bool

definition os_kind :: "os_error \<Rightarrow> issue_kind" where
  "os_kind e =
     (case e of
        OsPerm \<Rightarrow> PermissionDenied
      | OsEscape \<Rightarrow> PermissionDenied
      | OsOther PermissionDeniedKind \<Rightarrow> PermissionDenied
      | OsOther NotFoundKind \<Rightarrow> IssueNotFound
      | _ \<Rightarrow> IssueIo)"

definition io_issue :: "os_calls \<Rightarrow> string option \<Rightarrow> os_error \<Rightarrow> scan_issue" where
  "io_issue os path e =
     \<lparr>si_path = map_option from_path path, si_kind = os_kind e, si_detector = None, si_message = os_text os e,
      si_member = None\<rparr>"

definition read_options_of :: "'w file_env \<Rightarrow> string option \<Rightarrow> read_options" where
  "read_options_of env base =
     (let l = sc_limits (fe_config env)
      in \<lparr>ro_policy = sc_symlink_policy (fe_config env), ro_max_size = sl_max_file_size l,
          ro_content_limit = (if wants_content env \<or> al_enabled (sl_archives l) then Some (sl_max_content_size l) else None),
          ro_deadline = True, ro_tracks_seen = (sc_symlink_policy (fe_config env) = SymFollow), ro_base = base,
          ro_keep_only_archives = (al_enabled (sl_archives l) \<and> \<not> wants_content env)\<rparr>)"

definition file_observation_of :: "'w file_env \<Rightarrow> string \<Rightarrow> read_outcome \<Rightarrow> file_observation" where
  "file_observation_of env path r =
     \<lparr>obs_path = path, obs_sha256 = hf_sha256 (ou_hashed r), obs_metadata = hf_metadata (ou_hashed r),
      obs_content = (if wants_content env then ou_content r else None), obs_deadline = fe_deadline env,
      obs_member = None\<rparr>"

text \<open>\<open>process_file\<close>: \<open>None\<close> if the scan was cancelled meanwhile.\<close>

definition process_file ::
  "'w file_env \<Rightarrow> string option \<Rightarrow> string \<Rightarrow> read_state \<Rightarrow> 'w worker_state \<Rightarrow>
     read_state \<times> 'w worker_state \<times> scan_msg option" where
  "process_file env base path rs s =
     (let l = sc_limits (fe_config env); s = s\<lparr>ws_out := empty_file_result\<rparr>
      in case read_file (fe_os env) (fe_sha env) (read_options_of env base) path rs of
           (rs, Err HashCancelled) \<Rightarrow> (rs, s, None)
         | (rs, Err (HashSkipped reason)) \<Rightarrow> (rs, s, Some (MsgSkipped path reason))
         | (rs, Err (HashIo e)) \<Rightarrow> (rs, s, Some (MsgIssue (io_issue (fe_os env) (Some path) e)))
         | (rs, Err (HashTimedOut n)) \<Rightarrow>
             (rs, s, Some (MsgIssue (archive_issue path IssueTimeout None
               (''time limit exceeded after reading '' @ show_nat n @ '' bytes; the '' @ show_ms l @
                '' ms per-file limit was reached, so the file was not evaluated''))))
         | (rs, Ok r) \<Rightarrow>
             (case run_detectors l (fe_detectors env) (file_observation_of env path r) s of
                (s, Err _) \<Rightarrow> (rs, s, None)
              | (s, Ok _) \<Rightarrow>
                  let (s, result) =
                    (if \<not> al_enabled (sl_archives l) then (s, Ok ())
                     else case ou_content r of
                         Some bytes \<Rightarrow> if may_contain_zip bytes then expand_archive env path bytes s else (s, Ok ())
                       | None \<Rightarrow> (if ou_zip_magic r then add_skip ArchiveTooLarge None s else s, Ok ()))
                  in (rs, s,
                      if result = Ok () then Some (MsgScanned path (meta_size (hf_metadata (ou_hashed r))) (ws_out s))
                      else None)))"

end
