(* ===== verification/Engine_Scan.thy ===== *)
theory Engine_Scan
  imports Engine_Files "HOL-Library.List_Lexorder" "HOL-Library.Char_ord" "HOL-Library.Product_Lexorder"
    "HOL-Library.Option_ord"
begin

text \<open>
  The rest of \<open>crates/engine/src/scanner.rs\<close>: the scan roots, the walk, the aggregation of results
  and the coordinator with its watchdog. What the operating system, the clock and the threads do
  comes in as lists of answers.
\<close>

section \<open>Targets\<close>

record scan_targets =
  tg_roots :: "string list"
  tg_excludes :: "string list"
  tg_issues :: "scan_issue list"

text \<open>The roots are sorted by components; one below a root that was kept is dropped.\<close>

definition drop_nested :: "string list \<Rightarrow> string list" where
  "drop_nested rs =
     foldl (\<lambda>kept r. if list_ex (path_starts_with r) kept then kept else kept @ [r]) [] (sort_key components rs)"

definition resolve_targets ::
  "os_calls \<Rightarrow> (string \<Rightarrow> os_error + string) \<Rightarrow> (string \<Rightarrow> string option) \<Rightarrow> scan_config \<Rightarrow> scan_targets" where
  "resolve_targets os canonicalize absolute config =
     (let results = map (\<lambda>r. (r, canonicalize r)) (sc_roots config);
          resolved = concat (map (\<lambda>(r, x). case x of Ok p \<Rightarrow> [p] | Err _ \<Rightarrow> []) results);
          issues = concat (map (\<lambda>(r, x). case x of Ok _ \<Rightarrow> [] | Err e \<Rightarrow> [io_issue os (Some r) e]) results)
      in \<lparr>tg_roots = drop_nested resolved,
          tg_excludes = map (\<lambda>p. case canonicalize p of
              Ok q \<Rightarrow> q
            | Err _ \<Rightarrow> (case absolute p of Some q \<Rightarrow> q | None \<Rightarrow> p)) (sc_excludes config),
          tg_issues = issues\<rparr>)"

section \<open>The walk\<close>

text \<open>What \<open>WalkDir\<close> yields: entries and errors with their depth, parents before what is in them.
  Skipping the current directory drops what follows at a greater depth.\<close>

record walk_entry =
  we_path :: string
  we_kind :: file_kind
  we_depth :: nat

record walk_failure =
  wf_path :: "string option"
  wf_loop :: bool
  wf_io :: "os_error option"
  wf_text :: string
  wf_depth :: nat

type_synonym walk_item = "walk_failure + walk_entry"

definition item_depth :: "walk_item \<Rightarrow> nat" where
  "item_depth i = (case i of Err f \<Rightarrow> wf_depth f | Ok e \<Rightarrow> we_depth e)"

definition walk_issue :: "os_calls \<Rightarrow> walk_failure \<Rightarrow> scan_issue" where
  "walk_issue os f =
     (let plain = (\<lambda>kind. \<lparr>si_path = map_option from_path (wf_path f), si_kind = kind, si_detector = None,
            si_message = wf_text f, si_member = None\<rparr>)
      in if wf_loop f then plain FilesystemLoop
         else case wf_io f of Some e \<Rightarrow> io_issue os (wf_path f) e | None \<Rightarrow> plain IssueIo)"

text \<open>Before each entry the stop signal is looked at (\<open>wk_stops\<close>); the queue takes a file or the scan
  stops (\<open>wk_takes\<close>); a message is received or the coordinator is gone (\<open>wk_sends\<close>).\<close>

record walker =
  wk_stops :: "bool list"
  wk_takes :: "bool list"
  wk_sends :: "bool list"
  wk_queue :: "(nat \<times> string) list"
  wk_msgs :: "scan_msg list"

definition answer :: "bool \<Rightarrow> bool list \<Rightarrow> bool \<times> bool list" where
  "answer d bs = (case bs of [] \<Rightarrow> (d, []) | b # bs \<Rightarrow> (b, bs))"

definition wk_stopped :: "walker \<Rightarrow> bool \<times> walker" where
  "wk_stopped w = (case answer False (wk_stops w) of (b, bs) \<Rightarrow> (b, w\<lparr>wk_stops := bs\<rparr>))"

definition enqueue :: "nat \<times> string \<Rightarrow> walker \<Rightarrow> bool \<times> walker" where
  "enqueue item w =
     (case answer True (wk_takes w) of
        (b, bs) \<Rightarrow> (b, w\<lparr>wk_takes := bs, wk_queue := (if b then wk_queue w @ [item] else wk_queue w)\<rparr>))"

definition send :: "scan_msg \<Rightarrow> walker \<Rightarrow> bool \<times> walker" where
  "send m w =
     (case answer True (wk_sends w) of
        (b, bs) \<Rightarrow> (b, w\<lparr>wk_sends := bs, wk_msgs := (if b then wk_msgs w @ [m] else wk_msgs w)\<rparr>))"

definition is_excluded :: "scan_targets \<Rightarrow> walk_entry \<Rightarrow> bool" where
  "is_excluded t e \<longleftrightarrow> list_ex (path_starts_with (we_path e)) (tg_excludes t)"

text \<open>The loop over the entries of the root number \<open>i\<close>; \<open>False\<close> means that the walk ended early.\<close>

function walk_items ::
  "os_calls \<Rightarrow> nat \<Rightarrow> scan_targets \<Rightarrow> nat \<Rightarrow> walk_item list \<Rightarrow> walker \<Rightarrow> bool \<times> walker" where
  "walk_items os max_depth t i [] w = (case wk_stopped w of (stop, w) \<Rightarrow> (\<not> stop, w))"
| "walk_items os max_depth t i (x # xs) w =
     (case wk_stopped w of
        (True, w) \<Rightarrow> (False, w)
      | (False, w) \<Rightarrow>
          let emit = (\<lambda>m rest w. case send m w of (False, w) \<Rightarrow> (False, w) | (True, w) \<Rightarrow> rest w)
          in case x of
            Err f \<Rightarrow> emit (MsgIssue (walk_issue os f)) (walk_items os max_depth t i xs) w
          | Ok e \<Rightarrow>
              if is_excluded t e
              then emit (MsgSkipped (we_path e) Excluded)
                     (walk_items os max_depth t i
                       (if we_kind e = DirectoryFile then dropWhile (\<lambda>y. we_depth e < item_depth y) xs else xs)) w
              else case we_kind e of
                RegularFile \<Rightarrow>
                  (case enqueue (i, we_path e) w of
                     (False, w) \<Rightarrow> (False, w)
                   | (True, w) \<Rightarrow> walk_items os max_depth t i xs w)
              | DirectoryFile \<Rightarrow>
                  emit MsgDirectory
                    (\<lambda>w. if we_depth e < max_depth then walk_items os max_depth t i xs w
                      else emit (MsgSkipped (we_path e) DepthLimitReached) (walk_items os max_depth t i xs) w) w
              | SymlinkFile \<Rightarrow> emit (MsgSkipped (we_path e) SymlinkNotFollowed) (walk_items os max_depth t i xs) w
              | OtherFile \<Rightarrow> emit (MsgSkipped (we_path e) NotRegularFile) (walk_items os max_depth t i xs) w)"
  by pat_completeness auto
termination
  by (relation "measure (\<lambda>(_, _, _, _, xs, _). length xs)") (auto simp: le_imp_less_Suc length_dropWhile_le)

fun walk_roots ::
  "os_calls \<Rightarrow> nat \<Rightarrow> scan_targets \<Rightarrow> nat \<Rightarrow> walk_item list list \<Rightarrow> walker \<Rightarrow> bool \<times> walker" where
  "walk_roots os max_depth t i [] w = (True, w)"
| "walk_roots os max_depth t i (xs # xss) w =
     (case walk_items os max_depth t i xs w of
        (False, w) \<Rightarrow> (False, w)
      | (True, w) \<Rightarrow> walk_roots os max_depth t (Suc i) xss w)"

section \<open>Aggregation\<close>

datatype progress_event =
    PrFileScanned string u64
  | PrFinding finding
  | PrSkipped string skip_reason
  | PrIssue scan_issue

record aggregator =
  ag_stats :: scan_stats
  ag_findings :: "finding list"
  ag_skipped :: "skipped_entry list"
  ag_issues :: "scan_issue list"
  ag_truncated :: truncation
  ag_max_entries :: nat
  ag_max_findings :: nat
  ag_progress :: "(progress_event \<times> scan_stats) list"

definition new_aggregator :: "scan_config \<Rightarrow> aggregator" where
  "new_aggregator c =
     \<lparr>ag_stats = default_stats, ag_findings = [], ag_skipped = [], ag_issues = [], ag_truncated = default_truncation,
      ag_max_entries = sl_max_recorded_entries (sc_limits c), ag_max_findings = sl_max_recorded_findings (sc_limits c),
      ag_progress = []\<rparr>"

definition on_progress :: "progress_event \<Rightarrow> aggregator \<Rightarrow> aggregator" where
  "on_progress e a = a\<lparr>ag_progress := ag_progress a @ [(e, ag_stats a)]\<rparr>"

definition ag_skip :: "string \<Rightarrow> skip_reason \<times> observed_path list option \<Rightarrow> aggregator \<Rightarrow> aggregator" where
  "ag_skip path rm a =
     (let (reason, member) = rm; st = ag_stats a;
          count = (case st_skipped_by_reason st reason of None \<Rightarrow> 0 | Some n \<Rightarrow> n);
          a = on_progress (PrSkipped path reason)
                (a\<lparr>ag_stats := st\<lparr>st_entries_skipped := st_entries_skipped st + 1,
                   st_skipped_by_reason := (st_skipped_by_reason st)(reason \<mapsto> count + 1)\<rparr>\<rparr>)
      in if length (ag_skipped a) < ag_max_entries a
         then a\<lparr>ag_skipped := ag_skipped a @ [\<lparr>sk_path = from_path path, sk_reason = reason, sk_member = member\<rparr>]\<rparr>
         else a\<lparr>ag_truncated := (ag_truncated a)\<lparr>tr_skipped_omitted := tr_skipped_omitted (ag_truncated a) + 1\<rparr>\<rparr>)"

definition ag_finding :: "finding \<Rightarrow> aggregator \<Rightarrow> aggregator" where
  "ag_finding f a =
     (let a = on_progress (PrFinding f)
            (a\<lparr>ag_stats := (ag_stats a)\<lparr>st_findings := st_findings (ag_stats a) + 1\<rparr>\<rparr>)
      in if length (ag_findings a) < ag_max_findings a then a\<lparr>ag_findings := ag_findings a @ [f]\<rparr>
         else a\<lparr>ag_truncated := (ag_truncated a)\<lparr>tr_findings_omitted := tr_findings_omitted (ag_truncated a) + 1\<rparr>\<rparr>)"

definition ag_issue :: "scan_issue \<Rightarrow> aggregator \<Rightarrow> aggregator" where
  "ag_issue i a =
     (let a = on_progress (PrIssue i)
            (a\<lparr>ag_stats := (ag_stats a)\<lparr>st_issues := st_issues (ag_stats a) + 1\<rparr>\<rparr>)
      in if length (ag_issues a) < ag_max_entries a then a\<lparr>ag_issues := ag_issues a @ [i]\<rparr>
         else a\<lparr>ag_truncated := (ag_truncated a)\<lparr>tr_issues_omitted := tr_issues_omitted (ag_truncated a) + 1\<rparr>\<rparr>)"

definition ag_handle :: "scan_msg \<Rightarrow> aggregator \<Rightarrow> aggregator" where
  "ag_handle msg a =
     (case msg of
        MsgDirectory \<Rightarrow>
          a\<lparr>ag_stats := (ag_stats a)\<lparr>st_directories_visited := st_directories_visited (ag_stats a) + 1\<rparr>\<rparr>
      | MsgScanned path bytes r \<Rightarrow>
          let st = ag_stats a;
              a = on_progress (PrFileScanned path bytes)
                (a\<lparr>ag_stats := st\<lparr>st_files_scanned := st_files_scanned st + 1, st_bytes_scanned := st_bytes_scanned st + bytes,
                    st_archive_members_scanned := st_archive_members_scanned st + fr_members r\<rparr>\<rparr>);
              a = foldl (\<lambda>a f. ag_finding f a) a (fr_findings r);
              a = foldl (\<lambda>a i. ag_issue i a) a (fr_issues r)
          in foldl (\<lambda>a rm. ag_skip path rm a) a (fr_skips r)
      | MsgSkipped path reason \<Rightarrow> ag_skip path (reason, None) a
      | MsgIssue i \<Rightarrow> ag_issue i a
      | MsgExited _ _ \<Rightarrow> a)"

section \<open>The report\<close>

datatype stop_reason = ScanStopped | ScanTimeLimit | TooManyStalls

definition path_key :: "observed_path \<Rightarrow> string \<times> string option" where
  "path_key p = (path_text p, raw_hex p)"

definition finding_key ::
  "finding \<Rightarrow> (string \<times> string option) option \<times> string \<times> string option" where
  "finding_key f = (map_option path_key (target_path (f_target f)), f_name f, src_rule_id (f_source f))"

definition report_warnings ::
  "scan_config \<Rightarrow> detector_info list \<Rightarrow> stop_reason option \<Rightarrow> nat \<Rightarrow> aggregator \<Rightarrow> string list" where
  "report_warnings c infos stop_reason abandoned a =
     (let unsigned_dbs = concat (map (\<lambda>d. case di_database d of
            None \<Rightarrow> [] | Some db \<Rightarrow> if dbi_signer db = None then [dbi_name db] else []) infos)
      in (if infos = []
          then [''No detectors were configured: files were enumerated and hashed but not evaluated for threats. The absence of findings means nothing.'']
          else []) @
         (if unsigned_dbs \<noteq> []
          then [''Detection content was loaded without signature verification: '' @ join_with '', '' unsigned_dbs @
                ''. Its authenticity is unknown.'']
          else []) @
         (case stop_reason of
            None \<Rightarrow> []
          | Some ScanStopped \<Rightarrow> [''The scan was cancelled; results are partial.'']
          | Some ScanTimeLimit \<Rightarrow>
              [''The scan time limit ('' @
               show_nat ((case sl_scan_timeout_ms (sc_limits c) of None \<Rightarrow> 0 | Some ms \<Rightarrow> unat ms) div 1000) @
               '' s) was reached; results are partial.'']
          | Some TooManyStalls \<Rightarrow>
              [''Too many files stalled past their time limit, so the scan was stopped; results are partial.'']) @
         (if 0 < abandoned
          then [show_nat abandoned @ '' file(s) stalled and were abandoned (see timeout issues). Their threads may stay blocked in the background until the process exits.'']
          else []) @
         (if 0 < st_issues (ag_stats a)
          then [show_nat (unat (st_issues (ag_stats a))) @ '' entries could not be fully scanned; coverage is incomplete (see issues).'']
          else []) @
         (if truncation_any (ag_truncated a)
          then [''Recording limits were reached: some entries are counted in stats but not listed.'']
          else []) @
         (if sc_symlink_policy c = SymFollow
          then [''Symbolic links were followed; scanned files may lie outside the scan roots.'']
          else []))"

text \<open>What is not computed: the engine's version, the identifier of the scan and the times.\<close>

record report_facts =
  rf_version :: string
  rf_scan_id :: string
  rf_started :: instant
  rf_finished :: instant

definition ag_finish ::
  "scan_config \<Rightarrow> detector_info list \<Rightarrow> scan_targets \<Rightarrow> report_facts \<Rightarrow> scan_status \<Rightarrow> stop_reason option \<Rightarrow>
     nat \<Rightarrow> aggregator \<Rightarrow> scan_report" where
  "ag_finish c infos t facts status stop_reason abandoned a =
     \<lparr>rp_schema_version = 1, rp_scan_id = rf_scan_id facts,
      rp_engine = \<lparr>ei_name = ''abyssal-warden-engine'', ei_version = rf_version facts\<rparr>, rp_status = status,
      rp_started_at = rf_started facts, rp_finished_at = rf_finished facts,
      rp_settings =
        \<lparr>ss_roots = map from_path (tg_roots t), ss_excludes = map from_path (tg_excludes t),
         ss_symlink_policy = sc_symlink_policy c, ss_same_file_system = sc_same_file_system c,
         ss_max_file_size = sl_max_file_size (sc_limits c), ss_max_depth = sl_max_depth (sc_limits c),
         ss_workers = sc_workers c, ss_max_content_size = sl_max_content_size (sc_limits c),
         ss_file_timeout_ms = sl_file_timeout_ms (sc_limits c), ss_scan_timeout_ms = sl_scan_timeout_ms (sc_limits c),
         ss_archives = sl_archives (sc_limits c)\<rparr>,
      rp_detectors = infos, rp_stats = ag_stats a, rp_findings = sort_key finding_key (ag_findings a),
      rp_skipped = sort_key (\<lambda>s. path_key (sk_path s)) (ag_skipped a),
      rp_issues = sort_key (\<lambda>i. map_option path_key (si_path i)) (ag_issues a), rp_truncated = ag_truncated a,
      rp_content_bundles = [], rp_warnings = report_warnings c infos stop_reason abandoned a\<rparr>"

section \<open>The coordinator\<close>

text \<open>One round of its loop: the message received, if any, what the flag and the clock say, which
  workers the watchdog finds stalled and on which file, and whether a new thread can be started.\<close>

record scan_round =
  sr_msg :: "scan_msg option"
  sr_cancelled :: bool
  sr_past_deadline :: bool
  sr_stalled :: "nat \<Rightarrow> string option"
  sr_spawns :: bool

record coordinator =
  co_agg :: aggregator
  co_live :: "bool list"
  co_walker_done :: bool
  co_panicked :: bool
  co_abandoned :: nat
  co_stop :: "stop_reason option"

definition co_receive :: "scan_msg option \<Rightarrow> coordinator \<Rightarrow> coordinator" where
  "co_receive m c =
     (case m of
        None \<Rightarrow> c
      | Some (MsgExited who p) \<Rightarrow>
          (let c = c\<lparr>co_panicked := co_panicked c \<or> p\<rparr>
           in case who of
                Walker \<Rightarrow> c\<lparr>co_walker_done := True\<rparr>
              | Worker i \<Rightarrow> c\<lparr>co_live := (co_live c)[i := False]\<rparr>)
      | Some msg \<Rightarrow> c\<lparr>co_agg := ag_handle msg (co_agg c)\<rparr>)"

definition co_check_stop :: "scan_round \<Rightarrow> coordinator \<Rightarrow> coordinator" where
  "co_check_stop r c =
     (if co_stop c \<noteq> None then c
      else if sr_cancelled r then c\<lparr>co_stop := Some ScanStopped\<rparr>
      else if sr_past_deadline r then c\<lparr>co_stop := Some ScanTimeLimit\<rparr>
      else c)"

definition stall_issue :: "scan_config \<Rightarrow> string \<Rightarrow> scan_issue" where
  "stall_issue cfg path =
     \<lparr>si_path = Some (from_path path), si_kind = IssueTimeout, si_detector = None,
      si_message = ''no result 2s after the '' @ show_ms (sc_limits cfg) @
        '' ms per-file limit; the file was abandoned (a read may be blocked on a hung filesystem, or a detector ignored its deadline)'',
      si_member = None\<rparr>"

definition co_watch :: "scan_config \<Rightarrow> scan_round \<Rightarrow> coordinator \<Rightarrow> nat \<Rightarrow> coordinator" where
  "co_watch cfg r c i =
     (if \<not> co_live c ! i then c
      else case sr_stalled r i of
        None \<Rightarrow> c
      | Some path \<Rightarrow>
          let c = c\<lparr>co_live := (co_live c)[i := False], co_abandoned := co_abandoned c + 1,
                    co_agg := ag_issue (stall_issue cfg path) (co_agg c)\<rparr>
          in if co_abandoned c \<le> sc_workers cfg \<and> co_stop c = None \<and> sr_spawns r
             then c\<lparr>co_live := co_live c @ [True]\<rparr> else c)"

definition co_round :: "scan_config \<Rightarrow> scan_round \<Rightarrow> coordinator \<Rightarrow> coordinator" where
  "co_round cfg r c =
     (let c = co_check_stop r (co_receive (sr_msg r) c);
          c = foldl (co_watch cfg r) c [0..<length (co_live c)]
      in if co_stop c = None \<and> True \<notin> set (co_live c) \<and> \<not> co_walker_done c
         then c\<lparr>co_stop := Some TooManyStalls\<rparr> else c)"

text \<open>The loop over the rounds to come; \<open>None\<close> if they are used up before it ends.\<close>

fun coordinate :: "scan_config \<Rightarrow> scan_round list \<Rightarrow> coordinator \<Rightarrow> coordinator option" where
  "coordinate cfg rs c =
     (if co_walker_done c \<and> True \<notin> set (co_live c) then Some c
      else case rs of [] \<Rightarrow> None | r # rs \<Rightarrow> coordinate cfg rs (co_round cfg r c))"

datatype scan_error = ScanConfigInvalid config_error | ThreadSpawn | ThreadPanicked

definition new_scanner :: "scan_config \<Rightarrow> scan_error + scan_config" where
  "new_scanner c = map_err ScanConfigInvalid (and_then (validate_config c) (\<lambda>_. Ok c))"

text \<open>What a scan meets: whether it is cancelled before it starts, how many workers and whether the
  walker could be started, the rounds, how many files were put on the queue and taken from it when
  the loop ended, and whether joining a thread shows a panic.\<close>

record scan_run =
  run_cancelled :: bool
  run_workers :: nat
  run_walker :: bool
  run_rounds :: "scan_round list"
  run_enqueued :: nat
  run_dequeued :: nat
  run_join_panicked :: bool

definition unscanned_issue :: "nat \<Rightarrow> scan_issue" where
  "unscanned_issue n =
     \<lparr>si_path = None, si_kind = IssueTimeout, si_detector = None,
      si_message = show_nat n @ '' queued file(s) were not scanned because every worker stalled'', si_member = None\<rparr>"

definition start_scan :: "scan_config \<Rightarrow> scan_targets \<Rightarrow> scan_run \<Rightarrow> coordinator" where
  "start_scan cfg t run =
     \<lparr>co_agg = foldl (\<lambda>a i. ag_issue i a) (new_aggregator cfg) (tg_issues t),
      co_live = replicate (run_workers run) True, co_walker_done = (\<not> run_walker run), co_panicked = False,
      co_abandoned = 0, co_stop = (if run_cancelled run then Some ScanStopped else None)\<rparr>"

definition check_unscanned :: "scan_run \<Rightarrow> coordinator \<Rightarrow> coordinator" where
  "check_unscanned run c =
     (let n = run_enqueued run - run_dequeued run
      in if 0 < n \<and> co_stop c = None
         then c\<lparr>co_stop := Some TooManyStalls, co_agg := ag_issue (unscanned_issue n) (co_agg c)\<rparr> else c)"

definition status_of :: "stop_reason option \<Rightarrow> scan_status" where
  "status_of s =
     (case s of None \<Rightarrow> ScanCompleted | Some ScanStopped \<Rightarrow> ScanCancelled | Some _ \<Rightarrow> TimeLimitReached)"

definition scan ::
  "scan_config \<Rightarrow> detector_info list \<Rightarrow> scan_targets \<Rightarrow> report_facts \<Rightarrow> scan_run \<Rightarrow> (scan_error + scan_report) option" where
  "scan cfg infos t facts run =
     (case coordinate cfg (run_rounds run) (start_scan cfg t run) of
        None \<Rightarrow> None
      | Some c \<Rightarrow>
          let c = check_unscanned run c
          in Some (if run_workers run < sc_workers cfg \<or> \<not> run_walker run then Err ThreadSpawn
                   else if co_panicked c \<or> run_join_panicked run then Err ThreadPanicked
                   else Ok (ag_finish cfg infos t facts (status_of (co_stop c)) (co_stop c) (co_abandoned c) (co_agg c))))"

end
