(* ===== verification/Engine_Scan_Props.thy ===== *)
theory Engine_Scan_Props
  imports Engine_Scan
begin

text \<open>
  Lemmas about a scan: the roots cover what was asked for without overlap, the walk queues exactly
  the files outside the excludes, the report's numbers add up, and what a complete report means.
\<close>

section \<open>Roots\<close>

lemma path_starts_with_trans:
  "path_starts_with p q \<Longrightarrow> path_starts_with q r \<Longrightarrow> path_starts_with p r"
  by (auto simp: path_starts_with_def intro: prefix_order.trans)

lemma drop_nested_foldl:
  fixes rs ks :: "string list"
  defines "step \<equiv> (\<lambda>kept r. if list_ex (path_starts_with r) kept then kept else kept @ [r])"
  assumes "sorted_wrt (\<lambda>a b. components a \<le> components b) (ks @ rs)"
    and "sorted_wrt (\<lambda>a b. \<not> path_starts_with b a) ks" and "\<forall>r \<in> set (ks @ rs). prefix ''/'' r"
  shows "set ks \<subseteq> set (foldl step ks rs)" and "set (foldl step ks rs) \<subseteq> set (ks @ rs)"
    and "\<forall>r \<in> set rs. \<exists>k \<in> set (foldl step ks rs). path_starts_with r k"
    and "sorted_wrt (\<lambda>a b. components a \<le> components b) (foldl step ks rs)"
    and "sorted_wrt (\<lambda>a b. \<not> path_starts_with b a) (foldl step ks rs)"
proof -
  have "set ks \<subseteq> set (foldl step ks rs) \<and> set (foldl step ks rs) \<subseteq> set (ks @ rs) \<and>
    (\<forall>r \<in> set rs. \<exists>k \<in> set (foldl step ks rs). path_starts_with r k) \<and>
    sorted_wrt (\<lambda>a b. components a \<le> components b) (foldl step ks rs) \<and>
    sorted_wrt (\<lambda>a b. \<not> path_starts_with b a) (foldl step ks rs)"
    using assms(2-4)
  proof (induction rs arbitrary: ks)
    case Nil
    then show ?case by simp
  next
    case (Cons r rs)
    show ?case
    proof (cases "list_ex (path_starts_with r) ks")
      case True
      then have step: "step ks r = ks" by (simp add: step_def)
      from Cons.prems have "sorted_wrt (\<lambda>a b. components a \<le> components b) (ks @ rs)"
        by (simp add: sorted_wrt_append)
      from Cons.IH [OF this Cons.prems(2)] Cons.prems(3) have ih: "set ks \<subseteq> set (foldl step ks rs)"
        "set (foldl step ks rs) \<subseteq> set (ks @ rs)" "\<forall>r \<in> set rs. \<exists>k \<in> set (foldl step ks rs). path_starts_with r k"
        "sorted_wrt (\<lambda>a b. components a \<le> components b) (foldl step ks rs)"
        "sorted_wrt (\<lambda>a b. \<not> path_starts_with b a) (foldl step ks rs)" by auto
      moreover from True ih(1) have "\<exists>k \<in> set (foldl step ks rs). path_starts_with r k"
        by (auto simp: list_ex_iff)
      ultimately show ?thesis using step by auto
    next
      case False
      then have step: "step ks r = ks @ [r]" by (simp add: step_def)
      have "sorted_wrt (\<lambda>a b. \<not> path_starts_with b a) (ks @ [r])"
        using Cons.prems(2) False by (auto simp: sorted_wrt_append list_ex_iff)
      from Cons.IH [of "ks @ [r]", OF _ this] Cons.prems have ih: "set (ks @ [r]) \<subseteq> set (foldl step (ks @ [r]) rs)"
        "set (foldl step (ks @ [r]) rs) \<subseteq> set ((ks @ [r]) @ rs)"
        "\<forall>r' \<in> set rs. \<exists>k \<in> set (foldl step (ks @ [r]) rs). path_starts_with r' k"
        "sorted_wrt (\<lambda>a b. components a \<le> components b) (foldl step (ks @ [r]) rs)"
        "sorted_wrt (\<lambda>a b. \<not> path_starts_with b a) (foldl step (ks @ [r]) rs)" by auto
      moreover have "path_starts_with r r" using Cons.prems(3) by (simp add: path_starts_with_def)
      ultimately show ?thesis using step by auto
    qed
  qed
  then show "set ks \<subseteq> set (foldl step ks rs)" "set (foldl step ks rs) \<subseteq> set (ks @ rs)"
    "\<forall>r \<in> set rs. \<exists>k \<in> set (foldl step ks rs). path_starts_with r k"
    "sorted_wrt (\<lambda>a b. components a \<le> components b) (foldl step ks rs)"
    "sorted_wrt (\<lambda>a b. \<not> path_starts_with b a) (foldl step ks rs)" by auto
qed

lemma prefix_le: "prefix a b \<Longrightarrow> a \<le> (b :: string list)"
proof (induction a arbitrary: b)
  case (Cons x a)
  then show ?case by (cases b) auto
qed simp

lemma drop_nested_props:
  assumes "\<forall>r \<in> set rs. prefix ''/'' r"
  shows "set (drop_nested rs) \<subseteq> set rs" and "\<forall>r \<in> set rs. \<exists>k \<in> set (drop_nested rs). path_starts_with r k"
    and "sorted_wrt (\<lambda>a b. \<not> path_starts_with a b \<and> \<not> path_starts_with b a) (drop_nested rs)"
proof -
  have sorted: "sorted_wrt (\<lambda>a b. components a \<le> components b) ([] @ sort_key components rs)"
    using sorted_sort_key [of components rs] by (simp add: sorted_wrt_map)
  have abs: "\<forall>r \<in> set ([] @ sort_key components rs). prefix ''/'' r" using assms by simp
  have nil: "sorted_wrt (\<lambda>a b. \<not> path_starts_with b a) []" by simp
  note p = drop_nested_foldl [OF sorted nil abs, folded drop_nested_def]
  show "set (drop_nested rs) \<subseteq> set rs" "\<forall>r \<in> set rs. \<exists>k \<in> set (drop_nested rs). path_starts_with r k"
    using p(2,3) by simp_all
  have below: "path_starts_with b a" if "components a \<le> components b" "path_starts_with a b" "prefix ''/'' b" for a b
  proof -
    have "components b \<le> components a" using that(2) by (intro prefix_le) (simp add: path_starts_with_def)
    with that show ?thesis by (simp add: path_starts_with_def)
  qed
  have "sorted_wrt (\<lambda>a b. components a \<le> components b \<and> \<not> path_starts_with b a) (drop_nested rs)"
    using p(4,5) by (simp add: sorted_wrt_iff_nth_less)
  then show "sorted_wrt (\<lambda>a b. \<not> path_starts_with a b \<and> \<not> path_starts_with b a) (drop_nested rs)"
    by (rule sorted_wrt_mono_rel [rotated]) (use below p(2) assms in auto)
qed

section \<open>The walk\<close>

text \<open>What \<open>WalkDir\<close> promises: what follows a directory at a greater depth is below it.\<close>

fun walk_law :: "walk_item list \<Rightarrow> bool" where
  "walk_law [] = True"
| "walk_law (x # xs) =
     (walk_law xs \<and>
      (case x of
         Ok e \<Rightarrow> we_kind e = DirectoryFile \<longrightarrow>
           list_all (\<lambda>y. case y of Ok f \<Rightarrow> path_starts_with (we_path f) (we_path e) | Err _ \<Rightarrow> True)
             (takeWhile (\<lambda>y. we_depth e < item_depth y) xs)
       | Err _ \<Rightarrow> True))"

definition wanted :: "scan_targets \<Rightarrow> nat \<Rightarrow> walk_item list \<Rightarrow> (nat \<times> string) list" where
  "wanted t i xs =
     concat (map (\<lambda>x. case x of
         Ok e \<Rightarrow> if we_kind e = RegularFile \<and> \<not> is_excluded t e then [(i, we_path e)] else []
       | Err _ \<Rightarrow> []) xs)"

lemma wanted_simps [simp]:
  "wanted t i [] = []" "wanted t i (xs @ ys) = wanted t i xs @ wanted t i ys" "wanted t i (Err f # xs) = wanted t i xs"
  "wanted t i (Ok e # xs) = (if we_kind e = RegularFile \<and> \<not> is_excluded t e then (i, we_path e) # wanted t i xs else wanted t i xs)"
  by (simp_all add: wanted_def)

lemma walk_law_drop: "walk_law xs \<Longrightarrow> walk_law (dropWhile P xs)"
  by (induction xs) auto

lemma wanted_excluded:
  assumes "is_excluded t e"
    and "list_all (\<lambda>y. case y of Ok f \<Rightarrow> path_starts_with (we_path f) (we_path e) | Err _ \<Rightarrow> True) xs"
  shows "wanted t i xs = []"
  using assms(2)
proof (induction xs)
  case (Cons y ys)
  show ?case
  proof (cases y)
    case (Inr f)
    with Cons.prems assms(1) have "is_excluded t f"
      by (auto simp: is_excluded_def list_ex_iff intro: path_starts_with_trans)
    with Cons Inr show ?thesis by simp
  qed (use Cons in simp)
qed simp

definition emit :: "scan_msg \<Rightarrow> (walker \<Rightarrow> bool \<times> walker) \<Rightarrow> walker \<Rightarrow> bool \<times> walker" where
  "emit m rest w = (case send m w of (False, w) \<Rightarrow> (False, w) | (True, w) \<Rightarrow> rest w)"

lemma emit_True:
  assumes "emit m rest w = (True, v)"
  shows "\<exists>u. wk_queue u = wk_queue w \<and> rest u = (True, v)"
proof -
  obtain b u where u: "send m w = (b, u)" by fastforce
  then have "wk_queue u = wk_queue w" by (auto simp: send_def split: prod.splits)
  with assms u show ?thesis by (cases b) (auto simp: emit_def)
qed

lemma wk_stopped_queue: "wk_stopped w = (b, v) \<Longrightarrow> wk_queue v = wk_queue w"
  by (auto simp: wk_stopped_def split: prod.splits)

lemma enqueue_True: "enqueue x w = (True, v) \<Longrightarrow> wk_queue v = wk_queue w @ [x]"
  by (auto simp: enqueue_def split: prod.splits)

lemma walk_items_Cons:
  "wk_stopped w = (False, u) \<Longrightarrow> walk_items os max_depth t i (x # xs) w =
     (case x of
        Err f \<Rightarrow> emit (MsgIssue (walk_issue os f)) (walk_items os max_depth t i xs) u
      | Ok e \<Rightarrow>
          if is_excluded t e
          then emit (MsgSkipped (we_path e) Excluded)
                 (walk_items os max_depth t i
                   (if we_kind e = DirectoryFile then dropWhile (\<lambda>y. we_depth e < item_depth y) xs else xs)) u
          else case we_kind e of
            RegularFile \<Rightarrow>
              (case enqueue (i, we_path e) u of
                 (False, w) \<Rightarrow> (False, w)
               | (True, w) \<Rightarrow> walk_items os max_depth t i xs w)
          | DirectoryFile \<Rightarrow>
              emit MsgDirectory
                (\<lambda>w. if we_depth e < max_depth then walk_items os max_depth t i xs w
                  else emit (MsgSkipped (we_path e) DepthLimitReached) (walk_items os max_depth t i xs) w) u
          | SymlinkFile \<Rightarrow> emit (MsgSkipped (we_path e) SymlinkNotFollowed) (walk_items os max_depth t i xs) u
          | OtherFile \<Rightarrow> emit (MsgSkipped (we_path e) NotRegularFile) (walk_items os max_depth t i xs) u)"
  unfolding walk_items.simps emit_def Let_def by simp

declare walk_items.simps(2) [simp del]

lemma walk_items_queue:
  "walk_items os max_depth t i xs w = (True, v) \<Longrightarrow> walk_law xs \<Longrightarrow> wk_queue v = wk_queue w @ wanted t i xs"
proof (induction xs arbitrary: w rule: length_induct)
  case (1 xs)
  note ih = "1.IH" [rule_format]
  show ?case
  proof (cases xs)
    case Nil
    with "1.prems" show ?thesis using wk_stopped_queue [of w] by (auto split: prod.splits)
  next
    case (Cons x ys)
    obtain b u where u: "wk_stopped w = (b, u)" by fastforce
    have b: "b = False" using "1.prems"(1) u by (cases b) (auto simp: Cons walk_items.simps(2))
    note step = walk_items_Cons [OF u [unfolded b], of os max_depth t i x ys]
    note q = wk_stopped_queue [OF u]
    have law: "walk_law ys" using "1.prems"(2) Cons by simp
    have later: "wk_queue v = wk_queue w' @ wanted t i ys" if "walk_items os max_depth t i ys w' = (True, v)" for w'
      using ih [OF _ that law] Cons by simp
    show ?thesis
    proof (cases x)
      case (Inl f)
      with "1.prems"(1) step Cons have "emit (MsgIssue (walk_issue os f)) (walk_items os max_depth t i ys) u = (True, v)"
        by simp
      from emit_True [OF this] later q Inl Cons show ?thesis by auto
    next
      case (Inr e)
      show ?thesis
      proof (cases "is_excluded t e")
        case True
        let ?rest = "if we_kind e = DirectoryFile then dropWhile (\<lambda>y. we_depth e < item_depth y) ys else ys"
        have "emit (MsgSkipped (we_path e) Excluded) (walk_items os max_depth t i ?rest) u = (True, v)"
          using "1.prems"(1) step Cons Inr True by simp
        from emit_True [OF this] obtain w' where w': "wk_queue w' = wk_queue u" "walk_items os max_depth t i ?rest w' = (True, v)"
          by blast
        have "wk_queue v = wk_queue w' @ wanted t i ?rest"
          by (rule ih [OF _ w'(2)]) (auto simp: Cons law walk_law_drop le_imp_less_Suc length_dropWhile_le)
        moreover have "wanted t i ?rest = wanted t i ys"
        proof (cases "we_kind e = DirectoryFile")
          case dir: True
          have "wanted t i (takeWhile (\<lambda>y. we_depth e < item_depth y) ys) = []"
            by (rule wanted_excluded [OF True]) (use "1.prems"(2) Cons Inr dir in simp)
          then show ?thesis
            using dir wanted_simps(2) [of t i "takeWhile (\<lambda>y. we_depth e < item_depth y) ys"
                "dropWhile (\<lambda>y. we_depth e < item_depth y) ys"] by simp
        qed simp
        ultimately show ?thesis using w'(1) q Cons Inr True by simp
      next
        case False
        show ?thesis
        proof (cases "we_kind e")
          case RegularFile
          then obtain w' where "enqueue (i, we_path e) u = (True, w')" "walk_items os max_depth t i ys w' = (True, v)"
            using "1.prems"(1) step Cons Inr False by (auto split: prod.splits bool.splits)
          with enqueue_True [of "(i, we_path e)" u w'] later q Cons Inr False RegularFile show ?thesis by simp
        next
          case SymlinkFile
          with "1.prems"(1) step Cons Inr False
          have "emit (MsgSkipped (we_path e) SymlinkNotFollowed) (walk_items os max_depth t i ys) u = (True, v)" by simp
          from emit_True [OF this] later q Cons Inr SymlinkFile show ?thesis by auto
        next
          case OtherFile
          with "1.prems"(1) step Cons Inr False
          have "emit (MsgSkipped (we_path e) NotRegularFile) (walk_items os max_depth t i ys) u = (True, v)" by simp
          from emit_True [OF this] later q Cons Inr OtherFile show ?thesis by auto
        next
          case DirectoryFile
          with "1.prems"(1) step Cons Inr False
          have "emit MsgDirectory (\<lambda>w. if we_depth e < max_depth then walk_items os max_depth t i ys w
              else emit (MsgSkipped (we_path e) DepthLimitReached) (walk_items os max_depth t i ys) w) u = (True, v)" by simp
          from emit_True [OF this] obtain w' where w': "wk_queue w' = wk_queue u"
            "(if we_depth e < max_depth then walk_items os max_depth t i ys w'
              else emit (MsgSkipped (we_path e) DepthLimitReached) (walk_items os max_depth t i ys) w') = (True, v)" by blast
          then have "\<exists>w''. wk_queue w'' = wk_queue u \<and> walk_items os max_depth t i ys w'' = (True, v)"
            using emit_True by (metis (no_types, lifting))
          with later q Cons Inr DirectoryFile show ?thesis by auto
        qed
      qed
    qed
  qed
qed

section \<open>The numbers of a report\<close>

definition all_reasons :: "skip_reason list" where
  "all_reasons =
     [SymlinkNotFollowed, NotRegularFile, ExceedsMaxFileSize, Excluded, DepthLimitReached, DuplicateFile,
      ArchiveTooLarge, ArchiveLimitReached, ArchiveMemberEncrypted, ArchiveMemberUnsupported, ContentNotInspected]"

definition reason_count :: "scan_stats \<Rightarrow> skip_reason \<Rightarrow> u64" where
  "reason_count st r = (case st_skipped_by_reason st r of None \<Rightarrow> 0 | Some n \<Rightarrow> n)"

fun is_issue :: "progress_event \<Rightarrow> bool" where
  "is_issue (PrIssue _) = True"
| "is_issue _ = False"

definition issues_seen :: "aggregator \<Rightarrow> nat" where
  "issues_seen a = length (filter (\<lambda>(e, _). is_issue e) (ag_progress a))"

definition ag_ok :: "scan_config \<Rightarrow> aggregator \<Rightarrow> bool" where
  "ag_ok c a \<longleftrightarrow>
     ag_max_entries a = sl_max_recorded_entries (sc_limits c) \<and> ag_max_findings a = sl_max_recorded_findings (sc_limits c) \<and>
     len64 (ag_findings a) + tr_findings_omitted (ag_truncated a) = st_findings (ag_stats a) \<and>
     len64 (ag_skipped a) + tr_skipped_omitted (ag_truncated a) = st_entries_skipped (ag_stats a) \<and>
     len64 (ag_issues a) + tr_issues_omitted (ag_truncated a) = st_issues (ag_stats a) \<and>
     length (ag_findings a) \<le> ag_max_findings a \<and> length (ag_skipped a) \<le> ag_max_entries a \<and>
     length (ag_issues a) \<le> ag_max_entries a \<and>
     sum_list (map (reason_count (ag_stats a)) all_reasons) = st_entries_skipped (ag_stats a) \<and>
     of_nat (issues_seen a) = st_issues (ag_stats a)"

lemma new_aggregator_ok: "ag_ok c (new_aggregator c)"
  by (simp add: ag_ok_def new_aggregator_def default_stats_def default_truncation_def reason_count_def issues_seen_def
      all_reasons_def)

lemma ag_finding_ok: "ag_ok c a \<Longrightarrow> ag_ok c (ag_finding f a)"
  by (auto simp: ag_ok_def ag_finding_def on_progress_def Let_def issues_seen_def reason_count_def all_reasons_def ac_simps)

lemma ag_issue_ok: "ag_ok c a \<Longrightarrow> ag_ok c (ag_issue i a)"
  by (auto simp: ag_ok_def ag_issue_def on_progress_def Let_def issues_seen_def reason_count_def all_reasons_def ac_simps)

lemma reason_sum_update:
  assumes "st_skipped_by_reason st' = (st_skipped_by_reason st)(r \<mapsto> reason_count st r + 1)"
  shows "sum_list (map (reason_count st') all_reasons) = sum_list (map (reason_count st) all_reasons) + 1"
proof -
  have c: "reason_count st' q = reason_count st q + (if q = r then 1 else 0)" for q
    using assms by (simp add: reason_count_def)
  show ?thesis by (cases r) (simp_all add: all_reasons_def c)
qed

lemma ag_skip_ok:
  assumes "ag_ok c a"
  shows "ag_ok c (ag_skip path rm a)"
proof -
  obtain r m where rm: "rm = (r, m)" by fastforce
  define st where "st = (ag_stats a)\<lparr>st_entries_skipped := st_entries_skipped (ag_stats a) + 1,
                   st_skipped_by_reason := (st_skipped_by_reason (ag_stats a))(r \<mapsto> reason_count (ag_stats a) r + 1)\<rparr>"
  have sum: "sum_list (map (reason_count st) all_reasons) = sum_list (map (reason_count (ag_stats a)) all_reasons) + 1"
    by (rule reason_sum_update) (simp add: st_def)
  have sel: "st_findings st = st_findings (ag_stats a)" "st_issues st = st_issues (ag_stats a)"
    "st_entries_skipped st = st_entries_skipped (ag_stats a) + 1" by (simp_all add: st_def)
  show ?thesis
    using assms sum sel unfolding ag_skip_def rm Let_def prod.case reason_count_def [symmetric] st_def [symmetric]
    by (auto simp: ag_ok_def on_progress_def issues_seen_def ac_simps)
qed

lemma foldl_ok: "ag_ok c a \<Longrightarrow> (\<And>x a. ag_ok c a \<Longrightarrow> ag_ok c (f a x)) \<Longrightarrow> ag_ok c (foldl f a xs)"
  by (induction xs arbitrary: a) auto

lemma ag_scanned_ok:
  assumes "ag_ok c a"
  shows "ag_ok c (on_progress (PrFileScanned p b) (a\<lparr>ag_stats := (ag_stats a)\<lparr>st_files_scanned := x,
    st_bytes_scanned := y, st_archive_members_scanned := z\<rparr>\<rparr>))"
  using assms by (simp add: ag_ok_def on_progress_def issues_seen_def reason_count_def [abs_def])

lemma ag_handle_ok: "ag_ok c a \<Longrightarrow> ag_ok c (ag_handle m a)"
proof (cases m)
  case (MsgScanned path bytes r)
  assume "ag_ok c a"
  then show ?thesis
    unfolding ag_handle_def MsgScanned scan_msg.case Let_def
    by (intro foldl_ok ag_scanned_ok ag_finding_ok ag_issue_ok ag_skip_ok)
qed (auto simp: ag_handle_def ag_issue_ok ag_skip_ok, simp add: ag_ok_def issues_seen_def reason_count_def [abs_def])

section \<open>The coordinator\<close>

declare coordinate.simps [simp del]

definition co_ok :: "scan_config \<Rightarrow> coordinator \<Rightarrow> bool" where
  "co_ok cfg c \<longleftrightarrow>
     ag_ok cfg (co_agg c) \<and> co_abandoned c \<le> issues_seen (co_agg c) \<and>
     length (co_live c) \<le> sc_workers cfg + min (co_abandoned c) (sc_workers cfg)"

lemma issues_seen_mono:
  "issues_seen (ag_issue i a) = Suc (issues_seen a)" "issues_seen (ag_finding f a) = issues_seen a"
  "issues_seen (ag_skip path rm a) = issues_seen a"
  by (simp_all add: ag_issue_def ag_finding_def ag_skip_def on_progress_def issues_seen_def Let_def split: prod.splits)

lemma issues_seen_folds:
  "issues_seen (foldl (\<lambda>a i. ag_issue i a) a is) = issues_seen a + length is"
  "issues_seen (foldl (\<lambda>a f. ag_finding f a) a fs) = issues_seen a"
  "issues_seen (foldl (\<lambda>a rm. ag_skip path rm a) a rms) = issues_seen a"
proof -
  show "issues_seen (foldl (\<lambda>a i. ag_issue i a) a is) = issues_seen a + length is"
    by (induction "is" arbitrary: a) (simp_all add: issues_seen_mono)
  show "issues_seen (foldl (\<lambda>a f. ag_finding f a) a fs) = issues_seen a"
    by (induction fs arbitrary: a) (simp_all add: issues_seen_mono)
  show "issues_seen (foldl (\<lambda>a rm. ag_skip path rm a) a rms) = issues_seen a"
    by (induction rms arbitrary: a) (simp_all add: issues_seen_mono)
qed

definition msg_issues :: "scan_msg option \<Rightarrow> nat" where
  "msg_issues m =
     (case m of Some (MsgIssue _) \<Rightarrow> 1 | Some (MsgScanned _ _ r) \<Rightarrow> length (fr_issues r) | _ \<Rightarrow> 0)"

lemma issues_seen_handle: "issues_seen (ag_handle m a) = issues_seen a + msg_issues (Some m)"
  by (cases m) (simp_all add: ag_handle_def Let_def issues_seen_folds issues_seen_mono msg_issues_def,
    simp_all add: issues_seen_def on_progress_def)

lemma co_receive_props:
  "co_ok cfg c \<Longrightarrow> co_ok cfg (co_receive m c)"
  "issues_seen (co_agg (co_receive m c)) = issues_seen (co_agg c) + msg_issues m" "co_stop (co_receive m c) = co_stop c"
proof -
  show "co_stop (co_receive m c) = co_stop c"
    by (auto simp: co_receive_def Let_def split: option.splits scan_msg.splits who.splits)
  show seen: "issues_seen (co_agg (co_receive m c)) = issues_seen (co_agg c) + msg_issues m"
  proof (cases m)
    case (Some x)
    then show ?thesis
      by (cases x) (auto simp: co_receive_def issues_seen_handle Let_def msg_issues_def split: who.splits)
  qed (simp add: co_receive_def msg_issues_def)
  assume ok: "co_ok cfg c"
  show "co_ok cfg (co_receive m c)"
  proof (cases m)
    case (Some x)
    have agg: "ag_ok cfg (ag_handle x (co_agg c))" using ok by (intro ag_handle_ok) (simp add: co_ok_def)
    show ?thesis
      using ok agg seen Some
      by (cases x) (auto simp: co_ok_def co_receive_def Let_def issues_seen_handle split: who.splits)
  qed (use ok in \<open>simp add: co_receive_def\<close>)
qed

lemma co_check_stop_props:
  "co_ok cfg (co_check_stop r c) = co_ok cfg c" "co_agg (co_check_stop r c) = co_agg c"
  "co_stop (co_check_stop r c) = None \<longleftrightarrow> co_stop c = None \<and> \<not> sr_cancelled r \<and> \<not> sr_past_deadline r"
  by (auto simp: co_check_stop_def co_ok_def)

lemma co_watch_props:
  "co_ok cfg c \<Longrightarrow> co_ok cfg (co_watch cfg r c i)"
  "issues_seen (co_agg c) \<le> issues_seen (co_agg (co_watch cfg r c i))" "co_stop (co_watch cfg r c i) = co_stop c"
  by (auto simp: co_watch_def co_ok_def Let_def ag_issue_ok issues_seen_mono split: option.splits)

lemma co_watches_props:
  "co_ok cfg c \<Longrightarrow> co_ok cfg (foldl (co_watch cfg r) c is)"
  "issues_seen (co_agg c) \<le> issues_seen (co_agg (foldl (co_watch cfg r) c is))"
  "co_stop (foldl (co_watch cfg r) c is) = co_stop c"
proof -
  show "co_ok cfg c \<Longrightarrow> co_ok cfg (foldl (co_watch cfg r) c is)"
    by (induction "is" arbitrary: c) (simp_all add: co_watch_props(1))
  show "issues_seen (co_agg c) \<le> issues_seen (co_agg (foldl (co_watch cfg r) c is))"
  proof (induction "is" arbitrary: c)
    case (Cons i js)
    then show ?case using order_trans [OF co_watch_props(2) Cons.IH] by simp
  qed simp
  show "co_stop (foldl (co_watch cfg r) c is) = co_stop c"
    by (induction "is" arbitrary: c) (simp_all add: co_watch_props(3))
qed

lemma co_round_props:
  "co_ok cfg c \<Longrightarrow> co_ok cfg (co_round cfg r c)"
  "issues_seen (co_agg c) + msg_issues (sr_msg r) \<le> issues_seen (co_agg (co_round cfg r c))"
  "co_stop (co_round cfg r c) = None \<Longrightarrow> co_stop c = None \<and> \<not> sr_cancelled r \<and> \<not> sr_past_deadline r"
proof -
  define d where "d = co_check_stop r (co_receive (sr_msg r) c)"
  define e where "e = foldl (co_watch cfg r) d [0..<length (co_live d)]"
  have round: "co_round cfg r c =
      (if co_stop e = None \<and> True \<notin> set (co_live e) \<and> \<not> co_walker_done e then e\<lparr>co_stop := Some TooManyStalls\<rparr> else e)"
    by (simp add: co_round_def Let_def d_def e_def)
  have e_ok: "co_ok cfg e" if "co_ok cfg c"
    using that unfolding e_def d_def by (intro co_watches_props(1)) (simp add: co_check_stop_props co_receive_props)
  then show "co_ok cfg c \<Longrightarrow> co_ok cfg (co_round cfg r c)" by (auto simp: round co_ok_def)
  have "issues_seen (co_agg c) + msg_issues (sr_msg r) = issues_seen (co_agg d)"
    by (simp add: d_def co_check_stop_props co_receive_props)
  also have "\<dots> \<le> issues_seen (co_agg e)" unfolding e_def by (rule co_watches_props)
  finally show "issues_seen (co_agg c) + msg_issues (sr_msg r) \<le> issues_seen (co_agg (co_round cfg r c))"
    by (simp add: round)
  assume "co_stop (co_round cfg r c) = None"
  then have "co_stop e = None" by (auto simp: round split: if_splits)
  then show "co_stop c = None \<and> \<not> sr_cancelled r \<and> \<not> sr_past_deadline r"
    by (simp add: e_def d_def co_watches_props co_check_stop_props co_receive_props)
qed

lemma co_rounds_props:
  "co_ok cfg c \<Longrightarrow> co_ok cfg (foldl (\<lambda>c r. co_round cfg r c) c rs)"
  "issues_seen (co_agg c) + sum_list (map (\<lambda>r. msg_issues (sr_msg r)) rs) \<le>
     issues_seen (co_agg (foldl (\<lambda>c r. co_round cfg r c) c rs))"
  "co_stop (foldl (\<lambda>c r. co_round cfg r c) c rs) = None \<Longrightarrow>
     co_stop c = None \<and> list_all (\<lambda>r. \<not> sr_cancelled r \<and> \<not> sr_past_deadline r) rs"
proof (induction rs arbitrary: c)
  case (Cons r rs)
  {
    case 1
    with Cons.IH(1) co_round_props(1) show ?case by simp
  next
    case 2
    show ?case using co_round_props(2) [of c r cfg] Cons.IH(2) [of "co_round cfg r c"] by simp
  next
    case 3
    then have "co_stop (co_round cfg r c) = None \<and> list_all (\<lambda>r. \<not> sr_cancelled r \<and> \<not> sr_past_deadline r) rs"
      using Cons.IH(3) [of "co_round cfg r c"] by simp
    with co_round_props(3) [of cfg r c] show ?case by simp
  }
qed simp_all

lemma coordinate_rounds:
  "coordinate cfg rs c = Some d \<Longrightarrow>
     \<exists>k. d = foldl (\<lambda>c r. co_round cfg r c) c (take k rs) \<and> co_walker_done d \<and> True \<notin> set (co_live d)"
proof (induction rs arbitrary: c)
  case Nil
  then show ?case by (auto simp: coordinate.simps [of cfg "[]"] split: if_splits)
next
  case (Cons r rs)
  show ?case
  proof (cases "co_walker_done c \<and> True \<notin> set (co_live c)")
    case True
    with Cons.prems have "d = c" by (simp add: coordinate.simps [of cfg "r # rs"])
    with True show ?thesis by (intro exI [of _ 0]) simp
  next
    case False
    with Cons.prems have "coordinate cfg rs (co_round cfg r c) = Some d"
      by (auto simp: coordinate.simps [of cfg "r # rs"] split: if_splits)
    from Cons.IH [OF this] obtain k where "d = foldl (\<lambda>c r. co_round cfg r c) (co_round cfg r c) (take k rs)"
      "co_walker_done d" "True \<notin> set (co_live d)" by blast
    then show ?thesis by (intro exI [of _ "Suc k"]) simp
  qed
qed

lemma start_scan_props:
  "run_workers run \<le> sc_workers cfg \<Longrightarrow> co_ok cfg (start_scan cfg t run)"
  "issues_seen (co_agg (start_scan cfg t run)) = length (tg_issues t)"
  "co_stop (start_scan cfg t run) = None \<longleftrightarrow> \<not> run_cancelled run"
proof -
  show "issues_seen (co_agg (start_scan cfg t run)) = length (tg_issues t)"
    by (simp add: start_scan_def issues_seen_folds, simp add: new_aggregator_def issues_seen_def)
  have "ag_ok cfg (foldl (\<lambda>a i. ag_issue i a) (new_aggregator cfg) (tg_issues t))"
    by (intro foldl_ok new_aggregator_ok ag_issue_ok)
  then show "run_workers run \<le> sc_workers cfg \<Longrightarrow> co_ok cfg (start_scan cfg t run)"
    by (simp add: co_ok_def start_scan_def)
qed (simp add: start_scan_def)

lemma check_unscanned_props:
  "co_ok cfg c \<Longrightarrow> co_ok cfg (check_unscanned run c)"
  "issues_seen (co_agg c) \<le> issues_seen (co_agg (check_unscanned run c))"
  "co_abandoned (check_unscanned run c) = co_abandoned c"
  "co_stop (check_unscanned run c) = None \<longleftrightarrow> co_stop c = None \<and> run_enqueued run \<le> run_dequeued run"
  by (auto simp: check_unscanned_def Let_def co_ok_def ag_issue_ok issues_seen_mono)

text \<open>What a scan that returned a report was.\<close>

lemma scan_Ok:
  assumes "scan cfg infos t facts run = Some (Ok r)" and "run_workers run \<le> sc_workers cfg"
  shows "\<exists>k c. c = check_unscanned run (foldl (\<lambda>c r. co_round cfg r c) (start_scan cfg t run) (take k (run_rounds run))) \<and>
    co_ok cfg c \<and> True \<notin> set (co_live c) \<and> co_walker_done c \<and> \<not> co_panicked c \<and>
    r = ag_finish cfg infos t facts (status_of (co_stop c)) (co_stop c) (co_abandoned c) (co_agg c)"
proof -
  obtain d where d: "coordinate cfg (run_rounds run) (start_scan cfg t run) = Some d"
    using assms(1) by (auto simp: scan_def split: option.splits)
  obtain k where k: "d = foldl (\<lambda>c r. co_round cfg r c) (start_scan cfg t run) (take k (run_rounds run))"
    "co_walker_done d" "True \<notin> set (co_live d)" using coordinate_rounds [OF d] by blast
  have "co_ok cfg d" unfolding k(1) by (intro co_rounds_props(1) start_scan_props(1) assms(2))
  then have ok: "co_ok cfg (check_unscanned run d)" by (rule check_unscanned_props)
  have same: "co_live (check_unscanned run d) = co_live d" "co_walker_done (check_unscanned run d) = co_walker_done d"
    by (simp_all add: check_unscanned_def Let_def)
  show ?thesis
    using assms(1) d k ok same
    by (intro exI [of _ k] exI [of _ "check_unscanned run d"]) (auto simp: scan_def Let_def split: if_splits)
qed

end
