(* ===== verification/Engine_Archive_Props.thy ===== *)
theory Engine_Archive_Props
  imports Engine_Archive
begin

text \<open>
  Lemmas about archive expansion: one predicate, \<open>expands\<close>, says what a piece of the expansion
  reports, what it takes from the budget and when it is complete; it is closed under sequencing.
\<close>

fun is_member :: "archive_event \<Rightarrow> bool" where
  "is_member (EvMember _ _ _ _) = True"
| "is_member _ = False"

fun ev_size :: "archive_event \<Rightarrow> nat" where
  "ev_size (EvMember _ _ n _) = n"
| "ev_size _ = 0"

fun ev_ok :: "expand_env \<Rightarrow> nat \<Rightarrow> archive_event \<Rightarrow> bool" where
  "ev_ok env d (EvMember chain sha n c) =
     (n \<le> unat (xe_max_member env) \<and> length chain \<le> d \<and>
      (case c of None \<Rightarrow> True
       | Some b \<Rightarrow> length b = n \<and> n \<le> unat (al_max_member_content (xe_limits env)) \<and> sha = xe_sha env b))"
| "ev_ok env d _ = True"

definition expands ::
  "expand_env \<Rightarrow> nat \<Rightarrow> expander \<Rightarrow> expansion \<Rightarrow> archive_event list \<Rightarrow> bool" where
  "expands env d x m ref \<longleftrightarrow>
     (\<exists>new. ex_events (fst m) = ex_events x @ new \<and> sum_list (map ev_size new) + ex_budget (fst m) \<le> ex_budget x \<and>
        list_all (ev_ok env d) new \<and> (ex_reported (fst m) \<longrightarrow> ex_reported x \<or> \<not> list_all is_member new) \<and>
        (snd m = Ok () \<and> list_all is_member new \<and> \<not> ex_reported x \<longrightarrow> new = ref))"

lemma expandsI:
  assumes "ex_events (fst m) = ex_events x @ new" and "sum_list (map ev_size new) + ex_budget (fst m) \<le> ex_budget x"
    and "list_all (ev_ok env d) new" and "ex_reported (fst m) \<Longrightarrow> ex_reported x \<or> \<not> list_all is_member new"
    and "snd m = Ok () \<Longrightarrow> list_all is_member new \<Longrightarrow> \<not> ex_reported x \<Longrightarrow> new = ref"
  shows "expands env d x m ref"
  using assms unfolding expands_def by blast

lemma expands_then:
  assumes m: "expands env d x m r1" and f: "\<And>y. expands env d y (f y) r2"
  shows "expands env d x (st_then m (\<lambda>y _. f y)) (r1 @ r2)"
proof -
  obtain y r where y: "m = (y, r)" by fastforce
  obtain n1 where n1: "ex_events y = ex_events x @ n1" "sum_list (map ev_size n1) + ex_budget y \<le> ex_budget x"
    "list_all (ev_ok env d) n1" "ex_reported y \<longrightarrow> ex_reported x \<or> \<not> list_all is_member n1"
    "r = Ok () \<and> list_all is_member n1 \<and> \<not> ex_reported x \<longrightarrow> n1 = r1"
    using m unfolding y expands_def by auto
  show ?thesis
  proof (cases r)
    case (Inl e)
    with n1 y show ?thesis by (intro expandsI [where new = n1]) auto
  next
    case (Inr u)
    obtain n2 where n2: "ex_events (fst (f y)) = ex_events y @ n2"
      "sum_list (map ev_size n2) + ex_budget (fst (f y)) \<le> ex_budget y" "list_all (ev_ok env d) n2"
      "ex_reported (fst (f y)) \<longrightarrow> ex_reported y \<or> \<not> list_all is_member n2"
      "snd (f y) = Ok () \<and> list_all is_member n2 \<and> \<not> ex_reported y \<longrightarrow> n2 = r2"
      using f [of y] unfolding expands_def by blast
    from n1 n2 y Inr show ?thesis by (intro expandsI [where new = "n1 @ n2"]) auto
  qed
qed

lemma tick_same:
  "ex_events (fst (tick x)) = ex_events x" "ex_budget (fst (tick x)) = ex_budget x"
  "ex_reported (fst (tick x)) = ex_reported x"
  by (simp_all add: tick_def split: list.splits)

lemma tick_expands: "expands env d x (tick x) []"
  by (rule expandsI [where new = "[]"]) (simp_all add: tick_same)

lemma visit_same [simp]:
  "ex_events (visit ev x) = ex_events x @ [ev]" "ex_budget (visit ev x) = ex_budget x"
  "ex_reported (visit ev x) = ex_reported x"
  by (simp_all add: visit_def)

lemma visit_expands:
  "\<not> is_member ev \<Longrightarrow> ev_ok env d ev \<Longrightarrow> expands env d x (visit ev x, Ok ()) ref"
  by (rule expandsI [where new = "[ev]"]) (cases ev; simp)+

text \<open>What reading a member gives.\<close>

lemma read_member_cases:
  assumes "length data \<le> ex_budget x" and "length data \<le> unat (xe_max_member env)"
    and "keep = (length data \<le> unat (al_max_member_content (xe_limits env)))"
  shows "case read_member env chain ps data keep x of
     (y, Err s) \<Rightarrow> ex_events y = ex_events x \<and> ex_budget y = ex_budget x \<and> ex_reported y = ex_reported x
   | (y, Ok None) \<Rightarrow> \<exists>ev. ex_events y = ex_events x @ [ev] \<and> \<not> is_member ev \<and> ex_budget y \<le> ex_budget x
   | (y, Ok (Some (d, k))) \<Rightarrow>
       ex_events y = ex_events x \<and> ex_budget y = ex_budget x \<and> ex_reported y = ex_reported x \<and>
       length d \<le> ex_budget x \<and> length d \<le> unat (xe_max_member env) \<and>
       k = (length d \<le> unat (al_max_member_content (xe_limits env))) \<and>
       (\<exists>e. pieces_data ps = Some e \<and> d = data @ e)"
  using assms
proof (induction env chain ps data keep x rule: read_member.induct)
  case (1 env chain data keep x)
  show ?case using 1 tick_same [of x] by (cases "tick x"; cases "snd (tick x)") auto
next
  case (2 env chain p ps data keep x)
  obtain y r where y: "tick x = (y, r)" by fastforce
  have same: "ex_events y = ex_events x" "ex_budget y = ex_budget x" "ex_reported y = ex_reported x"
    using tick_same [of x] y by simp_all
  show ?case
  proof (cases r)
    case (Inl e)
    with y same show ?thesis by simp
  next
    case (Inr u)
    show ?thesis
    proof (cases p)
      case (Piece b)
      show ?thesis
      proof (cases "b = []")
        case True
        with Piece y Inr same 2 show ?thesis by simp
      next
        case False
        show ?thesis
        proof (cases "ex_budget y < length data + length b \<or> unat (xe_max_member env) < length data + length b")
          case True
          with False Piece y Inr same show ?thesis by auto
        next
          case fits: False
          have "length (data @ b) \<le> ex_budget y" "length (data @ b) \<le> unat (xe_max_member env)"
            "(keep \<and> length data + length b \<le> unat (al_max_member_content (xe_limits env))) =
              (length (data @ b) \<le> unat (al_max_member_content (xe_limits env)))"
            using fits 2(5) by auto
          from "2.IH"(1) [OF Piece False _ _ this] fits False Piece y Inr same show ?thesis
            by (auto split: prod.splits sum.splits option.splits)
        qed
      qed
    next
      case ReadInterrupted
      with "2.IH"(2) [OF ReadInterrupted, of y] y Inr same "2.prems" show ?thesis
        by (simp add: ReadInterrupted split: prod.splits sum.splits option.splits)
    next
      case (ReadFailed e)
      with y Inr same show ?thesis by auto
    qed
  qed
qed

section \<open>Members, entries, archives\<close>

text \<open>A nested archive is expanded well if what it reports agrees with \<open>ref\<close>.\<close>

definition nests ::
  "expand_env \<Rightarrow> nat \<Rightarrow> nat \<Rightarrow> (observed_path list \<Rightarrow> bytes \<Rightarrow> expander \<Rightarrow> expansion) \<Rightarrow>
     (observed_path list \<Rightarrow> bytes \<Rightarrow> archive_event list) \<Rightarrow> bool" where
  "nests env d c nested ref \<longleftrightarrow>
     (\<forall>chain data x. length chain = c \<longrightarrow> expands env d x (nested chain data x) (ref chain data))"

lemma expand_member_expands:
  assumes nest: "nests env d (length chain + 1) nested ref" and c: "length chain < d"
    and raw: "ze_raw e = Ok r" "\<not> re_is_dir r"
  shows "expands env d x (expand_member nested env (chain @ [member_name r]) e x) (list_entry ref env chain e)"
proof (cases "ze_read e")
  case (Inl f)
  then show ?thesis by (cases f) (simp_all add: expand_member_def visit_expands)
next
  case (Inr ps)
  let ?chain = "chain @ [member_name r]"
  obtain y res where y: "read_member env ?chain ps [] True x = (y, res)" by fastforce
  have cases: "case read_member env ?chain ps [] True x of
     (y, Err s) \<Rightarrow> ex_events y = ex_events x \<and> ex_budget y = ex_budget x \<and> ex_reported y = ex_reported x
   | (y, Ok None) \<Rightarrow> \<exists>ev. ex_events y = ex_events x @ [ev] \<and> \<not> is_member ev \<and> ex_budget y \<le> ex_budget x
   | (y, Ok (Some (d, k))) \<Rightarrow>
       ex_events y = ex_events x \<and> ex_budget y = ex_budget x \<and> ex_reported y = ex_reported x \<and>
       length d \<le> ex_budget x \<and> length d \<le> unat (xe_max_member env) \<and>
       k = (length d \<le> unat (al_max_member_content (xe_limits env))) \<and>
       (\<exists>e. pieces_data ps = Some e \<and> d = [] @ e)"
    by (rule read_member_cases) simp_all
  show ?thesis
  proof (cases res)
    case (Inl s)
    with Inr y cases show ?thesis
      by (intro expandsI [where new = "[]"]) (simp_all add: expand_member_def)
  next
    case res: (Inr o')
    show ?thesis
    proof (cases o')
      case None
      with Inr y res cases obtain ev where ev: "ex_events y = ex_events x @ [ev]" "\<not> is_member ev" "ex_budget y \<le> ex_budget x"
        by auto
      then show ?thesis
        using Inr y res None by (intro expandsI [where new = "[ev]"]) (cases ev; simp add: expand_member_def)+
    next
      case (Some dk)
      obtain data k where dk: "dk = (data, k)" by fastforce
      have rd: "ex_events y = ex_events x" "ex_budget y = ex_budget x" "ex_reported y = ex_reported x"
        "length data \<le> ex_budget x" "length data \<le> unat (xe_max_member env)"
        "k = (length data \<le> unat (al_max_member_content (xe_limits env)))" "pieces_data ps = Some data"
        using cases y res Some dk by auto
      define ev where "ev = EvMember ?chain (xe_sha env data) (length data) (if k then Some data else None)"
      define z where "z = visit ev (y\<lparr>ex_budget := ex_budget y - length data\<rparr>)"
      have first: "expands env d x (z, Ok ()) [ev]"
        by (rule expandsI [where new = "[ev]"]) (use rd c in \<open>simp_all add: z_def ev_def\<close>)
      have ref: "list_entry ref env chain e = [ev] @ (if k \<and> looks_like_zip data then ref ?chain data else [])"
        using raw Inr rd by (simp add: list_entry_def Let_def ev_def)
      have member: "expand_member nested env ?chain e x =
          st_then (z, Ok ()) (\<lambda>z _. if k \<and> looks_like_zip data then nested ?chain data z else (z, Ok ()))"
        using Inr y res Some dk by (simp add: expand_member_def Let_def z_def ev_def)
      have rest: "expands env d u (if k \<and> looks_like_zip data then nested ?chain data u else (u, Ok ()))
          (if k \<and> looks_like_zip data then ref ?chain data else [])" for u
        using nest by (auto simp: nests_def intro: expandsI [where new = "[]"])
      show ?thesis unfolding member ref by (rule expands_then [OF first rest])
    qed
  qed
qed

lemma expands_mono:
  assumes "expands env d (visit ev x) m ref" and "\<not> is_member ev" and "ev_ok env d ev"
  shows "expands env d x m ref'"
proof -
  obtain new where "ex_events (fst m) = ex_events x @ [ev] @ new" "sum_list (map ev_size new) + ex_budget (fst m) \<le> ex_budget x"
    "list_all (ev_ok env d) new"
    using assms(1) by (auto simp: expands_def)
  then show ?thesis
    using assms(2,3) by (intro expandsI [where new = "ev # new"]) (cases ev; simp)+
qed

lemma expand_entries_expands:
  assumes nest: "nests env d (length chain + 1) nested ref" and c: "length chain < d"
  shows "expands env d x (expand_entries nested env chain i es x) (concat (map (list_entry ref env chain) es))"
proof (induction es arbitrary: i x)
  case Nil
  then show ?case by (auto intro: expandsI [where new = "[]"])
next
  case (Cons e es)
  have body: "expands env d y
     (if ex_budget y = 0
      then (if ex_reported y then y else visit (EvSkipped chain ArchiveLimitReached) (y\<lparr>ex_reported := True\<rparr>), Ok ())
      else case ze_raw e of
        Err m \<Rightarrow> expand_entries nested env chain (Suc i) es
            (visit (EvError chain (''unreadable entry #'' @ show_nat i @ '': '' @ m)) y)
      | Ok raw \<Rightarrow>
         if re_is_dir raw then expand_entries nested env chain (Suc i) es y
         else
           let chain' = chain @ [member_name raw]
           in st_then
                (if re_encrypted raw then (visit (EvSkipped chain' ArchiveMemberEncrypted) y, Ok ())
                 else if re_is_symlink raw then (visit (EvSkipped chain' ArchiveMemberUnsupported) y, Ok ())
                 else expand_member nested env chain' e y)
                (\<lambda>x _. expand_entries nested env chain (Suc i) es x))
     (concat (map (list_entry ref env chain) (e # es)))" for y
  proof (cases "ex_budget y = 0")
    case True
    show ?thesis
    proof (cases "ex_reported y")
      case reported: True
      show ?thesis by (rule expandsI [where new = "[]"]) (use True reported in simp_all)
    next
      case False
      show ?thesis by (rule expandsI [where new = "[EvSkipped chain ArchiveLimitReached]"]) (use True False in simp_all)
    qed
  next
    case budget: False
    show ?thesis
    proof (cases "ze_raw e")
      case (Inl m)
      with budget expands_mono [OF Cons.IH] show ?thesis by simp
    next
      case (Inr raw)
      show ?thesis
      proof (cases "re_is_dir raw")
        case True
        then have "list_entry ref env chain e = []" by (simp add: list_entry_def Inr)
        with True Inr budget Cons.IH show ?thesis by simp
      next
        case False
        have member: "expands env d y
            (if re_encrypted raw then (visit (EvSkipped (chain @ [member_name raw]) ArchiveMemberEncrypted) y, Ok ())
             else if re_is_symlink raw then (visit (EvSkipped (chain @ [member_name raw]) ArchiveMemberUnsupported) y, Ok ())
             else expand_member nested env (chain @ [member_name raw]) e y) (list_entry ref env chain e)"
          using expand_member_expands [OF nest c Inr False] by (simp add: visit_expands)
        show ?thesis
          using Inr budget False expands_then [OF member Cons.IH] by (simp add: Let_def)
      qed
    qed
  qed
  show ?case
    using expands_then [OF tick_expands body] by simp
qed

lemma expand_with_expands:
  assumes nest: "nests env d (length chain + 1) nested ref" and c: "length chain < d"
  shows "expands env d x (expand_with nested env chain strict data x)
    (case xe_open env data of Err _ \<Rightarrow> [] | Ok es \<Rightarrow> concat (map (list_entry ref env chain) es))"
proof (cases "xe_open env data")
  case (Inl e)
  then show ?thesis by (auto simp: expand_with_def visit_expands intro: expandsI [where new = "[]"])
next
  case (Inr es)
  show ?thesis
  proof (cases "unat (al_max_entries (xe_limits env)) < length es")
    case True
    from expands_mono [OF expand_entries_expands [OF nest c]] True Inr show ?thesis
      by (simp add: expand_with_def Let_def)
  next
    case False
    with Inr expand_entries_expands [OF nest c, of _ 0 es] show ?thesis by (simp add: expand_with_def Let_def)
  qed
qed

lemma expand_expands:
  "length chain + k < d \<Longrightarrow> expands env d x (expand k env chain strict data x) (listing k env chain data)"
proof (induction k arbitrary: chain strict data x)
  case 0
  have "nests env d (length chain + 1) (\<lambda>chain data x. (visit (EvSkipped chain ArchiveLimitReached) x, Ok ())) (\<lambda>_ _. [])"
    by (simp add: nests_def visit_expands)
  from expand_with_expands [OF this] 0 show ?case by simp
next
  case (Suc k)
  have "nests env d (length chain + 1) (\<lambda>chain. expand k env chain True) (listing k env)"
    using Suc by (simp add: nests_def)
  from expand_with_expands [OF this] Suc.prems show ?case by simp
qed

end
