(* ===== verification/Engine_Files_Props.thy ===== *)
theory Engine_Files_Props
  imports Engine_Files Engine_Archive_Props
begin

text \<open>
  A file that is reported without issues and skips was inspected completely: by every detector, in
  order, and so was every member of the archive it is.
\<close>

section \<open>The inspection without failures\<close>

text \<open>All detectors on one observation, then on several; \<open>None\<close> if one of them fails, panics or
  misses the content it needs.\<close>

fun inspect_all ::
  "'w detector list \<Rightarrow> file_observation \<Rightarrow> nat \<Rightarrow> 'w list \<Rightarrow> ('w list \<times> finding list) option" where
  "inspect_all [] obs i ws = Some (ws, [])"
| "inspect_all (d # ds) obs i ws =
     (if dt_needs_content d \<and> obs_content obs = None then None
      else case dt_inspect d (ws ! i) obs of
        (w, Found fs) \<Rightarrow>
          map_option (\<lambda>(ws, gs). (ws, fs @ gs)) (inspect_all ds obs (Suc i) (ws[i := w]))
      | _ \<Rightarrow> None)"

fun inspect_many ::
  "'w detector list \<Rightarrow> file_observation list \<Rightarrow> 'w list \<Rightarrow> ('w list \<times> finding list) option" where
  "inspect_many ds [] ws = Some (ws, [])"
| "inspect_many ds (obs # os) ws =
     (case inspect_all ds obs 0 ws of
        None \<Rightarrow> None
      | Some (ws, fs) \<Rightarrow> map_option (\<lambda>(ws, gs). (ws, fs @ gs)) (inspect_many ds os ws))"

section \<open>Remarks\<close>

text \<open>Issues and skips only grow; \<open>silent\<close> means that none was added.\<close>

definition grows :: "'w worker_state \<Rightarrow> 'w worker_state \<Rightarrow> bool" where
  "grows s t \<longleftrightarrow> prefix (fr_issues (ws_out s)) (fr_issues (ws_out t)) \<and> prefix (fr_skips (ws_out s)) (fr_skips (ws_out t))"

definition silent :: "'w worker_state \<Rightarrow> 'w worker_state \<Rightarrow> bool" where
  "silent s t \<longleftrightarrow> fr_issues (ws_out t) = fr_issues (ws_out s) \<and> fr_skips (ws_out t) = fr_skips (ws_out s)"

lemma grows_refl [simp]: "grows s s"
  by (simp add: grows_def)

lemma grows_trans: "grows s t \<Longrightarrow> grows t u \<Longrightarrow> grows s u"
  by (auto simp: grows_def intro: prefix_order.trans)

lemma silent_between: "silent s u \<Longrightarrow> grows s t \<Longrightarrow> grows t u \<Longrightarrow> silent s t \<and> silent t u"
  by (auto simp: silent_def grows_def intro: prefix_order.antisym)

lemma grows_add [simp]:
  "grows s (add_issue i s)" "grows s (add_skip r m s)" "grows s (add_findings fs s)"
  "\<not> silent s (add_issue i s)" "\<not> silent s (add_skip r m s)" "silent s (add_findings fs s)"
  by (simp_all add: grows_def silent_def add_issue_def add_skip_def add_findings_def)

lemma worker_tick_out [simp]:
  "worker_tick s = (t, u) \<Longrightarrow> ws_out u = ws_out s \<and> ws_detectors u = ws_detectors s"
  by (auto simp: worker_tick_def split: list.splits)

lemma remarks_cong:
  assumes "ws_out t = ws_out s"
  shows "grows t u = grows s u" "silent t u = silent s u" "grows u t = grows u s" "silent u t = silent u s"
  using assms by (simp_all add: grows_def silent_def)

lemma run_from_complete:
  assumes "run_from l obs ds i skipped s = (t, r)"
  shows "grows s t \<and> (\<forall>sk. r = Ok sk \<longrightarrow> (skipped \<longrightarrow> sk) \<and>
    (silent s t \<and> \<not> sk \<longrightarrow>
      (\<exists>gs. inspect_all ds obs i (ws_detectors s) = Some (ws_detectors t, gs) \<and>
         fr_findings (ws_out t) = fr_findings (ws_out s) @ gs)))"
  using assms
proof (induction ds arbitrary: i skipped s)
  case Nil
  then show ?case by auto
next
  case (Cons d ds)
  obtain tk u where u: "worker_tick s = (tk, u)" by fastforce
  note out = worker_tick_out [OF u]
  show ?case
  proof (cases tk)
    case (Some x)
    show ?thesis
    proof (cases x)
      case StopCancelled
      with Cons.prems u Some have "t = u" "r = Err ()" by auto
      with remarks_cong(1) [OF conjunct1 [OF out], of u] show ?thesis by simp
    next
      case StopDeadline
      with Cons.prems u Some have t: "t = add_issue (timeout_issue l obs (d # ds)) u" "r = Ok skipped" by auto
      have "grows s t \<and> \<not> silent s t"
        using grows_add(1,4) [where s = u] unfolding t remarks_cong(1,2) [OF conjunct1 [OF out], symmetric] by blast
      with t show ?thesis by blast
    qed
  next
    case None
    show ?thesis
    proof (cases "dt_needs_content d \<and> obs_content obs = None")
      case True
      with Cons.prems u None have "run_from l obs ds (Suc i) True u = (t, r)" by simp
      from Cons.IH [OF this] out show ?thesis by (auto simp: remarks_cong [of u s])
    next
      case False
      obtain w res where w: "dt_inspect d (ws_detectors u ! i) obs = (w, res)" by fastforce
      define v where "v = u\<lparr>ws_detectors := (ws_detectors u)[i := (if res = InspectPanicked then dt_fresh d else w)]\<rparr>"
      define v' where "v' = (case res of Found fs \<Rightarrow> add_findings fs v
          | InspectFailed m \<Rightarrow> add_issue (failed_issue obs d m) v
          | InspectPanicked \<Rightarrow>
              add_issue (failed_issue obs d ''detector panicked; its results for this file are missing'') v)"
      have run: "run_from l obs ds (Suc i) skipped v' = (t, r)"
        using Cons.prems False unfolding run_from.simps u None w prod.case option.case Let_def v_def v'_def by simp
      have vs: "ws_out v = ws_out s" using out by (simp add: v_def)
      have sv: "grows s v'"
        by (cases res) (simp_all add: v'_def remarks_cong(1) [OF vs, symmetric])
      have found: "\<exists>fs. res = Found fs \<and> ws_detectors v' = (ws_detectors s)[i := w] \<and>
          fr_findings (ws_out v') = fr_findings (ws_out s) @ fs" if "silent s v'"
        using that out vs remarks_cong(2) [OF vs, symmetric]
        by (cases res) (simp_all add: v'_def v_def add_findings_def)
      note ih = Cons.IH [OF run]
      show ?thesis
      proof (intro conjI allI impI)
        show "grows s t" using grows_trans [OF sv conjunct1 [OF ih]] .
        fix sk
        assume r: "r = Ok sk"
        show "skipped \<Longrightarrow> sk" using ih r by blast
        assume sil: "silent s t \<and> \<not> sk"
        have "silent s v'" "silent v' t" using silent_between [OF conjunct1 [OF sil] sv conjunct1 [OF ih]] by auto
        with found ih r sil obtain fs gs where "res = Found fs" "ws_detectors v' = (ws_detectors s)[i := w]"
          "fr_findings (ws_out v') = fr_findings (ws_out s) @ fs"
          "inspect_all ds obs (Suc i) (ws_detectors v') = Some (ws_detectors t, gs)"
          "fr_findings (ws_out t) = fr_findings (ws_out v') @ gs" by blast
        with False w out show "\<exists>gs. inspect_all (d # ds) obs i (ws_detectors s) = Some (ws_detectors t, gs) \<and>
            fr_findings (ws_out t) = fr_findings (ws_out s) @ gs" by auto
      qed
    qed
  qed
qed

lemma run_detectors_complete:
  assumes "run_detectors l ds obs s = (t, r)"
  shows "grows s t \<and> (r = Ok () \<and> silent s t \<longrightarrow>
    (\<exists>gs. inspect_all ds obs 0 (ws_detectors s) = Some (ws_detectors t, gs) \<and>
       fr_findings (ws_out t) = fr_findings (ws_out s) @ gs))"
proof -
  obtain u x where u: "run_from l obs ds 0 False s = (u, x)" by fastforce
  note c = run_from_complete [OF u]
  show ?thesis
  proof (cases x)
    case (Inl e)
    with assms u c show ?thesis by (auto simp: run_detectors_def)
  next
    case (Inr sk)
    with assms u have t: "t = (if sk then add_skip ContentNotInspected (obs_member obs) u else u)" "r = Ok ()"
      by (auto simp: run_detectors_def)
    have ut: "grows u t" by (simp add: t)
    show ?thesis
    proof (intro conjI impI)
      show "grows s t" using grows_trans [OF conjunct1 [OF c] ut] .
      assume "r = Ok () \<and> silent s t"
      then have "silent s u" "silent u t" using silent_between [OF _ conjunct1 [OF c] ut] by auto
      with c Inr t show "\<exists>gs. inspect_all ds obs 0 (ws_detectors s) = Some (ws_detectors t, gs) \<and>
          fr_findings (ws_out t) = fr_findings (ws_out s) @ gs" by (cases sk) auto
    qed
  qed
qed

section \<open>Archives and files\<close>

fun obs_of_event :: "'w file_env \<Rightarrow> string \<Rightarrow> archive_event \<Rightarrow> file_observation" where
  "obs_of_event env path (EvMember chain sha n content) = member_observation env path chain sha n content"
| "obs_of_event env path ev = member_observation env path [] undefined 0 None"

lemma on_event_complete:
  assumes "on_event env path (s, c) ev = (t, c')"
  shows "grows s t \<and> (c \<longrightarrow> c') \<and> (silent s t \<and> \<not> c' \<longrightarrow>
    is_member ev \<and> (\<exists>gs. inspect_all (fe_detectors env) (obs_of_event env path ev) 0 (ws_detectors s) =
         Some (ws_detectors t, gs) \<and> fr_findings (ws_out t) = fr_findings (ws_out s) @ gs))"
proof (cases ev)
  case (EvMember chain sha n content)
  define v where "v = s\<lparr>ws_out := (ws_out s)\<lparr>fr_members := fr_members (ws_out s) + 1\<rparr>\<rparr>"
  have v: "grows v u = grows s u" "silent v u = silent s u" "ws_detectors v = ws_detectors s"
    "fr_findings (ws_out v) = fr_findings (ws_out s)" for u
    by (simp_all add: v_def grows_def silent_def)
  obtain u r where u: "run_detectors (sc_limits (fe_config env)) (fe_detectors env)
      (member_observation env path chain sha n content) v = (u, r)" by fastforce
  note d = run_detectors_complete [OF u, unfolded v]
  show ?thesis
  proof (cases r)
    case (Inl e)
    then have "t = u" "c'" using assms u by (simp_all add: on_event_def EvMember v_def [symmetric])
    with d show ?thesis by simp
  next
    case (Inr x)
    then have "t = u" "c' = c" using assms u by (simp_all add: on_event_def EvMember v_def [symmetric])
    with d Inr show ?thesis by (simp add: EvMember)
  qed
qed (use assms in \<open>auto simp: on_event_def\<close>)

lemma on_events_complete:
  assumes "foldl (on_event env path) (s, c) evs = (t, c')"
  shows "grows s t \<and> (c \<longrightarrow> c') \<and> (silent s t \<and> \<not> c' \<longrightarrow>
    list_all is_member evs \<and> (\<exists>gs. inspect_many (fe_detectors env) (map (obs_of_event env path) evs) (ws_detectors s) =
         Some (ws_detectors t, gs) \<and> fr_findings (ws_out t) = fr_findings (ws_out s) @ gs))"
  using assms
proof (induction evs arbitrary: s c)
  case Nil
  then show ?case by auto
next
  case (Cons ev evs)
  obtain u d where u: "on_event env path (s, c) ev = (u, d)" by fastforce
  with Cons.prems have rest: "foldl (on_event env path) (u, d) evs = (t, c')" by simp
  note one = on_event_complete [OF u] and many = Cons.IH [OF rest]
  show ?case
  proof (intro conjI impI)
    show "grows s t" using one many grows_trans by blast
    show "c \<Longrightarrow> c'" using one many by blast
    assume sil: "silent s t \<and> \<not> c'"
    then have "silent s u" "silent u t" using silent_between one many by blast+
    with one many sil obtain fs gs where "is_member ev" "list_all is_member evs"
      "inspect_all (fe_detectors env) (obs_of_event env path ev) 0 (ws_detectors s) = Some (ws_detectors u, fs)"
      "fr_findings (ws_out u) = fr_findings (ws_out s) @ fs"
      "inspect_many (fe_detectors env) (map (obs_of_event env path) evs) (ws_detectors u) = Some (ws_detectors t, gs)"
      "fr_findings (ws_out t) = fr_findings (ws_out u) @ gs" by blast
    then show "list_all is_member (ev # evs)"
      "\<exists>gs. inspect_many (fe_detectors env) (map (obs_of_event env path) (ev # evs)) (ws_detectors s) =
         Some (ws_detectors t, gs) \<and> fr_findings (ws_out t) = fr_findings (ws_out s) @ gs" by auto
  qed
qed

text \<open>The members to inspect in a file that was read.\<close>

definition members_of :: "'w file_env \<Rightarrow> read_outcome \<Rightarrow> archive_event list" where
  "members_of env r =
     (case ou_content r of
        Some bytes \<Rightarrow>
          if al_enabled (sl_archives (sc_limits (fe_config env))) \<and> may_contain_zip bytes
          then listing (unat (al_max_depth (sl_archives (sc_limits (fe_config env)))) - 1) (expand_env_of env) [] bytes
          else []
      | None \<Rightarrow> [])"

lemma expand_archive_complete:
  assumes "expand_archive env path bytes s = (t, Ok ())"
  shows "grows s t \<and> (silent s t \<longrightarrow>
    (\<exists>gs. inspect_many (fe_detectors env) (map (obs_of_event env path)
         (listing (unat (al_max_depth (sl_archives (sc_limits (fe_config env)))) - 1) (expand_env_of env) [] bytes))
         (ws_detectors s) = Some (ws_detectors t, gs) \<and>
       fr_findings (ws_out t) = fr_findings (ws_out s) @ gs))"
proof -
  obtain x res where x: "expand_file (expand_env_of env) bytes (fe_archive_ticks env) = (x, res)" by fastforce
  define evs where "evs = (case fe_panic env of None \<Rightarrow> ex_events x | Some n \<Rightarrow> take n (ex_events x))"
  obtain u c where u: "foldl (on_event env path) (s, False) evs = (u, c)" by fastforce
  have result: "\<not> c" "fe_panic env = None \<Longrightarrow> res \<noteq> Err StopCancelled"
    "t = (case fe_panic env of
        Some _ \<Rightarrow> add_issue (archive_issue path ArchiveError None
          ''the archive parser panicked; remaining members were not inspected'') u
      | None \<Rightarrow> if res = Err StopDeadline
          then add_issue (archive_issue path IssueTimeout None
            (''archive expansion stopped at the '' @ show_ms (sc_limits (fe_config env)) @
             '' ms per-file limit; remaining members were not inspected'')) u else u)"
    using assms unfolding expand_archive_def x prod.case Let_def evs_def [symmetric] u
    by (auto split: if_splits)
  note ev = on_events_complete [OF u]
  have ut: "grows u t" unfolding result(3) by (simp split: option.splits)
  show ?thesis
  proof (intro conjI impI)
    show "grows s t" using ev ut grows_trans by blast
    assume sil: "silent s t"
    then have sil: "silent s u" "silent u t" using silent_between ev ut by blast+
    from sil(2) have np: "fe_panic env = None" and res: "res \<noteq> Err StopDeadline" and tu: "t = u"
      using result(3) grows_add(4) by (auto split: option.splits if_splits)
    have ok: "res = Ok ()" using res result(2) np by (cases res) (auto intro: stop.exhaust)
    have evs: "evs = ex_events x" using np by (simp add: evs_def)
    let ?k = "unat (al_max_depth (sl_archives (sc_limits (fe_config env)))) - 1"
    have "expands (expand_env_of env) (?k + 1) (new_expander (expand_env_of env) (fe_archive_ticks env))
        (x, res) (listing ?k (expand_env_of env) [] bytes)"
      using expand_expands [of "[]" ?k "?k + 1" "expand_env_of env" "new_expander (expand_env_of env) (fe_archive_ticks env)"
          "looks_like_zip bytes" bytes] x
      by (simp add: expand_file_def expand_env_of_def)
    then have "ex_events x = listing ?k (expand_env_of env) [] bytes"
      using ev sil result(1) ok evs by (auto simp: expands_def new_expander_def)
    with ev sil result(1) evs tu show "\<exists>gs. inspect_many (fe_detectors env) (map (obs_of_event env path)
         (listing ?k (expand_env_of env) [] bytes)) (ws_detectors s) = Some (ws_detectors t, gs) \<and>
       fr_findings (ws_out t) = fr_findings (ws_out s) @ gs" by auto
  qed
qed

lemma process_file_complete:
  assumes run: "process_file env base path rs s = (rs', t, Some (MsgScanned p n out))"
    and quiet: "fr_issues out = []" "fr_skips out = []"
  shows "\<exists>r. snd (read_file (fe_os env) (fe_sha env) (read_options_of env base) path rs) = Ok r \<and> p = path \<and>
    n = meta_size (hf_metadata (ou_hashed r)) \<and>
    inspect_many (fe_detectors env) (file_observation_of env path r # map (obs_of_event env path) (members_of env r))
      (ws_detectors s) = Some (ws_detectors t, fr_findings out)"
proof -
  define s0 where "s0 = s\<lparr>ws_out := empty_file_result\<rparr>"
  obtain rs1 x where x: "read_file (fe_os env) (fe_sha env) (read_options_of env base) path rs = (rs1, x)" by fastforce
  obtain r where r: "x = Ok r"
    using run by (cases x) (auto simp: process_file_def Let_def x split: hash_file_error.splits)
  obtain u y where u: "run_detectors (sc_limits (fe_config env)) (fe_detectors env) (file_observation_of env path r) s0 = (u, y)"
    by fastforce
  have y: "y = Ok ()"
    using run by (cases y) (auto simp: process_file_def Let_def x r u s0_def [symmetric])
  define rest where "rest =
    (if \<not> al_enabled (sl_archives (sc_limits (fe_config env))) then (u, Ok ())
     else case ou_content r of
         Some bytes \<Rightarrow> if may_contain_zip bytes then expand_archive env path bytes u else (u, Ok ())
       | None \<Rightarrow> (if ou_zip_magic r then add_skip ArchiveTooLarge None u else u, Ok ()))"
  have t: "rest = (t, Ok ())" and out: "p = path" "n = meta_size (hf_metadata (ou_hashed r))" "out = ws_out t"
    using run unfolding process_file_def Let_def x r s0_def [symmetric]
    by (auto simp: u y rest_def [symmetric] split: prod.splits if_splits)
  note d = run_detectors_complete [OF u]
  have s0t: "silent s0 t" using quiet out(3) by (simp add: silent_def s0_def empty_file_result_def)
  have rest': "grows u t \<and> (silent u t \<longrightarrow>
    (\<exists>gs. inspect_many (fe_detectors env) (map (obs_of_event env path) (members_of env r)) (ws_detectors u) =
       Some (ws_detectors t, gs) \<and> fr_findings (ws_out t) = fr_findings (ws_out u) @ gs))"
  proof (cases "\<exists>bytes. ou_content r = Some bytes \<and> al_enabled (sl_archives (sc_limits (fe_config env))) \<and>
      may_contain_zip bytes")
    case True
    then obtain bytes where b: "ou_content r = Some bytes" "al_enabled (sl_archives (sc_limits (fe_config env)))"
      "may_contain_zip bytes" by blast
    with t have "expand_archive env path bytes u = (t, Ok ())" by (simp add: rest_def)
    from expand_archive_complete [OF this] b show ?thesis by (simp add: members_of_def)
  next
    case False
    with t show ?thesis
      using grows_add(2,5) [where s = u]
      by (auto simp: rest_def members_of_def split: option.splits if_splits)
  qed
  have sil: "silent s0 u" "silent u t" using silent_between [OF s0t conjunct1 [OF d] conjunct1 [OF rest']] by auto
  have s0: "ws_detectors s0 = ws_detectors s" "fr_findings (ws_out s0) = []"
    by (simp_all add: s0_def empty_file_result_def)
  obtain fs gs where "inspect_all (fe_detectors env) (file_observation_of env path r) 0 (ws_detectors s) = Some (ws_detectors u, fs)"
    "fr_findings (ws_out u) = fs"
    "inspect_many (fe_detectors env) (map (obs_of_event env path) (members_of env r)) (ws_detectors u) = Some (ws_detectors t, gs)"
    "fr_findings (ws_out t) = fs @ gs"
    using d y sil rest' s0 by auto
  with x r out show ?thesis by (intro exI [of _ r]) simp
qed

end
