(* ===== verification/Engine_Workers.thy ===== *)
theory Engine_Workers
  imports Prelude
begin

text \<open>
  The interleaving of the workers and the watchdog of \<open>crates/engine/src/scanner.rs\<close>: each shared
  access is a step. A worker takes a file from the queue and puts it in its slot, clears the slot
  when it has a result, then looks at its flag and sends the result or leaves. The watchdog reads
  the slot of a worker and, in a later step, marks the worker abandoned and reports the file it
  has read. With \<open>atomic\<close> the second step needs the worker to be still at that file.
\<close>

datatype phase = Idle | Busy string | Cleared string | Gone

record pool_worker =
  pw_phase :: phase
  pw_abandoned :: bool
  pw_live :: bool

record pool =
  pl_queue :: "string list"
  pl_workers :: "pool_worker list"
  pl_sent :: "string set"
  pl_reported :: "string set"
  pl_watch :: "(nat \<times> string) option"

abbreviation set_worker :: "nat \<Rightarrow> pool_worker \<Rightarrow> pool \<Rightarrow> pool" where
  "set_worker i w p \<equiv> p\<lparr>pl_workers := (pl_workers p)[i := w]\<rparr>"

inductive pool_step :: "bool \<Rightarrow> pool \<Rightarrow> pool \<Rightarrow> bool" for atomic where
  take_file: "i < length (pl_workers p) \<Longrightarrow> w = pl_workers p ! i \<Longrightarrow> pw_phase w = Idle \<Longrightarrow> pl_queue p = f # fs \<Longrightarrow>
    pool_step atomic p ((set_worker i (w\<lparr>pw_phase := Busy f\<rparr>) p)\<lparr>pl_queue := fs\<rparr>)"
| clear_slot: "i < length (pl_workers p) \<Longrightarrow> w = pl_workers p ! i \<Longrightarrow> pw_phase w = Busy f \<Longrightarrow>
    pool_step atomic p (set_worker i (w\<lparr>pw_phase := Cleared f\<rparr>) p)"
| send_result: "i < length (pl_workers p) \<Longrightarrow> w = pl_workers p ! i \<Longrightarrow> pw_phase w = Cleared f \<Longrightarrow> \<not> pw_abandoned w \<Longrightarrow>
    pool_step atomic p ((set_worker i (w\<lparr>pw_phase := Idle\<rparr>) p)\<lparr>pl_sent := insert f (pl_sent p)\<rparr>)"
| leave: "i < length (pl_workers p) \<Longrightarrow> w = pl_workers p ! i \<Longrightarrow> pw_phase w = Cleared f \<Longrightarrow> pw_abandoned w \<Longrightarrow>
    pool_step atomic p (set_worker i (w\<lparr>pw_phase := Gone\<rparr>) p)"
| queue_closed: "i < length (pl_workers p) \<Longrightarrow> w = pl_workers p ! i \<Longrightarrow> pw_phase w = Idle \<Longrightarrow> pl_queue p = [] \<Longrightarrow>
    pool_step atomic p (set_worker i (w\<lparr>pw_phase := Gone, pw_live := False\<rparr>) p)"
| watch: "i < length (pl_workers p) \<Longrightarrow> w = pl_workers p ! i \<Longrightarrow> pw_live w \<Longrightarrow> pw_phase w = Busy f \<Longrightarrow> pl_watch p = None \<Longrightarrow>
    pool_step atomic p (p\<lparr>pl_watch := Some (i, f)\<rparr>)"
| abandon: "pl_watch p = Some (i, f) \<Longrightarrow> w = pl_workers p ! i \<Longrightarrow> (atomic \<Longrightarrow> pw_phase w = Busy f) \<Longrightarrow>
    pool_step atomic p ((set_worker i (w\<lparr>pw_abandoned := True, pw_live := False\<rparr>) p)
      \<lparr>pl_reported := insert f (pl_reported p), pl_watch := None\<rparr>)"
| give_up: "pl_watch p = Some (i, f) \<Longrightarrow> atomic \<Longrightarrow> pw_phase (pl_workers p ! i) \<noteq> Busy f \<Longrightarrow>
    pool_step atomic p (p\<lparr>pl_watch := None\<rparr>)"

inductive reaches :: "bool \<Rightarrow> pool \<Rightarrow> pool \<Rightarrow> bool" for atomic p where
  refl: "reaches atomic p p"
| step: "reaches atomic p q \<Longrightarrow> pool_step atomic q r \<Longrightarrow> reaches atomic p r"

definition start_pool :: "string list \<Rightarrow> nat \<Rightarrow> pool" where
  "start_pool fs n =
     \<lparr>pl_queue = fs, pl_workers = replicate n \<lparr>pw_phase = Idle, pw_abandoned = False, pw_live = True\<rparr>,
      pl_sent = {}, pl_reported = {}, pl_watch = None\<rparr>"

text \<open>The coordinator's loop ends when no worker is live; the scan counts as completed if nothing is
  left on the queue.\<close>

definition pool_done :: "pool \<Rightarrow> bool" where
  "pool_done p \<longleftrightarrow> (\<forall>w \<in> set (pl_workers p). \<not> pw_live w) \<and> pl_queue p = [] \<and> pl_watch p = None"

fun held :: "phase \<Rightarrow> string set" where
  "held (Busy f) = {f}"
| "held (Cleared f) = {f}"
| "held _ = {}"

section \<open>With an atomic watchdog nothing is lost\<close>

text \<open>Every file is on the queue, sent, reported, or held by a worker, and what an abandoned worker
  holds was reported; a worker that is not live is gone or abandoned.\<close>

definition accounted :: "string set \<Rightarrow> pool \<Rightarrow> bool" where
  "accounted F p \<longleftrightarrow>
     F \<subseteq> set (pl_queue p) \<union> pl_sent p \<union> pl_reported p \<union> (\<Union>w \<in> set (pl_workers p). held (pw_phase w)) \<and>
     (\<forall>w \<in> set (pl_workers p). pw_abandoned w \<longrightarrow> held (pw_phase w) \<subseteq> pl_reported p \<and> pw_phase w \<noteq> Idle) \<and>
     (\<forall>w \<in> set (pl_workers p). \<not> pw_live w \<longrightarrow> pw_abandoned w \<or> pw_phase w = Gone) \<and>
     (\<forall>i f. pl_watch p = Some (i, f) \<longrightarrow> i < length (pl_workers p))"

lemma set_list_update:
  assumes "i < length xs"
  shows "\<exists>ys. set xs = insert (xs ! i) ys \<and> set (xs[i := x]) = insert x ys"
proof -
  have "xs = take i xs @ xs ! i # drop (Suc i) xs" using assms by (rule id_take_nth_drop)
  then have "set xs = insert (xs ! i) (set (take i xs) \<union> set (drop (Suc i) xs))"
    by (metis Un_insert_right list.simps(15) set_append)
  moreover have "set (xs[i := x]) = insert x (set (take i xs) \<union> set (drop (Suc i) xs))"
    using assms by (simp add: upd_conv_take_nth_drop)
  ultimately show ?thesis by blast
qed

lemma cover_moved:
  "F \<subseteq> Q \<union> S \<union> R \<union> (H \<union> U) \<Longrightarrow> H \<subseteq> H' \<union> s \<union> r \<Longrightarrow> Q \<subseteq> Q' \<union> H' \<Longrightarrow>
   F \<subseteq> Q' \<union> (s \<union> S) \<union> (r \<union> R) \<union> (H' \<union> U)"
  by auto

lemma accounted_set:
  assumes p: "accounted F p" and i: "i < length (pl_workers p)"
    and held: "held (pw_phase (pl_workers p ! i)) \<subseteq> held (pw_phase w) \<union> sent \<union> rep"
    and ab: "pw_abandoned w \<Longrightarrow> held (pw_phase w) \<subseteq> pl_reported p \<union> rep \<and> pw_phase w \<noteq> Idle"
    and live: "\<not> pw_live w \<Longrightarrow> pw_abandoned w \<or> pw_phase w = Gone"
    and queue: "set (pl_queue p) \<subseteq> set queue \<union> held (pw_phase w)" and watch: "\<forall>j f. watch = Some (j, f) \<longrightarrow> j < length (pl_workers p)"
  shows "accounted F (p\<lparr>pl_workers := (pl_workers p)[i := w], pl_queue := queue, pl_sent := sent \<union> pl_sent p,
     pl_reported := rep \<union> pl_reported p, pl_watch := watch\<rparr>)"
proof -
  obtain ys where ys: "set (pl_workers p) = insert (pl_workers p ! i) ys" "set ((pl_workers p)[i := w]) = insert w ys"
    using set_list_update [OF i, of w] by (elim exE conjE)
  have all: "F \<subseteq> set (pl_queue p) \<union> pl_sent p \<union> pl_reported p \<union> (held (pw_phase (pl_workers p ! i)) \<union> (\<Union>w \<in> ys. held (pw_phase w)))"
    using p by (simp add: accounted_def ys)
  have "F \<subseteq> set queue \<union> (sent \<union> pl_sent p) \<union> (rep \<union> pl_reported p) \<union> (\<Union>w \<in> insert w ys. held (pw_phase w))"
    unfolding UN_insert by (rule cover_moved [OF all held queue])
  moreover have "\<forall>w \<in> insert w ys. pw_abandoned w \<longrightarrow> held (pw_phase w) \<subseteq> rep \<union> pl_reported p \<and> pw_phase w \<noteq> Idle"
    using p ab unfolding accounted_def ys by blast
  moreover have "\<forall>w \<in> insert w ys. \<not> pw_live w \<longrightarrow> pw_abandoned w \<or> pw_phase w = Gone"
    using p live unfolding accounted_def ys by blast
  ultimately show ?thesis
    using watch by (simp add: accounted_def ys del: UN_insert)
qed

lemma accounted_step:
  assumes p: "accounted F p" and step: "pool_step True p q"
  shows "accounted F q"
proof -
  have watch: "\<forall>j f. pl_watch p = Some (j, f) \<longrightarrow> j < length (pl_workers p)" using p by (simp add: accounted_def)
  have worker: "pw_abandoned (pl_workers p ! i) \<longrightarrow> held (pw_phase (pl_workers p ! i)) \<subseteq> pl_reported p \<and> pw_phase (pl_workers p ! i) \<noteq> Idle"
    "\<not> pw_live (pl_workers p ! i) \<longrightarrow> pw_abandoned (pl_workers p ! i) \<or> pw_phase (pl_workers p ! i) = Gone"
    if "i < length (pl_workers p)" for i
    using p that by (auto simp: accounted_def)
  from step show ?thesis
  proof cases
    case (take_file i w f fs)
    have "accounted F (p\<lparr>pl_workers := (pl_workers p)[i := w\<lparr>pw_phase := Busy f\<rparr>], pl_queue := fs, pl_sent := {} \<union> pl_sent p,
       pl_reported := {} \<union> pl_reported p, pl_watch := pl_watch p\<rparr>)"
      by (rule accounted_set [OF p]) (use take_file worker [of i] watch in auto)
    with take_file show ?thesis by simp
  next
    case (clear_slot i w f)
    have "accounted F (p\<lparr>pl_workers := (pl_workers p)[i := w\<lparr>pw_phase := Cleared f\<rparr>], pl_queue := pl_queue p, pl_sent := {} \<union> pl_sent p,
       pl_reported := {} \<union> pl_reported p, pl_watch := pl_watch p\<rparr>)"
      by (rule accounted_set [OF p]) (use clear_slot worker [of i] watch in auto)
    with clear_slot show ?thesis by simp
  next
    case (send_result i w f)
    have "accounted F (p\<lparr>pl_workers := (pl_workers p)[i := w\<lparr>pw_phase := Idle\<rparr>], pl_queue := pl_queue p, pl_sent := {f} \<union> pl_sent p,
       pl_reported := {} \<union> pl_reported p, pl_watch := pl_watch p\<rparr>)"
      by (rule accounted_set [OF p]) (use send_result worker [of i] watch in auto)
    with send_result show ?thesis by simp
  next
    case (leave i w f)
    have "accounted F (p\<lparr>pl_workers := (pl_workers p)[i := w\<lparr>pw_phase := Gone\<rparr>], pl_queue := pl_queue p, pl_sent := {} \<union> pl_sent p,
       pl_reported := held (pw_phase w) \<union> pl_reported p, pl_watch := pl_watch p\<rparr>)"
      by (rule accounted_set [OF p]) (use leave worker [of i] watch in auto)
    moreover have "held (pw_phase w) \<union> pl_reported p = pl_reported p" using leave worker [of i] by auto
    ultimately show ?thesis using leave by simp
  next
    case (queue_closed i w)
    have "accounted F (p\<lparr>pl_workers := (pl_workers p)[i := w\<lparr>pw_phase := Gone, pw_live := False\<rparr>], pl_queue := pl_queue p,
       pl_sent := {} \<union> pl_sent p, pl_reported := {} \<union> pl_reported p, pl_watch := pl_watch p\<rparr>)"
      by (rule accounted_set [OF p]) (use queue_closed worker [of i] watch in auto)
    moreover have "p\<lparr>pl_workers := ws, pl_queue := []\<rparr> = p\<lparr>pl_workers := ws\<rparr>" for ws
      using queue_closed by (cases p) simp
    ultimately show ?thesis using queue_closed by simp
  next
    case (watch i w f)
    with p show ?thesis by (simp add: accounted_def)
  next
    case (abandon i f w)
    have i: "i < length (pl_workers p)" using watch abandon by blast
    have "accounted F (p\<lparr>pl_workers := (pl_workers p)[i := w\<lparr>pw_abandoned := True, pw_live := False\<rparr>], pl_queue := pl_queue p,
       pl_sent := {} \<union> pl_sent p, pl_reported := {f} \<union> pl_reported p, pl_watch := None\<rparr>)"
      by (rule accounted_set [OF p i]) (use abandon in auto)
    with abandon show ?thesis by simp
  next
    case (give_up i f)
    with p show ?thesis by (simp add: accounted_def)
  qed
qed

lemma accounted_reaches: "reaches True p q \<Longrightarrow> accounted F p \<Longrightarrow> accounted F q"
  by (induction rule: reaches.induct) (auto intro: accounted_step)

lemma start_accounted: "accounted (set fs) (start_pool fs n)"
  by (auto simp: accounted_def start_pool_def)

lemma accounted_done:
  assumes "accounted F p" and "pool_done p"
  shows "F \<subseteq> pl_sent p \<union> pl_reported p"
proof -
  have "held (pw_phase w) \<subseteq> pl_reported p" if "w \<in> set (pl_workers p)" for w
    using assms that by (cases "pw_abandoned w") (auto simp: accounted_def pool_done_def)
  then have "(\<Union>w \<in> set (pl_workers p). held (pw_phase w)) \<subseteq> pl_reported p" by (rule UN_least)
  moreover have "F \<subseteq> pl_sent p \<union> pl_reported p \<union> (\<Union>w \<in> set (pl_workers p). held (pw_phase w))"
    using assms by (simp add: accounted_def pool_done_def)
  ultimately show ?thesis by (metis Un_absorb2 sup_assoc)
qed

section \<open>With the watchdog's two steps a file can be lost\<close>

text \<open>The one worker is stalled at the first file. It finishes between the two steps of the watchdog,
  takes the second file and is then marked abandoned: it leaves without sending its result.\<close>

lemma pool_loses_file:
  "\<exists>p. reaches False (start_pool [''a'', ''b''] 1) p \<and> pool_done p \<and> ''b'' \<notin> pl_sent p \<union> pl_reported p"
proof -
  let ?w = "\<lambda>ph. \<lparr>pw_phase = ph, pw_abandoned = False, pw_live = True\<rparr>"
  let ?x = "\<lambda>ph. \<lparr>pw_phase = ph, pw_abandoned = True, pw_live = False\<rparr>"
  let ?p = "\<lambda>q w s r t. \<lparr>pl_queue = q, pl_workers = [w], pl_sent = s, pl_reported = r, pl_watch = t\<rparr>"
  note go = reaches.step [rotated]
  have "reaches False (start_pool [''a'', ''b''] 1) (?p [''a'', ''b''] (?w Idle) {} {} None)"
    using reaches.refl [of False "start_pool [''a'', ''b''] 1"] by (simp add: start_pool_def)
  then have "reaches False (start_pool [''a'', ''b''] 1) (?p [''b''] (?w (Busy ''a'')) {} {} None)"
    by (rule go [rotated]) (use pool_step.take_file [of 0 "?p [''a'', ''b''] (?w Idle) {} {} None"] in simp)
  then have "reaches False (start_pool [''a'', ''b''] 1) (?p [''b''] (?w (Busy ''a'')) {} {} (Some (0, ''a'')))"
    by (rule go [rotated]) (use pool_step.watch [of 0 "?p [''b''] (?w (Busy ''a'')) {} {} None"] in simp)
  then have "reaches False (start_pool [''a'', ''b''] 1) (?p [''b''] (?w (Cleared ''a'')) {} {} (Some (0, ''a'')))"
    by (rule go [rotated]) (use pool_step.clear_slot [of 0 "?p [''b''] (?w (Busy ''a'')) {} {} (Some (0, ''a''))"] in simp)
  then have "reaches False (start_pool [''a'', ''b''] 1) (?p [''b''] (?w Idle) {''a''} {} (Some (0, ''a'')))"
    by (rule go [rotated]) (use pool_step.send_result [of 0 "?p [''b''] (?w (Cleared ''a'')) {} {} (Some (0, ''a''))"] in simp)
  then have "reaches False (start_pool [''a'', ''b''] 1) (?p [] (?w (Busy ''b'')) {''a''} {} (Some (0, ''a'')))"
    by (rule go [rotated]) (use pool_step.take_file [of 0 "?p [''b''] (?w Idle) {''a''} {} (Some (0, ''a''))"] in simp)
  then have "reaches False (start_pool [''a'', ''b''] 1) (?p [] (?x (Busy ''b'')) {''a''} {''a''} None)"
    by (rule go [rotated]) (use pool_step.abandon [of "?p [] (?w (Busy ''b'')) {''a''} {} (Some (0, ''a''))" 0 "''a''"] in simp)
  then have "reaches False (start_pool [''a'', ''b''] 1) (?p [] (?x (Cleared ''b'')) {''a''} {''a''} None)"
    by (rule go [rotated]) (use pool_step.clear_slot [of 0 "?p [] (?x (Busy ''b'')) {''a''} {''a''} None"] in simp)
  then have "reaches False (start_pool [''a'', ''b''] 1) (?p [] (?x Gone) {''a''} {''a''} None)"
    by (rule go [rotated]) (use pool_step.leave [of 0 "?p [] (?x (Cleared ''b'')) {''a''} {''a''} None"] in simp)
  then show ?thesis
    by (intro exI conjI) (assumption, simp_all add: pool_done_def)
qed

end
