(* ===== verification/Engine_Theorems.thy ===== *)
theory Engine_Theorems
  imports Engine_Scan_Props Engine_Files_Props Engine_Workers
begin

text \<open>
  The properties of the scanner: the bounds of archive expansion, what a file reported without
  remarks went through, the roots and the walk, the numbers of a report, what a complete report
  means, and what the watchdog can lose.
\<close>

section \<open>Archives and files\<close>


definition sample_scan_config :: scan_config where
  "sample_scan_config =
     \<lparr>sc_roots = [''/r''], sc_excludes = [], sc_symlink_policy = SymSkip, sc_same_file_system = False,
      sc_limits = \<lparr>sl_max_file_size = 100, sl_max_depth = 9, sl_max_recorded_entries = 9, sl_max_recorded_findings = 9,
        sl_max_content_size = 50, sl_file_timeout_ms = 1000, sl_scan_timeout_ms = None,
        sl_archives = \<lparr>al_enabled = True, al_max_depth = 2, al_max_entries = 5, al_max_total_bytes = 80,
          al_max_member_content = 6\<rparr>\<rparr>,
      sc_workers = 1\<rparr>"

definition sample_handle :: "bytes \<Rightarrow> file_handle" where
  "sample_handle data =
     \<lparr>fh_kind = RegularFile, fh_len = length data, fh_id = (1, 2), fh_modified = None, fh_mode = 0x1A4,
      fh_pieces = [Ok (Piece data)]\<rparr>"

definition sample_calls :: "bytes \<Rightarrow> os_calls" where
  "sample_calls data =
     \<lparr>os_openat2 = (\<lambda>_ _. Ok (sample_handle data)), os_openat = (\<lambda>_ _ _. Err OsNoSys), os_beneath = (\<lambda>_ _. Err OsNoSys),
      os_text = (\<lambda>_. ''e'')\<rparr>"





















section \<open>Roots and the walk\<close>

text \<open>The roots that are walked are among the resolved ones, no two of them overlap, and every
  resolved root is one of them or below one: nothing asked for is left out or walked twice.\<close>

theorem roots_covered_once:
  assumes "\<forall>r \<in> set rs. prefix ''/'' r"
  shows "set (drop_nested rs) \<subseteq> set rs \<and> (\<forall>r \<in> set rs. \<exists>k \<in> set (drop_nested rs). path_starts_with r k) \<and>
    sorted_wrt (\<lambda>a b. \<not> path_starts_with a b \<and> \<not> path_starts_with b a) (drop_nested rs)"
  using drop_nested_props [OF assms] by blast

theorem roots_covered_once_witness:
  "set (drop_nested [''/b/c'', ''/a'', ''/b'']) \<subseteq> {''/b/c'', ''/a'', ''/b''} \<and>
   (\<exists>k \<in> set (drop_nested [''/b/c'', ''/a'', ''/b'']). path_starts_with ''/b/c'' k)"
  using roots_covered_once [of "[''/b/c'', ''/a'', ''/b'']"] by simp

lemma walk_roots_queue:
  "walk_roots os max_depth t i xss w = (True, v) \<Longrightarrow> list_all walk_law xss \<Longrightarrow>
     wk_queue v = wk_queue w @ concat (map2 (wanted t) [i..<i + length xss] xss)"
proof (induction xss arbitrary: i w)
  case (Cons xs xss)
  obtain b u where u: "walk_items os max_depth t i xs w = (b, u)" by fastforce
  with Cons.prems(1) have b: "b" and rest: "walk_roots os max_depth t (Suc i) xss u = (True, v)" by (cases b; simp)+
  have "wk_queue u = wk_queue w @ wanted t i xs"
    using walk_items_queue [of os max_depth t i xs w u] u b Cons.prems(2) by simp
  moreover have "wk_queue v = wk_queue u @ concat (map2 (wanted t) [Suc i..<Suc i + length xss] xss)"
    using Cons.IH [OF rest] Cons.prems(2) by simp
  moreover have "[i..<i + length (xs # xss)] = i # [Suc i..<Suc i + length xss]"
    using upt_conv_Cons [of i "i + length (xs # xss)"] by simp
  ultimately show ?case by (simp del: upt_Suc)
qed simp

text \<open>An undisturbed walk: nothing stops it and every answer of the queue and the channel is that
  the item was taken.\<close>

definition undisturbed :: "walker \<Rightarrow> bool" where
  "undisturbed w \<longleftrightarrow> True \<notin> set (wk_stops w) \<and> False \<notin> set (wk_takes w) \<and> False \<notin> set (wk_sends w)"

lemma undisturbed_steps:
  assumes "undisturbed w"
  shows "\<exists>u. wk_stopped w = (False, u) \<and> undisturbed u" and "\<exists>u. enqueue x w = (True, u) \<and> undisturbed u"
    and "\<exists>u. send m w = (True, u) \<and> undisturbed u"
proof -
  show "\<exists>u. wk_stopped w = (False, u) \<and> undisturbed u"
    using assms by (cases "wk_stops w") (auto simp: wk_stopped_def answer_def undisturbed_def)
  show "\<exists>u. enqueue x w = (True, u) \<and> undisturbed u"
    using assms by (cases "wk_takes w") (auto simp: enqueue_def answer_def undisturbed_def)
  show "\<exists>u. send m w = (True, u) \<and> undisturbed u"
    using assms by (cases "wk_sends w") (auto simp: send_def answer_def undisturbed_def)
qed

lemma emit_undisturbed:
  assumes "undisturbed w" and "\<And>u. undisturbed u \<Longrightarrow> \<exists>v. rest u = (True, v) \<and> undisturbed v"
  shows "\<exists>v. emit m rest w = (True, v) \<and> undisturbed v"
  using undisturbed_steps(3) [OF assms(1), of m] assms(2) by (auto simp: emit_def)

lemma walk_items_undisturbed:
  "undisturbed w \<Longrightarrow> \<exists>v. walk_items os max_depth t i xs w = (True, v) \<and> undisturbed v"
proof (induction xs arbitrary: w rule: length_induct)
  case (1 xs)
  note ih = "1.IH" [rule_format]
  obtain u where u: "wk_stopped w = (False, u)" "undisturbed u" using undisturbed_steps(1) "1.prems" by blast
  show ?case
  proof (cases xs)
    case Nil
    with u show ?thesis by simp
  next
    case (Cons x ys)
    note step = walk_items_Cons [OF u(1), of os max_depth t i x ys]
    have later: "\<exists>v. walk_items os max_depth t i zs w' = (True, v) \<and> undisturbed v" if "undisturbed w'" "length zs \<le> length ys" for w' zs
      using ih [OF _ that(1), of zs] that(2) Cons by simp
    note go = emit_undisturbed [OF u(2)]
    show ?thesis
    proof (cases x)
      case (Inl f)
      with step go [of "walk_items os max_depth t i ys"] later Cons show ?thesis by simp
    next
      case (Inr e)
      show ?thesis
      proof (cases "is_excluded t e")
        case True
        have "length (if we_kind e = DirectoryFile then dropWhile (\<lambda>y. we_depth e < item_depth y) ys else ys) \<le> length ys"
          by (simp add: length_dropWhile_le)
        with True step go [of "walk_items os max_depth t i (if we_kind e = DirectoryFile
            then dropWhile (\<lambda>y. we_depth e < item_depth y) ys else ys)"] later Cons Inr
        show ?thesis by simp
      next
        case False
        show ?thesis
        proof (cases "we_kind e")
          case RegularFile
          obtain v where v: "enqueue (i, we_path e) u = (True, v)" "undisturbed v" using undisturbed_steps(2) u(2) by blast
          with RegularFile step later [of v ys] Cons Inr False show ?thesis by simp
        next
          case DirectoryFile
          have "\<exists>v. (if we_depth e < max_depth then walk_items os max_depth t i ys w'
                else emit (MsgSkipped (we_path e) DepthLimitReached) (walk_items os max_depth t i ys) w') = (True, v) \<and>
              undisturbed v" if "undisturbed w'" for w'
            using emit_undisturbed [OF that, of "walk_items os max_depth t i ys"] later that by simp
          from go [OF this] DirectoryFile step Cons Inr False show ?thesis by simp
        qed (use step go [of "walk_items os max_depth t i ys"] later Cons Inr False in simp_all)
      qed
    qed
  qed
qed

lemma walk_roots_undisturbed:
  "undisturbed w \<Longrightarrow> \<exists>v. walk_roots os max_depth t i xss w = (True, v)"
proof (induction xss arbitrary: i w)
  case (Cons xs xss)
  from walk_items_undisturbed [OF Cons.prems, of os max_depth t i xs] Cons.IH show ?case by auto
qed simp

text \<open>C15: The walk of any trees ends, and one that nothing stops puts on the queue exactly the regular
  files that are not below an excluded path, each once, in the order of the walk and with the
  number of its root: leaving an excluded directory skips no file outside it.\<close>

theorem walk_queues_files:
  assumes "undisturbed w" and "list_all walk_law xss"
  shows "\<exists>v. walk_roots os max_depth t 0 xss w = (True, v) \<and>
    wk_queue v = wk_queue w @ concat (map2 (wanted t) [0..<length xss] xss)"
proof -
  obtain v where v: "walk_roots os max_depth t 0 xss w = (True, v)" using walk_roots_undisturbed [OF assms(1)] by blast
  from walk_roots_queue [OF v assms(2)] v show ?thesis by simp
qed

definition sample_walk :: "walk_item list" where
  "sample_walk =
     [Ok \<lparr>we_path = ''/r'', we_kind = DirectoryFile, we_depth = 0\<rparr>,
      Ok \<lparr>we_path = ''/r/x'', we_kind = DirectoryFile, we_depth = 1\<rparr>,
      Ok \<lparr>we_path = ''/r/x/f'', we_kind = RegularFile, we_depth = 2\<rparr>,
      Err \<lparr>wf_path = None, wf_loop = False, wf_io = None, wf_text = ''e'', wf_depth = 1\<rparr>,
      Ok \<lparr>we_path = ''/r/g'', we_kind = RegularFile, we_depth = 1\<rparr>]"

definition sample_targets :: scan_targets where
  "sample_targets = \<lparr>tg_roots = [''/r''], tg_excludes = [''/r/x''], tg_issues = []\<rparr>"

definition sample_walker :: walker where
  "sample_walker = \<lparr>wk_stops = [False], wk_takes = [], wk_sends = [True], wk_queue = [], wk_msgs = []\<rparr>"

theorem walk_queues_files_witness:
  "\<exists>v. walk_roots (sample_calls []) 9 sample_targets 0 [sample_walk] sample_walker = (True, v) \<and>
     wk_queue v = [(0, ''/r/g'')]"
proof -
  have "undisturbed sample_walker" by (simp add: undisturbed_def sample_walker_def)
  moreover have "list_all walk_law [sample_walk]"
    by (simp add: sample_walk_def item_depth_def path_starts_with_def components_def Let_def)
  moreover have "wanted sample_targets 0 sample_walk = [(0, ''/r/g'')]"
    by (simp add: sample_walk_def sample_targets_def is_excluded_def path_starts_with_def components_def Let_def)
  ultimately show ?thesis
    using walk_queues_files [of sample_walker "[sample_walk]" "sample_calls []" 9 sample_targets]
    by (simp add: sample_walker_def)
qed

section \<open>Reports\<close>

text \<open>The numbers of every report that a scan returns add up: what is listed and what was omitted
  are what was counted, the skips by reason are all the skips, and the lists are within the limits of the configuration,
  the findings sorted by target, name and rule. The number of worker threads ever started is at
  most twice the configured one, however many files stall.\<close>

theorem report_adds_up:
  assumes "scan cfg infos t facts run = Some (Ok r)" and "run_workers run \<le> sc_workers cfg"
  shows "len64 (rp_findings r) + tr_findings_omitted (rp_truncated r) = st_findings (rp_stats r) \<and>
    len64 (rp_skipped r) + tr_skipped_omitted (rp_truncated r) = st_entries_skipped (rp_stats r) \<and>
    len64 (rp_issues r) + tr_issues_omitted (rp_truncated r) = st_issues (rp_stats r) \<and>
    length (rp_findings r) \<le> sl_max_recorded_findings (sc_limits cfg) \<and>
    length (rp_skipped r) \<le> sl_max_recorded_entries (sc_limits cfg) \<and>
    length (rp_issues r) \<le> sl_max_recorded_entries (sc_limits cfg) \<and>
    sum_list (map (reason_count (rp_stats r)) all_reasons) = st_entries_skipped (rp_stats r) \<and>
    sorted (map finding_key (rp_findings r)) \<and>
    (\<exists>c. coordinate cfg (run_rounds run) (start_scan cfg t run) = Some c \<and> length (co_live c) \<le> 2 * sc_workers cfg)"
proof -
  obtain k c where c: "c = check_unscanned run (foldl (\<lambda>c r. co_round cfg r c) (start_scan cfg t run) (take k (run_rounds run)))"
    "co_ok cfg c" "r = ag_finish cfg infos t facts (status_of (co_stop c)) (co_stop c) (co_abandoned c) (co_agg c)"
    using scan_Ok [OF assms] by blast
  obtain d where d: "coordinate cfg (run_rounds run) (start_scan cfg t run) = Some d"
    using assms(1) by (auto simp: scan_def split: option.splits)
  obtain j where "d = foldl (\<lambda>c r. co_round cfg r c) (start_scan cfg t run) (take j (run_rounds run))"
    using coordinate_rounds [OF d] by blast
  then have "co_ok cfg d" using co_rounds_props(1) start_scan_props(1) assms(2) by blast
  then have "length (co_live d) \<le> 2 * sc_workers cfg" by (auto simp: co_ok_def)
  with c(2) d show ?thesis
    unfolding c(3) by (simp add: ag_finish_def co_ok_def ag_ok_def)
qed

definition sample_run :: scan_run where
  "sample_run =
     \<lparr>run_cancelled = False, run_workers = 1, run_walker = True,
      run_rounds = map (\<lambda>m. \<lparr>sr_msg = m, sr_cancelled = False, sr_past_deadline = False, sr_stalled = (\<lambda>_. None),
          sr_spawns = True\<rparr>)
        [Some MsgDirectory, Some (MsgScanned ''/r/f'' 4 empty_file_result), None, Some (MsgSkipped ''/r/l'' SymlinkNotFollowed),
         Some (MsgExited Walker False), Some (MsgExited (Worker 0) False)],
      run_enqueued = 1, run_dequeued = 1, run_join_panicked = False\<rparr>"

definition sample_facts :: report_facts where
  "sample_facts = \<lparr>rf_version = ''1'', rf_scan_id = ''s'', rf_started = 0, rf_finished = 1\<rparr>"

definition sample_scan_stats :: scan_stats where
  "sample_scan_stats = default_stats\<lparr>st_files_scanned := 1, st_bytes_scanned := 4, st_directories_visited := 1,
     st_entries_skipped := 1, st_skipped_by_reason := [SymlinkNotFollowed \<mapsto> 1]\<rparr>"

definition sample_aggregator :: aggregator where
  "sample_aggregator =
     \<lparr>ag_stats = sample_scan_stats, ag_findings = [],
      ag_skipped = [\<lparr>sk_path = from_path ''/r/l'', sk_reason = SymlinkNotFollowed, sk_member = None\<rparr>], ag_issues = [],
      ag_truncated = default_truncation, ag_max_entries = 9, ag_max_findings = 9,
      ag_progress = [(PrFileScanned ''/r/f'' 4, default_stats\<lparr>st_files_scanned := 1, st_bytes_scanned := 4, st_directories_visited := 1\<rparr>),
        (PrSkipped ''/r/l'' SymlinkNotFollowed, sample_scan_stats)]\<rparr>"

lemma sample_coordinate:
  "coordinate sample_scan_config (run_rounds sample_run) (start_scan sample_scan_config sample_targets sample_run) =
     Some \<lparr>co_agg = sample_aggregator, co_live = [False], co_walker_done = True, co_panicked = False, co_abandoned = 0,
       co_stop = None\<rparr>"
  by (simp add: sample_run_def start_scan_def sample_targets_def coordinate.simps co_round_def co_receive_def
      co_check_stop_def co_watch_def Let_def ag_handle_def new_aggregator_def sample_scan_config_def
      sample_aggregator_def sample_scan_stats_def ag_skip_def on_progress_def empty_file_result_def default_stats_def)

lemma sample_scan:
  "scan sample_scan_config [] sample_targets sample_facts sample_run =
     Some (Ok (ag_finish sample_scan_config [] sample_targets sample_facts ScanCompleted None 0 sample_aggregator))"
  by (simp add: scan_def sample_coordinate check_unscanned_def)
    (simp add: sample_run_def sample_scan_config_def status_of_def)

lemma sample_workers: "run_workers sample_run \<le> sc_workers sample_scan_config"
  by (simp add: sample_run_def sample_scan_config_def)

theorem report_adds_up_witness:
  "let r = ag_finish sample_scan_config [] sample_targets sample_facts ScanCompleted None 0 sample_aggregator
   in len64 (rp_skipped r) + tr_skipped_omitted (rp_truncated r) = st_entries_skipped (rp_stats r) \<and>
      sum_list (map (reason_count (rp_stats r)) all_reasons) = 1 \<and> length (rp_skipped r) \<le> 9"
  using report_adds_up [OF sample_scan sample_workers]
  by (simp add: Let_def) (simp add: ag_finish_def sample_aggregator_def sample_scan_stats_def)

text \<open>C8: A report that is complete (its status is completed and it counts no issue) comes from a scan
  that ended by itself and, short of $2^{64}$ issues, met none: every root was resolved, it was
  never cancelled or out of time, no message told of an issue, no worker stalled, and every file
  on the queue was taken from it.\<close>

theorem complete_report_clean:
  assumes "scan cfg infos t facts run = Some (Ok r)" and "run_workers run \<le> sc_workers cfg" and "report_is_complete r"
  shows "\<exists>k c. c = foldl (\<lambda>c r. co_round cfg r c) (start_scan cfg t run) (take k (run_rounds run)) \<and>
    co_walker_done c \<and> True \<notin> set (co_live c) \<and> \<not> co_panicked c \<and> \<not> run_cancelled run \<and>
    run_enqueued run \<le> run_dequeued run \<and>
    list_all (\<lambda>r. \<not> sr_cancelled r \<and> \<not> sr_past_deadline r) (take k (run_rounds run)) \<and>
    (issues_seen (co_agg c) < 2 ^ 64 \<longrightarrow>
       tg_issues t = [] \<and> co_abandoned c = 0 \<and> list_all (\<lambda>r. msg_issues (sr_msg r) = 0) (take k (run_rounds run)))"
proof -
  let ?s = "start_scan cfg t run"
  obtain k c where c: "c = check_unscanned run (foldl (\<lambda>c r. co_round cfg r c) ?s (take k (run_rounds run)))"
    "co_ok cfg c" "True \<notin> set (co_live c)" "co_walker_done c" "\<not> co_panicked c"
    "r = ag_finish cfg infos t facts (status_of (co_stop c)) (co_stop c) (co_abandoned c) (co_agg c)"
    using scan_Ok [OF assms(1,2)] by blast
  define d where "d = foldl (\<lambda>c r. co_round cfg r c) ?s (take k (run_rounds run))"
  have complete: "co_stop c = None" "st_issues (ag_stats (co_agg c)) = 0"
    using assms(3) unfolding c(6)
    by (auto simp: report_is_complete_def ag_finish_def status_of_def split: option.splits stop_reason.splits)
  then have stop: "co_stop d = None" and taken: "run_enqueued run \<le> run_dequeued run"
    using check_unscanned_props(4) [of run d] c(1) d_def by auto
  then have same: "c = d" by (simp add: c(1) d_def [symmetric] check_unscanned_def)
  have rounds: "co_stop ?s = None" "list_all (\<lambda>r. \<not> sr_cancelled r \<and> \<not> sr_past_deadline r) (take k (run_rounds run))"
    using co_rounds_props(3) [where cfg = cfg and c = ?s and rs = "take k (run_rounds run)"] stop by (simp_all add: d_def)
  have few: "tg_issues t = [] \<and> co_abandoned d = 0 \<and> list_all (\<lambda>r. msg_issues (sr_msg r) = 0) (take k (run_rounds run))"
    if "issues_seen (co_agg d) < 2 ^ 64"
  proof -
    have "of_nat (issues_seen (co_agg d)) = (0 :: u64)" using c(2) complete(2) same by (simp add: co_ok_def ag_ok_def)
    then have zero: "issues_seen (co_agg d) = 0"
      using that by (simp add: word_of_nat_eq_0_iff) (use nat_dvd_not_less in blast)
    then show ?thesis
      using co_rounds_props(2) [where c = ?s and cfg = cfg and rs = "take k (run_rounds run)"] start_scan_props(2) [of cfg t run] c(2) same
      by (auto simp: d_def co_ok_def list_all_iff)
  qed
  from c(3-5) rounds start_scan_props(3) [of cfg t run] taken few show ?thesis
    unfolding same by (intro exI [of _ k] exI [of _ d]) (simp add: d_def)
qed

theorem complete_report_clean_witness:
  "\<exists>k c. c = foldl (\<lambda>c r. co_round sample_scan_config r c) (start_scan sample_scan_config sample_targets sample_run)
      (take k (run_rounds sample_run)) \<and> co_walker_done c"
proof -
  have "report_is_complete (ag_finish sample_scan_config [] sample_targets sample_facts ScanCompleted None 0 sample_aggregator)"
    by (simp add: report_is_complete_def ag_finish_def sample_aggregator_def sample_scan_stats_def default_stats_def)
  from complete_report_clean [OF sample_scan sample_workers this] show ?thesis by blast
qed

section \<open>Stalled workers\<close>

text \<open>C16: The watchdog reads which file a stalled worker is at and marks the worker abandoned in two
  steps. A worker that finishes in between and takes the next file has that file's result thrown
  away, and nothing reports it: all workers are done, the queue is empty, and the scan counts as
  completed without the file. If the two steps were one, every file would be sent or reported.\<close>

theorem watchdog_race_loses_file:
  "(\<exists>p. reaches False (start_pool [''a'', ''b''] 1) p \<and> pool_done p \<and> ''b'' \<notin> pl_sent p \<union> pl_reported p) \<and>
   {p. reaches True (start_pool fs n) p \<and> pool_done p} \<subseteq> {p. set fs \<subseteq> pl_sent p \<union> pl_reported p}"
  using pool_loses_file accounted_done accounted_reaches start_accounted by blast

end
