(* ===== verification/Update.thy ===== *)
theory Update
  imports Content_State_Props "HOL-Library.AList" "HOL-Library.List_Lexorder" "HOL-Library.Char_ord"
begin

text \<open>
  \<open>crates/update/src/lib.rs\<close>: fetching the latest signed bundle, verifying it in a staging
  directory and swapping it into place.

  The content directory is a list of named directories, each a list of files by relative path; a
  change of the disk is a \<open>disk_change\<close>, which may succeed, fail and change nothing, or be the
  point where the process stops. Reading the disk does not fail. The source answers as \<open>transport\<close>
  says: nothing is assumed of it.
\<close>

section \<open>Sources\<close>

definition TS_SIGNATURE_BYTES :: u64 where
  "TS_SIGNATURE_BYTES = 4096"

datatype update_source = HttpsSource string | DirSource string

datatype update_error =
    UpSource string
  | UpMissing string
  | UpFetch string string
  | UpFreshness freshness_error
  | UpState state_error
  | UpBundle bundle_error
  | UpMismatch string
  | UpInvalid string
  | UpIo string
  | UpStopped

definition parse_source :: "string \<Rightarrow> update_error + update_source" where
  "parse_source s =
     (case strip_prefix ''https://'' s of
        Some rest \<Rightarrow>
          if rest = [] \<or> list_ex is_whitespace (chars rest) then Err (UpSource (''invalid URL '' @ quoted s))
          else Ok (HttpsSource (if suffix ''/'' s then s else s @ ''/''))
      | None \<Rightarrow>
          if contains_str s ''://''
          then Err (UpSource (s @ '': only https:// sources and local directories are supported''))
          else Ok (DirSource s))"

definition url_safe :: "char \<Rightarrow> bool" where
  "url_safe c \<longleftrightarrow> is_ascii_alphanumeric c \<or> c \<in> set ''-._~/''"

definition url_path :: "string \<Rightarrow> string" where
  "url_path rel =
     concat (map (\<lambda>c. if url_safe c then [c] else ''%'' @ to_ascii_uppercase (hex_encode [u8_of_char c])) rel)"

text \<open>The answers of a server: an error, or a status and what reading the body within a limit
  gives; those of a directory: the content or an error when opening or reading.\<close>

record transport =
  tr_https :: "string \<Rightarrow> string + (nat \<times> (u64 \<Rightarrow> string + bytes))"
  tr_open :: "string \<Rightarrow> (io_kind \<times> string) + (string + bytes)"

definition fetch_get :: "transport \<Rightarrow> update_source \<Rightarrow> string \<Rightarrow> u64 \<Rightarrow> update_error + bytes option" where
  "fetch_get t src rel limit =
     (case src of
        HttpsSource base \<Rightarrow>
          and_then (map_err (UpFetch rel) (tr_https t (base @ url_path rel))) (\<lambda>(code, body).
          if code = 200 then and_then (map_err (UpFetch rel) (body limit)) (\<lambda>data. Ok (Some data))
          else if code = 404 \<or> code = 410 then Ok None
          else Err (UpFetch rel (''HTTP status '' @ show_nat code)))
      | DirSource base \<Rightarrow>
          (case tr_open t (path_join base rel) of
             Err (NotFoundKind, _) \<Rightarrow> Ok None
           | Err (_, e) \<Rightarrow> Err (UpFetch rel e)
           | Ok r \<Rightarrow>
               and_then (map_err (UpFetch rel) r) (\<lambda>content.
               let data = take (unat (limit + 1)) content
               in if limit < len64 data
                  then Err (UpFetch rel (''larger than '' @ show_nat (unat limit) @ '' bytes''))
                  else Ok (Some data))))"

definition fetch_require :: "transport \<Rightarrow> update_source \<Rightarrow> string \<Rightarrow> u64 \<Rightarrow> update_error + bytes" where
  "fetch_require t src rel limit =
     and_then (fetch_get t src rel limit) (\<lambda>r. ok_or (UpMissing rel) r)"

section \<open>The disk\<close>

type_synonym tree = "(string \<times> bytes) list"

record content_disk =
  cd_dirs :: "(string \<times> tree) list"
  cd_state :: "io_kind + bytes"
  cd_faults :: "fault list"

type_synonym 'a update_result = "content_disk \<times> (update_error + 'a)"

definition disk_change :: "update_error \<Rightarrow> (content_disk \<Rightarrow> content_disk) \<Rightarrow> content_disk \<Rightarrow> unit update_result" where
  "disk_change e f w =
     (case cd_faults w of
        [] \<Rightarrow> (f w, Ok ())
      | NoFault # fs \<Rightarrow> (f (w\<lparr>cd_faults := fs\<rparr>), Ok ())
      | IoFault # fs \<Rightarrow> (w\<lparr>cd_faults := fs\<rparr>, Err e)
      | CrashFault # fs \<Rightarrow> (w\<lparr>cd_faults := fs\<rparr>, Err UpStopped))"

text \<open>\<open>let _ = ...\<close>, and \<open>is_ok()\<close>: an error is ignored or told, a stop is not.\<close>

definition told :: "'a update_result \<Rightarrow> bool update_result" where
  "told m =
     (case m of
        (w, Err UpStopped) \<Rightarrow> (w, Err UpStopped)
      | (w, Err _) \<Rightarrow> (w, Ok False)
      | (w, Ok _) \<Rightarrow> (w, Ok True))"

definition dir_of :: "string \<Rightarrow> content_disk \<Rightarrow> tree option" where
  "dir_of n w = map_of (cd_dirs w) n"

definition set_dir :: "string \<Rightarrow> tree \<Rightarrow> content_disk \<Rightarrow> content_disk" where
  "set_dir n t w = w\<lparr>cd_dirs := AList.update n t (cd_dirs w)\<rparr>"

definition drop_dir :: "string \<Rightarrow> content_disk \<Rightarrow> content_disk" where
  "drop_dir n w = w\<lparr>cd_dirs := AList.delete n (cd_dirs w)\<rparr>"

text \<open>\<open>remove_dir_all\<close> takes the files first and stops at the first error.\<close>

definition drop_file :: "string \<Rightarrow> string \<Rightarrow> content_disk \<Rightarrow> content_disk" where
  "drop_file n p w = (case dir_of n w of None \<Rightarrow> w | Some t \<Rightarrow> set_dir n (AList.delete p t) w)"

definition remove_dir_all :: "string \<Rightarrow> content_disk \<Rightarrow> unit update_result" where
  "remove_dir_all n w =
     (case dir_of n w of
        None \<Rightarrow> (w, Err (UpIo n))
      | Some t \<Rightarrow>
          st_then (st_fold (\<lambda>w p. disk_change (UpIo n) (drop_file n p) w) w (map fst t)) (\<lambda>w _.
          disk_change (UpIo n) (drop_dir n) w))"

text \<open>\<open>rename\<close> of a directory: there is nothing at the new name, or only an empty directory.\<close>

definition rename_dir :: "string \<Rightarrow> string \<Rightarrow> content_disk \<Rightarrow> unit update_result" where
  "rename_dir a b w =
     (case dir_of a w of
        None \<Rightarrow> (w, Err (UpIo a))
      | Some t \<Rightarrow>
          if (case dir_of b w of Some u \<Rightarrow> u \<noteq> [] | None \<Rightarrow> False) then (w, Err (UpIo b))
          else disk_change (UpIo a) (\<lambda>w. set_dir b t (drop_dir a w)) w)"

text \<open>\<open>write_file\<close> below a directory: the file must be new, and no path may be both a file and a
  directory. Directories are not in the model, but making them can fail.\<close>

definition clashes :: "string \<Rightarrow> tree \<Rightarrow> bool" where
  "clashes p t \<longleftrightarrow> list_ex (\<lambda>(q, _). q = p \<or> prefix (q @ ''/'') p \<or> prefix (p @ ''/'') q) t"

definition put_file :: "string \<Rightarrow> string \<Rightarrow> bytes \<Rightarrow> content_disk \<Rightarrow> content_disk" where
  "put_file n p data w =
     (case dir_of n w of None \<Rightarrow> w | Some t \<Rightarrow> set_dir n (AList.update p data t) w)"

definition write_file :: "string \<Rightarrow> string \<Rightarrow> bytes \<Rightarrow> content_disk \<Rightarrow> unit update_result" where
  "write_file n p data w =
     (case dir_of n w of
        None \<Rightarrow> (w, Err (UpIo n))
      | Some t \<Rightarrow>
          if clashes p t then (w, Err (UpIo p))
          else
            st_then (disk_change (UpIo p) (\<lambda>w. w) w) (\<lambda>w _.
            st_then (disk_change (UpIo p) (put_file n p []) w) (\<lambda>w _.
            st_then (disk_change (UpIo p) (put_file n p data) w) (\<lambda>w _.
            disk_change (UpIo p) (\<lambda>w. w) w))))"

section \<open>Recovery\<close>

definition staging_prefix :: "string \<Rightarrow> string" where
  "staging_prefix name = ''.staging-'' @ name @ ''-''"

definition old_prefix :: "string \<Rightarrow> string" where
  "old_prefix name = ''.old-'' @ name @ ''-''"

definition old_copies :: "string \<Rightarrow> content_disk \<Rightarrow> string list" where
  "old_copies name w =
     filter (\<lambda>n. prefix (old_prefix name) n \<and> \<not> prefix (staging_prefix name) n) (map fst (cd_dirs w))"

text \<open>If the bundle is missing, the last copy by name is put back; the copies that are left.\<close>

definition put_back :: "string \<Rightarrow> string list \<Rightarrow> content_disk \<Rightarrow> string list update_result" where
  "put_back name old w =
     (if dir_of name w = None \<and> old \<noteq> []
      then let latest = last (sort old)
           in st_then (told (rename_dir latest name w)) (\<lambda>w moved.
              (w, Ok (if moved then filter (\<lambda>n. n \<noteq> latest) old else old)))
      else (w, Ok old))"

definition remove_dirs :: "string list \<Rightarrow> content_disk \<Rightarrow> unit update_result" where
  "remove_dirs ns w = st_then (st_fold (\<lambda>w n. told (remove_dir_all n w)) w ns) (\<lambda>w _. (w, Ok ()))"

definition recover_dirs :: "string \<Rightarrow> content_disk \<Rightarrow> unit update_result" where
  "recover_dirs name w =
     st_then (told (disk_change (UpIo name) (\<lambda>w. w) w)) (\<lambda>w listed.
     if \<not> listed then (w, Ok ())
     else
       let staged = filter (prefix (staging_prefix name)) (map fst (cd_dirs w)); old = old_copies name w
       in st_then (remove_dirs staged w) (\<lambda>w _.
          st_then (put_back name old w) (\<lambda>w old. remove_dirs old w)))"

section \<open>Updating\<close>

record 'sig update_env =
  ue_source :: update_source
  ue_transport :: transport
  ue_content_dir :: string
  ue_state_path :: string
  ue_keys :: trusted_keys
  ue_allow_expired :: bool
  ue_validate :: "verified_bundle \<Rightarrow> string + unit"
  ue_now :: instant
  ue_minisign :: "'sig minisign"
  ue_sha :: "bytes \<Rightarrow> digest"
  ue_parse_manifest :: "bytes \<Rightarrow> manifest option"
  ue_parse_timestamp :: "bytes \<Rightarrow> timestamp option"
  ue_parse_state :: "bytes \<Rightarrow> state_file option"
  ue_state_json :: "state_file \<Rightarrow> bytes option"
  ue_staging_suffix :: "string option"
  ue_old_suffix :: "string option"

record update_outcome =
  uo_bundle :: string
  uo_previous :: "u64 option"
  uo_sequence :: u64
  uo_installed :: string
  uo_changed :: bool
  uo_timestamp_version :: u64
  uo_timestamp_expires :: instant

text \<open>The loop over the recorded revocations; the order does not matter.\<close>

definition revoke_recorded :: "string set \<Rightarrow> trusted_keys \<Rightarrow> trusted_keys" where
  "revoke_recorded ids ks =
     ks\<lparr>ks_keys := map (\<lambda>k. if \<exists>i \<in> ids. eq_ignore_ascii_case (key_id_str (tk_id k)) i then k\<lparr>tk_revoked := True\<rparr> else k)
        (ks_keys ks)\<rparr>"

text \<open>Reading below the staging directory, as \<open>load_bundle\<close> does: by path, and relative to the
  opened directory.\<close>

definition tree_read :: "string \<Rightarrow> tree \<Rightarrow> string \<Rightarrow> io_kind + bytes" where
  "tree_read dir t p =
     (case strip_prefix (dir @ ''/'') p of
        None \<Rightarrow> Err NotFoundKind
      | Some rel \<Rightarrow> ok_or NotFoundKind (map_of t rel))"

definition tree_open :: "tree \<Rightarrow> string \<Rightarrow> string + (string \<Rightarrow> string + bytes)" where
  "tree_open t dir = Ok (\<lambda>rel. ok_or ''not found'' (map_of t rel))"

definition load_staged ::
  "'sig update_env \<Rightarrow> trusted_keys \<Rightarrow> string \<Rightarrow> tree \<Rightarrow> bundle_error + verified_bundle" where
  "load_staged env ks dir t =
     load_bundle (ue_minisign env) (ue_sha env) (ue_parse_manifest env) (tree_read dir t) (tree_open t) dir ks
       \<lparr>lo_allow_expired = ue_allow_expired env, lo_now = ue_now env\<rparr>"

definition save_state :: "'sig update_env \<Rightarrow> state_file \<Rightarrow> content_disk \<Rightarrow> unit update_result" where
  "save_state env st w =
     (let e = UpState (StateIo (ue_state_path env) OtherKind)
      in case ue_state_json env st of
           None \<Rightarrow> (w, Err e)
         | Some json \<Rightarrow>
             st_then (disk_change e (\<lambda>w. w\<lparr>cd_state := Ok json\<rparr>) w) (\<lambda>w _. disk_change e (\<lambda>w. w) w))"

text \<open>The optional further signatures: up to the first that is missing.\<close>

fun fetch_signatures :: "'sig update_env \<Rightarrow> string \<Rightarrow> nat list \<Rightarrow> content_disk \<Rightarrow> unit update_result" where
  "fetch_signatures env stage [] w = (w, Ok ())"
| "fetch_signatures env stage (n # ns) w =
     (let name = MANIFEST_FILE @ ''.minisig.'' @ show_nat n
      in st_then (w, fetch_get (ue_transport env) (ue_source env) name TS_SIGNATURE_BYTES) (\<lambda>w r.
         case r of
           None \<Rightarrow> (w, Ok ())
         | Some sig \<Rightarrow>
             st_then (write_file stage name sig w) (\<lambda>w _. fetch_signatures env stage ns w)))"

definition fetch_file :: "'sig update_env \<Rightarrow> string \<Rightarrow> content_disk \<Rightarrow> manifest_file \<Rightarrow> unit update_result" where
  "fetch_file env stage w f =
     st_then (w, fetch_require (ue_transport env) (ue_source env) (mf_path f) (mf_size f)) (\<lambda>w data.
     if len64 data \<noteq> mf_size f \<or> ue_sha env data \<noteq> mf_sha256 f
     then (w, Err (UpMismatch (mf_path f @ '' differs from its manifest entry'')))
     else write_file stage (mf_path f) data w)"

text \<open>Steps 2 and 3: everything into the staging directory \<open>stage\<close>, which was just created.\<close>

definition download :: "'sig update_env \<Rightarrow> timestamp \<Rightarrow> string \<Rightarrow> content_disk \<Rightarrow> unit update_result" where
  "download env ts stage w =
     (let get = fetch_require (ue_transport env) (ue_source env); sig = MANIFEST_FILE @ ''.minisig''
      in st_then (w, get MANIFEST_FILE MAX_MANIFEST_BYTES) (\<lambda>w data.
         if len64 data \<noteq> ts_manifest_size ts \<or> ue_sha env data \<noteq> ts_manifest_sha256 ts
         then (w, Err (UpMismatch ''manifest.json differs from the one the timestamp names''))
         else
           st_then (w, ok_or (UpMismatch ''manifest.json: not valid'') (ue_parse_manifest env data)) (\<lambda>w manifest.
           st_then (w, map_err (\<lambda>e. UpBundle (InvalidManifest e)) (validate_manifest manifest)) (\<lambda>w _.
           if m_name manifest \<noteq> ts_bundle ts \<or> m_sequence manifest \<noteq> ts_sequence ts
           then (w, Err (UpMismatch ''manifest name or sequence differs from the timestamp''))
           else
             st_then (write_file stage MANIFEST_FILE data w) (\<lambda>w _.
             st_then (w, get sig TS_SIGNATURE_BYTES) (\<lambda>w s.
             st_then (write_file stage sig s w) (\<lambda>w _.
             st_then (fetch_signatures env stage [2..<Suc MAX_SIGNATURES] w) (\<lambda>w _.
             st_then (st_fold (fetch_file env stage) w (m_files manifest)) (\<lambda>w _. (w, Ok ()))))))))))"

text \<open>Step 4: what is staged is loaded as a scan would, checked against the state and validated.\<close>

definition verify_staged ::
  "'sig update_env \<Rightarrow> trusted_keys \<Rightarrow> state_file \<Rightarrow> string \<Rightarrow> content_disk \<Rightarrow> verified_bundle update_result" where
  "verify_staged env ks st stage w =
     (w, and_then (ok_or (UpIo stage) (dir_of stage w)) (\<lambda>t.
         and_then (map_err UpBundle (load_staged env ks (path_join (ue_content_dir env) stage) t)) (\<lambda>vb.
         and_then (map_err UpState (check_bundle st vb (min_sequence ks (m_name (vb_manifest vb))))) (\<lambda>_.
         and_then (map_err UpInvalid (ue_validate env vb)) (\<lambda>_. Ok vb)))))"

text \<open>The swap; the second rename is undone if it fails. The result tells what was set aside.\<close>

definition swap :: "'sig update_env \<Rightarrow> string \<Rightarrow> string \<Rightarrow> content_disk \<Rightarrow> string option update_result" where
  "swap env name stage w =
     (case ue_old_suffix env of
        None \<Rightarrow> (w, Err (UpSource ''no random numbers''))
      | Some s \<Rightarrow>
          let old = old_prefix name @ s; had_old = (dir_of name w \<noteq> None)
          in st_then (if had_old then rename_dir name old w else (w, Ok ())) (\<lambda>w _.
             case rename_dir stage name w of
               (w, Ok _) \<Rightarrow> (w, Ok (if had_old then Some old else None))
             | (w, Err UpStopped) \<Rightarrow> (w, Err UpStopped)
             | (w, Err e) \<Rightarrow>
                 st_then (told (if had_old then rename_dir old name w else (w, Ok ()))) (\<lambda>w _. (w, Err e))))"

text \<open>The staging directory is removed wherever the rest fails.\<close>

definition with_staging ::
  "string \<Rightarrow> (content_disk \<Rightarrow> 'a update_result) \<Rightarrow> content_disk \<Rightarrow> 'a update_result" where
  "with_staging stage m w =
     (case m w of
        (w, Ok x) \<Rightarrow> (w, Ok x)
      | (w, Err UpStopped) \<Rightarrow> (w, Err UpStopped)
      | (w, Err e) \<Rightarrow> st_then (told (remove_dir_all stage w)) (\<lambda>w _. (w, Err e)))"

definition install ::
  "'sig update_env \<Rightarrow> trusted_keys \<Rightarrow> state_file \<Rightarrow> timestamp \<Rightarrow> string \<Rightarrow> content_disk \<Rightarrow>
     (verified_bundle \<times> string option) update_result" where
  "install env ks st ts stage w =
     st_then (disk_change (UpIo stage) (set_dir stage []) w) (\<lambda>w _.
     with_staging stage (\<lambda>w.
       st_then (download env ts stage w) (\<lambda>w _.
       st_then (verify_staged env ks st stage w) (\<lambda>w vb.
       st_then (swap env (ts_bundle ts) stage w) (\<lambda>w old. (w, Ok (vb, old)))))) w)"

definition outcome_of :: "'sig update_env \<Rightarrow> state_file \<Rightarrow> timestamp \<Rightarrow> bool \<Rightarrow> update_outcome" where
  "outcome_of env st ts changed =
     \<lparr>uo_bundle = ts_bundle ts, uo_previous = map_option br_sequence (sf_bundles st (ts_bundle ts)),
      uo_sequence = ts_sequence ts, uo_installed = path_join (ue_content_dir env) (ts_bundle ts), uo_changed = changed,
      uo_timestamp_version = ts_version ts, uo_timestamp_expires = ts_expires ts\<rparr>"

text \<open>Step 1: the timestamp, the state and the keys that are left.\<close>

definition check_fresh ::
  "'sig update_env \<Rightarrow> content_disk \<Rightarrow> update_error + (trusted_keys \<times> state_file \<times> timestamp)" where
  "check_fresh env w =
     (let get = fetch_require (ue_transport env) (ue_source env)
      in and_then (get TIMESTAMP_FILE MAX_TIMESTAMP_BYTES) (\<lambda>data.
         and_then (get (TIMESTAMP_FILE @ ''.minisig'') TS_SIGNATURE_BYTES) (\<lambda>sig.
         and_then (ok_or (UpMismatch ''timestamp signature is not text'') (from_utf8 sig)) (\<lambda>sig.
         and_then (map_err UpState (open_state (ue_parse_state env) (\<lambda>_. cd_state w) (ue_state_path env))) (\<lambda>st.
         let ks = revoke_recorded (revoked_keys st) (ue_keys env)
         in and_then (map_err UpFreshness (verify_timestamp (ue_minisign env) (ue_sha env) (ue_parse_timestamp env)
               data sig ks (ue_now env) (ue_allow_expired env))) (\<lambda>vt.
            and_then (map_err UpState (check_timestamp st (vt_timestamp vt))) (\<lambda>_.
            Ok (ks, st, vt_timestamp vt))))))))"

definition is_current :: "'sig update_env \<Rightarrow> timestamp \<Rightarrow> content_disk \<Rightarrow> bool" where
  "is_current env ts w =
     (case dir_of (ts_bundle ts) w of
        None \<Rightarrow> False
      | Some t \<Rightarrow> (case map_of t MANIFEST_FILE of
            None \<Rightarrow> False | Some m \<Rightarrow> ue_sha env m = ts_manifest_sha256 ts))"

definition update_content :: "'sig update_env \<Rightarrow> content_disk \<Rightarrow> update_outcome update_result" where
  "update_content env w =
     st_then (w, check_fresh env w) (\<lambda>w (ks, st, ts).
     st_then (disk_change (UpIo (ue_content_dir env)) (\<lambda>w. w) w) (\<lambda>w _.
     st_then (recover_dirs (ts_bundle ts) w) (\<lambda>w _.
     if is_current env ts w
     then st_then (save_state env (record_timestamp ts (ue_now env) st) w) (\<lambda>w _.
          (w, Ok (outcome_of env st ts False)))
     else case ue_staging_suffix env of
         None \<Rightarrow> (w, Err (UpSource ''no random numbers''))
       | Some s \<Rightarrow>
           let stage = staging_prefix (ts_bundle ts) @ s
           in if dir_of stage w \<noteq> None then (w, Err (UpIo stage))
              else
                st_then (install env ks st ts stage w) (\<lambda>w (vb, old).
                st_then (save_state env (record_timestamp ts (ue_now env) (record_bundle vb (ue_now env) st)) w) (\<lambda>w _.
                st_then (case old of None \<Rightarrow> (w, Ok True) | Some n \<Rightarrow> told (remove_dir_all n w)) (\<lambda>w _.
                (w, Ok (outcome_of env st ts True))))))))"

end
