(* ===== verification/Update_Props.thy ===== *)
theory Update_Props
  imports Update
begin

text \<open>
  Lemmas about content updates: what each step can change, that staging only ever touches its own
  directory, and that wherever an update stops, the installed bundle is the old one, one that was
  verified completely, or the old one set aside where recovery finds it.
\<close>

section \<open>Directories\<close>

lemma dir_of_simps [simp]:
  "dir_of m (set_dir n t w) = (if m = n then Some t else dir_of m w)"
  "dir_of m (drop_dir n w) = (if m = n then None else dir_of m w)"
  "dir_of m (w\<lparr>cd_faults := fs\<rparr>) = dir_of m w" "dir_of m (w\<lparr>cd_state := s\<rparr>) = dir_of m w"
  by (simp_all add: dir_of_def set_dir_def drop_dir_def update_conv delete_conv)

lemma state_simps [simp]:
  "cd_state (set_dir n t w) = cd_state w" "cd_state (drop_dir n w) = cd_state w"
  "cd_faults (set_dir n t w) = cd_faults w" "cd_faults (drop_dir n w) = cd_faults w"
  by (simp_all add: set_dir_def drop_dir_def)

interpretation content_changes: faulty_disk "disk_change e" cd_faults "\<lambda>fs w. w\<lparr>cd_faults := fs\<rparr>" for e
proof
  have same: "w\<lparr>cd_faults := []\<rparr> = w" if "cd_faults w = []" for w :: content_disk
    using that by (cases w) simp
  show "\<exists>fs. v = f (w\<lparr>cd_faults := fs\<rparr>)" if v: "disk_change e f w = (v, Ok ())" for f w v
  proof (cases "cd_faults w")
    case Nil
    with v have "v = f (w\<lparr>cd_faults := []\<rparr>)" unfolding same [OF Nil] by (simp add: disk_change_def)
    then show ?thesis by blast
  next
    case (Cons x fs)
    with v show ?thesis by (auto simp: disk_change_def split: fault.splits)
  qed
  show "disk_change e f w = (v, Err e') \<Longrightarrow> \<exists>fs. v = w\<lparr>cd_faults := fs\<rparr>" for f w v e'
    by (auto simp: disk_change_def split: list.splits fault.splits)
  show "cd_faults w = [] \<Longrightarrow> disk_change e f w = (f w, Ok ())" for f w
    by (simp add: disk_change_def)
qed

lemmas hoare_change = content_changes.hoare_change

lemma hoare_told: "hoare m (\<lambda>_ w. Q True w) (\<lambda>e w. Q False w \<and> R UpStopped w) \<Longrightarrow> hoare (told m) Q R"
  by (auto simp: hoare_def told_def split: prod.splits sum.splits update_error.splits)

text \<open>\<open>same_but A w v\<close>: only the directories in \<open>A\<close> may differ.\<close>

definition same_but :: "string set \<Rightarrow> content_disk \<Rightarrow> content_disk \<Rightarrow> bool" where
  "same_but A w v \<longleftrightarrow> (\<forall>m. m \<notin> A \<longrightarrow> dir_of m v = dir_of m w) \<and> cd_state v = cd_state w"

lemma same_but_refl [simp]: "same_but A w w" "same_but A w (w\<lparr>cd_faults := fs\<rparr>)"
  by (simp_all add: same_but_def)

lemma same_but_trans: "same_but A u v \<Longrightarrow> same_but A v w \<Longrightarrow> same_but A u w"
  by (simp add: same_but_def)

lemma same_but_mono: "same_but A u v \<Longrightarrow> A \<subseteq> B \<Longrightarrow> same_but B u v"
  by (auto simp: same_but_def)

lemma same_but_set: "n \<in> A \<Longrightarrow> same_but A w v \<Longrightarrow> same_but A w (set_dir n t v)"
  by (auto simp: same_but_def)

lemma same_but_drop: "n \<in> A \<Longrightarrow> same_but A w v \<Longrightarrow> same_but A w (drop_dir n v)"
  by (auto simp: same_but_def)

lemma same_but_faults [simp]: "same_but A w (v\<lparr>cd_faults := fs\<rparr>) = same_but A w v"
  by (simp add: same_but_def)

section \<open>Changes\<close>

lemma remove_dir_all_hoare:
  assumes w: "same_but A u w" and n: "n \<in> A"
  shows "hoare (remove_dir_all n w) (\<lambda>_ v. same_but A u v \<and> dir_of n v = None) (\<lambda>_ v. same_but A u v)"
proof (cases "dir_of n w")
  case None
  with w show ?thesis by (simp add: remove_dir_all_def)
next
  case (Some t)
  have each: "same_but A u v \<Longrightarrow> same_but A u (drop_file n p (v\<lparr>cd_faults := fs\<rparr>))" for p fs v
    using n by (auto simp: drop_file_def same_but_def split: option.splits)
  have files: "hoare (st_fold (\<lambda>w p. disk_change (UpIo n) (drop_file n p) w) w (map fst t)) (\<lambda>_. same_but A u)
      (\<lambda>_. same_but A u)"
    by (rule hoare_fold [where P = "same_but A u"], rule w, rule hoare_change) (simp_all add: each)
  show ?thesis
    unfolding remove_dir_all_def Some option.case
    by (rule hoare_then, rule hoare_conseq [OF files], rule hoare_change) (use n in \<open>auto intro: same_but_drop\<close>)
qed

lemma rename_dir_hoare:
  assumes w: "same_but A u w" and ab: "a \<in> A" "b \<in> A" "a \<noteq> b"
  shows "hoare (rename_dir a b w)
     (\<lambda>_ v. same_but A u v \<and> same_but {a, b} w v \<and> dir_of a v = None \<and> dir_of b v = dir_of a w)
     (\<lambda>_ v. same_but A u v \<and> same_but {} w v)"
proof (cases "dir_of a w")
  case None
  with w show ?thesis by (simp add: rename_dir_def)
next
  case (Some t)
  show ?thesis
  proof (cases "case dir_of b w of Some u \<Rightarrow> u \<noteq> [] | None \<Rightarrow> False")
    case True
    with Some w show ?thesis by (simp add: rename_dir_def)
  next
    case False
    have "hoare (disk_change (UpIo a) (\<lambda>w. set_dir b t (drop_dir a w)) w)
       (\<lambda>_ v. same_but A u v \<and> same_but {a, b} w v \<and> dir_of a v = None \<and> dir_of b v = dir_of a w)
       (\<lambda>_ v. same_but A u v \<and> same_but {} w v)"
      by (rule hoare_change) (use w ab Some in \<open>auto simp: same_but_def\<close>)
    with Some False show ?thesis by (simp add: rename_dir_def)
  qed
qed

lemma write_file_hoare:
  assumes w: "same_but {n} u w"
  shows "hoare (write_file n p data w)
     (\<lambda>_ v. same_but {n} u v \<and> (\<exists>t t'. dir_of n w = Some t \<and> \<not> clashes p t \<and> dir_of n v = Some t' \<and>
        map_of t' = (map_of t)(p \<mapsto> data)))
     (\<lambda>_ v. same_but {n} u v)"
proof (cases "dir_of n w")
  case None
  with w show ?thesis by (simp add: write_file_def)
next
  case (Some t)
  show ?thesis
  proof (cases "clashes p t")
    case True
    with Some w show ?thesis by (simp add: write_file_def)
  next
    case False
    have put: "put_file n p d v = set_dir n (AList.update p d s) v" if "dir_of n v = Some s" for v s d
      using that by (simp add: put_file_def)
    have "hoare (st_then (disk_change (UpIo p) (\<lambda>w. w) w) (\<lambda>w _. st_then (disk_change (UpIo p) (put_file n p []) w) (\<lambda>w _.
        st_then (disk_change (UpIo p) (put_file n p data) w) (\<lambda>w _. disk_change (UpIo p) (\<lambda>w. w) w))))
       (\<lambda>_ v. same_but {n} u v \<and> (\<exists>t'. dir_of n v = Some t' \<and> map_of t' = (map_of t)(p \<mapsto> data)))
       (\<lambda>_ v. same_but {n} u v)"
      by (rule hoare_then, rule hoare_change, rule hoare_then, rule hoare_change, rule hoare_then, rule hoare_change,
          rule hoare_change)
        (use w Some in \<open>auto simp: put update_conv same_but_set\<close>)
    with Some False show ?thesis by (auto simp: write_file_def elim!: hoare_conseq)
  qed
qed

section \<open>Staging\<close>

text \<open>The staged manifest is \<open>data\<close>; no other write can replace it.\<close>

definition staged :: "string \<Rightarrow> content_disk \<Rightarrow> bytes \<Rightarrow> content_disk \<Rightarrow> bool" where
  "staged n u data v \<longleftrightarrow> same_but {n} u v \<and> (\<exists>t. dir_of n v = Some t \<and> map_of t MANIFEST_FILE = Some data)"

lemma write_file_staged:
  assumes w: "staged n u data w"
  shows "hoare (write_file n p d w) (\<lambda>_. staged n u data) (\<lambda>_. same_but {n} u)"
proof -
  obtain t where t: "same_but {n} u w" "dir_of n w = Some t" "map_of t MANIFEST_FILE = Some data"
    using w by (auto simp: staged_def)
  have "p \<noteq> MANIFEST_FILE" if "\<not> clashes p t"
    using that map_of_SomeD [OF t(3)] by (auto simp: clashes_def list_ex_iff)
  with t show ?thesis
    by (intro hoare_conseq [OF write_file_hoare [OF t(1)]]) (auto simp: staged_def)
qed

lemma pure_hoare: "(\<And>x. r = Ok x \<Longrightarrow> Q x w) \<Longrightarrow> (\<And>e. R e w) \<Longrightarrow> hoare (w, r) Q R"
  by (cases r) auto

lemma fetch_signatures_staged:
  "staged n u data w \<Longrightarrow> hoare (fetch_signatures env n ns w) (\<lambda>_. staged n u data) (\<lambda>_. same_but {n} u)"
proof (induction ns arbitrary: w)
  case (Cons k ns)
  have same: "same_but {n} u w" using Cons.prems by (simp add: staged_def)
  have "hoare (case r of None \<Rightarrow> (w, Ok ())
      | Some sig \<Rightarrow> st_then (write_file n name sig w) (\<lambda>w _. fetch_signatures env n ns w))
      (\<lambda>_. staged n u data) (\<lambda>_. same_but {n} u)" for r name
  proof (cases r)
    case (Some sig)
    show ?thesis
      unfolding Some option.case
      by (rule hoare_then, rule hoare_conseq [OF write_file_staged [OF Cons.prems]]) (simp_all add: Cons.IH)
  qed (use Cons.prems in simp)
  then show ?case
    unfolding fetch_signatures.simps Let_def by (intro hoare_then pure_hoare) (simp_all add: same)
qed simp

lemma fetch_file_staged:
  assumes "staged n u data w"
  shows "hoare (fetch_file env n w f) (\<lambda>_. staged n u data) (\<lambda>_. same_but {n} u)"
proof -
  have same: "same_but {n} u w" using assms by (simp add: staged_def)
  show ?thesis
    unfolding fetch_file_def
    by (rule hoare_then, rule pure_hoare) (simp_all add: same write_file_staged [OF assms])
qed

text \<open>What a download leaves behind if it succeeds.\<close>

definition downloaded :: "'sig update_env \<Rightarrow> timestamp \<Rightarrow> string \<Rightarrow> content_disk \<Rightarrow> content_disk \<Rightarrow> bool" where
  "downloaded env ts n u v \<longleftrightarrow>
     (\<exists>data m. staged n u data v \<and> ue_sha env data = ts_manifest_sha256 ts \<and> ue_parse_manifest env data = Some m \<and>
        m_name m = ts_bundle ts \<and> m_sequence m = ts_sequence ts)"

lemma downloadedI:
  "staged n u data v \<Longrightarrow> ue_sha env data = ts_manifest_sha256 ts \<Longrightarrow> ue_parse_manifest env data = Some m \<Longrightarrow>
   m_name m = ts_bundle ts \<Longrightarrow> m_sequence m = ts_sequence ts \<Longrightarrow> downloaded env ts n u v"
  unfolding downloaded_def by blast

lemma download_hoare:
  assumes w: "same_but {n} u w"
  shows "hoare (download env ts n w) (\<lambda>_. downloaded env ts n u) (\<lambda>_. same_but {n} u)"
proof -
  let ?get = "fetch_require (ue_transport env) (ue_source env)"
  let ?sig = "MANIFEST_FILE @ ''.minisig''"
  have rest: "hoare (st_then (write_file n MANIFEST_FILE data w) (\<lambda>w _.
      st_then (w, ?get ?sig TS_SIGNATURE_BYTES) (\<lambda>w s.
      st_then (write_file n ?sig s w) (\<lambda>w _.
      st_then (fetch_signatures env n [2..<Suc MAX_SIGNATURES] w) (\<lambda>w _.
      st_then (st_fold (fetch_file env n) w (m_files m)) (\<lambda>w _. (w, Ok ())))))))
     (\<lambda>_. staged n u data) (\<lambda>_. same_but {n} u)" for data m
  proof (rule hoare_then, rule hoare_conseq [OF write_file_hoare [OF w]])
    fix v
    assume "same_but {n} u v \<and> (\<exists>t t'. dir_of n w = Some t \<and> \<not> clashes MANIFEST_FILE t \<and> dir_of n v = Some t' \<and>
        map_of t' = (map_of t)(MANIFEST_FILE \<mapsto> data))"
    then have v: "staged n u data v" by (auto simp: staged_def)
    have files: "staged n u data x \<Longrightarrow> hoare (st_then (st_fold (fetch_file env n) x (m_files m)) (\<lambda>w _. (w, Ok ())))
        (\<lambda>_. staged n u data) (\<lambda>_. same_but {n} u)" for x
      by (rule hoare_then, rule hoare_conseq, rule hoare_fold [where P = "staged n u data"])
        (simp_all add: fetch_file_staged)
    have sigs: "staged n u data x \<Longrightarrow> hoare (st_then (fetch_signatures env n [2..<Suc MAX_SIGNATURES] x) (\<lambda>w _.
        st_then (st_fold (fetch_file env n) w (m_files m)) (\<lambda>w _. (w, Ok ()))))
        (\<lambda>_. staged n u data) (\<lambda>_. same_but {n} u)" for x
      by (rule hoare_then, rule hoare_conseq [OF fetch_signatures_staged]) (assumption, rule files)
    show "hoare (st_then (v, ?get ?sig TS_SIGNATURE_BYTES) (\<lambda>w s.
      st_then (write_file n ?sig s w) (\<lambda>w _.
      st_then (fetch_signatures env n [2..<Suc MAX_SIGNATURES] w) (\<lambda>w _.
      st_then (st_fold (fetch_file env n) w (m_files m)) (\<lambda>w _. (w, Ok ()))))))
     (\<lambda>_. staged n u data) (\<lambda>_. same_but {n} u)"
    proof (rule hoare_then, rule pure_hoare)
      show "same_but {n} u v" using v by (simp add: staged_def)
      show "hoare (st_then (write_file n ?sig s v) (\<lambda>w _.
        st_then (fetch_signatures env n [2..<Suc MAX_SIGNATURES] w) (\<lambda>w _.
        st_then (st_fold (fetch_file env n) w (m_files m)) (\<lambda>w _. (w, Ok ())))))
        (\<lambda>_. staged n u data) (\<lambda>_. same_but {n} u)" for s
        by (rule hoare_then, rule hoare_conseq [OF write_file_staged [OF v]]) (rule sigs)
    qed
  qed simp
  have tail: "hoare (if m_name m \<noteq> ts_bundle ts \<or> m_sequence m \<noteq> ts_sequence ts
      then (w, Err (UpMismatch e))
      else st_then (write_file n MANIFEST_FILE data w) (\<lambda>w _.
      st_then (w, ?get ?sig TS_SIGNATURE_BYTES) (\<lambda>w s.
      st_then (write_file n ?sig s w) (\<lambda>w _.
      st_then (fetch_signatures env n [2..<Suc MAX_SIGNATURES] w) (\<lambda>w _.
      st_then (st_fold (fetch_file env n) w (m_files m)) (\<lambda>w _. (w, Ok ())))))))
     (\<lambda>_. downloaded env ts n u) (\<lambda>_. same_but {n} u)"
    if "ue_sha env data = ts_manifest_sha256 ts" "ue_parse_manifest env data = Some m" for data m e
    using that w by (cases "m_name m \<noteq> ts_bundle ts \<or> m_sequence m \<noteq> ts_sequence ts")
      (auto intro!: hoare_conseq [OF rest] downloadedI simp del: upt_Suc)
  show ?thesis
    unfolding download_def Let_def
    by (rule hoare_then, rule pure_hoare, split if_split, intro conjI impI, simp add: w, rule hoare_then,
        rule pure_hoare, rule hoare_then, rule pure_hoare, rule tail)
      (auto simp: w result_simps)
qed

section \<open>Verification of what is staged\<close>

definition verified ::
  "'sig update_env \<Rightarrow> trusted_keys \<Rightarrow> state_file \<Rightarrow> timestamp \<Rightarrow> verified_bundle \<Rightarrow> tree \<Rightarrow> bool" where
  "verified env ks st ts vb t \<longleftrightarrow>
     (\<exists>dir. load_staged env ks dir t = Ok vb) \<and> check_bundle st vb (min_sequence ks (m_name (vb_manifest vb))) = Ok () \<and>
     ue_validate env vb = Ok () \<and> m_name (vb_manifest vb) = ts_bundle ts \<and> m_sequence (vb_manifest vb) = ts_sequence ts \<and>
     vb_manifest_sha256 vb = ts_manifest_sha256 ts"

lemma tree_read_manifest:
  assumes "tree_read dir t (path_join dir MANIFEST_FILE) = Ok data"
  shows "map_of t MANIFEST_FILE = Some data"
proof -
  obtain rel where rel: "strip_prefix (dir @ ''/'') (path_join dir MANIFEST_FILE) = Some rel" "map_of t rel = Some data"
    using assms by (auto simp: tree_read_def result_simps split: option.splits)
  have "rel = MANIFEST_FILE"
    using rel(1) by (auto simp: strip_prefix_def path_join_def MANIFEST_FILE_def split: if_splits)
  with rel(2) show ?thesis by simp
qed

lemma verify_staged_hoare:
  assumes "downloaded env ts n u w"
  shows "hoare (verify_staged env ks st n w) (\<lambda>vb v. v = w \<and> (\<exists>t. dir_of n w = Some t \<and> verified env ks st ts vb t))
    (\<lambda>_ v. v = w)"
proof -
  obtain data m t where d: "dir_of n w = Some t" "map_of t MANIFEST_FILE = Some data"
    "ue_sha env data = ts_manifest_sha256 ts" "ue_parse_manifest env data = Some m" "m_name m = ts_bundle ts"
    "m_sequence m = ts_sequence ts"
    using assms by (auto simp: downloaded_def staged_def)
  have "vb_manifest vb = m \<and> vb_manifest_sha256 vb = ue_sha env data" if load: "load_staged env ks dir t = Ok vb" for dir vb
  proof -
    obtain data' where data': "read_bounded (tree_read dir t) (path_join dir MANIFEST_FILE) MAX_MANIFEST_BYTES = Ok data'"
      "ue_parse_manifest env data' = Some (vb_manifest vb)" "vb_manifest_sha256 vb = ue_sha env data'"
      using load_bundle_Ok [OF load [unfolded load_staged_def]] by auto
    have "tree_read dir t (path_join dir MANIFEST_FILE) = Ok data'"
      using read_bounded_Ok [OF data'(1)] by (simp add: MAX_MANIFEST_BYTES_def)
    with tree_read_manifest d(2) have "data' = data" by fastforce
    with data' d show ?thesis by simp
  qed
  with d show ?thesis
    unfolding verify_staged_def by (intro pure_hoare) (auto simp: result_simps verified_def)
qed

section \<open>Names\<close>

definition related :: "string \<Rightarrow> string set" where
  "related n = {m. m = n \<or> prefix (staging_prefix n) m \<or> prefix (old_prefix n) m}"

lemma names_apart:
  "prefix (staging_prefix n) m \<Longrightarrow> m \<noteq> n" "prefix (old_prefix n) m \<Longrightarrow> m \<noteq> n"
  "prefix (staging_prefix n) m \<Longrightarrow> prefix (old_prefix k) m' \<Longrightarrow> m \<noteq> m'"
  by (auto simp: staging_prefix_def old_prefix_def prefix_def)

text \<open>No copy of \<open>n\<close> is set aside.\<close>

definition no_old :: "string \<Rightarrow> content_disk \<Rightarrow> bool" where
  "no_old n w \<longleftrightarrow> (\<forall>m. prefix (old_prefix n) m \<longrightarrow> dir_of m w = None)"

text \<open>What a stopped update may leave: the bundle as it was (\<open>T\<close>), a bundle that satisfies \<open>V\<close>, or
  the old one set aside, with no other set aside.\<close>

definition set_aside :: "string \<Rightarrow> tree option \<Rightarrow> content_disk \<Rightarrow> bool" where
  "set_aside n T w \<longleftrightarrow>
     dir_of n w = None \<and> T \<noteq> None \<and>
     (\<exists>m. prefix (old_prefix n) m \<and> dir_of m w = T \<and> (\<forall>k. prefix (old_prefix n) k \<and> k \<noteq> m \<longrightarrow> dir_of k w = None))"

definition recoverable :: "string \<Rightarrow> tree option \<Rightarrow> (tree \<Rightarrow> bool) \<Rightarrow> content_disk \<Rightarrow> bool" where
  "recoverable n T V w \<longleftrightarrow>
     dir_of n w = T \<and> (T = None \<longrightarrow> no_old n w) \<or> (\<exists>t. dir_of n w = Some t \<and> V t) \<or> set_aside n T w"

lemma recoverable_dirs: "(\<And>m. dir_of m v = dir_of m w) \<Longrightarrow> recoverable n T V v = recoverable n T V w"
  by (simp add: recoverable_def set_aside_def no_old_def)

lemma recoverable_same:
  assumes "recoverable n T V w" and "same_but A w v" and "n \<notin> A" and "\<forall>m \<in> A. \<not> prefix (old_prefix n) m"
  shows "recoverable n T V v"
proof -
  have same: "dir_of n v = dir_of n w" "\<And>m. prefix (old_prefix n) m \<Longrightarrow> dir_of m v = dir_of m w"
    using assms(2-4) by (auto simp: same_but_def)
  with assms(1) show ?thesis
    unfolding recoverable_def set_aside_def no_old_def by (metis (no_types, lifting))
qed

section \<open>The swap\<close>

lemma swap_hoare:
  assumes old: "no_old n w" and n: "dir_of n w = T" and stage: "prefix (staging_prefix n) stage" "dir_of stage w = Some t"
  shows "hoare (swap env n stage w)
    (\<lambda>o' v. same_but (related n) w v \<and> dir_of n v = Some t \<and> (\<forall>m. o' = Some m \<longrightarrow> prefix (old_prefix n) m))
    (\<lambda>_ v. same_but (related n) w v \<and> recoverable n T V v)"
proof (cases "ue_old_suffix env")
  case None
  with old n show ?thesis by (simp add: swap_def recoverable_def)
next
  case (Some s)
  let ?o = "old_prefix n @ s"
  have apart: "stage \<noteq> n" "stage \<noteq> ?o" "n \<noteq> ?o"
    using names_apart [of n stage] names_apart(3) [OF stage(1), of n ?o] names_apart(2) [of n ?o] stage(1)
    by (auto simp del: names_apart(3))
  have rel: "stage \<in> related n" "n \<in> related n" "?o \<in> related n" using stage(1) by (auto simp: related_def)
  have start: "recoverable n T V w" using old n by (simp add: recoverable_def)
  define had where "had = (dir_of n w \<noteq> None)"
  have second: "hoare (case rename_dir stage n v of
        (w, Ok _) \<Rightarrow> (w, Ok (if had then Some ?o else None))
      | (w, Err UpStopped) \<Rightarrow> (w, Err UpStopped)
      | (w, Err e) \<Rightarrow> st_then (told (if had then rename_dir ?o n w else (w, Ok ()))) (\<lambda>w _. (w, Err e)))
     (\<lambda>o' v. same_but (related n) w v \<and> dir_of n v = Some t \<and> (\<forall>m. o' = Some m \<longrightarrow> prefix (old_prefix n) m))
     (\<lambda>_ v. same_but (related n) w v \<and> recoverable n T V v)"
    if v: "same_but (related n) w v" "dir_of stage v = Some t"
      and held: "if had then set_aside n T v \<and> dir_of ?o v = T else recoverable n T V v \<and> dir_of n v = None" for v
  proof -
    obtain x r where x: "rename_dir stage n v = (x, r)" by fastforce
    note ren = rename_dir_hoare [OF v(1) rel(1,2) apart(1), unfolded x]
    show ?thesis
    proof (cases r)
      case (Inr u)
      with ren x v(2) show ?thesis by simp
    next
      case (Inl e)
      with ren have y: "same_but (related n) w x" "same_but {} v x" by simp_all
      have rx: "recoverable n T V x"
      proof -
        have "recoverable n T V v" using held by (auto simp: recoverable_def split: if_splits)
        then show ?thesis by (rule recoverable_same [OF _ y(2)]) simp_all
      qed
      have undo: "hoare (told (if had then rename_dir ?o n x else (x, Ok ())))
          (\<lambda>_ v. same_but (related n) w v \<and> recoverable n T V v) (\<lambda>_ v. same_but (related n) w v \<and> recoverable n T V v)"
      proof (rule hoare_told, cases had)
        case True
        have T: "dir_of ?o x = T" "T \<noteq> None" using held True y(2) by (auto simp: set_aside_def same_but_def)
        show "hoare (if had then rename_dir ?o n x else (x, Ok ()))
            (\<lambda>_ v. same_but (related n) w v \<and> recoverable n T V v)
            (\<lambda>_ v. (same_but (related n) w v \<and> recoverable n T V v) \<and> same_but (related n) w v \<and> recoverable n T V v)"
          unfolding if_P [OF True]
        proof (rule hoare_conseq [OF rename_dir_hoare [OF y(1) rel(3,2)]])
          show "?o \<noteq> n" using apart by simp
          show "same_but (related n) w v \<and> recoverable n T V v"
            if "same_but (related n) w v \<and> same_but {?o, n} x v \<and> dir_of ?o v = None \<and> dir_of n v = dir_of ?o x" for v
            using that T by (auto simp: recoverable_def)
          show "(same_but (related n) w v \<and> recoverable n T V v) \<and> same_but (related n) w v \<and> recoverable n T V v"
            if "same_but (related n) w v \<and> same_but {} x v" for v
            using that recoverable_same [OF rx, where A = "{}"] by simp
        qed
      qed (use y rx in simp)
      show ?thesis
        using x Inl y rx undo
        by (cases e) (auto intro!: hoare_then elim!: hoare_conseq)
    qed
  qed
  show ?thesis
  proof (cases had)
    case True
    have first: "hoare (rename_dir n ?o w)
        (\<lambda>_ v. same_but (related n) w v \<and> dir_of stage v = Some t \<and> set_aside n T v \<and> dir_of ?o v = T)
        (\<lambda>_ v. same_but (related n) w v \<and> recoverable n T V v)"
    proof (rule hoare_conseq [OF rename_dir_hoare [OF _ rel(2,3) apart(3)]])
      show "same_but (related n) w w" by simp
      show "same_but (related n) w v \<and> dir_of stage v = Some t \<and> set_aside n T v \<and> dir_of ?o v = T"
        if "same_but (related n) w v \<and> same_but {n, ?o} w v \<and> dir_of n v = None \<and> dir_of ?o v = dir_of n w" for v
        using that old n stage(2) apart True names_apart(2) [of n]
        by (auto simp: set_aside_def same_but_def no_old_def had_def intro!: exI [of _ ?o])
      show "same_but (related n) w v \<and> recoverable n T V v" if "same_but (related n) w v \<and> same_but {} w v" for v
        using that recoverable_same [OF start, where A = "{}"] by simp
    qed
    show ?thesis
      unfolding swap_def Some option.case Let_def had_def [symmetric]
      by (simp only: True if_True, rule hoare_then, rule hoare_conseq [OF first])
        (use second True in \<open>auto simp only: if_True\<close>)
  next
    case False
    have "dir_of n w = None" using False by (simp add: had_def)
    with second [of w] start stage(2) False show ?thesis
      unfolding swap_def Some option.case Let_def had_def [symmetric] by simp
  qed
qed

section \<open>Recovery\<close>

lemma remove_dirs_hoare:
  assumes "same_but A u w" and "set ns \<subseteq> A"
  shows "hoare (remove_dirs ns w) (\<lambda>_. same_but A u) (\<lambda>_. same_but A u)"
  unfolding remove_dirs_def
proof (rule hoare_then, rule hoare_conseq, rule hoare_fold [where P = "same_but A u"])
  show "same_but A u w" by (rule assms(1))
  show "hoare (told (remove_dir_all n v)) (\<lambda>_. same_but A u) (\<lambda>_. same_but A u)" if "n \<in> set ns" "same_but A u v" for n v
    by (rule hoare_told, rule hoare_conseq [OF remove_dir_all_hoare [OF that(2)]]) (use that assms(2) in auto)
qed simp_all

lemma dir_of_names: "dir_of n w \<noteq> None \<longleftrightarrow> n \<in> set (map fst (cd_dirs w))"
  unfolding dir_of_def by (simp add: map_of_eq_None_iff)

lemma old_copies_set: "set (old_copies n w) = {m. prefix (old_prefix n) m \<and> dir_of m w \<noteq> None}"
  using names_apart(3) [of n _ n] unfolding old_copies_def set_filter dir_of_names [symmetric] by blast

text \<open>With nothing set aside, recovery only removes stale staging directories.\<close>

lemma recover_dirs_hoare:
  assumes "no_old n w"
  shows "hoare (recover_dirs n w) (\<lambda>_. same_but {m. prefix (staging_prefix n) m} w) (\<lambda>_. same_but {m. prefix (staging_prefix n) m} w)"
proof -
  let ?A = "{m. prefix (staging_prefix n) m}"
  have none: "old_copies n v = []" if v: "same_but ?A w v" for v
  proof -
    have "dir_of m v = None" if "prefix (old_prefix n) m" for m
    proof -
      have "\<not> prefix (staging_prefix n) m" using names_apart(3) [OF _ that] by blast
      with v assms that show ?thesis by (simp add: no_old_def same_but_def)
    qed
    then have "set (old_copies n v) = {}" by (auto simp: old_copies_set)
    then show ?thesis by simp
  qed
  have listed: "hoare (told (disk_change (UpIo n) (\<lambda>w. w) w)) (\<lambda>_. same_but ?A w) (\<lambda>_. same_but ?A w)"
    by (rule hoare_told, rule hoare_change) simp_all
  have rest: "hoare (st_then (remove_dirs (filter (prefix (staging_prefix n)) (map fst (cd_dirs v))) v) (\<lambda>w _.
      st_then (put_back n [] w) (\<lambda>w old. remove_dirs old w))) (\<lambda>_. same_but ?A w) (\<lambda>_. same_but ?A w)"
    if v: "same_but ?A w v" for v
    by (rule hoare_then, rule hoare_conseq [OF remove_dirs_hoare [OF v]])
      (auto simp: put_back_def remove_dirs_def)
  show ?thesis
    unfolding recover_dirs_def Let_def
    by (rule hoare_then, rule hoare_conseq [OF listed]) (simp_all add: none rest)
qed

text \<open>Without faults recovery puts back what was set aside.\<close>

lemma remove_files_quiet:
  "cd_faults w = [] \<Longrightarrow>
     \<exists>v. st_fold (\<lambda>w p. disk_change (UpIo n) (drop_file n p) w) w ps = (v, Ok (map (\<lambda>_. ()) ps)) \<and> cd_faults v = [] \<and> same_but {n} w v"
proof (induction ps arbitrary: w)
  case (Cons p ps)
  have same: "same_but {n} w (drop_file n p w)" and quiet: "cd_faults (drop_file n p w) = []"
    using Cons.prems by (auto simp: drop_file_def same_but_def split: option.splits)
  from Cons.IH [OF quiet] obtain v where v: "st_fold (\<lambda>w p. disk_change (UpIo n) (drop_file n p) w) (drop_file n p w) ps =
      (v, Ok (map (\<lambda>_. ()) ps))" "cd_faults v = []" "same_but {n} (drop_file n p w) v" by blast
  with Cons.prems same same_but_trans [OF same v(3)] show ?case by (simp add: content_changes.no_faults)
qed simp

lemma remove_dir_quiet:
  assumes "cd_faults w = []"
  shows "\<exists>v. told (remove_dir_all n w) = (v, Ok (dir_of n w \<noteq> None)) \<and> cd_faults v = [] \<and> same_but {n} w v \<and> dir_of n v = None"
proof (cases "dir_of n w")
  case None
  with assms show ?thesis by (simp add: remove_dir_all_def told_def)
next
  case (Some t)
  obtain v where v: "st_fold (\<lambda>w p. disk_change (UpIo n) (drop_file n p) w) w (map fst t) = (v, Ok (map (\<lambda>_. ()) (map fst t)))"
    "cd_faults v = []" "same_but {n} w v" using remove_files_quiet [OF assms] by blast
  have "told (remove_dir_all n w) = (drop_dir n v, Ok True)"
    using v by (simp add: remove_dir_all_def Some told_def content_changes.no_faults)
  moreover have "cd_faults (drop_dir n v) = []" using v(2) by (simp add: drop_dir_def)
  ultimately show ?thesis using Some v(3) by (auto simp: same_but_drop)
qed

lemma remove_dirs_quiet:
  "cd_faults w = [] \<Longrightarrow>
     \<exists>v. remove_dirs ns w = (v, Ok ()) \<and> cd_faults v = [] \<and> same_but (set ns) w v"
proof (induction ns arbitrary: w)
  case (Cons n ns)
  obtain v where v: "told (remove_dir_all n w) = (v, Ok (dir_of n w \<noteq> None))" "cd_faults v = []" "same_but {n} w v"
    using remove_dir_quiet [OF Cons.prems] by blast
  obtain u where u: "remove_dirs ns v = (u, Ok ())" "cd_faults u = []" "same_but (set ns) v u"
    using Cons.IH [OF v(2)] by blast
  have "same_but (set (n # ns)) w u"
    using same_but_trans [OF same_but_mono [OF v(3), of "set (n # ns)"] same_but_mono [OF u(3), of "set (n # ns)"]] by auto
  with v u show ?case by (auto simp: remove_dirs_def st_then_def split: prod.splits sum.splits)
qed (simp add: remove_dirs_def)

text \<open>A bundle that is set aside is put back; one that is in place stays.\<close>

lemma recover_dirs_quiet:
  assumes w: "recoverable n T V w" and quiet: "cd_faults w = []"
  shows "\<exists>v. recover_dirs n w = (v, Ok ()) \<and> (dir_of n v = T \<or> (\<exists>t. dir_of n v = Some t \<and> V t))"
proof -
  let ?staged = "filter (prefix (staging_prefix n)) (map fst (cd_dirs w))"
  have listed: "told (disk_change (UpIo n) (\<lambda>w. w) w) = (w, Ok True)"
    using quiet by (simp add: told_def content_changes.no_faults)
  obtain v where v: "remove_dirs ?staged w = (v, Ok ())" "cd_faults v = []" "same_but (set ?staged) w v"
    using remove_dirs_quiet [OF quiet] by blast
  have n: "dir_of n v = dir_of n w" using v(3) names_apart(1) [of n n] by (auto simp: same_but_def)
  have olds: "dir_of m v = dir_of m w" if "prefix (old_prefix n) m" for m
    using v(3) names_apart(3) [OF _ that, of n m] by (auto simp: same_but_def)
  note copies = old_copies_set [of n w]
  have apart: "n \<notin> set (old_copies n w)" using names_apart(2) [of n n] copies by blast
  obtain u old where u: "put_back n (old_copies n w) v = (u, Ok old)" "cd_faults u = []" "set old \<subseteq> set (old_copies n w)"
    "dir_of n u = T \<or> (\<exists>t. dir_of n u = Some t \<and> V t)"
  proof (cases "dir_of n w = None \<and> old_copies n w \<noteq> []")
    case False
    then have "put_back n (old_copies n w) v = (v, Ok (old_copies n w))" by (auto simp: put_back_def n)
    moreover have "dir_of n v = T \<or> (\<exists>t. dir_of n v = Some t \<and> V t)"
      using w False copies unfolding n recoverable_def set_aside_def by fastforce
    ultimately show ?thesis using that v(2) by blast
  next
    case True
    let ?l = "last (sort (old_copies n w))"
    have "sort (old_copies n w) \<noteq> []" using True by (metis set_empty set_sort)
    then have l: "?l \<in> set (old_copies n w)" using last_in_set [of "sort (old_copies n w)"] by simp
    then have dl: "prefix (old_prefix n) ?l" "dir_of ?l w \<noteq> None" using copies by auto
    then have "dir_of ?l w = T" using w True unfolding recoverable_def set_aside_def no_old_def by force
    with dl olds obtain t where t: "dir_of ?l v = Some t" "T = Some t" by fastforce
    have "rename_dir ?l n v = (set_dir n t (drop_dir ?l v), Ok ())"
      using t n True v(2) by (simp add: rename_dir_def content_changes.no_faults)
    then have "put_back n (old_copies n w) v = (set_dir n t (drop_dir ?l v), Ok (filter (\<lambda>m. m \<noteq> ?l) (old_copies n w)))"
      using True n by (simp add: put_back_def told_def Let_def)
    with that t v(2) show ?thesis by auto
  qed
  obtain x where x: "remove_dirs old u = (x, Ok ())" "same_but (set old) u x"
    using remove_dirs_quiet [OF u(2)] by blast
  have "dir_of n x = dir_of n u" using x(2) u(3) apart by (auto simp: same_but_def)
  with u(4) x(1) listed v(1) u(1) show ?thesis by (simp add: recover_dirs_def Let_def)
qed

section \<open>Installing\<close>

lemma with_staging_hoare:
  assumes m: "hoare (m w) Q (\<lambda>_ v. same_but A u v \<and> P v)" and stage: "stage \<in> A"
    and keep: "\<And>v x. P v \<Longrightarrow> same_but {stage} v x \<Longrightarrow> P x"
  shows "hoare (with_staging stage m w) Q (\<lambda>_ v. same_but A u v \<and> P v)"
proof -
  obtain v r where v: "m w = (v, r)" by fastforce
  show ?thesis
  proof (cases r)
    case (Inr x)
    with m v show ?thesis by (simp add: with_staging_def)
  next
    case (Inl e)
    with m v have p: "same_but A u v" "P v" by simp_all
    have "hoare (told (remove_dir_all stage v)) (\<lambda>_. same_but {stage} v) (\<lambda>_. same_but {stage} v)"
      by (rule hoare_told, rule hoare_conseq [OF remove_dir_all_hoare [of "{stage}" v]]) simp_all
    moreover have "same_but A u x \<and> P x" if "same_but {stage} v x" for x
      using that p keep stage same_but_trans [OF p(1) same_but_mono [OF that, of A]] by auto
    ultimately have "hoare (st_then (told (remove_dir_all stage v)) (\<lambda>w _. (w, Err e))) Q (\<lambda>_ v. same_but A u v \<and> P v)"
      by (intro hoare_then) (auto elim: hoare_conseq)
    with p v Inl show ?thesis by (cases e) (simp_all add: with_staging_def)
  qed
qed

lemma install_hoare:
  assumes old: "no_old n w" and n: "dir_of n w = T" "n = ts_bundle ts" and stage: "prefix (staging_prefix n) stage"
  shows "hoare (install env ks st ts stage w)
    (\<lambda>(vb, o') v. same_but (related n) w v \<and> (\<exists>t. dir_of n v = Some t \<and> verified env ks st ts vb t) \<and>
       (\<forall>m. o' = Some m \<longrightarrow> prefix (old_prefix n) m))
    (\<lambda>_ v. same_but (related n) w v \<and> recoverable n T V v)"
proof -
  have rel: "{stage} \<subseteq> related n" "stage \<in> related n" using stage by (auto simp: related_def)
  have stage_apart: "n \<notin> {stage}" "\<forall>m \<in> {stage}. \<not> prefix (old_prefix n) m"
    using names_apart(1) [OF stage] names_apart(3) [OF stage, of n stage] by auto
  have start: "recoverable n T V w" using old n by (simp add: recoverable_def)
  have staging: "same_but (related n) w v \<and> recoverable n T V v" if "same_but {stage} w v" for v
    using same_but_mono [OF that rel(1)] recoverable_same [OF start that stage_apart] by simp
  have inner: "hoare (st_then (download env ts stage v) (\<lambda>w _.
       st_then (verify_staged env ks st stage w) (\<lambda>w vb.
       st_then (swap env (ts_bundle ts) stage w) (\<lambda>w old. (w, Ok (vb, old))))))
    (\<lambda>(vb, o') v. same_but (related n) w v \<and> (\<exists>t. dir_of n v = Some t \<and> verified env ks st ts vb t) \<and>
       (\<forall>m. o' = Some m \<longrightarrow> prefix (old_prefix n) m))
    (\<lambda>_ v. same_but (related n) w v \<and> recoverable n T V v)" if v: "same_but {stage} w v" for v
  proof (rule hoare_then, rule hoare_conseq [OF download_hoare [OF v]])
    fix x
    assume d: "downloaded env ts stage w x"
    then have x: "same_but {stage} w x" by (auto simp: downloaded_def staged_def)
    show "hoare (st_then (verify_staged env ks st stage x) (\<lambda>w vb.
       st_then (swap env (ts_bundle ts) stage w) (\<lambda>w old. (w, Ok (vb, old)))))
      (\<lambda>(vb, o') v. same_but (related n) w v \<and> (\<exists>t. dir_of n v = Some t \<and> verified env ks st ts vb t) \<and>
         (\<forall>m. o' = Some m \<longrightarrow> prefix (old_prefix n) m))
      (\<lambda>_ v. same_but (related n) w v \<and> recoverable n T V v)"
    proof (rule hoare_then, rule hoare_conseq [OF verify_staged_hoare [OF d]])
      fix vb y
      assume "y = x \<and> (\<exists>t. dir_of stage x = Some t \<and> verified env ks st ts vb t)"
      then obtain t where y: "y = x" "dir_of stage x = Some t" "verified env ks st ts vb t" by blast
      have old': "no_old n x" and n': "dir_of n x = T"
        using x old n stage_apart by (auto simp: no_old_def same_but_def)
      have trans: "same_but (related n) w z" if "same_but (related n) x z" for z
        using same_but_trans [OF same_but_mono [OF x rel(1)] that] .
      show "hoare (st_then (swap env (ts_bundle ts) stage y) (\<lambda>w old. (w, Ok (vb, old))))
        (\<lambda>(vb, o') v. same_but (related n) w v \<and> (\<exists>t. dir_of n v = Some t \<and> verified env ks st ts vb t) \<and>
           (\<forall>m. o' = Some m \<longrightarrow> prefix (old_prefix n) m))
        (\<lambda>_ v. same_but (related n) w v \<and> recoverable n T V v)"
        unfolding y(1) n(2) [symmetric]
        by (rule hoare_then, rule hoare_conseq [OF swap_hoare [OF old' n' stage y(2)]]) (use trans y(3) in auto)
    qed (use x staging in auto)
  qed (use staging in auto)
  show ?thesis
    unfolding install_def
  proof (rule hoare_then, rule hoare_change)
    fix fs
    have created: "same_but {stage} w (set_dir stage [] (w\<lparr>cd_faults := fs\<rparr>))" by (simp add: same_but_set)
    show "hoare (with_staging stage (\<lambda>w. st_then (download env ts stage w) (\<lambda>w _.
       st_then (verify_staged env ks st stage w) (\<lambda>w vb.
       st_then (swap env (ts_bundle ts) stage w) (\<lambda>w old. (w, Ok (vb, old)))))) (set_dir stage [] (w\<lparr>cd_faults := fs\<rparr>)))
      (\<lambda>(vb, o') v. same_but (related n) w v \<and> (\<exists>t. dir_of n v = Some t \<and> verified env ks st ts vb t) \<and>
         (\<forall>m. o' = Some m \<longrightarrow> prefix (old_prefix n) m))
      (\<lambda>_ v. same_but (related n) w v \<and> recoverable n T V v)"
      by (rule with_staging_hoare [where P = "recoverable n T V" and A = "related n" and u = w])
        (rule inner, rule created, rule rel(2), rule recoverable_same [OF _ _ stage_apart])
  qed (use staging in simp)
qed

lemma save_state_hoare:
  "hoare (save_state env st w)
     (\<lambda>_ v. (\<forall>m. dir_of m v = dir_of m w) \<and> (\<exists>json. ue_state_json env st = Some json \<and> cd_state v = Ok json))
     (\<lambda>_ v. \<forall>m. dir_of m v = dir_of m w)"
proof (cases "ue_state_json env st")
  case (Some json)
  then show ?thesis
    unfolding save_state_def Let_def by (simp, intro hoare_then hoare_change) simp_all
qed (simp add: save_state_def)

text \<open>What a stopped update leaves: the other directories as they were, and the bundle as it was,
  verified, or recoverable.\<close>

definition stopped ::
  "'sig update_env \<Rightarrow> trusted_keys \<Rightarrow> state_file \<Rightarrow> timestamp \<Rightarrow> content_disk \<Rightarrow> content_disk \<Rightarrow> bool" where
  "stopped env ks st ts w v \<longleftrightarrow>
     (\<forall>m. m \<notin> related (ts_bundle ts) \<longrightarrow> dir_of m v = dir_of m w) \<and>
     recoverable (ts_bundle ts) (dir_of (ts_bundle ts) w) (\<lambda>t. \<exists>vb. verified env ks st ts vb t) v"

text \<open>What a completed update leaves.\<close>

definition installed ::
  "'sig update_env \<Rightarrow> trusted_keys \<Rightarrow> state_file \<Rightarrow> timestamp \<Rightarrow> verified_bundle \<Rightarrow> content_disk \<Rightarrow> bool" where
  "installed env ks st ts vb v \<longleftrightarrow>
     (\<exists>t. dir_of (ts_bundle ts) v = Some t \<and> verified env ks st ts vb t) \<and>
     (\<exists>json. ue_state_json env (record_timestamp ts (ue_now env) (record_bundle vb (ue_now env) st)) = Some json \<and>
        cd_state v = Ok json)"

definition completed ::
  "'sig update_env \<Rightarrow> trusted_keys \<Rightarrow> state_file \<Rightarrow> timestamp \<Rightarrow> content_disk \<Rightarrow> update_outcome \<Rightarrow> content_disk \<Rightarrow> bool" where
  "completed env ks st ts w out v \<longleftrightarrow>
     stopped env ks st ts w v \<and>
     (if uo_changed out then \<exists>vb. installed env ks st ts vb v
      else dir_of (ts_bundle ts) v = dir_of (ts_bundle ts) w \<and> is_current env ts v)"

lemma stopped_dirs: "(\<And>m. dir_of m v = dir_of m x) \<Longrightarrow> stopped env ks st ts w v = stopped env ks st ts w x"
  unfolding stopped_def by (subst recoverable_dirs [of v x]) simp_all

lemma stopped_staging:
  assumes "no_old (ts_bundle ts) w" and "same_but {m. prefix (staging_prefix (ts_bundle ts)) m} w v"
  shows "stopped env ks st ts w v" and "no_old (ts_bundle ts) v" and "dir_of (ts_bundle ts) v = dir_of (ts_bundle ts) w"
proof -
  let ?n = "ts_bundle ts" and ?A = "{m. prefix (staging_prefix (ts_bundle ts)) m}"
  have apart: "?n \<notin> ?A" "\<forall>m \<in> ?A. \<not> prefix (old_prefix ?n) m"
    using names_apart(1) [of ?n ?n] names_apart(3) [of ?n _ ?n] by auto
  have "recoverable ?n (dir_of ?n w) V w" for V using assms(1) by (simp add: recoverable_def)
  then have "recoverable ?n (dir_of ?n w) V v" for V by (rule recoverable_same [OF _ assms(2) apart])
  with assms(2) show "stopped env ks st ts w v" by (auto simp: stopped_def same_but_def related_def)
  show "no_old ?n v" using assms apart(2) by (auto simp: no_old_def same_but_def)
  show "dir_of ?n v = dir_of ?n w" using assms(2) apart(1) by (simp add: same_but_def)
qed

lemma stopped_installed:
  assumes "\<And>m. m \<notin> related (ts_bundle ts) \<Longrightarrow> dir_of m v = dir_of m w"
    and "dir_of (ts_bundle ts) v = Some t" and "verified env ks st ts vb t"
  shows "stopped env ks st ts w v"
  using assms by (auto simp: stopped_def recoverable_def)

lemma current_hoare:
  assumes v: "stopped env ks st ts w v" "dir_of (ts_bundle ts) v = dir_of (ts_bundle ts) w" "is_current env ts v"
  shows "hoare (st_then (save_state env st' v) (\<lambda>w _. (w, Ok (outcome_of env st ts False))))
    (completed env ks st ts w) (\<lambda>_. stopped env ks st ts w)"
proof (rule hoare_then, rule hoare_conseq [OF save_state_hoare])
  fix x
  assume "(\<forall>m. dir_of m x = dir_of m v) \<and> (\<exists>json. ue_state_json env st' = Some json \<and> cd_state x = Ok json)"
  then have x: "\<And>m. dir_of m x = dir_of m v" by blast
  show "hoare (x, Ok (outcome_of env st ts False)) (completed env ks st ts w) (\<lambda>_. stopped env ks st ts w)"
    using v by (simp add: completed_def stopped_dirs [OF x] x outcome_of_def is_current_def)
next
  fix x
  assume x: "\<forall>m. dir_of m x = dir_of m v"
  show "stopped env ks st ts w x" by (rule stopped_dirs [THEN iffD2, OF _ v(1)]) (use x in simp)
qed

lemma finish_hoare:
  assumes v: "\<And>m. m \<notin> related (ts_bundle ts) \<Longrightarrow> dir_of m v = dir_of m w"
    and t: "dir_of (ts_bundle ts) v = Some t" "verified env ks st ts vb t"
    and old: "\<forall>m. old = Some m \<longrightarrow> prefix (old_prefix (ts_bundle ts)) m"
  shows "hoare (st_then (save_state env (record_timestamp ts (ue_now env) (record_bundle vb (ue_now env) st)) v) (\<lambda>w _.
      st_then (case old of None \<Rightarrow> (w, Ok True) | Some n \<Rightarrow> told (remove_dir_all n w)) (\<lambda>w _.
      (w, Ok (outcome_of env st ts True))))) (completed env ks st ts w) (\<lambda>_. stopped env ks st ts w)"
proof (rule hoare_then, rule hoare_conseq [OF save_state_hoare])
  fix x
  assume "\<forall>m. dir_of m x = dir_of m v"
  then show "stopped env ks st ts w x" using v t by (intro stopped_installed) auto
next
  fix x
  assume x: "(\<forall>m. dir_of m x = dir_of m v) \<and> (\<exists>json. ue_state_json env
    (record_timestamp ts (ue_now env) (record_bundle vb (ue_now env) st)) = Some json \<and> cd_state x = Ok json)"
  have good: "stopped env ks st ts w z \<and> completed env ks st ts w (outcome_of env st ts True) z"
    if z: "\<And>m. m \<notin> related (ts_bundle ts) \<Longrightarrow> dir_of m z = dir_of m x" "dir_of (ts_bundle ts) z = dir_of (ts_bundle ts) x"
      "cd_state z = cd_state x" for z
  proof -
    have "stopped env ks st ts w z" using z x v t by (intro stopped_installed) auto
    with z(2,3) x t show ?thesis by (auto simp: completed_def installed_def outcome_of_def)
  qed
  show "hoare (st_then (case old of None \<Rightarrow> (x, Ok True) | Some n \<Rightarrow> told (remove_dir_all n x)) (\<lambda>w _.
      (w, Ok (outcome_of env st ts True)))) (completed env ks st ts w) (\<lambda>_. stopped env ks st ts w)"
  proof (cases old)
    case None
    with good [of x] show ?thesis by simp
  next
    case (Some m)
    then have m: "prefix (old_prefix (ts_bundle ts)) m" using old by simp
    have removed: "hoare (told (remove_dir_all m x)) (\<lambda>_. same_but {m} x) (\<lambda>_. same_but {m} x)"
      by (rule hoare_told, rule hoare_conseq [OF remove_dir_all_hoare [of "{m}" x]]) simp_all
    have "stopped env ks st ts w z \<and> completed env ks st ts w (outcome_of env st ts True) z" if "same_but {m} x z" for z
      by (rule good) (use that m names_apart(2) [OF m] in \<open>auto simp: same_but_def related_def\<close>)
    then show ?thesis
      unfolding Some option.case by (intro hoare_then hoare_conseq [OF removed]) simp_all
  qed
qed

lemma replace_hoare:
  assumes old: "no_old (ts_bundle ts) v" and v: "stopped env ks st ts w v" "dir_of (ts_bundle ts) v = dir_of (ts_bundle ts) w"
    and stage: "prefix (staging_prefix (ts_bundle ts)) stage"
  shows "hoare (st_then (install env ks st ts stage v) (\<lambda>w (vb, old).
      st_then (save_state env (record_timestamp ts (ue_now env) (record_bundle vb (ue_now env) st)) w) (\<lambda>w _.
      st_then (case old of None \<Rightarrow> (w, Ok True) | Some n \<Rightarrow> told (remove_dir_all n w)) (\<lambda>w _.
      (w, Ok (outcome_of env st ts True)))))) (completed env ks st ts w) (\<lambda>_. stopped env ks st ts w)"
proof (rule hoare_then,
    rule hoare_conseq [OF install_hoare [OF old v(2) refl stage, where V = "\<lambda>t. \<exists>vb. verified env ks st ts vb t"]])
  have others: "dir_of m x = dir_of m w" if "same_but (related (ts_bundle ts)) v x" "m \<notin> related (ts_bundle ts)" for m x
    using that v(1) by (simp add: same_but_def stopped_def)
  fix x
  show "stopped env ks st ts w x" if "same_but (related (ts_bundle ts)) v x \<and>
      recoverable (ts_bundle ts) (dir_of (ts_bundle ts) w) (\<lambda>t. \<exists>vb. verified env ks st ts vb t) x"
    using that others by (simp add: stopped_def)
  fix r
  assume r: "(case r of (vb, o') \<Rightarrow> \<lambda>v'. same_but (related (ts_bundle ts)) v v' \<and>
      (\<exists>t. dir_of (ts_bundle ts) v' = Some t \<and> verified env ks st ts vb t) \<and>
      (\<forall>m. o' = Some m \<longrightarrow> prefix (old_prefix (ts_bundle ts)) m)) x"
  obtain vb o' where split: "r = (vb, o')" by fastforce
  with r obtain t where "dir_of (ts_bundle ts) x = Some t" "verified env ks st ts vb t"
    "\<forall>m. o' = Some m \<longrightarrow> prefix (old_prefix (ts_bundle ts)) m" by auto
  moreover have "\<And>m. m \<notin> related (ts_bundle ts) \<Longrightarrow> dir_of m x = dir_of m w" using r split others by simp
  ultimately show "hoare (case r of (vb, old) \<Rightarrow>
      st_then (save_state env (record_timestamp ts (ue_now env) (record_bundle vb (ue_now env) st)) x) (\<lambda>w _.
      st_then (case old of None \<Rightarrow> (w, Ok True) | Some n \<Rightarrow> told (remove_dir_all n w)) (\<lambda>w _.
      (w, Ok (outcome_of env st ts True))))) (completed env ks st ts w) (\<lambda>_. stopped env ks st ts w)"
    unfolding split prod.case by (intro finish_hoare)
qed

text \<open>An update: what it installs is verified, and what it leaves is recoverable.\<close>

lemma update_content_hoare:
  assumes fresh: "check_fresh env w = Ok (ks, st, ts)" and old: "no_old (ts_bundle ts) w"
  shows "hoare (update_content env w) (completed env ks st ts w) (\<lambda>_. stopped env ks st ts w)"
proof -
  note staging = stopped_staging [OF old]
  have same: "stopped env ks st ts w (w\<lparr>cd_faults := fs\<rparr>)" for fs by (rule staging(1)) simp
  have body: "hoare (if is_current env ts v
     then st_then (save_state env (record_timestamp ts (ue_now env) st) v) (\<lambda>w _. (w, Ok (outcome_of env st ts False)))
     else case ue_staging_suffix env of
         None \<Rightarrow> (v, Err (UpSource ''no random numbers''))
       | Some s \<Rightarrow>
           let stage = staging_prefix (ts_bundle ts) @ s
           in if dir_of stage v \<noteq> None then (v, Err (UpIo stage))
              else
                st_then (install env ks st ts stage v) (\<lambda>w (vb, old).
                st_then (save_state env (record_timestamp ts (ue_now env) (record_bundle vb (ue_now env) st)) w) (\<lambda>w _.
                st_then (case old of None \<Rightarrow> (w, Ok True) | Some n \<Rightarrow> told (remove_dir_all n w)) (\<lambda>w _.
                (w, Ok (outcome_of env st ts True))))))
     (completed env ks st ts w) (\<lambda>_. stopped env ks st ts w)"
    if v: "same_but {m. prefix (staging_prefix (ts_bundle ts)) m} w v" for v
    unfolding Let_def
    by (split if_split, intro conjI impI, rule current_hoare [OF staging(1,3) [OF v]])
      (auto split: option.split simp: staging(1) [OF v]
        intro!: replace_hoare [OF staging(2) [OF v] staging(1) [OF v] staging(3) [OF v]])
  have unchanged: "no_old (ts_bundle ts) (w\<lparr>cd_faults := fs\<rparr>)"
    "same_but A (w\<lparr>cd_faults := fs\<rparr>) v \<Longrightarrow> same_but A w v" for fs A v
    using old by (simp_all add: no_old_def same_but_def)
  have rest: "hoare (st_then (recover_dirs (ts_bundle ts) (w\<lparr>cd_faults := fs\<rparr>)) (\<lambda>w _.
     if is_current env ts w
     then st_then (save_state env (record_timestamp ts (ue_now env) st) w) (\<lambda>w _. (w, Ok (outcome_of env st ts False)))
     else case ue_staging_suffix env of
         None \<Rightarrow> (w, Err (UpSource ''no random numbers''))
       | Some s \<Rightarrow>
           let stage = staging_prefix (ts_bundle ts) @ s
           in if dir_of stage w \<noteq> None then (w, Err (UpIo stage))
              else
                st_then (install env ks st ts stage w) (\<lambda>w (vb, old).
                st_then (save_state env (record_timestamp ts (ue_now env) (record_bundle vb (ue_now env) st)) w) (\<lambda>w _.
                st_then (case old of None \<Rightarrow> (w, Ok True) | Some n \<Rightarrow> told (remove_dir_all n w)) (\<lambda>w _.
                (w, Ok (outcome_of env st ts True)))))))
     (completed env ks st ts w) (\<lambda>_. stopped env ks st ts w)" for fs
    by (rule hoare_then, rule hoare_conseq [OF recover_dirs_hoare [OF unchanged(1)]])
      (use body staging(1) unchanged(2) in blast)+
  show ?thesis
    unfolding update_content_def fresh st_then_simps prod.case
    by (rule hoare_then, rule hoare_change) (use rest same in simp_all)
qed

end
