(* ===== verification/Update_Theorems.thy ===== *)
theory Update_Theorems
  imports Update_Props Content_Theorems
begin

text \<open>
  The properties of content updates: what is installed was verified, and no point where an update
  stops loses the installed bundle.
\<close>

section \<open>Sample values\<close>

text \<open>A mirror in \<open>m\<close> with the sample bundle and a timestamp that names it; version 1 of the same
  bundle is installed.\<close>

definition sample_mirror :: "string \<Rightarrow> (io_kind \<times> string) + (string + bytes)" where
  "sample_mirror p =
     (if p = ''m/timestamp.json'' then Ok (Ok [7])
      else if p = ''m/timestamp.json.minisig'' \<or> p = ''m/manifest.json.minisig'' then Ok (Ok (as_bytes ''key''))
      else if p = ''m/manifest.json'' then Ok (Ok [1, 2, 3])
      else if p = ''m/a'' then Ok (Ok [1, 2])
      else Err (NotFoundKind, ''''))"

definition sample_update_timestamp :: timestamp where
  "sample_update_timestamp =
     \<lparr>ts_format = TIMESTAMP_FORMAT, ts_format_version = 1, ts_version = 1, ts_bundle = ''base'', ts_sequence = 7,
      ts_manifest_sha256 = sample_sha [1, 2, 3], ts_manifest_size = 3, ts_issued = 0, ts_expires = 100\<rparr>"

definition sample_update_env :: "string update_env" where
  "sample_update_env =
     \<lparr>ue_source = DirSource ''m'',
      ue_transport = \<lparr>tr_https = (\<lambda>_. Err ''offline''), tr_open = sample_mirror\<rparr>,
      ue_content_dir = ''c'', ue_state_path = ''s'', ue_keys = sample_keys, ue_allow_expired = False,
      ue_validate = (\<lambda>_. Ok ()), ue_now = 50, ue_minisign = sample_minisign, ue_sha = sample_sha,
      ue_parse_manifest = (\<lambda>_. Some sample_manifest), ue_parse_timestamp = (\<lambda>_. Some sample_update_timestamp),
      ue_parse_state = (\<lambda>_. None), ue_state_json = (\<lambda>_. Some [9]),
      ue_staging_suffix = Some ''s'', ue_old_suffix = Some ''t''\<rparr>"

definition sample_content_disk :: "fault list \<Rightarrow> content_disk" where
  "sample_content_disk fs =
     \<lparr>cd_dirs = [(''base'', [(''manifest.json'', [5])])], cd_state = Err NotFoundKind, cd_faults = fs\<rparr>"

lemma sample_fresh:
  "check_fresh sample_update_env (sample_content_disk fs) = Ok (sample_keys, empty_state, sample_update_timestamp)"
proof -
  have get: "fetch_require (ue_transport sample_update_env) (ue_source sample_update_env) ''timestamp.json'' MAX_TIMESTAMP_BYTES = Ok [7]"
    "fetch_require (ue_transport sample_update_env) (ue_source sample_update_env) ''timestamp.json.minisig'' TS_SIGNATURE_BYTES = Ok (as_bytes ''key'')"
    by (simp_all add: fetch_require_def fetch_get_def sample_update_env_def sample_mirror_def path_join_def
        MAX_TIMESTAMP_BYTES_def TS_SIGNATURE_BYTES_def Let_def as_bytes_def result_simps)
  have keys: "revoke_recorded (revoked_keys empty_state) sample_keys = sample_keys"
    by (simp add: revoke_recorded_def revoked_keys_def empty_state_def sample_keys_def)
  have ts: "verify_timestamp sample_minisign sample_sha (\<lambda>_. Some sample_update_timestamp) [7] ''key'' sample_keys 50 False =
      Ok \<lparr>vt_timestamp = sample_update_timestamp, vt_signer = KeyId (replicate 8 1), vt_sha256 = sample_sha [7]\<rparr>"
  proof -
    have "timestamp_ok sample_update_timestamp 50"
      by (simp add: timestamp_ok_def sample_update_timestamp_def valid_name_def MAX_NAME_LEN_def MAX_MANIFEST_BYTES_def
          MAX_TIMESTAMP_LIFETIME_def CLOCK_SKEW_def is_ascii_alphanumeric_def is_ascii_alphabetic_def is_ascii_lower_def code_def)
    then show ?thesis
      by (simp add: verify_timestamp_def verify_role_def sample_minisign_def sample_keys_def sample_key_def valid_at_def
          validate_timestamp_Ok MAX_TIMESTAMP_BYTES_def result_simps sample_update_timestamp_def)
  qed
  show ?thesis
    unfolding check_fresh_def Let_def TIMESTAMP_FILE_def
    using get ts keys
    by (simp add: sample_utf8 sample_update_env_def sample_content_disk_def open_state_def result_simps)
      (simp add: check_timestamp_def empty_state_def result_simps)
qed

lemma sample_no_old: "no_old ''base'' (sample_content_disk fs)"
  by (auto simp: no_old_def sample_content_disk_def dir_of_def old_prefix_def prefix_def)

text \<open>The update of the sample, step by step.\<close>

definition staged_disk :: "tree \<Rightarrow> content_disk" where
  "staged_disk t =
     \<lparr>cd_dirs = [(''base'', [(''manifest.json'', [5])]), (''.staging-base-s'', t)], cd_state = Err NotFoundKind, cd_faults = []\<rparr>"

definition sample_tree :: tree where
  "sample_tree = [(''manifest.json'', [1, 2, 3]), (''manifest.json.minisig'', as_bytes ''key''), (''a'', [1, 2])]"

lemma sample_fetches:
  "fetch_require (ue_transport sample_update_env) (ue_source sample_update_env) ''manifest.json'' MAX_MANIFEST_BYTES = Ok [1, 2, 3]"
  "fetch_require (ue_transport sample_update_env) (ue_source sample_update_env) ''manifest.json.minisig'' TS_SIGNATURE_BYTES = Ok (as_bytes ''key'')"
  "fetch_require (ue_transport sample_update_env) (ue_source sample_update_env) ''a'' 2 = Ok [1, 2]"
  "fetch_get (ue_transport sample_update_env) (ue_source sample_update_env) (''manifest.json.minisig.'' @ k) TS_SIGNATURE_BYTES = Ok None"
  by (simp_all add: fetch_require_def fetch_get_def sample_update_env_def sample_mirror_def path_join_def
      MAX_MANIFEST_BYTES_def TS_SIGNATURE_BYTES_def Let_def as_bytes_def result_simps)

lemma staged_write:
  assumes "\<not> clashes p t"
  shows "write_file ''.staging-base-s'' p data (staged_disk t) = (staged_disk (t @ [(p, data)]), Ok ())"
proof -
  have "p \<notin> fst ` set t" using assms by (auto simp: clashes_def list_ex_iff)
  then have "AList.update p x t = t @ [(p, x)]" "AList.update p data (t @ [(p, x)]) = t @ [(p, data)]" for x
    by (induction t) auto
  with assms show ?thesis
    by (simp add: write_file_def staged_disk_def dir_of_def put_file_def set_dir_def disk_change_def)
qed

lemma sample_download:
  "download sample_update_env sample_update_timestamp ''.staging-base-s'' (staged_disk []) = (staged_disk sample_tree, Ok ())"
proof -
  have sigs: "fetch_signatures sample_update_env ''.staging-base-s'' ns w = (w, Ok ())" for ns w
    by (cases ns) (simp_all add: sample_fetches(4) [simplified] MANIFEST_FILE_def Let_def)
  define h where "h = hd (m_files sample_manifest)"
  have f: "h = \<lparr>mf_path = ''a'', mf_kind = HashDatabase, mf_size = 2, mf_sha256 = sample_sha [1, 2]\<rparr>"
    "m_files sample_manifest = [h]"
    by (simp_all add: sample_manifest_def h_def)
  have clash: "\<not> clashes ''manifest.json'' []" "\<not> clashes ''manifest.json.minisig'' [(''manifest.json'', [1, 2, 3])]"
    "\<not> clashes ''a'' [(''manifest.json'', [1, 2, 3]), (''manifest.json.minisig'', as_bytes ''key'')]"
    by (simp_all add: clashes_def)
  have a: "fetch_file sample_update_env ''.staging-base-s'' (staged_disk [(''manifest.json'', [1, 2, 3]), (''manifest.json.minisig'', as_bytes ''key'')]) h = (staged_disk sample_tree, Ok ())"
    unfolding f(1) fetch_file_def using clash
    by (simp add: sample_fetches staged_write sample_tree_def) (simp add: sample_update_env_def)
  have ok: "ue_sha sample_update_env = sample_sha" "ue_parse_manifest sample_update_env d = Some sample_manifest"
    "validate_manifest sample_manifest = Ok ()" "m_name sample_manifest = ''base''" "m_sequence sample_manifest = 7" for d
    using sample_manifest_ok by (simp_all add: sample_update_env_def sample_manifest_def validate_manifest_Ok)
  show ?thesis
    unfolding download_def Let_def MANIFEST_FILE_def
    using clash a by (simp add: f(2) sample_fetches ok sigs staged_write sample_update_timestamp_def result_simps del: upt_Suc)
qed

definition sample_installed :: verified_bundle where
  "sample_installed = sample_bundle\<lparr>vb_dir := ''c/.staging-base-s''\<rparr>"

lemma sample_staged_signatures:
  "verify_signatures sample_minisign (tree_read ''c/.staging-base-s'' sample_tree) ''c/.staging-base-s''
     ''c/.staging-base-s/manifest.json'' [1, 2, 3] sample_keys 50 = Ok [KeyId (replicate 8 1)]"
proof -
  let ?p = "''c/.staging-base-s/manifest.json.minisig''" and ?read = "tree_read ''c/.staging-base-s'' sample_tree"
  have "signature_paths ''c/.staging-base-s/manifest.json'' = ?p # map (\<lambda>n. (?p @ ''.'') @ show_nat n) [2..<Suc MAX_SIGNATURES]"
    by (simp add: signature_paths_def signature_path_def Let_def)
  moreover have "\<forall>p \<in> set (map (\<lambda>n. (?p @ ''.'') @ show_nat n) [2..<Suc MAX_SIGNATURES]). ?read p = Err NotFoundKind"
    by (simp add: tree_read_def strip_prefix_def sample_tree_def result_simps)
  moreover have "read_signature ?read ?p = Ok (Some (as_bytes ''key''))"
    by (simp add: read_signature_def read_bounded_def tree_read_def strip_prefix_def sample_tree_def MAX_SIGNATURE_BYTES_def
        Let_def as_bytes_def result_simps)
  ultimately show ?thesis
    by (simp add: verify_signatures_def sample_verify sample_utf8 absent_signatures sample_threshold result_simps
        del: upt_Suc)
qed

lemma sample_load_staged:
  "load_staged sample_update_env sample_keys ''c/.staging-base-s'' sample_tree = Ok sample_installed"
proof -
  have "read_bounded (tree_read ''c/.staging-base-s'' sample_tree) ''c/.staging-base-s/manifest.json'' MAX_MANIFEST_BYTES = Ok [1, 2, 3]"
    by (simp add: read_bounded_def tree_read_def strip_prefix_def sample_tree_def MAX_MANIFEST_BYTES_def Let_def result_simps)
  moreover have "read_listed sample_sha (\<lambda>rel. ok_or ''not found'' (map_of sample_tree rel)) (hd (m_files sample_manifest)) = Ok [1, 2]"
    by (simp add: read_listed_def sample_tree_def sample_manifest_def Let_def sat_add_def result_simps)
  ultimately show ?thesis
    using sample_staged_signatures sample_manifest_ok
    by (simp add: load_staged_def load_bundle_def sample_installed_def sample_bundle_def sample_update_env_def validate_manifest_Ok
        path_join_def MANIFEST_FILE_def sample_manifest_def read_bundle_file_def Let_def sample_threshold tree_open_def result_simps)
qed

lemma sample_install:
  "install sample_update_env sample_keys empty_state sample_update_timestamp ''.staging-base-s'' (sample_content_disk []) =
     (\<lparr>cd_dirs = [(''.old-base-t'', [(''manifest.json'', [5])]), (''base'', sample_tree)], cd_state = Err NotFoundKind,
       cd_faults = []\<rparr>, Ok (sample_installed, Some ''.old-base-t''))"
proof -
  have start: "disk_change (UpIo ''.staging-base-s'') (set_dir ''.staging-base-s'' []) (sample_content_disk []) = (staged_disk [], Ok ())"
    by (simp add: sample_content_disk_def staged_disk_def disk_change_def set_dir_def)
  have verify: "verify_staged sample_update_env sample_keys empty_state ''.staging-base-s'' (staged_disk sample_tree) =
      (staged_disk sample_tree, Ok sample_installed)"
  proof -
    have "dir_of ''.staging-base-s'' (staged_disk sample_tree) = Some sample_tree" by (simp add: staged_disk_def dir_of_def)
    moreover have "check_bundle empty_state sample_installed (min_sequence sample_keys (m_name (vb_manifest sample_installed))) = Ok ()"
      by (simp add: check_bundle_def empty_state_def min_sequence_def sample_keys_def Let_def result_simps)
    moreover have "ue_content_dir sample_update_env = ''c''" "ue_validate sample_update_env = (\<lambda>_. Ok ())"
      by (simp_all add: sample_update_env_def)
    ultimately show ?thesis
      by (simp add: verify_staged_def path_join_def sample_load_staged result_simps)
  qed
  have swapped: "swap sample_update_env ''base'' ''.staging-base-s'' (staged_disk sample_tree) =
     (\<lparr>cd_dirs = [(''.old-base-t'', [(''manifest.json'', [5])]), (''base'', sample_tree)], cd_state = Err NotFoundKind,
       cd_faults = []\<rparr>, Ok (Some ''.old-base-t''))"
    by (simp add: swap_def sample_update_env_def old_prefix_def staged_disk_def dir_of_def rename_dir_def disk_change_def
        set_dir_def drop_dir_def Let_def)
  show ?thesis
    using start sample_download verify swapped
    by (simp add: install_def with_staging_def) (simp add: sample_update_timestamp_def)
qed

lemma sample_update:
  "update_content sample_update_env (sample_content_disk []) =
     (\<lparr>cd_dirs = [(''base'', sample_tree)], cd_state = Ok [9], cd_faults = []\<rparr>,
      Ok (outcome_of sample_update_env empty_state sample_update_timestamp True))"
proof -
  have ts: "ts_bundle sample_update_timestamp = ''base''" by (simp add: sample_update_timestamp_def)
  have rec: "recover_dirs ''base'' (sample_content_disk []) = (sample_content_disk [], Ok ())"
    by (simp add: recover_dirs_def sample_content_disk_def told_def disk_change_def remove_dirs_def put_back_def old_copies_def
        staging_prefix_def old_prefix_def dir_of_def Let_def)
  have new: "\<not> is_current sample_update_env sample_update_timestamp (sample_content_disk [])"
    by (simp add: is_current_def ts sample_content_disk_def dir_of_def MANIFEST_FILE_def sample_update_env_def
        sample_update_timestamp_def sample_sha_def)
  have stage: "ue_staging_suffix sample_update_env = Some ''s''" "staging_prefix ''base'' = ''.staging-base-''"
    "dir_of ''.staging-base-s'' (sample_content_disk []) = None"
    by (simp_all add: sample_update_env_def staging_prefix_def sample_content_disk_def dir_of_def)
  have mk: "disk_change e (\<lambda>w. w) (sample_content_disk []) = (sample_content_disk [], Ok ())" for e
    by (simp add: disk_change_def sample_content_disk_def)
  have json: "ue_state_json sample_update_env x = Some [9]" for x by (simp add: sample_update_env_def)
  show ?thesis
    unfolding update_content_def sample_fresh
    using rec new mk sample_install
    by (simp add: ts stage json Let_def save_state_def disk_change_def)
      (simp add: remove_dir_all_def told_def disk_change_def dir_of_def drop_file_def drop_dir_def set_dir_def)
qed

section \<open>Properties\<close>

text \<open>C5: An update that installs a bundle installs exactly what the timestamp names. The installed
  directory loads as a scan would load it, with the keys that are left after the recorded
  revocations; its manifest has the digest and the sequence the timestamp gives, is not older than
  the recorded one, and the caller's validator accepted it. The state on disk then records both.\<close>

theorem update_installs_verified:
  assumes "update_content env w = (v, Ok out)" and "uo_changed out"
    and "check_fresh env w = Ok (ks, st, ts)" and "no_old (ts_bundle ts) w"
  shows "\<exists>t dir vb json. dir_of (ts_bundle ts) v = Some t \<and> load_staged env ks dir t = Ok vb \<and>
      check_bundle st vb (min_sequence ks (ts_bundle ts)) = Ok () \<and> ue_validate env vb = Ok () \<and>
      m_name (vb_manifest vb) = ts_bundle ts \<and> m_sequence (vb_manifest vb) = ts_sequence ts \<and>
      vb_manifest_sha256 vb = ts_manifest_sha256 ts \<and>
      ue_state_json env (record_timestamp ts (ue_now env) (record_bundle vb (ue_now env) st)) = Some json \<and>
      cd_state v = Ok json"
proof -
  have "completed env ks st ts w out v"
    using update_content_hoare [OF assms(3,4)] assms(1) by simp
  then obtain vb where vb: "installed env ks st ts vb v" using assms(2) by (auto simp: completed_def)
  then show ?thesis unfolding installed_def verified_def by metis
qed

theorem update_installs_verified_witness:
  "\<exists>v t dir vb. update_content sample_update_env (sample_content_disk []) =
       (v, Ok (outcome_of sample_update_env empty_state sample_update_timestamp True)) \<and>
     dir_of ''base'' v = Some t \<and> load_staged sample_update_env sample_keys dir t = Ok vb \<and>
     m_sequence (vb_manifest vb) = 7"
proof -
  have "no_old (ts_bundle sample_update_timestamp) (sample_content_disk [])"
    by (simp add: sample_update_timestamp_def sample_no_old)
  moreover have "uo_changed (outcome_of sample_update_env empty_state sample_update_timestamp True)"
    by (simp add: outcome_of_def)
  ultimately show ?thesis
    using update_installs_verified [OF sample_update _ sample_fresh] sample_update
    by (auto simp: sample_update_timestamp_def)
qed



text \<open>C18: Recovery can delete the only copy of a bundle: if the bundle is missing, one copy is set
  aside and renaming it back fails, recovery goes on to delete that copy.\<close>

theorem failed_rename_deletes_copy:
  assumes "cd_dirs w = [(old_prefix n @ s, t)]" and "cd_faults w = [NoFault, IoFault]"
  shows "\<exists>v. recover_dirs n w = (v, Ok ()) \<and> (\<forall>m. dir_of m v = None)"
proof -
  let ?c = "old_prefix n @ s"
  have apart: "n \<noteq> ?c" "\<not> prefix (staging_prefix n) ?c" by (simp_all add: staging_prefix_def old_prefix_def prefix_def)
  define x where "x = w\<lparr>cd_faults := []\<rparr>"
  have x: "dir_of n (w\<lparr>cd_faults := fs\<rparr>) = None" "dir_of ?c (w\<lparr>cd_faults := fs\<rparr>) = Some t"
    "old_copies n (w\<lparr>cd_faults := fs\<rparr>) = [?c]" for fs
    using assms(1) apart by (auto simp: dir_of_def old_copies_def)
  have listed: "told (disk_change (UpIo n) (\<lambda>w. w) w) = (w\<lparr>cd_faults := [IoFault]\<rparr>, Ok True)"
    using assms(2) by (simp add: disk_change_def told_def)
  have kept: "put_back n [?c] (w\<lparr>cd_faults := [IoFault]\<rparr>) = (x, Ok [?c])"
    using x by (simp add: put_back_def rename_dir_def disk_change_def told_def Let_def x_def)
  obtain v where v: "told (remove_dir_all ?c x) = (v, Ok (dir_of ?c x \<noteq> None))" "same_but {?c} x v" "dir_of ?c v = None"
    using remove_dir_quiet [of x ?c] by (auto simp: x_def)
  have "dir_of m x = None" if "m \<noteq> ?c" for m using assms(1) that by (simp add: x_def dir_of_def)
  then have "dir_of m v = None" for m using v(2,3) by (cases "m = ?c") (auto simp: same_but_def)
  moreover have "recover_dirs n w = (v, Ok ())"
    using listed kept v(1) x(3) assms(1) apart by (simp add: recover_dirs_def remove_dirs_def Let_def)
  ultimately show ?thesis by blast
qed

theorem failed_rename_deletes_copy_witness:
  "\<exists>w v. cd_dirs w = [(''.old-base-s'', sample_tree)] \<and> recover_dirs ''base'' w = (v, Ok ()) \<and> (\<forall>m. dir_of m v = None)"
proof -
  let ?w = "\<lparr>cd_dirs = [(''.old-base-s'', sample_tree)], cd_state = Err NotFoundKind, cd_faults = [NoFault, IoFault]\<rparr>"
  have "cd_dirs ?w = [(old_prefix ''base'' @ ''s'', sample_tree)]" by (simp add: old_prefix_def)
  then obtain v where "recover_dirs ''base'' ?w = (v, Ok ())" "\<forall>m. dir_of m v = None"
    using failed_rename_deletes_copy [of ?w "''base''" "''s''" sample_tree] by auto
  then show ?thesis by - (rule exI [of _ ?w], rule exI [of _ v], simp)
qed

end
