(* ===== verification/Rust_Slice.thy ===== *)
theory Rust_Slice
  imports Core_Text
begin

text \<open>
  Slices of \<open>str\<close> and further text operations of the standard library. A slice that does not start
  or end at a character panics; functions that can do so return \<open>Err Panicked\<close> there.
\<close>

datatype panic = Panicked

definition is_char_boundary :: "string \<Rightarrow> nat \<Rightarrow> bool" where
  "is_char_boundary s i \<longleftrightarrow> i \<le> length s \<and> (i < length s \<longrightarrow> \<not> is_cont (s ! i))"

definition split_at :: "nat \<Rightarrow> string \<Rightarrow> panic + (string \<times> string)" where
  "split_at i s = (if is_char_boundary s i then Ok (take i s, drop i s) else Err Panicked)"

definition rsplit_once :: "char \<Rightarrow> string \<Rightarrow> (string \<times> string) option" where
  "rsplit_once d s =
     (if d \<in> set s
      then Some (rev (tl (dropWhile (\<lambda>c. c \<noteq> d) (rev s))), rev (takeWhile (\<lambda>c. c \<noteq> d) (rev s)))
      else None)"

definition trim_start :: "string \<Rightarrow> string" where
  "trim_start s = utf8 (dropWhile is_whitespace (chars s))"

text \<open>The formats \<open>{:#x}\<close> and \<open>{:04X}\<close>.\<close>

definition show_hex :: "nat \<Rightarrow> string" where
  "show_hex n = ''0x'' @ utf8 (lower_hex n)"

definition show_hex4_upper :: "nat \<Rightarrow> string" where
  "show_hex4_upper n =
     (let h = to_ascii_uppercase (utf8 (lower_hex n)) in replicate (4 - length h) (CHR ''0'') @ h)"

lemma set_trim_chars: "set (trim_chars cs) \<subseteq> set cs"
  by (auto simp: trim_chars_def dest!: set_dropWhileD)

lemma trim_ascii:
  assumes "\<forall>c \<in> set s. 33 \<le> code c \<and> code c \<le> 126"
  shows "trim s = s"
proof -
  have space: "\<not> is_whitespace n" if "33 \<le> n" "n \<le> 126" for n using that by (auto simp: is_whitespace_def)
  have none: "dropWhile is_whitespace (map code t) = map code t" if "set t \<subseteq> set s" for t
    using that assms space by (cases t) auto
  have "\<forall>c \<in> set s. code c < 128" using assms by auto
  then show ?thesis
    using none [of s] none [of "rev s"] utf8_ascii [of s]
    by (simp add: trim_def chars_ascii trim_chars_def rev_map)
qed

lemma rsplit_once_join:
  assumes "rsplit_once d s = Some (a, b)"
  shows "s = a @ d # b" and "d \<notin> set b"
proof -
  let ?r = "rev s"
  have d: "d \<in> set ?r" and ab: "a = rev (tl (dropWhile (\<lambda>c. c \<noteq> d) ?r))" "b = rev (takeWhile (\<lambda>c. c \<noteq> d) ?r)"
    using assms by (auto simp: rsplit_once_def split: if_splits)
  obtain x where x: "dropWhile (\<lambda>c. c \<noteq> d) ?r = d # x"
    using d by (metis (mono_tags, lifting) dropWhile_eq_Cons_conv dropWhile_eq_Nil_conv list.exhaust)
  have "?r = takeWhile (\<lambda>c. c \<noteq> d) ?r @ d # x" using takeWhile_dropWhile_id [of "\<lambda>c. c \<noteq> d" ?r] x by simp
  then have "rev ?r = rev x @ d # rev (takeWhile (\<lambda>c. c \<noteq> d) ?r)" by (metis append.assoc append_Cons append_Nil rev.simps(2) rev_append)
  with ab x show "s = a @ d # b" by simp
  show "d \<notin> set b" using ab by (auto dest: set_takeWhileD)
qed

end
