(* ===== verification/Winsec_Sddl.thy ===== *)
theory Winsec_Sddl
  imports Rust_Slice
begin

text \<open>
  \<open>crates/winsec/src/sddl.rs\<close>: security descriptors in their text form (SDDL), what they grant, and
  the two checks the program makes of them. A panic is \<open>Err Panicked\<close>.
\<close>

unbundle bit_operations_syntax

section \<open>SIDs\<close>

definition SYSTEM :: string where
  "SYSTEM = ''S-1-5-18''"

definition ADMINISTRATORS :: string where
  "ADMINISTRATORS = ''S-1-5-32-544''"

definition TRUSTED_INSTALLER :: string where
  "TRUSTED_INSTALLER = ''S-1-5-80-956008885-3418522649-1831038044-1853292631-2271478464''"

definition OWNER_RIGHTS :: string where
  "OWNER_RIGHTS = ''S-1-3-4''"

definition CREATOR_OWNER :: string where
  "CREATOR_OWNER = ''S-1-3-0''"

definition sid_alias :: "string \<Rightarrow> string option" where
  "sid_alias =
     map_of
       [(''SY'', SYSTEM), (''BA'', ADMINISTRATORS), (''BU'', ''S-1-5-32-545''), (''BG'', ''S-1-5-32-546''),
        (''PU'', ''S-1-5-32-547''), (''WD'', ''S-1-1-0''), (''AU'', ''S-1-5-11''), (''IU'', ''S-1-5-4''),
        (''SU'', ''S-1-5-6''), (''NU'', ''S-1-5-2''), (''AN'', ''S-1-5-7''), (''LS'', ''S-1-5-19''),
        (''NS'', ''S-1-5-20''), (''OW'', OWNER_RIGHTS), (''CO'', CREATOR_OWNER), (''CG'', ''S-1-3-1''),
        (''AC'', ''S-1-15-2-1''), (''RC'', ''S-1-5-12''), (''PS'', ''S-1-5-10'')]"

definition normalize_sid :: "string \<Rightarrow> string" where
  "normalize_sid s = (case sid_alias s of None \<Rightarrow> to_ascii_uppercase s | Some sid \<Rightarrow> sid)"

section \<open>Descriptors\<close>

record ace =
  ace_allow :: bool
  ace_inherit_only :: bool
  ace_mask :: u32
  ace_sid :: string

record descriptor =
  sd_owner :: "string option"
  sd_protected :: bool
  sd_dacl :: "ace list option"

definition empty_descriptor :: descriptor where
  "empty_descriptor = \<lparr>sd_owner = None, sd_protected = False, sd_dacl = None\<rparr>"

text \<open>\<open>u32::from_str_radix\<close> with base 16: an optional plus sign and at least one digit.\<close>

fun read_hex :: "nat \<Rightarrow> string \<Rightarrow> nat option" where
  "read_hex acc [] = Some acc"
| "read_hex acc (c # s) =
     (case hex_value (u8_of_char c) of None \<Rightarrow> None | Some d \<Rightarrow> read_hex (16 * acc + unat d) s)"

definition u32_from_hex :: "string \<Rightarrow> u32 option" where
  "u32_from_hex s =
     (let ds = (if prefix ''+'' s then tl s else s)
      in if ds = [] then None
         else case read_hex 0 ds of None \<Rightarrow> None | Some n \<Rightarrow> if n < 2 ^ 32 then Some (of_nat n) else None)"

definition right_mask :: "string \<Rightarrow> u32 option" where
  "right_mask =
     map_of
       [(''GA'', 0x10000000), (''GR'', 0x80000000), (''GW'', 0x40000000), (''GX'', 0x20000000),
        (''RC'', 0x00020000), (''SD'', 0x00010000), (''WD'', 0x00040000), (''WO'', 0x00080000),
        (''RP'', 0x10), (''WP'', 0x20), (''CC'', 0x1), (''DC'', 0x2), (''LC'', 0x4), (''SW'', 0x8),
        (''LO'', 0x80), (''DT'', 0x40), (''CR'', 0x100), (''FA'', 0x001f01ff), (''FR'', 0x00120089),
        (''FW'', 0x00120116), (''FX'', 0x001200a0), (''KA'', 0x000f003f), (''KR'', 0x00020019),
        (''KW'', 0x00020006), (''KX'', 0x00020019)]"

text \<open>The loop over pairs of bytes; a pair that is no slice is in no entry of the table.\<close>

fun right_masks :: "string \<Rightarrow> u32 option" where
  "right_masks [] = Some 0"
| "right_masks [c] = None"
| "right_masks (c # d # s) =
     (case right_mask [c, d] of
        None \<Rightarrow> None
      | Some m \<Rightarrow> (case right_masks s of None \<Rightarrow> None | Some n \<Rightarrow> Some (m OR n)))"

definition rights :: "string \<Rightarrow> u32 option" where
  "rights s =
     (if prefix ''0x'' s \<or> prefix ''0X'' s then u32_from_hex (drop 2 s) else right_masks s)"

definition WRITE_RIGHTS :: u32 where
  "WRITE_RIGHTS =
     0x2 OR 0x4 OR 0x10 OR 0x40 OR 0x100 OR 0x00010000 OR 0x00040000 OR 0x00080000 OR 0x10000000 OR 0x40000000"

section \<open>Parsing\<close>

definition sid_char :: "char \<Rightarrow> bool" where
  "sid_char c \<longleftrightarrow> is_ascii_digit c \<or> c = CHR ''-'' \<or> c = CHR ''S''"

definition take_sid :: "string \<Rightarrow> panic + (string \<times> string)" where
  "take_sid s =
     (if prefix ''S-'' s then Ok (takeWhile sid_char s, dropWhile sid_char s)
      else split_at (min (length s) 2) s)"

definition ace_type :: "string \<Rightarrow> bool option" where
  "ace_type s =
     (if s \<in> {''A'', ''OA'', ''XA'', ''ZA''} then Some True
      else if s \<in> {''D'', ''OD'', ''XD''} then Some False
      else None)"

definition parse_ace :: "string \<Rightarrow> ace list option \<Rightarrow> ace list option option" where
  "parse_ace entry dacl =
     (let f = split_on (CHR '';'') entry
      in if length f < 6 then None
         else case ace_type (f ! 0) of
           None \<Rightarrow> None
         | Some allow \<Rightarrow>
             (case dacl of
                None \<Rightarrow> Some None
              | Some l \<Rightarrow>
                  (case rights (f ! 2) of
                     None \<Rightarrow> None
                   | Some m \<Rightarrow>
                       Some (Some (l @ [\<lparr>ace_allow = allow, ace_inherit_only = contains_str (f ! 1) ''IO'', ace_mask = m,
                         ace_sid = normalize_sid (f ! 5)\<rparr>])))))"

lemma split_once_shorter: "split_once d s = Some (a, b) \<Longrightarrow> length b < length s"
proof (induction s arbitrary: a)
  case (Cons c s)
  then show ?case by (cases "c = d") (auto simp: split_once_def split: if_splits)
qed (simp add: split_once_def)

lemma split_once_bound [termination_simp]: "split_once d s = Some (a, b) \<Longrightarrow> length b < Suc (length s)"
  using split_once_shorter [of d s a b] by simp

text \<open>The entries of a list; those of the audit list (\<open>S:\<close>) are passed over.\<close>

fun parse_aces :: "bool \<Rightarrow> ace list option \<Rightarrow> string \<Rightarrow> (ace list option \<times> string) option" where
  "parse_aces is_dacl dacl [] = Some (dacl, [])"
| "parse_aces is_dacl dacl (c # inner) =
     (if c \<noteq> CHR ''('' then Some (dacl, c # inner)
      else case split_once (CHR '')'') inner of
        None \<Rightarrow> None
      | Some (entry, r) \<Rightarrow>
          if is_dacl
          then (case parse_ace entry dacl of None \<Rightarrow> None | Some dacl' \<Rightarrow> parse_aces is_dacl dacl' r)
          else parse_aces is_dacl dacl r)"

definition flags_end :: "string \<Rightarrow> nat" where
  "flags_end body =
     (if CHR ''('' \<in> set body then length (takeWhile (\<lambda>c. c \<noteq> CHR ''('') body)
      else if CHR '':'' \<in> set body then length (takeWhile (\<lambda>c. c \<noteq> CHR '':'') body) - 1
      else length body)"

text \<open>One pass of the loop: the descriptor so far and what is left; \<open>None\<close> where it is given up.\<close>

definition parse_part :: "descriptor \<Rightarrow> string \<Rightarrow> panic + (descriptor \<times> string) option" where
  "parse_part d rest =
     (if length rest < 2 \<or> \<not> is_char_boundary rest 2 then Ok None
      else
        let tag = take 2 rest; body = drop 2 rest
        in if tag = ''O:'' \<or> tag = ''G:'' then
             and_then (take_sid body) (\<lambda>(sid, r).
             if sid = [] then Ok None
             else Ok (Some (if tag = ''O:'' then d\<lparr>sd_owner := Some (normalize_sid sid)\<rparr> else d, r)))
           else if tag = ''D:'' \<or> tag = ''S:'' then
             and_then (split_at (flags_end body) body) (\<lambda>(flags, r).
             let d' =
               (if tag = ''D:''
                then d\<lparr>sd_protected := (CHR ''P'' \<in> set flags),
                       sd_dacl := (if contains_str flags ''NO_ACCESS_CONTROL'' then None else Some [])\<rparr>
                else d)
             in Ok (case parse_aces (tag = ''D:'') (sd_dacl d') r of
                  None \<Rightarrow> None
                | Some (dacl, r') \<Rightarrow> Some (d'\<lparr>sd_dacl := dacl\<rparr>, r')))
           else Ok None)"

lemma take_sid_Ok: "take_sid s = Ok (a, b) \<Longrightarrow> s = a @ b"
  by (auto simp: take_sid_def split_at_def split: if_splits)

lemma parse_aces_shorter: "parse_aces k l r = Some (l', r') \<Longrightarrow> length r' \<le> length r"
proof (induction k l r rule: parse_aces.induct)
  case (2 k l c inner)
  show ?case
  proof (cases "c = CHR ''(''")
    case True
    with "2.prems" obtain e t where s: "split_once (CHR '')'') inner = Some (e, t)" by (auto split: option.splits)
    with "2.IH" "2.prems" True split_once_shorter [OF s] show ?thesis
      by (fastforce split: option.splits if_splits)
  qed (use "2.prems" in simp)
qed simp

lemma drop_2_append: "drop 2 s = a @ b \<Longrightarrow> length b \<le> length s - 2"
  by (metis length_append length_drop le_add2)

lemma parse_part_shorter [termination_simp]:
  assumes "parse_part d rest = Ok (Some (d', r))"
  shows "length r < length rest"
proof -
  have "2 \<le> length rest" using assms by (auto simp: parse_part_def split: if_splits)
  moreover have "length r \<le> length rest - 2"
    using assms by (auto simp: parse_part_def split_at_def Let_def result_simps split: if_splits option.splits
        dest!: take_sid_Ok parse_aces_shorter dest: drop_2_append)
  ultimately show ?thesis by linarith
qed

fun parse_from :: "descriptor \<Rightarrow> string \<Rightarrow> panic + descriptor option" where
  "parse_from d rest =
     (if rest = [] then Ok (Some d)
      else case parse_part d rest of
        Err e \<Rightarrow> Err e
      | Ok None \<Rightarrow> Ok None
      | Ok (Some (d', r)) \<Rightarrow> parse_from d' r)"

declare parse_from.simps [simp del]

definition parse_sddl :: "string \<Rightarrow> panic + descriptor option" where
  "parse_sddl s = parse_from empty_descriptor (trim s)"

section \<open>Rewriting aliases\<close>

definition alias_or :: "(string \<Rightarrow> string option) \<Rightarrow> string \<Rightarrow> string" where
  "alias_or resolv s =
     (if length s = 2 \<and> list_all is_ascii_upper s then (case resolv s of None \<Rightarrow> s | Some t \<Rightarrow> t) else s)"

definition map_ace :: "(string \<Rightarrow> string option) \<Rightarrow> string \<Rightarrow> string" where
  "map_ace resolv entry =
     (let f = split_on (CHR '';'') entry
      in join_with '';'' (if 6 \<le> length f then f[5 := alias_or resolv (f ! 5)] else f))"

text \<open>One pass: what is written and what is left.\<close>

definition map_part :: "(string \<Rightarrow> string option) \<Rightarrow> string \<Rightarrow> panic + (string \<times> string)" where
  "map_part resolv rest =
     (if prefix ''O:'' rest \<or> prefix ''G:'' rest then
        and_then (take_sid (drop 2 rest)) (\<lambda>(sid, r). Ok (take 2 rest @ alias_or resolv sid, r))
      else if prefix ''('' rest then
        (case split_once (CHR '')'') (tl rest) of
           None \<Rightarrow> Ok (rest, [])
         | Some (entry, r) \<Rightarrow> Ok (''('' @ map_ace resolv entry @ '')'', r))
      else Ok (take (seq_len (hd rest)) rest, drop (seq_len (hd rest)) rest))"

lemma map_part_shorter [termination_simp]:
  assumes "map_part resolv rest = Ok (t, r)" and "rest \<noteq> []"
  shows "length r < length rest"
proof -
  have "0 < seq_len c" for c by (simp add: seq_len_def)
  with assms show ?thesis
    by (auto simp: map_part_def result_simps prefix_def split: if_splits option.splits
        dest!: take_sid_Ok split_once_shorter)
qed

fun map_sids :: "(string \<Rightarrow> string option) \<Rightarrow> string \<Rightarrow> panic + string" where
  "map_sids resolv rest =
     (if rest = [] then Ok []
      else case map_part resolv rest of
        Err e \<Rightarrow> Err e
      | Ok (t, r) \<Rightarrow> (case map_sids resolv r of Err e \<Rightarrow> Err e | Ok u \<Rightarrow> Ok (t @ u)))"

declare map_sids.simps [simp del]

section \<open>The checks\<close>

definition effective_sid :: "descriptor \<Rightarrow> ace \<Rightarrow> string" where
  "effective_sid d a =
     (if ace_sid a = OWNER_RIGHTS then (case sd_owner d of None \<Rightarrow> OWNER_RIGHTS | Some x \<Rightarrow> x) else ace_sid a)"

fun grant_loop :: "descriptor \<Rightarrow> u32 \<Rightarrow> string list \<Rightarrow> ace list \<Rightarrow> string list \<Rightarrow> string list" where
  "grant_loop d bits trusted [] out = out"
| "grant_loop d bits trusted (a # as) out =
     (if \<not> ace_allow a \<or> ace_inherit_only a \<or> ace_mask a AND bits = 0 then grant_loop d bits trusted as out
      else
        let e = effective_sid d a
        in grant_loop d bits trusted as (if e \<notin> set trusted \<and> e \<notin> set out then out @ [e] else out))"

definition granted_to_others :: "descriptor \<Rightarrow> u32 \<Rightarrow> string list \<Rightarrow> string list" where
  "granted_to_others d bits trusted =
     (case sd_dacl d of
        None \<Rightarrow> [''S-1-1-0'']
      | Some dacl \<Rightarrow> grant_loop d bits (map normalize_sid trusted) dacl [])"

definition private_dacl :: "string \<Rightarrow> string" where
  "private_dacl owner_sid = ''D:P(A;OICI;FA;;;SY)(A;OICI;FA;;;BA)(A;OICI;FA;;;'' @ owner_sid @ '')''"

definition check_private_sddl :: "string \<Rightarrow> string list \<Rightarrow> panic + (string + unit)" where
  "check_private_sddl s trusted =
     and_then (parse_sddl s) (\<lambda>r.
     Ok (case r of
         None \<Rightarrow> Err ''unreadable security descriptor''
       | Some d \<Rightarrow>
           if \<not> sd_protected d then Err ''the DACL inherits from the parent directory''
           else
             let others = granted_to_others d (- 1) trusted
             in if others = [] then Ok () else Err (''other principals have access: '' @ join_with '', '' others)))"

definition owner_rights_limited :: "descriptor \<Rightarrow> bool" where
  "owner_rights_limited d =
     (case sd_dacl d of None \<Rightarrow> False | Some acl \<Rightarrow> list_ex (\<lambda>a. ace_sid a = OWNER_RIGHTS \<and> \<not> ace_inherit_only a) acl)"

definition check_write_restricted :: "string \<Rightarrow> string list \<Rightarrow> panic + (string + unit)" where
  "check_write_restricted s trusted =
     and_then (parse_sddl s) (\<lambda>r.
     Ok (case r of
         None \<Rightarrow> Err ''unreadable security descriptor''
       | Some d \<Rightarrow>
           let others = granted_to_others d WRITE_RIGHTS trusted;
               others =
                 (case sd_owner d of
                    Some own \<Rightarrow>
                      if \<not> owner_rights_limited d \<and> own \<notin> set (map normalize_sid trusted) \<and> own \<notin> set others
                      then others @ [own @ '' (owner)''] else others
                  | None \<Rightarrow> others)
           in if others = [] then Ok () else Err (''writable by '' @ join_with '', '' others)))"

end
