(* ===== verification/Winsec_Props.thy ===== *)
theory Winsec_Props
  imports Winsec_Sddl
begin

text \<open>
  What the checks of security descriptors are worth: the access check of Windows, as documented, is
  the reference (\<open>access_check\<close>), and a token that holds no trusted SID must fail it.
\<close>

section \<open>The access check\<close>

text \<open>Generic rights of an entry stand for the specific rights of a file.\<close>

definition file_mask :: "u32 \<Rightarrow> u32" where
  "file_mask m =
     m OR (if bit m 28 then 0x001f01ff else 0) OR (if bit m 31 then 0x00120089 else 0) OR
     (if bit m 30 then 0x00120116 else 0) OR (if bit m 29 then 0x001200a0 else 0)"

definition applies_to :: "descriptor \<Rightarrow> string set \<Rightarrow> ace \<Rightarrow> bool" where
  "applies_to d token a \<longleftrightarrow> \<not> ace_inherit_only a \<and> effective_sid d a \<in> token"

fun aces_grant :: "descriptor \<Rightarrow> string set \<Rightarrow> ace list \<Rightarrow> u32 \<Rightarrow> bool" where
  "aces_grant d token [] wanted = (wanted = 0)"
| "aces_grant d token (a # as) wanted =
     (if wanted = 0 then True
      else if \<not> applies_to d token a then aces_grant d token as wanted
      else if ace_allow a then aces_grant d token as (wanted AND NOT (file_mask (ace_mask a)))
      else if file_mask (ace_mask a) AND wanted \<noteq> 0 then False
      else aces_grant d token as wanted)"

text \<open>The owner may read and change the list itself unless an entry for its rights says otherwise.\<close>

definition access_check :: "descriptor \<Rightarrow> string set \<Rightarrow> u32 \<Rightarrow> bool" where
  "access_check d token wanted =
     (case sd_dacl d of
        None \<Rightarrow> True
      | Some acl \<Rightarrow>
          aces_grant d token acl
            (if (\<exists>x \<in> token. sd_owner d = Some x) \<and> \<not> owner_rights_limited d then wanted AND NOT 0x00060000 else wanted))"

lemma nonzero_bit: "v \<noteq> 0 \<Longrightarrow> \<exists>n. bit v n" for v :: u32
  by (auto simp: bit_eq_iff)

lemma aces_grant_bit:
  "aces_grant d token acl wanted \<Longrightarrow> bit wanted n \<Longrightarrow>
     \<exists>a \<in> set acl. ace_allow a \<and> applies_to d token a \<and> bit (file_mask (ace_mask a)) n"
proof (induction acl arbitrary: wanted)
  case (Cons a as)
  have w: "wanted \<noteq> 0" using Cons.prems(2) by auto
  consider "applies_to d token a" "ace_allow a" "bit (file_mask (ace_mask a)) n"
    | "applies_to d token a" "ace_allow a" "\<not> bit (file_mask (ace_mask a)) n"
    | "aces_grant d token as wanted"
    using Cons.prems(1) w by (auto split: if_splits)
  then show ?case
  proof cases
    case 2
    then have "bit (wanted AND NOT (file_mask (ace_mask a))) n"
      using Cons.prems(2) bit_imp_possible_bit [OF Cons.prems(2)] by (simp add: bit_simps)
    with 2 Cons.prems(1) w Cons.IH show ?thesis by fastforce
  next
    case 3
    with Cons.IH Cons.prems(2) show ?thesis by fastforce
  qed auto
qed simp

lemma grant_loop_out: "x \<in> set out \<Longrightarrow> x \<in> set (grant_loop d bits trusted as out)"
  by (induction as arbitrary: out) (simp_all add: Let_def)

lemma grant_loop_complete:
  "a \<in> set as \<Longrightarrow> ace_allow a \<Longrightarrow> \<not> ace_inherit_only a \<Longrightarrow> ace_mask a AND bits \<noteq> 0 \<Longrightarrow>
     effective_sid d a \<in> set trusted \<union> set (grant_loop d bits trusted as out)"
proof (induction as arbitrary: out)
  case (Cons b as)
  show ?case
  proof (cases "a = b")
    case True
    with Cons.prems grant_loop_out [of "effective_sid d a"] show ?thesis by (auto simp: Let_def)
  next
    case False
    with Cons.prems have "a \<in> set as" by simp
    with Cons.IH Cons.prems(2-) show ?thesis by (simp add: Let_def)
  qed
qed simp

lemma granted_empty:
  assumes "granted_to_others d bits trusted = []"
  obtains acl where "sd_dacl d = Some acl"
    "\<And>a. a \<in> set acl \<Longrightarrow> ace_allow a \<Longrightarrow> \<not> ace_inherit_only a \<Longrightarrow> ace_mask a AND bits \<noteq> 0 \<Longrightarrow>
       effective_sid d a \<in> normalize_sid ` set trusted"
proof -
  obtain acl where acl: "sd_dacl d = Some acl" using assms by (auto simp: granted_to_others_def split: option.splits)
  with assms have "grant_loop d bits (map normalize_sid trusted) acl [] = []" by (simp add: granted_to_others_def)
  with grant_loop_complete [of _ acl bits d "map normalize_sid trusted" "[]"] acl that show ?thesis by auto
qed

lemma write_bits:
  assumes "bit (file_mask m) n" and "bit WRITE_RIGHTS n"
  shows "m AND WRITE_RIGHTS \<noteq> 0"
proof
  assume z: "m AND WRITE_RIGHTS = 0"
  then have none: "\<not> (bit m k \<and> bit WRITE_RIGHTS k)" for k by (metis bit_and_iff bit_0_eq bot_apply bot_bool_def)
  have "bit WRITE_RIGHTS 28" "bit WRITE_RIGHTS 30" by (simp_all add: WRITE_RIGHTS_def bit_simps)
  with none have g: "\<not> bit m 28" "\<not> bit m 30" by auto
  have r: "(0x00120089 :: u32) AND WRITE_RIGHTS = 0" "(0x001200a0 :: u32) AND WRITE_RIGHTS = 0"
    by (simp_all add: WRITE_RIGHTS_def)
  then have "\<not> (bit (0x00120089 :: u32) n \<and> bit WRITE_RIGHTS n)" "\<not> (bit (0x001200a0 :: u32) n \<and> bit WRITE_RIGHTS n)"
    by (metis bit_and_iff bit_0_eq bot_apply bot_bool_def)+
  with assms none g show False by (auto simp: file_mask_def bit_simps split: if_splits)
qed

lemma nonzero_bits:
  assumes "bit (file_mask m) n"
  shows "m AND (- 1) \<noteq> 0"
  using assms by (auto simp: file_mask_def bit_simps split: if_splits)

section \<open>Panics\<close>

definition ascii_text :: "string \<Rightarrow> bool" where
  "ascii_text s \<longleftrightarrow> (\<forall>c \<in> set s. code c < 128)"

lemma ascii_sub: "ascii_text s \<Longrightarrow> set t \<subseteq> set s \<Longrightarrow> ascii_text t"
  by (auto simp: ascii_text_def)

lemma ascii_boundary: "ascii_text s \<Longrightarrow> i \<le> length s \<Longrightarrow> is_char_boundary s i"
  by (auto simp: ascii_text_def is_char_boundary_def is_cont_def dest!: bspec [OF _ nth_mem])

lemma split_once_sub: "split_once d s = Some (a, b) \<Longrightarrow> set b \<subseteq> set s"
proof (induction s arbitrary: a)
  case (Cons c s)
  then show ?case by (cases "c = d") (auto simp: split_once_def split: if_splits)
qed (simp add: split_once_def)

lemma take_sid_ascii:
  assumes "ascii_text s"
  shows "\<exists>a b. take_sid s = Ok (a, b) \<and> s = a @ b"
  using ascii_boundary [OF assms, of "min (length s) 2"] by (simp add: take_sid_def split_at_def)

lemma parse_aces_sub: "parse_aces k l r = Some (l', r') \<Longrightarrow> set r' \<subseteq> set r"
proof (induction k l r rule: parse_aces.induct)
  case (2 k l c inner)
  show ?case
  proof (cases "c = CHR ''(''")
    case True
    with "2.prems" obtain e t where s: "split_once (CHR '')'') inner = Some (e, t)" by (auto split: option.splits)
    with "2.IH" "2.prems" True split_once_sub [OF s] show ?thesis
      by (fastforce split: option.splits if_splits)
  qed (use "2.prems" in simp)
qed simp

lemma flags_end_bound: "flags_end s \<le> length s"
  using length_takeWhile_le [of "\<lambda>c. c \<noteq> CHR ''(''" s] length_takeWhile_le [of "\<lambda>c. c \<noteq> CHR '':''" s]
  by (auto simp: flags_end_def simp del: length_takeWhile_le)

lemma parse_part_ascii:
  assumes "ascii_text s"
  shows "\<exists>x. parse_part d s = Ok x \<and> (\<forall>d' r. x = Some (d', r) \<longrightarrow> ascii_text r)"
proof -
  have body: "ascii_text (drop 2 s)" by (rule ascii_sub [OF assms set_drop_subset])
  obtain a b where sid: "take_sid (drop 2 s) = Ok (a, b)" "drop 2 s = a @ b" using take_sid_ascii [OF body] by blast
  have b: "ascii_text b" using ascii_sub [OF body, of b] sid(2) by auto
  let ?f = "flags_end (drop 2 s)"
  have at: "split_at ?f (drop 2 s) = Ok (take ?f (drop 2 s), drop ?f (drop 2 s))"
    using ascii_boundary [OF body flags_end_bound] by (simp add: split_at_def)
  have rest: "ascii_text (drop ?f (drop 2 s))" by (rule ascii_sub [OF body set_drop_subset])
  have aces: "ascii_text r'" if "parse_aces k l (drop ?f (drop 2 s)) = Some (l', r')" for k l l' r'
    using ascii_sub [OF rest parse_aces_sub [OF that]] .
  show ?thesis
    using b aces by (auto simp: parse_part_def sid(1) at Let_def split: option.splits)
qed

lemma parse_from_ascii: "ascii_text s \<Longrightarrow> \<exists>x. parse_from d s = Ok x"
proof (induction d s rule: parse_from.induct)
  case (1 d s)
  obtain x where x: "parse_part d s = Ok x" "\<forall>d' r. x = Some (d', r) \<longrightarrow> ascii_text r" using parse_part_ascii [OF "1.prems"] by blast
  show ?case
  proof (cases "s = [] \<or> x = None")
    case False
    then obtain d' r where "x = Some (d', r)" "s \<noteq> []" by auto
    with "1.IH" x show ?thesis by (simp add: parse_from.simps [of d s])
  qed (use x in \<open>auto simp: parse_from.simps [of d s]\<close>)
qed

lemma ascii_trim:
  assumes "ascii_text s"
  shows "ascii_text (trim s)"
proof -
  have "n < 128" if "n \<in> set (trim_chars (chars s))" for n
    using that set_trim_chars [of "chars s"] assms by (auto simp: ascii_text_def chars_ascii)
  then show ?thesis
    by (fastforce simp: trim_def utf8_def ascii_text_def utf8_char_def)
qed

lemma map_ace_none: "map_ace (\<lambda>_. None) e = e"
proof -
  have "alias_or (\<lambda>_. None) x = x" for x by (simp add: alias_or_def)
  then show ?thesis by (simp add: map_ace_def Let_def join_split_on)
qed

lemma split_once_join: "split_once d s = Some (a, b) \<Longrightarrow> s = a @ d # b"
proof (induction s arbitrary: a)
  case (Cons c s)
  then show ?case by (cases "c = d") (auto simp: split_once_def split: if_splits)
qed (simp add: split_once_def)

lemma map_part_ascii:
  assumes "ascii_text s" and "s \<noteq> []"
  shows "\<exists>t r. map_part f s = Ok (t, r) \<and> ascii_text r \<and> (f = (\<lambda>_. None) \<longrightarrow> t @ r = s)"
proof -
  have body: "ascii_text (drop 2 s)" by (rule ascii_sub [OF assms(1) set_drop_subset])
  obtain a b where sid: "take_sid (drop 2 s) = Ok (a, b)" "drop 2 s = a @ b" using take_sid_ascii [OF body] by blast
  have b: "ascii_text b" using ascii_sub [OF body, of b] sid(2) by auto
  have whole: "take 2 s @ a @ b = s" using append_take_drop_id [of 2 s] sid(2) by simp
  show ?thesis
  proof (cases "prefix ''O:'' s \<or> prefix ''G:'' s")
    case True
    with sid(1) b whole show ?thesis by (auto simp: map_part_def alias_or_def)
  next
    case False
    show ?thesis
    proof (cases "prefix ''('' s")
      case paren: True
      then obtain inner where inner: "s = CHR ''('' # inner" by (auto simp: prefix_def)
      show ?thesis
      proof (cases "split_once (CHR '')'') inner")
        case None
        with inner show ?thesis by (simp add: map_part_def ascii_text_def)
      next
        case (Some p)
        obtain e r where p: "p = (e, r)" by fastforce
        with Some inner split_once_join [of "CHR '')''" inner e r] assms(1) show ?thesis
          by (auto simp: map_part_def map_ace_none ascii_text_def)
      qed
    next
      case nparen: False
      have "ascii_text (drop k s)" for k by (rule ascii_sub [OF assms(1) set_drop_subset])
      with False nparen show ?thesis by (simp add: map_part_def)
    qed
  qed
qed

lemma map_sids_ascii:
  "ascii_text s \<Longrightarrow> \<exists>t. map_sids f s = Ok t \<and> (f = (\<lambda>_. None) \<longrightarrow> t = s)"
proof (induction f s rule: map_sids.induct)
  case (1 f s)
  show ?case
  proof (cases "s = []")
    case False
    obtain t r where p: "map_part f s = Ok (t, r)" "ascii_text r" "f = (\<lambda>_. None) \<longrightarrow> t @ r = s"
      using map_part_ascii [OF "1.prems" False] by blast
    from "1.IH" [OF False p(1) refl p(2)] obtain u where "map_sids f r = Ok u" "f = (\<lambda>_. None) \<longrightarrow> u = r" by blast
    with p False show ?thesis by (auto simp: map_sids.simps [of f s])
  qed (simp add: map_sids.simps)
qed

end
