(* ===== verification/Winsec_Theorems.thy ===== *)
theory Winsec_Theorems
  imports Winsec_Props
begin

text \<open>
  The properties of the checks of Windows security descriptors.
\<close>

section \<open>Parsing what is printed\<close>

definition plain_sid :: "string \<Rightarrow> bool" where
  "plain_sid s \<longleftrightarrow> prefix ''S-'' s \<and> list_all sid_char s"

lemma sid_char_code: "sid_char c \<Longrightarrow> 33 \<le> code c \<and> code c \<le> 126"
  by (auto simp: sid_char_def is_ascii_digit_def code_def)

lemma plain_sid_chars:
  assumes "plain_sid s"
  shows "takeWhile sid_char (s @ CHR ''D'' # r) = s" and "dropWhile sid_char (s @ CHR ''D'' # r) = CHR ''D'' # r"
    and "CHR '';'' \<notin> set s" and "CHR '')'' \<notin> set s" and "normalize_sid s = s"
proof -
  have all: "\<forall>c \<in> set s. sid_char c" using assms by (simp add: plain_sid_def list_all_iff)
  have d: "\<not> sid_char (CHR ''D'')" "\<not> sid_char (CHR '';'')" "\<not> sid_char (CHR '')'')"
    by (simp_all add: sid_char_def is_ascii_digit_def code_def)
  show "takeWhile sid_char (s @ CHR ''D'' # r) = s" "dropWhile sid_char (s @ CHR ''D'' # r) = CHR ''D'' # r"
    using all d by (simp_all add: takeWhile_append2 dropWhile_append2)
  show "CHR '';'' \<notin> set s" "CHR '')'' \<notin> set s" using all d by auto
  have "upper_char c = c" if "sid_char c" for c
    using that by (auto simp: upper_char_def is_ascii_lower_def sid_char_def is_ascii_digit_def code_def)
  then have "to_ascii_uppercase s = s" using all by (simp add: to_ascii_uppercase_def map_idI)
  moreover obtain t where "s = CHR ''S'' # CHR ''-'' # t" using assms by (auto simp: plain_sid_def prefix_def)
  ultimately show "normalize_sid s = s" by (simp add: normalize_sid_def sid_alias_def)
qed

lemma split_on_no: "d \<notin> set s \<Longrightarrow> split_on d s = [s]"
  by (induction s) auto

lemma split_once_at: "d \<notin> set s \<Longrightarrow> split_once d (s @ d # t) = Some (s, t)"
  by (induction s) (auto simp: split_once_def)

definition full_ace :: "string \<Rightarrow> ace" where
  "full_ace sid = \<lparr>ace_allow = True, ace_inherit_only = False, ace_mask = 0x001f01ff, ace_sid = sid\<rparr>"

lemma parse_full_ace:
  assumes "CHR '';'' \<notin> set s"
  shows "parse_ace (''A;OICI;FA;;;'' @ s) (Some l) = Some (Some (l @ [full_ace (normalize_sid s)]))"
proof -
  have "split_on (CHR '';'') (''A;OICI;FA;;;'' @ s) = [''A'', ''OICI'', ''FA'', '''', '''', s]"
    by (simp add: split_on_no [OF assms])
  moreover have "rights ''FA'' = Some 0x001f01ff" by (simp add: rights_def right_mask_def)
  moreover have "\<not> contains_str ''OICI'' ''IO''" by (simp add: contains_str_def sublist_code)
  ultimately show ?thesis by (simp add: parse_ace_def ace_type_def full_ace_def)
qed

lemma parse_private_aces:
  assumes "plain_sid s"
  shows "parse_aces True (Some []) (''(A;OICI;FA;;;SY)(A;OICI;FA;;;BA)(A;OICI;FA;;;'' @ s @ '')'') =
     Some (Some [full_ace SYSTEM, full_ace ADMINISTRATORS, full_ace s], [])"
proof -
  have one: "parse_aces True (Some l) (''(A;OICI;FA;;;'' @ t @ '')'' @ r) =
      parse_aces True (Some (l @ [full_ace (normalize_sid t)])) r"
    if "CHR '';'' \<notin> set t" "CHR '')'' \<notin> set t" for l t r
    using parse_full_ace [OF that(1), of l] split_once_at [of "CHR '')''" "''A;OICI;FA;;;'' @ t" r] that(2) by simp
  have "normalize_sid ''SY'' = SYSTEM" "normalize_sid ''BA'' = ADMINISTRATORS"
    by (simp_all add: normalize_sid_def sid_alias_def)
  then show ?thesis
    using one [of "''SY''" "[]" "''(A;OICI;FA;;;BA)(A;OICI;FA;;;'' @ s @ '')''"]
      one [of "''BA''" "[full_ace SYSTEM]" "''(A;OICI;FA;;;'' @ s @ '')''"]
      one [of s "[full_ace SYSTEM, full_ace ADMINISTRATORS]" "[]"] plain_sid_chars(3-5) [OF assms]
    by simp
qed

lemma private_text:
  assumes "plain_sid own" and "plain_sid s"
  shows "parse_sddl (''O:'' @ own @ private_dacl s) =
    Ok (Some \<lparr>sd_owner = Some own, sd_protected = True, sd_dacl = Some [full_ace SYSTEM, full_ace ADMINISTRATORS, full_ace s]\<rparr>)"
proof -
  note sid = plain_sid_chars [OF assms(1)]
  have code: "\<forall>c \<in> set own. 33 \<le> code c \<and> code c \<le> 126" "\<forall>c \<in> set s. 33 \<le> code c \<and> code c \<le> 126"
    using assms sid_char_code by (auto simp: plain_sid_def list_all_iff)
  have "trim (''O:'' @ own @ private_dacl s) = ''O:'' @ own @ private_dacl s"
    by (rule trim_ascii) (use code in \<open>auto simp: private_dacl_def code_def\<close>)
  moreover have "parse_part empty_descriptor (''O:'' @ own @ private_dacl s) =
      Ok (Some (empty_descriptor\<lparr>sd_owner := Some own\<rparr>, private_dacl s))"
  proof -
    obtain t where t: "own = CHR ''S'' # CHR ''-'' # t" using assms(1) by (auto simp: plain_sid_def prefix_def)
    have "take_sid (own @ private_dacl s) = Ok (own, private_dacl s)"
      using sid(1,2) t by (simp add: take_sid_def private_dacl_def)
    with sid(5) t show ?thesis
      by (simp add: parse_part_def is_char_boundary_def is_cont_def code_def Let_def)
  qed
  moreover have "parse_part (empty_descriptor\<lparr>sd_owner := Some own\<rparr>) (private_dacl s) =
      Ok (Some (\<lparr>sd_owner = Some own, sd_protected = True, sd_dacl = Some [full_ace SYSTEM, full_ace ADMINISTRATORS, full_ace s]\<rparr>, []))"
    using parse_private_aces [OF assms(2)]
    by (simp add: parse_part_def private_dacl_def is_char_boundary_def is_cont_def code_def Let_def flags_end_def split_at_def
        contains_str_def sublist_code empty_descriptor_def)
  moreover have "private_dacl s \<noteq> []" by (simp add: private_dacl_def)
  ultimately show ?thesis
    by (simp add: parse_sddl_def parse_from.simps)
qed

lemma known_sids:
  "normalize_sid SYSTEM = SYSTEM" "normalize_sid ADMINISTRATORS = ADMINISTRATORS"
  "SYSTEM \<noteq> OWNER_RIGHTS" "ADMINISTRATORS \<noteq> OWNER_RIGHTS"
  by (simp_all add: normalize_sid_def sid_alias_def SYSTEM_def ADMINISTRATORS_def OWNER_RIGHTS_def to_ascii_uppercase_def
      upper_char_def is_ascii_lower_def code_def)

lemma private_checked:
  assumes "plain_sid own" and "plain_sid s" and "s \<noteq> OWNER_RIGHTS"
  shows "check_private_sddl (''O:'' @ own @ private_dacl s) [SYSTEM, ADMINISTRATORS, s] = Ok (Ok ())"
  unfolding check_private_sddl_def private_text [OF assms(1,2)]
  using plain_sid_chars(5) [OF assms(2)] known_sids assms(3)
  by (simp add: granted_to_others_def full_ace_def Let_def effective_sid_def)

definition sample_sid :: string where
  "sample_sid = ''S-1-5-21-1-2-3-1001''"

definition other_sid :: string where
  "other_sid = ''S-1-5-21-1-2-3-1002''"

lemma sample_sids:
  "plain_sid sample_sid" "plain_sid other_sid" "sample_sid \<noteq> OWNER_RIGHTS" "other_sid \<noteq> OWNER_RIGHTS"
  "{other_sid} \<inter> normalize_sid ` set [SYSTEM, ADMINISTRATORS, sample_sid] = {}"
proof -
  show plain: "plain_sid sample_sid" "plain_sid other_sid"
    by (simp_all add: plain_sid_def sample_sid_def other_sid_def sid_char_def is_ascii_digit_def code_def)
  show "sample_sid \<noteq> OWNER_RIGHTS" "other_sid \<noteq> OWNER_RIGHTS"
    by (simp_all add: sample_sid_def other_sid_def OWNER_RIGHTS_def)
  show "{other_sid} \<inter> normalize_sid ` set [SYSTEM, ADMINISTRATORS, sample_sid] = {}"
    by (simp add: known_sids plain_sid_chars(5) [OF plain(1)])
      (simp add: sample_sid_def other_sid_def SYSTEM_def ADMINISTRATORS_def)
qed

section \<open>Properties\<close>





text \<open>C22: The protected list that is set on a private directory reads back as full control for the
  system, the administrators and its owner, and passes the check that the store makes of it.\<close>

theorem private_dacl_round_trip:
  assumes "plain_sid s" and "s \<noteq> OWNER_RIGHTS"
  shows "parse_sddl (''O:'' @ s @ private_dacl s) =
      Ok (Some \<lparr>sd_owner = Some s, sd_protected = True, sd_dacl = Some [full_ace SYSTEM, full_ace ADMINISTRATORS, full_ace s]\<rparr>) \<and>
    check_private_sddl (''O:'' @ s @ private_dacl s) [SYSTEM, ADMINISTRATORS, s] = Ok (Ok ())"
  using private_text [OF assms(1,1)] private_checked [OF assms(1,1,2)] by blast

theorem private_dacl_round_trip_witness:
  "check_private_sddl (''O:'' @ sample_sid @ private_dacl sample_sid) [SYSTEM, ADMINISTRATORS, sample_sid] = Ok (Ok ())"
  using private_dacl_round_trip [OF sample_sids(1,3)] by blast

text \<open>C23: On ASCII text the functions on descriptors always return: no slice misses a character
  boundary, every loop ends, and rewriting the aliases of a text changes nothing where nothing is
  resolved. On other text they can panic.\<close>

theorem sddl_total_on_ascii:
  assumes "ascii_text s"
  shows "(\<exists>r. parse_sddl s = Ok r) \<and> (\<exists>t. map_sids f s = Ok t) \<and> map_sids (\<lambda>_. None) s = Ok s \<and>
    parse_sddl (''O:'' @ utf8 [0x20AC]) = Err Panicked"
proof -
  have "trim (''O:'' @ utf8 [0x20AC]) = ''O:'' @ utf8 [0x20AC]"
  proof -
    have "''O:'' @ utf8 [0x20AC] = utf8 [79, 58, 0x20AC]" by (simp add: utf8_def utf8_char_def char_of_def bit_0)
    moreover have "chars (utf8 [79, 58, 0x20AC]) = [79, 58, 0x20AC]" by (simp add: is_scalar_def)
    ultimately show ?thesis by (simp add: trim_def trim_chars_def is_whitespace_def)
  qed
  moreover have "parse_part empty_descriptor (''O:'' @ utf8 [0x20AC]) = Err Panicked"
    by (simp add: utf8_def utf8_char_def parse_part_def is_char_boundary_def is_cont_def take_sid_def split_at_def Let_def
        char_of_def bit_simps code_def)
  ultimately have "parse_sddl (''O:'' @ utf8 [0x20AC]) = Err Panicked"
    by (simp add: parse_sddl_def parse_from.simps)
  with parse_from_ascii [OF ascii_trim [OF assms], of empty_descriptor] map_sids_ascii [OF assms, of f]
    map_sids_ascii [OF assms, of "\<lambda>_. None"] show ?thesis
    by (auto simp: parse_sddl_def)
qed

theorem sddl_total_on_ascii_witness: "map_sids (\<lambda>_. None) ''O:BAD:(A;;FA;;;SY)'' = Ok ''O:BAD:(A;;FA;;;SY)''"
  by (rule sddl_total_on_ascii [THEN conjunct2, THEN conjunct2, THEN conjunct1]) (simp add: ascii_text_def code_def)

end
