(* ===== verification/Heuristics_Text.thy ===== *)
theory Heuristics_Text
  imports Rust_Slice Core_Finding
begin

text \<open>
  The parts of \<open>crates/heuristics\<close> that look at text: the command patterns (\<open>patterns.rs\<close>), file
  names (\<open>names.rs\<close>), scripts (\<open>script.rs\<close>) and the catalogue of rules (\<open>rules.rs\<close>). The crate
  \<open>regex\<close> is the parameter \<open>regex\<close>: a pattern that compiles gives a function from a text to its
  first match.
\<close>

section \<open>Command patterns\<close>

definition MAX_TEXT :: nat where
  "MAX_TEXT = 8192"

datatype pattern = DownloadExec | ReverseShell | EncodedExec | LoaderInjection | LolBin

text \<open>The patterns are written with a tilde for each backslash.\<close>

definition backslashes :: "string \<Rightarrow> string" where
  "backslashes = map (\<lambda>c. if c = CHR ''~'' then CHR 0x5C else c)"

definition pattern_texts :: "(pattern \<times> string) list" where
  "pattern_texts =
     map (\<lambda>(k, p). (k, backslashes p))
       [(DownloadExec, ''~b(curl|wget|fetch)~b[^~n|]*~|~s*(sudo~s+)?(ba|z|da|k)?sh~b''),
        (DownloadExec, ''~b(curl|wget|fetch)~b[^~n|]*~|~s*(sudo~s+)?(python[0-9.]*|perl|ruby|php|node)~b''),
        (DownloadExec, ''~b(curl|wget)~b[^~n]*(&&|;)~s*chmod~s+[0-7+]*x''),
        (ReverseShell, ''/dev/(tcp|udp)/[^~s/]+/[0-9]+''),
        (ReverseShell, ''~b(nc|ncat|netcat)~b[^~n]*~s-[a-z]*[ec]~s''),
        (ReverseShell, ''~bsocat~b[^~n]*~bexec:''),
        (ReverseShell, ''~b(ba)?sh~s+-i~s*[0-9]?>&''),
        (ReverseShell, ''~bmkfifo~b[^~n]*~b(nc|ncat|netcat|telnet)~b''),
        (ReverseShell, ''~b(python[0-9.]*|perl|ruby|php)~b[^~n]{0,40}~s-[a-z]*[cer][a-z]*~b[^~n]{0,400}(socket|fsockopen)[^~n]{0,300}(subprocess|exec|pty|/bin/sh|popen)''),
        (EncodedExec, ''~bbase64~s+(-d|--decode|-D)~b[^~n]*~|~s*(sudo~s+)?((ba|z|da)?sh|python[0-9.]*|perl)~b''),
        (EncodedExec, ''~beval~b[^~n]*~b(base64|b64decode|xxd~s+-r)''),
        (EncodedExec, ''~bexec~s*~([^~n]*b64decode''),
        (DownloadExec, ''~b(iex|invoke-expression)~b[^~n]*~b(downloadstring|downloaddata|iwr|irm|invoke-webrequest|invoke-restmethod|net~.webclient)~b''),
        (DownloadExec, ''~b(downloadstring|downloaddata|iwr|irm|invoke-webrequest|invoke-restmethod)~b[^~n]*~|~s*(iex|invoke-expression)~b''),
        (DownloadExec, ''~bcertutil(~.exe)?~b[^~n]*[-/]urlcache~b''),
        (DownloadExec, ''~bbitsadmin(~.exe)?~b[^~n]*/transfer~b''),
        (ReverseShell, ''~bsystem~.net~.sockets~.tcpclient~b''),
        (EncodedExec, ''~b(powershell|pwsh)(~.exe)?~b[^~n]*~s[-/](e|ec|en|enc|enco~w*)~s+[a-z0-9+/=]{20,}''),
        (EncodedExec, ''~bfrombase64string~b''),
        (LolBin, ''~bmshta(~.exe)?~b[^~n]*(https?:|javascript:|vbscript:)''),
        (LolBin, ''~brundll32(~.exe)?~b[^~n]*javascript:''),
        (LolBin, ''~bregsvr32(~.exe)?~b[^~n]*(/i:~s*https?:|scrobj~.dll)''),
        (LolBin, ''~bwmic(~.exe)?~b[^~n]*~bprocess~s+call~s+create~b''),
        (LolBin, ''~b(cscript|wscript)(~.exe)?~b[^~n]*(https?:|~~appdata~~|~~temp~~|~~users~~public~~)''),
        (LoaderInjection, ''~b(LD_PRELOAD|LD_AUDIT)~s*='')]"

type_synonym matcher = "string \<Rightarrow> string option"

definition pattern_table :: "(string \<Rightarrow> matcher option) \<Rightarrow> (pattern \<times> matcher) list" where
  "pattern_table regex = List.map_filter (\<lambda>(k, p). map_option (Pair k) (regex p)) pattern_texts"

fun cut_at :: "string \<Rightarrow> nat \<Rightarrow> nat" where
  "cut_at s 0 = 0"
| "cut_at s (Suc n) = (if is_char_boundary s (Suc n) then Suc n else cut_at s n)"

definition truncate_at_char :: "string \<Rightarrow> nat \<Rightarrow> string" where
  "truncate_at_char s m = (if length s \<le> m then s else take (cut_at s m) s)"

fun indicators :: "string \<Rightarrow> (pattern \<times> matcher) list \<Rightarrow> (pattern \<times> string) list \<Rightarrow> (pattern \<times> string) list" where
  "indicators s [] out = out"
| "indicators s ((k, re) # t) out =
     (if k \<in> fst ` set out then indicators s t out
      else case re s of None \<Rightarrow> indicators s t out | Some m \<Rightarrow> indicators s t (out @ [(k, m)]))"

definition command_indicators :: "(string \<Rightarrow> matcher option) \<Rightarrow> string \<Rightarrow> (pattern \<times> string) list" where
  "command_indicators regex s = indicators (truncate_at_char s MAX_TEXT) (pattern_table regex) []"

definition snippet :: "string \<Rightarrow> string" where
  "snippet s =
     (let trimmed = trim (utf8 (map (\<lambda>c. if is_control c then 32 else c) (chars s)));
          t = truncate_at_char trimmed 160
      in if length t < length trimmed then t @ ''...'' else t)"

section \<open>File names\<close>

definition DOCUMENT_EXTS :: "string list" where
  "DOCUMENT_EXTS =
     [''pdf'', ''doc'', ''docx'', ''xls'', ''xlsx'', ''ppt'', ''pptx'', ''odt'', ''ods'', ''odp'',
      ''rtf'', ''txt'', ''csv'', ''jpg'', ''jpeg'', ''png'', ''gif'', ''bmp'', ''tif'', ''tiff'',
      ''webp'', ''svg'', ''ico'', ''mp3'', ''mp4'', ''wav'', ''avi'', ''mkv'', ''mov'', ''wmv'',
      ''flac'', ''ogg'', ''zip'', ''rar'', ''7z'', ''tar'', ''gz'', ''iso'', ''html'', ''htm'',
      ''xml'', ''json'']"

definition EXECUTABLE_EXTS :: "string list" where
  "EXECUTABLE_EXTS =
     [''exe'', ''scr'', ''com'', ''pif'', ''cpl'', ''msi'', ''bat'', ''cmd'', ''js'', ''jse'',
      ''vbs'', ''vbe'', ''wsf'', ''hta'', ''lnk'', ''ps1'', ''jar'']"

definition ext_of :: "string \<Rightarrow> string option" where
  "ext_of name =
     (case rsplit_once (CHR ''.'') name of
        None \<Rightarrow> None
      | Some (stem, e) \<Rightarrow> if stem \<noteq> [] then Some (to_ascii_lowercase e) else None)"

definition has_document_extension :: "string \<Rightarrow> bool" where
  "has_document_extension name = (case ext_of name of None \<Rightarrow> False | Some e \<Rightarrow> e \<in> set DOCUMENT_EXTS)"

definition double_extension :: "string \<Rightarrow> string option" where
  "double_extension name =
     (case rsplit_once (CHR ''.'') name of
        None \<Rightarrow> None
      | Some (stem, e) \<Rightarrow>
          let e = to_ascii_lowercase e
          in if e \<notin> set EXECUTABLE_EXTS then None
             else if suffix ''   '' stem then Some (''name padded with spaces before .'' @ e)
             else case rsplit_once (CHR ''.'') stem of
               None \<Rightarrow> None
             | Some (_, inner) \<Rightarrow>
                 let inner = to_ascii_lowercase (trim inner)
                 in if inner \<in> set DOCUMENT_EXTS then Some (''.'' @ inner @ '' followed by .'' @ e) else None)"

definition bidi_controls :: "string \<Rightarrow> string list" where
  "bidi_controls name = remdups_adj (map (\<lambda>c. ''U+'' @ show_hex4_upper c) (filter is_bidi_control (chars name)))"

section \<open>Scripts\<close>

definition SCRIPT_EXTS :: "string list" where
  "SCRIPT_EXTS =
     [''sh'', ''bash'', ''zsh'', ''ksh'', ''py'', ''pl'', ''rb'', ''php'', ''ps1'', ''psm1'',
      ''psd1'', ''bat'', ''cmd'', ''vbs'', ''vbe'', ''js'', ''jse'', ''wsf'', ''hta'']"

definition BLOB_EXTS :: "string list" where
  "BLOB_EXTS = [''sh'', ''bash'', ''ps1'', ''psm1'', ''bat'', ''cmd'', ''vbs'', ''vbe'']"

definition MAX_LINES :: nat where
  "MAX_LINES = 50000"

definition BLOB_RUN :: nat where
  "BLOB_RUN = 4096"

record script_facts =
  sc_matches :: "(pattern \<times> nat \<times> string) list"
  sc_blob :: "(nat \<times> nat) option"

definition script_ext :: "string \<Rightarrow> string option" where
  "script_ext name = map_option (\<lambda>(_, e). to_ascii_lowercase e) (rsplit_once (CHR ''.'') name)"

definition is_script :: "string \<Rightarrow> bytes \<Rightarrow> bool" where
  "is_script name data \<longleftrightarrow>
     0 \<notin> set (take 8192 data) \<and>
     (prefix (as_bytes ''#!'') data \<or> (case script_ext name of None \<Rightarrow> False | Some e \<Rightarrow> e \<in> set SCRIPT_EXTS))"

definition is_comment :: "string \<Rightarrow> bool" where
  "is_comment line =
     (let l = trim_start line;
          lower = (if 4 \<le> length l \<and> is_char_boundary l 4 then to_ascii_lowercase (take 4 l) else [])
      in prefix ''#'' l \<and> \<not> prefix ''#!'' l \<or> prefix ''//'' l \<or> prefix ''::'' l \<or> prefix [CHR 0x27] l \<or>
         prefix ''rem '' lower \<or> prefix ''<#'' l)"

fun add_matches ::
  "nat \<Rightarrow> (pattern \<times> string) list \<Rightarrow> (pattern \<times> nat \<times> string) list \<Rightarrow> (pattern \<times> nat \<times> string) list" where
  "add_matches i [] ms = ms"
| "add_matches i ((k, m) # t) ms = add_matches i t (if k \<in> fst ` set ms then ms else ms @ [(k, i + 1, snippet m)])"

fun script_lines ::
  "(string \<Rightarrow> matcher option) \<Rightarrow> nat \<Rightarrow> string list \<Rightarrow> (pattern \<times> nat \<times> string) list \<Rightarrow> (pattern \<times> nat \<times> string) list" where
  "script_lines regex i [] ms = ms"
| "script_lines regex i (l # ls) ms =
     script_lines regex (i + 1) ls (if is_comment l then ms else add_matches i (command_indicators regex l) ms)"

definition base64_byte :: "u8 \<Rightarrow> bool" where
  "base64_byte b \<longleftrightarrow> is_ascii_alphanumeric (char_of_u8 b) \<or> char_of_u8 b \<in> set ''+/=''"

fun find_blob :: "nat \<Rightarrow> nat \<Rightarrow> bytes \<Rightarrow> (nat \<times> nat) option" where
  "find_blob run line [] = None"
| "find_blob run line (b # bs) =
     (let line = (if b = 10 then line + 1 else line)
      in if base64_byte b then (if BLOB_RUN \<le> run + 1 then Some (line, run + 1) else find_blob (run + 1) line bs)
         else find_blob 0 line bs)"

definition analyze_script :: "(string \<Rightarrow> matcher option) \<Rightarrow> string \<Rightarrow> bytes \<Rightarrow> script_facts" where
  "analyze_script regex name data =
     (let e = (case script_ext name of None \<Rightarrow> [] | Some e \<Rightarrow> e);
          shell = (e \<in> set BLOB_EXTS \<or> prefix (as_bytes ''#!/bin/sh'') data \<or> prefix (as_bytes ''#!/bin/bash'') data \<or>
            prefix (as_bytes ''#!/usr/bin/env bash'') data)
      in \<lparr>sc_matches = script_lines regex 0 (take MAX_LINES (str_lines (to_string_lossy (str_of_bytes data)))) [],
          sc_blob = (if shell then find_blob 0 1 data else None)\<rparr>)"

section \<open>Rules\<close>

definition DETECTOR_ID :: string where
  "DETECTOR_ID = ''heuristics''"

record rule =
  rule_id :: string
  rule_name :: string
  rule_kind :: finding_kind
  rule_severity :: severity
  rule_confidence :: confidence
  rule_explanation :: string

text \<open>The identifier is random, the time and the version of the crate are given.\<close>

definition rule_finding ::
  "string \<Rightarrow> instant \<Rightarrow> string \<Rightarrow> rule \<Rightarrow> finding_target \<Rightarrow> string list \<Rightarrow> finding" where
  "rule_finding version now fid r target evs =
     \<lparr>f_id = fid, f_kind = rule_kind r, f_name = rule_name r, f_severity = rule_severity r,
      f_confidence = rule_confidence r, f_category = UnknownCategory, f_target = target,
      f_source = \<lparr>src_detector = DETECTOR_ID, src_detector_version = version, src_rule_id = Some (rule_id r),
        src_rule_version = Some 1, src_database_name = None, src_database_version = None\<rparr>,
      f_evidence = map (\<lambda>s. \<lparr>ev_kind = HeuristicEvidence, ev_summary = s\<rparr>) evs,
      f_explanation = rule_explanation r, f_recommended_action = Review, f_remediation_guidance = None,
      f_remediation_status = NotAttempted, f_remediation_detail = None, f_detected_at = now\<rparr>"

definition DISGUISED_EXECUTABLE :: rule where
  "DISGUISED_EXECUTABLE =
     \<lparr>rule_id = ''AW-HEU-001'', rule_name = ''Executable disguised as a document or media file'',
      rule_kind = Suspicious, rule_severity = SevHigh, rule_confidence = ConfMedium,
      rule_explanation =
        ''The file is a program (its content is a PE, ELF or Mach-O executable) but its extension claims '' @
        ''a document, image, archive or media type. Opening it may run it.''\<rparr>"

definition DOUBLE_EXTENSION :: rule where
  "DOUBLE_EXTENSION =
     \<lparr>rule_id = ''AW-HEU-002'', rule_name = ''Double extension hides an executable type'',
      rule_kind = Suspicious, rule_severity = SevMedium, rule_confidence = ConfMedium,
      rule_explanation =
        ''The name ends in a document-like extension followed by an executable one (for example '' @
        ''invoice.pdf.exe), or pads the name with spaces before the real extension, a common way to make '' @
        ''a program look like a document when extensions are hidden.''\<rparr>"

definition BIDI_NAME :: rule where
  "BIDI_NAME =
     \<lparr>rule_id = ''AW-HEU-003'', rule_name = ''File name uses bidirectional control characters'',
      rule_kind = Suspicious, rule_severity = SevHigh, rule_confidence = ConfMedium,
      rule_explanation =
        ''The name contains Unicode bidirectional controls (such as RIGHT-TO-LEFT OVERRIDE) that make it '' @
        ''display differently from what it is, e.g. showing 'exe.pdf' as 'fdp.exe'.''\<rparr>"

definition PE_RWX_SECTION :: rule where
  "PE_RWX_SECTION =
     \<lparr>rule_id = ''AW-HEU-010'', rule_name = ''Program section is both writable and executable'',
      rule_kind = HeuristicKind, rule_severity = SevMedium, rule_confidence = ConfLow,
      rule_explanation =
        ''A PE section is mapped writable and executable, which lets code modify itself. Normal compilers'' @
        '' do not produce this; packers, protectors and shellcode loaders do.''\<rparr>"

definition PE_ENTRY_OUTSIDE_CODE :: rule where
  "PE_ENTRY_OUTSIDE_CODE =
     \<lparr>rule_id = ''AW-HEU-011'', rule_name = ''Program starts outside its code'',
      rule_kind = HeuristicKind, rule_severity = SevMedium, rule_confidence = ConfLow,
      rule_explanation =
        ''The entry point is not inside an executable section. Packers and file infectors move the entry '' @
        ''point; normal programs start in their code section.''\<rparr>"

definition PE_KNOWN_PACKER :: rule where
  "PE_KNOWN_PACKER =
     \<lparr>rule_id = ''AW-HEU-012'', rule_name = ''Program is packed with a known packer'',
      rule_kind = HeuristicKind, rule_severity = SevLow, rule_confidence = ConfMedium,
      rule_explanation =
        ''Section names show a known packer or protector (UPX, ASPack, MPRESS, Themida, VMProtect, ...). '' @
        ''Packing hides the real code from inspection; legitimate software uses it too.''\<rparr>"

definition PE_HIGH_ENTROPY :: rule where
  "PE_HIGH_ENTROPY =
     \<lparr>rule_id = ''AW-HEU-013'', rule_name = ''Program code looks compressed or encrypted'',
      rule_kind = HeuristicKind, rule_severity = SevLow, rule_confidence = ConfLow,
      rule_explanation =
        ''The executable sections have very high entropy and the program imports very few functions, '' @
        ''typical of packed or encrypted code that unpacks itself at run time.''\<rparr>"

definition PE_INJECTION_IMPORTS :: rule where
  "PE_INJECTION_IMPORTS =
     \<lparr>rule_id = ''AW-HEU-014'', rule_name = ''Program imports process-injection functions'',
      rule_kind = HeuristicKind, rule_severity = SevMedium, rule_confidence = ConfLow,
      rule_explanation =
        ''The import table contains a complete set of functions used to write code into another process '' @
        ''and run it (or to hollow a process). Debuggers and some security tools legitimately import '' @
        ''these.''\<rparr>"

definition PE_EMBEDDED_EXECUTABLE :: rule where
  "PE_EMBEDDED_EXECUTABLE =
     \<lparr>rule_id = ''AW-HEU-015'', rule_name = ''Program carries another program after its end'',
      rule_kind = HeuristicKind, rule_severity = SevMedium, rule_confidence = ConfLow,
      rule_explanation =
        ''Data appended after the last section (outside any signature) contains a complete PE executable.'' @
        '' Droppers carry their payload this way; some installers do too.''\<rparr>"

definition PE_MALFORMED :: rule where
  "PE_MALFORMED =
     \<lparr>rule_id = ''AW-HEU-016'', rule_name = ''Malformed program headers'',
      rule_kind = HeuristicKind, rule_severity = SevLow, rule_confidence = ConfLow,
      rule_explanation =
        ''The file has PE signatures but its headers cannot be parsed consistently. Malware sometimes '' @
        ''corrupts headers to break analysis tools; truncated downloads look the same.''\<rparr>"

definition ELF_RWX_SEGMENT :: rule where
  "ELF_RWX_SEGMENT =
     \<lparr>rule_id = ''AW-HEU-020'', rule_name = ''ELF segment is both writable and executable'',
      rule_kind = HeuristicKind, rule_severity = SevMedium, rule_confidence = ConfLow,
      rule_explanation =
        ''A loadable segment is writable and executable. Modern toolchains never produce this; packers, '' @
        ''self-modifying code and hand-built payloads do.''\<rparr>"

definition ELF_EXEC_STACK :: rule where
  "ELF_EXEC_STACK =
     \<lparr>rule_id = ''AW-HEU-021'', rule_name = ''ELF requests an executable stack'',
      rule_kind = HeuristicKind, rule_severity = SevLow, rule_confidence = ConfLow,
      rule_explanation =
        ''The program asks for an executable stack, which makes memory-corruption exploits easier and is '' @
        ''used by some shellcode loaders. Old or hand-written assembly also does.''\<rparr>"

definition ELF_UPX :: rule where
  "ELF_UPX =
     \<lparr>rule_id = ''AW-HEU-022'', rule_name = ''ELF is packed with UPX'',
      rule_kind = HeuristicKind, rule_severity = SevMedium, rule_confidence = ConfMedium,
      rule_explanation =
        ''The file carries UPX packer markers. On Linux, UPX packing is rare for legitimate software and '' @
        ''common for botnet and cryptominer binaries.''\<rparr>"

definition ELF_NO_SECTIONS :: rule where
  "ELF_NO_SECTIONS =
     \<lparr>rule_id = ''AW-HEU-023'', rule_name = ''ELF executable has no section headers'',
      rule_kind = HeuristicKind, rule_severity = SevLow, rule_confidence = ConfLow,
      rule_explanation =
        ''The program has no section headers at all, which breaks common analysis tools. Normal stripped '' @
        ''binaries keep them; packers and hand-built payloads remove them.''\<rparr>"

definition ELF_UNSAFE_RPATH :: rule where
  "ELF_UNSAFE_RPATH =
     \<lparr>rule_id = ''AW-HEU-024'', rule_name = ''ELF loads libraries from an unsafe search path'',
      rule_kind = Suspicious, rule_severity = SevMedium, rule_confidence = ConfMedium,
      rule_explanation =
        ''The library search path (RPATH/RUNPATH) contains a temporary directory, the current directory '' @
        ''or a relative path, so whoever controls that location controls the code the program loads.''\<rparr>"

definition ELF_ENTRY_OUTSIDE_CODE :: rule where
  "ELF_ENTRY_OUTSIDE_CODE =
     \<lparr>rule_id = ''AW-HEU-025'', rule_name = ''ELF starts outside its executable segments'',
      rule_kind = HeuristicKind, rule_severity = SevMedium, rule_confidence = ConfLow,
      rule_explanation =
        ''The entry point is not inside an executable segment.''\<rparr>"

definition ELF_ODD_INTERPRETER :: rule where
  "ELF_ODD_INTERPRETER =
     \<lparr>rule_id = ''AW-HEU-026'', rule_name = ''ELF uses an unusual program interpreter'',
      rule_kind = Suspicious, rule_severity = SevMedium, rule_confidence = ConfMedium,
      rule_explanation =
        ''The dynamic loader (PT_INTERP) is not a standard ld.so, or lives in a temporary directory. '' @
        ''Whoever provides the interpreter runs code before the program itself.''\<rparr>"

definition SCRIPT_DOWNLOAD_EXEC :: rule where
  "SCRIPT_DOWNLOAD_EXEC =
     \<lparr>rule_id = ''AW-HEU-030'', rule_name = ''Script downloads and runs code'',
      rule_kind = HeuristicKind, rule_severity = SevMedium, rule_confidence = ConfLow,
      rule_explanation =
        ''The script fetches content from the network and runs it (curl | sh, PowerShell download '' @
        ''cradles, certutil, bitsadmin). Installers do this; so do droppers.''\<rparr>"

definition SCRIPT_REVERSE_SHELL :: rule where
  "SCRIPT_REVERSE_SHELL =
     \<lparr>rule_id = ''AW-HEU-031'', rule_name = ''Script opens a reverse shell'',
      rule_kind = Suspicious, rule_severity = SevHigh, rule_confidence = ConfMedium,
      rule_explanation =
        ''The script connects a shell to a network socket, giving a remote party control.''\<rparr>"

definition SCRIPT_ENCODED_EXEC :: rule where
  "SCRIPT_ENCODED_EXEC =
     \<lparr>rule_id = ''AW-HEU-032'', rule_name = ''Script decodes and runs a hidden payload'',
      rule_kind = Suspicious, rule_severity = SevMedium, rule_confidence = ConfLow,
      rule_explanation =
        ''The script decodes base64 (or similar) data and executes it, hiding what it runs.''\<rparr>"

definition SCRIPT_LOLBIN :: rule where
  "SCRIPT_LOLBIN =
     \<lparr>rule_id = ''AW-HEU-033'', rule_name = ''Script uses a system program to run remote or script code'',
      rule_kind = Suspicious, rule_severity = SevMedium, rule_confidence = ConfLow,
      rule_explanation =
        ''The script uses mshta, rundll32, regsvr32, wmic or wscript to fetch or run code.''\<rparr>"

definition SCRIPT_LOADER_INJECTION :: rule where
  "SCRIPT_LOADER_INJECTION =
     \<lparr>rule_id = ''AW-HEU-034'', rule_name = ''Script sets LD_PRELOAD or LD_AUDIT'',
      rule_kind = HeuristicKind, rule_severity = SevLow, rule_confidence = ConfLow,
      rule_explanation =
        ''The script injects a library into the programs it starts. Test harnesses and allocator wrappers'' @
        '' do this legitimately.''\<rparr>"

definition SCRIPT_ENCODED_BLOB :: rule where
  "SCRIPT_ENCODED_BLOB =
     \<lparr>rule_id = ''AW-HEU-035'', rule_name = ''Shell or batch script embeds a large encoded blob'',
      rule_kind = HeuristicKind, rule_severity = SevLow, rule_confidence = ConfLow,
      rule_explanation =
        ''A shell, PowerShell, batch or VBScript file contains a long run of base64 text, often an '' @
        ''embedded payload. Self-extracting installers do this too.''\<rparr>"

definition TEMP_EXECUTABLE :: rule where
  "TEMP_EXECUTABLE =
     \<lparr>rule_id = ''AW-HEU-040'', rule_name = ''Executable in a temporary or shared-memory directory'',
      rule_kind = HeuristicKind, rule_severity = SevLow, rule_confidence = ConfLow,
      rule_explanation =
        ''A program file sits in /tmp, /var/tmp, /dev/shm or a Windows temporary or public folder, where '' @
        ''droppers stage payloads. Build and installer output also lands there.''\<rparr>"

definition MULTIPLE :: rule where
  "MULTIPLE =
     \<lparr>rule_id = ''AW-HEU-099'', rule_name = ''Several independent heuristics matched'',
      rule_kind = Suspicious, rule_severity = SevMedium, rule_confidence = ConfMedium,
      rule_explanation =
        ''Three or more unrelated heuristics matched this file. Each alone is weak evidence; together '' @
        ''they make benign explanations less likely.''\<rparr>"

end
