(* ===== verification/Heuristics_Binary.thy ===== *)
theory Heuristics_Binary
  imports Heuristics_Text Complex_Main
begin

text \<open>
  The parts of \<open>crates/heuristics\<close> that look at programs: \<open>pe.rs\<close> and \<open>elf.rs\<close>. What the crate
  \<open>object\<close> reads from a file is a parameter (\<open>object_crate\<close>): the fields of the headers, the sections
  and segments, and the iterators up to their first error. Floating-point numbers are real numbers.
\<close>

unbundle bit_operations_syntax

section \<open>What the object crate shows\<close>

record pe_section =
  ps_name :: bytes
  ps_characteristics :: u32
  ps_va :: u32
  ps_virtual_size :: u32
  ps_raw_size :: u32
  ps_raw_pointer :: u32
  ps_data :: "bytes option"

text \<open>The descriptors of the import table as pairs of \<open>original_first_thunk\<close> and \<open>first_thunk\<close>; the
  thunks at an address, each with the name it imports, if it does by name.\<close>

record pe_image =
  pi_entry :: u32
  pi_subsystem :: u16
  pi_sections :: "pe_section list"
  pi_descriptors :: "(u32 \<times> u32) list"
  pi_thunks :: "u32 \<Rightarrow> bytes option list option"
  pi_security :: "(u32 \<times> u32) option"

record elf_segment =
  ph_type :: u32
  ph_flags :: u32
  ph_vaddr :: u64
  ph_memsz :: u64
  ph_offset :: u64
  ph_filesz :: u64
  ph_interpreter :: "bytes option"
  ph_dynamic :: "(int \<times> u64) list option"

record elf_image =
  ei_type :: u16
  ei_entry :: u64
  ei_shnum :: u16
  ei_shoff :: u64
  ei_segments :: "elf_segment list"

datatype object_kind = Elf32 | Elf64 | Pe32 | Pe64 | OtherObject string

record object_crate =
  ob_kind :: "bytes \<Rightarrow> string + object_kind"
  ob_pe :: "bool \<Rightarrow> bytes \<Rightarrow> string + pe_image"
  ob_elf :: "bool \<Rightarrow> bytes \<Rightarrow> string + elf_image"

section \<open>Entropy\<close>

definition entropy :: "bytes \<Rightarrow> real" where
  "entropy data =
     (\<Sum>b \<in> set data. let p = real (count_list data b) / real (length data) in - p * log 2 p)"

section \<open>PE\<close>

definition PACKER_SECTIONS :: "(string \<times> string) list" where
  "PACKER_SECTIONS =
     [(''UPX0'', ''UPX''), (''UPX1'', ''UPX''), (''UPX2'', ''UPX''), (''.UPX'', ''UPX''), (''.aspack'', ''ASPack''),
      (''.adata'', ''ASPack''), (''ASPack'', ''ASPack''), (''MPRESS1'', ''MPRESS''), (''MPRESS2'', ''MPRESS''),
      (''.MPRESS1'', ''MPRESS''), (''.petite'', ''Petite''), (''.themida'', ''Themida''), (''.winlice'', ''WinLicense''),
      (''.vmp0'', ''VMProtect''), (''.vmp1'', ''VMProtect''), (''.vmp2'', ''VMProtect''), (''.enigma1'', ''Enigma''),
      (''.enigma2'', ''Enigma''), (''.nsp0'', ''NsPack''), (''.nsp1'', ''NsPack''), (''PEC2'', ''PECompact''),
      (''pec1'', ''PECompact''), (''.packed'', ''RLPack''), (''PELOCKnt'', ''PELock''), (''.yP'', ''Y0da''),
      (''.perplex'', ''Perplex''), (''kkrunchy'', ''kkrunchy''), (''.MaskPE'', ''MaskPE'')]"

definition INJECTION_SETS :: "(string \<times> string list list) list" where
  "INJECTION_SETS =
     [(''remote thread injection'',
       [[''VirtualAllocEx'', ''NtAllocateVirtualMemory'', ''ZwAllocateVirtualMemory''],
        [''WriteProcessMemory'', ''NtWriteVirtualMemory'', ''ZwWriteVirtualMemory''],
        [''CreateRemoteThread'', ''CreateRemoteThreadEx'', ''NtCreateThreadEx'', ''RtlCreateUserThread'', ''QueueUserAPC'',
         ''NtQueueApcThread'']]),
      (''process hollowing'',
       [[''NtUnmapViewOfSection'', ''ZwUnmapViewOfSection''],
        [''SetThreadContext'', ''Wow64SetThreadContext'', ''NtSetContextThread''],
        [''ResumeThread'', ''NtResumeThread'']])]"

definition HIGH_ENTROPY :: real where
  "HIGH_ENTROPY = 72 / 10"

definition FEW_IMPORTS :: nat where
  "FEW_IMPORTS = 10"

definition MAX_IMPORTS :: nat where
  "MAX_IMPORTS = 20000"

record pe_facts =
  pf_rwx_sections :: "string list"
  pf_entry_outside_code :: "string option"
  pf_packers :: "string list"
  pf_code_entropy :: "real option"
  pf_imports :: "string list"
  pf_injection :: "(string \<times> string list) list"
  pf_embedded_pe_at :: "nat option"
  pf_signed :: bool
  pf_efi :: bool

text \<open>\<open>u32::from_le_bytes\<close> of the four bytes at a position.\<close>

definition le32_at :: "bytes \<Rightarrow> nat \<Rightarrow> nat" where
  "le32_at d i = unat (d ! i) + 256 * (unat (d ! (i + 1)) + 256 * (unat (d ! (i + 2)) + 256 * unat (d ! (i + 3))))"

definition pe_header_at :: "bytes \<Rightarrow> nat \<Rightarrow> bool" where
  "pe_header_at data start =
     (if length data < start then False
      else
        let d = drop start data
        in if length d < 0x40 \<or> take 2 d \<noteq> as_bytes ''MZ'' then False
           else
             let lfanew = le32_at d 0x3c
             in 0x40 \<le> lfanew \<and> lfanew < 2 ^ 20 \<and> lfanew + 4 \<le> length d \<and> take 4 (drop lfanew d) = as_bytes ''PE'' @ [0, 0])"

definition looks_like_pe :: "bytes \<Rightarrow> bool" where
  "looks_like_pe data = pe_header_at data 0"

definition lossy_name :: "bytes \<Rightarrow> string" where
  "lossy_name b = to_string_lossy (str_of_bytes b)"

record section_scan =
  ss_rwx :: "string list"
  ss_packers :: "string list"
  ss_code :: bytes
  ss_end :: nat
  ss_entry :: "(string \<times> bool) option"

definition section_exec :: "pe_section \<Rightarrow> bool" where
  "section_exec s \<longleftrightarrow> ps_characteristics s AND (0x20000000 OR 0x20) \<noteq> 0"

definition scan_section :: "u32 \<Rightarrow> section_scan \<Rightarrow> pe_section \<Rightarrow> section_scan" where
  "scan_section entry acc s =
     (let name = lossy_name (ps_name s); chars = ps_characteristics s; va = ps_va s; raw_size = ps_raw_size s;
          size = max (ps_virtual_size s) raw_size; exec = section_exec s
      in \<lparr>ss_rwx = (if chars AND 0x20000000 \<noteq> 0 \<and> chars AND 0x80000000 \<noteq> 0 then ss_rwx acc @ [name] else ss_rwx acc),
          ss_packers =
            (case find (\<lambda>(n, _). eq_ignore_ascii_case name n) PACKER_SECTIONS of
               None \<Rightarrow> ss_packers acc
             | Some (_, packer) \<Rightarrow> if packer \<in> set (ss_packers acc) then ss_packers acc else ss_packers acc @ [packer]),
          ss_code =
            (case ps_data s of
               Some d \<Rightarrow> if exec then ss_code acc @ take (2 ^ 24) d else ss_code acc
             | None \<Rightarrow> ss_code acc),
          ss_end = max (ss_end acc) (unat (ps_raw_pointer s) + unat raw_size),
          ss_entry = (if va \<le> entry \<and> unat entry < unat va + unat size then Some (name, exec) else ss_entry acc)\<rparr>)"

definition entry_outside :: "u32 \<Rightarrow> (string \<times> bool) option \<Rightarrow> string option" where
  "entry_outside entry sec =
     (if entry = 0 then None
      else case sec of
        None \<Rightarrow> Some (''entry point RVA '' @ show_hex (unat entry) @ '' is not inside any section'')
      | Some (name, False) \<Rightarrow>
          Some (''entry point RVA '' @ show_hex (unat entry) @ '' is in non-executable section '' @ name)
      | Some (_, True) \<Rightarrow> None)"

text \<open>The names in the order of the tables, up to the limit.\<close>

definition import_names :: "pe_image \<Rightarrow> string list" where
  "import_names file =
     take MAX_IMPORTS
       (concat (map (\<lambda>(original, first).
          case pi_thunks file (if original = 0 then first else original) of
            None \<Rightarrow> []
          | Some ts \<Rightarrow> map lossy_name (List.map_filter id ts)) (pi_descriptors file)))"

definition injection_hits :: "string list \<Rightarrow> (string \<times> string list) list" where
  "injection_hits imports =
     List.map_filter (\<lambda>(label, groups).
       let hits = List.map_filter (\<lambda>g. find (\<lambda>f. f \<in> set imports) g) groups
       in if length hits = length groups then Some (label, hits) else None) INJECTION_SETS"

definition mz_positions :: "bytes \<Rightarrow> nat list" where
  "mz_positions d = filter (\<lambda>i. prefix (as_bytes ''MZ'') (drop i d)) [0..<length d]"

definition embedded_pe :: "bytes \<Rightarrow> nat \<Rightarrow> nat \<times> nat \<Rightarrow> nat option" where
  "embedded_pe data start sig =
     (if start < length data
      then find (\<lambda>k. \<not> (0 < snd sig \<and> fst sig \<le> k \<and> k < fst sig + snd sig) \<and> pe_header_at data k)
             (map (\<lambda>pos. start + pos) (take 4096 (mz_positions (take (2 ^ 26) (drop start data)))))
      else None)"

definition pe_facts_of :: "bytes \<Rightarrow> pe_image \<Rightarrow> pe_facts" where
  "pe_facts_of data file =
     (let s = foldl (scan_section (pi_entry file)) \<lparr>ss_rwx = [], ss_packers = [], ss_code = [], ss_end = 0, ss_entry = None\<rparr>
            (pi_sections file);
          imports = import_names file;
          sig = (case pi_security file of None \<Rightarrow> (0, 0) | Some (a, n) \<Rightarrow> (unat a, unat n))
      in \<lparr>pf_rwx_sections = ss_rwx s,
          pf_entry_outside_code = entry_outside (pi_entry file) (ss_entry s),
          pf_packers = ss_packers s,
          pf_code_entropy = (if 1024 \<le> length (ss_code s) then Some (entropy (ss_code s)) else None),
          pf_imports = imports,
          pf_injection = injection_hits imports,
          pf_embedded_pe_at = embedded_pe data (ss_end s) sig,
          pf_signed = (0 < snd sig),
          pf_efi = (10 \<le> pi_subsystem file \<and> pi_subsystem file \<le> 13)\<rparr>)"

definition kind_debug :: "object_kind \<Rightarrow> string" where
  "kind_debug k = (case k of Elf32 \<Rightarrow> ''Elf32'' | Elf64 \<Rightarrow> ''Elf64'' | Pe32 \<Rightarrow> ''Pe32'' | Pe64 \<Rightarrow> ''Pe64'' | OtherObject s \<Rightarrow> s)"

definition analyze_pe :: "object_crate \<Rightarrow> bytes \<Rightarrow> string + pe_facts" where
  "analyze_pe ob data =
     and_then (ob_kind ob data) (\<lambda>k.
     if k = Pe32 \<or> k = Pe64 then and_then (ob_pe ob (k = Pe64) data) (\<lambda>file. Ok (pe_facts_of data file))
     else Err (''not a PE image ('' @ kind_debug k @ '')''))"

definition looks_packed :: "pe_facts \<Rightarrow> bool" where
  "looks_packed f \<longleftrightarrow>
     \<not> pf_efi f \<and> (case pf_code_entropy f of None \<Rightarrow> False | Some e \<Rightarrow> HIGH_ENTROPY \<le> e) \<and> length (pf_imports f) \<le> FEW_IMPORTS"

section \<open>ELF\<close>

record elf_facts =
  ef_executable :: bool
  ef_rwx_segments :: nat
  ef_exec_stack :: bool
  ef_upx :: bool
  ef_no_sections :: bool
  ef_entry_outside_code :: "string option"
  ef_unsafe_rpath :: "string list"
  ef_interpreter :: "string option"
  ef_odd_interpreter :: bool

definition TEMP_DIRS :: "string list" where
  "TEMP_DIRS = [''/tmp/'', ''/var/tmp/'', ''/dev/shm/'', ''/run/shm/'']"

definition base_name :: "string \<Rightarrow> string" where
  "base_name i = last (split_on (CHR ''/'') i)"

definition odd_interpreter :: "string \<Rightarrow> bool" where
  "odd_interpreter i \<longleftrightarrow>
     \<not> (prefix ''ld-'' (base_name i) \<or> prefix ''ld64'' (base_name i) \<or> prefix ''ld.so'' (base_name i)) \<or>
     list_ex (\<lambda>t. prefix t i) TEMP_DIRS \<or> \<not> prefix ''/'' i"

definition seg_write :: "elf_segment \<Rightarrow> bool" where
  "seg_write p \<longleftrightarrow> ph_flags p AND 2 \<noteq> 0"

definition seg_exec :: "elf_segment \<Rightarrow> bool" where
  "seg_exec p \<longleftrightarrow> ph_flags p AND 1 \<noteq> 0"

text \<open>The loop over the program headers: the facts, the loaded segments and the dynamic entries.\<close>

record elf_scan =
  es_rwx :: nat
  es_stack :: bool
  es_interp :: "string option"
  es_odd :: bool
  es_loads :: "elf_segment list"
  es_dynamic :: "(int \<times> u64) list option"

definition scan_segment :: "elf_scan \<Rightarrow> elf_segment \<Rightarrow> elf_scan" where
  "scan_segment acc p =
     (if ph_type p = 1
      then acc\<lparr>es_rwx := (if seg_write p \<and> seg_exec p then es_rwx acc + 1 else es_rwx acc), es_loads := es_loads acc @ [p]\<rparr>
      else if ph_type p = 0x6474e551 then acc\<lparr>es_stack := seg_exec p\<rparr>
      else if ph_type p = 3
      then (case ph_interpreter p of
              None \<Rightarrow> acc
            | Some i \<Rightarrow> acc\<lparr>es_odd := odd_interpreter (lossy_name i), es_interp := Some (lossy_name i)\<rparr>)
      else if ph_type p = 2 then acc\<lparr>es_dynamic := ph_dynamic p\<rparr>
      else acc)"

fun dynamic_loop :: "(int \<times> u64) list \<Rightarrow> u64 option \<times> u64 \<times> u64 list \<Rightarrow> u64 option \<times> u64 \<times> u64 list" where
  "dynamic_loop [] acc = acc"
| "dynamic_loop ((tag, v) # ds) (strtab, strsz, paths) =
     (if tag = 0 then (strtab, strsz, paths)
      else if tag = 5 then dynamic_loop ds (Some v, strsz, paths)
      else if tag = 10 then dynamic_loop ds (strtab, v, paths)
      else if tag = 15 \<or> tag = 29 then dynamic_loop ds (strtab, strsz, paths @ [v])
      else dynamic_loop ds (strtab, strsz, paths))"

definition unsafe_entry :: "string \<Rightarrow> bool" where
  "unsafe_entry e \<longleftrightarrow>
     e = [] \<or> e = ''.'' \<or> (\<not> prefix ''/'' e \<and> \<not> prefix ''$ORIGIN'' e \<and> \<not> prefix ''${ORIGIN}'' e) \<or>
     list_ex (\<lambda>t. prefix t e \<or> e @ ''/'' = t) TEMP_DIRS"

fun add_entries :: "string list \<Rightarrow> string list \<Rightarrow> string list" where
  "add_entries [] out = out"
| "add_entries (e # es) out =
     add_entries es
       (if unsafe_entry e \<and> e \<notin> set out then out @ [if e = [] then ''(empty: current directory)'' else e] else out)"

definition c_string :: "bytes \<Rightarrow> bytes" where
  "c_string b = take 4096 (takeWhile (\<lambda>x. x \<noteq> 0) b)"

fun add_paths :: "bytes \<Rightarrow> u64 \<Rightarrow> u64 \<Rightarrow> u64 list \<Rightarrow> string list \<Rightarrow> string list" where
  "add_paths data base strsz [] out = out"
| "add_paths data base strsz (p # ps) out =
     (if strsz \<le> p \<or> length data < unat (base + p) then add_paths data base strsz ps out
      else add_paths data base strsz ps
             (add_entries (split_on (CHR '':'') (lossy_name (c_string (drop (unat (base + p)) data)))) out))"

definition unsafe_rpath :: "bytes \<Rightarrow> elf_segment list \<Rightarrow> (int \<times> u64) list \<Rightarrow> string list" where
  "unsafe_rpath data loads entries =
     (let (strtab, strsz, paths) = dynamic_loop (take 4096 entries) (None, 0, [])
      in case strtab of
           None \<Rightarrow> []
         | Some addr \<Rightarrow>
             (case find (\<lambda>p. ph_vaddr p \<le> addr \<and> addr < sat_add (ph_vaddr p) (ph_filesz p)) loads of
                None \<Rightarrow> []
              | Some p \<Rightarrow> add_paths data (ph_offset p + (addr - ph_vaddr p)) strsz paths []))"

definition elf_facts_of :: "bytes \<Rightarrow> elf_image \<Rightarrow> elf_facts" where
  "elf_facts_of data h =
     (let executable = (ei_type h = 2 \<or> ei_type h = 3); entry = ei_entry h;
          s = foldl scan_segment \<lparr>es_rwx = 0, es_stack = False, es_interp = None, es_odd = False, es_loads = [], es_dynamic = None\<rparr>
            (ei_segments h);
          loads = es_loads s
      in \<lparr>ef_executable = executable,
          ef_rwx_segments = es_rwx s,
          ef_exec_stack = es_stack s,
          ef_upx = (executable \<and> sublist (as_bytes ''UPX!'') (take 1024 data)),
          ef_no_sections = (executable \<and> ei_shnum h = 0 \<and> ei_shoff h = 0 \<and> loads \<noteq> []),
          ef_entry_outside_code =
            (if executable \<and> entry \<noteq> 0 \<and> loads \<noteq> [] \<and>
                \<not> list_ex (\<lambda>p. seg_exec p \<and> ph_vaddr p \<le> entry \<and> entry < sat_add (ph_vaddr p) (ph_memsz p)) loads
             then Some (''entry point '' @ show_hex (unat entry) @ '' is not in an executable segment'') else None),
          ef_unsafe_rpath = (case es_dynamic s of None \<Rightarrow> [] | Some entries \<Rightarrow> unsafe_rpath data loads entries),
          ef_interpreter = es_interp s,
          ef_odd_interpreter = es_odd s\<rparr>)"

definition analyze_elf :: "object_crate \<Rightarrow> bytes \<Rightarrow> string + elf_facts" where
  "analyze_elf ob data =
     and_then (ob_kind ob data) (\<lambda>k.
     if k = Elf32 \<or> k = Elf64 then and_then (ob_elf ob (k = Elf64) data) (\<lambda>h. Ok (elf_facts_of data h))
     else Err (''not an ELF file ('' @ kind_debug k @ '')''))"

end
