(* ===== verification/Heuristics.thy ===== *)
theory Heuristics
  imports Heuristics_Binary "HOL-Library.List_Lexorder" "HOL-Library.Char_ord"
begin

text \<open>
  \<open>crates/heuristics/src/lib.rs\<close>: what the facts about a file become, and the detector. Random
  identifiers, the clock and the version of the crate are given by \<open>heur_env\<close>.
\<close>

section \<open>Formats and locations\<close>

datatype file_format = FmtPe | FmtElf | FmtMachO | FmtOther

definition format_debug :: "file_format \<Rightarrow> string" where
  "format_debug f = (case f of FmtPe \<Rightarrow> ''Pe'' | FmtElf \<Rightarrow> ''Elf'' | FmtMachO \<Rightarrow> ''MachO'' | FmtOther \<Rightarrow> ''Other'')"

definition file_format_of :: "bytes \<Rightarrow> file_format" where
  "file_format_of data =
     (if prefix (0x7f # as_bytes ''ELF'') data then FmtElf
      else if looks_like_pe data then FmtPe
      else if 4 \<le> length data \<and>
        take 4 data \<in> {[0xFE, 0xED, 0xFA, 0xCE], [0xFE, 0xED, 0xFA, 0xCF], [0xCE, 0xFA, 0xED, 0xFE], [0xCF, 0xFA, 0xED, 0xFE]}
      then FmtMachO
      else FmtOther)"

definition TEMP_PREFIXES :: "string list" where
  "TEMP_PREFIXES = [''/tmp/'', ''/var/tmp/'', ''/dev/shm/'', ''/run/shm/'']"

definition WINDOWS_TEMP :: "string list" where
  "WINDOWS_TEMP = map backslashes [''~temp~'', ''~tmp~'', ''~users~public~'', ''$recycle.bin'']"

definition in_temp_location :: "string \<Rightarrow> bool" where
  "in_temp_location path =
     (let s = to_string_lossy path; lower = to_ascii_lowercase (map (\<lambda>c. if c = CHR ''/'' then CHR 0x5C else c) s)
      in list_ex (\<lambda>p. prefix p s) TEMP_PREFIXES \<or>
         (CHR '':'' \<in> set s \<or> prefix [CHR 0x5C, CHR 0x5C] s) \<and> list_ex (contains_str lower) WINDOWS_TEMP)"

section \<open>Findings\<close>

record heur_env =
  he_version :: string
  he_ids :: "nat \<Rightarrow> string"
  he_times :: "nat \<Rightarrow> instant"
  he_now :: instant
  he_regex :: "string \<Rightarrow> matcher option"
  he_object :: object_crate

definition out_add :: "heur_env \<Rightarrow> finding_target \<Rightarrow> rule \<Rightarrow> string \<Rightarrow> finding list \<Rightarrow> finding list" where
  "out_add env target r ev out =
     out @ [rule_finding (he_version env) (he_times env (length out)) (he_ids env (length out)) r target [ev]]"

definition add_when ::
  "bool \<Rightarrow> heur_env \<Rightarrow> finding_target \<Rightarrow> rule \<Rightarrow> string \<Rightarrow> finding list \<Rightarrow> finding list" where
  "add_when c env target r ev out = (if c then out_add env target r ev out else out)"

definition add_some ::
  "'a option \<Rightarrow> heur_env \<Rightarrow> finding_target \<Rightarrow> rule \<Rightarrow> ('a \<Rightarrow> string) \<Rightarrow> finding list \<Rightarrow> finding list" where
  "add_some x env target r ev out = (case x of None \<Rightarrow> out | Some y \<Rightarrow> out_add env target r (ev y) out)"

text \<open>The format \<open>{:.2}\<close>.\<close>

definition fixed2 :: "real \<Rightarrow> string" where
  "fixed2 x =
     (let n = nat \<lfloor>100 * x + 1 / 2\<rfloor>
      in show_nat (n div 100) @ ''.'' @ show_nat (n div 10 mod 10) @ show_nat (n mod 10))"

definition pe_rules :: "heur_env \<Rightarrow> finding_target \<Rightarrow> bytes \<Rightarrow> finding list \<Rightarrow> finding list" where
  "pe_rules env target data out =
     (case analyze_pe (he_object env) data of
        Err e \<Rightarrow> out_add env target PE_MALFORMED (''parser: '' @ snippet e) out
      | Ok f \<Rightarrow>
          let signed = (if pf_signed f then '' (the file has an Authenticode signature; it was not verified)'' else []);
              out = add_when (pf_rwx_sections f \<noteq> []) env target PE_RWX_SECTION
                (''writable and executable: '' @ join_with '', '' (pf_rwx_sections f) @ signed) out;
              out = add_some (pf_entry_outside_code f) env target PE_ENTRY_OUTSIDE_CODE id out;
              out = add_when (pf_packers f \<noteq> []) env target PE_KNOWN_PACKER
                (''section names of '' @ join_with '', '' (pf_packers f) @ signed) out;
              out = add_when (looks_packed f) env target PE_HIGH_ENTROPY
                (''code entropy '' @ fixed2 (case pf_code_entropy f of None \<Rightarrow> 0 | Some e \<Rightarrow> e) @ '' bits/byte, '' @
                 show_nat (length (pf_imports f)) @ '' imported function(s)'') out;
              out = fold (\<lambda>(label, funcs). out_add env target PE_INJECTION_IMPORTS
                (label @ '': imports '' @ join_with '', '' funcs @ signed)) (pf_injection f) out
          in add_some (pf_embedded_pe_at f) env target PE_EMBEDDED_EXECUTABLE
               (\<lambda>k. ''PE image at offset '' @ show_hex k @ '', after the last section'') out)"

definition elf_rules :: "heur_env \<Rightarrow> finding_target \<Rightarrow> bytes \<Rightarrow> finding list \<Rightarrow> finding list" where
  "elf_rules env target data out =
     (case analyze_elf (he_object env) data of
        Err _ \<Rightarrow> out
      | Ok f \<Rightarrow>
          let out = add_when (0 < ef_rwx_segments f) env target ELF_RWX_SEGMENT
                (show_nat (ef_rwx_segments f) @ '' loadable segment(s) are writable and executable'') out;
              out = add_when (ef_exec_stack f) env target ELF_EXEC_STACK ''PT_GNU_STACK has the execute flag'' out;
              out = add_when (ef_upx f) env target ELF_UPX ''UPX! markers present'' out;
              out = add_when (ef_no_sections f) env target ELF_NO_SECTIONS ''e_shnum = 0 and e_shoff = 0'' out;
              out = add_some (ef_entry_outside_code f) env target ELF_ENTRY_OUTSIDE_CODE id out;
              out = add_when (ef_unsafe_rpath f \<noteq> []) env target ELF_UNSAFE_RPATH
                (''search path entries: '' @ snippet (join_with '', '' (ef_unsafe_rpath f))) out
          in add_when (ef_odd_interpreter f) env target ELF_ODD_INTERPRETER
               (''interpreter '' @ snippet (case ef_interpreter f of None \<Rightarrow> [] | Some i \<Rightarrow> i)) out)"

definition script_rule :: "pattern \<Rightarrow> rule" where
  "script_rule k =
     (case k of DownloadExec \<Rightarrow> SCRIPT_DOWNLOAD_EXEC | ReverseShell \<Rightarrow> SCRIPT_REVERSE_SHELL
      | EncodedExec \<Rightarrow> SCRIPT_ENCODED_EXEC | LolBin \<Rightarrow> SCRIPT_LOLBIN | LoaderInjection \<Rightarrow> SCRIPT_LOADER_INJECTION)"

definition script_rules :: "heur_env \<Rightarrow> finding_target \<Rightarrow> string \<Rightarrow> bytes \<Rightarrow> finding list \<Rightarrow> finding list" where
  "script_rules env target name data out =
     (let f = analyze_script (he_regex env) name data;
          out = fold (\<lambda>(k, line, m). out_add env target (script_rule k) (''line '' @ show_nat line @ '': '' @ m)) (sc_matches f) out
      in add_some (sc_blob f) env target SCRIPT_ENCODED_BLOB
           (\<lambda>(line, len). ''line '' @ show_nat line @ '': base64 run of at least '' @ show_nat len @ '' characters'') out)"

definition name_rules :: "heur_env \<Rightarrow> finding_target \<Rightarrow> file_format \<Rightarrow> string \<Rightarrow> string option \<Rightarrow> finding list" where
  "name_rules env target fmt name path =
     (let executable = (fmt \<noteq> FmtOther);
          out = add_when (executable \<and> has_document_extension name) env target DISGUISED_EXECUTABLE
            (format_debug fmt @ '' executable named '' @ snippet name) [];
          out = add_some (double_extension name) env target DOUBLE_EXTENSION id out;
          out = add_when (bidi_controls name \<noteq> []) env target BIDI_NAME
            (''name contains '' @ join_with '', '' (bidi_controls name)) out
      in add_when (executable \<and> (case path of None \<Rightarrow> False | Some p \<Rightarrow> in_temp_location p)) env target TEMP_EXECUTABLE
           (format_debug fmt @ '' executable in a temporary location'') out)"

definition content_rules ::
  "heur_env \<Rightarrow> finding_target \<Rightarrow> file_format \<Rightarrow> string \<Rightarrow> bytes \<Rightarrow> finding list \<Rightarrow> finding list" where
  "content_rules env target fmt name data out =
     (case fmt of
        FmtPe \<Rightarrow> pe_rules env target data out
      | FmtElf \<Rightarrow> elf_rules env target data out
      | _ \<Rightarrow> if is_script name data then script_rules env target name data out else out)"

definition rule_ids :: "finding list \<Rightarrow> string list" where
  "rule_ids out = remdups (sort (List.map_filter (\<lambda>f. src_rule_id (f_source f)) out))"

definition analyze ::
  "heur_env \<Rightarrow> string \<Rightarrow> string option \<Rightarrow> bytes \<Rightarrow> finding_target \<Rightarrow> instant \<Rightarrow> string + finding list" where
  "analyze env name path data target deadline =
     (let fmt = file_format_of data; out = name_rules env target fmt name path
      in if deadline < he_now env then Err ''time limit reached''
         else
           let out = content_rules env target fmt name data out; ids = rule_ids out
           in Ok (add_when (3 \<le> length ids) env target MULTIPLE (''matched '' @ join_with '', '' ids) out))"

section \<open>The detector\<close>

definition heuristics_info :: "heur_env \<Rightarrow> detector_info" where
  "heuristics_info env = \<lparr>di_id = DETECTOR_ID, di_version = he_version env, di_database = None\<rparr>"

text \<open>\<open>Path::file_name\<close>: the last component, if there is one and it is not two dots.\<close>

definition path_file_name :: "string \<Rightarrow> string option" where
  "path_file_name p =
     (let cs = components p in if cs = [] \<or> last cs = ''..'' then None else Some (last cs))"

definition last_piece :: "string \<Rightarrow> string" where
  "last_piece s = rev (takeWhile (\<lambda>c. c \<noteq> CHR ''/'' \<and> c \<noteq> CHR 0x5C) (rev s))"

definition observed_name :: "file_observation \<Rightarrow> string \<times> string option" where
  "observed_name f =
     (case obs_member f of
        Some (m # ms) \<Rightarrow> (last_piece (path_text (last (m # ms))), None)
      | _ \<Rightarrow>
          (case path_file_name (obs_path f) of None \<Rightarrow> [] | Some n \<Rightarrow> to_string_lossy n, Some (obs_path f)))"

definition heuristics_inspect :: "heur_env \<Rightarrow> file_observation \<Rightarrow> string + finding list" where
  "heuristics_inspect env f =
     (case obs_content f of
        None \<Rightarrow> Ok []
      | Some data \<Rightarrow>
          let (name, path) = observed_name f in analyze env name path data (obs_target f) (obs_deadline f))"

end
