(* ===== verification/Heuristics_Props.thy ===== *)
theory Heuristics_Props
  imports Heuristics
begin

text \<open>
  Lemmas about the heuristics: every finding comes from a rule of the catalogue, what a blob is, the
  bounds of the entropy, and what a snippet can contain.
\<close>

section \<open>Findings come from the catalogue\<close>

definition weak_rule :: "rule \<Rightarrow> bool" where
  "weak_rule r \<longleftrightarrow>
     rule_kind r \<in> {Suspicious, HeuristicKind} \<and> rule_confidence r \<le> ConfMedium \<and> rule_id r \<noteq> ''AW-HEU-099''"

lemmas name_rule_defs = DISGUISED_EXECUTABLE_def DOUBLE_EXTENSION_def BIDI_NAME_def TEMP_EXECUTABLE_def
lemmas pe_rule_defs = PE_RWX_SECTION_def PE_ENTRY_OUTSIDE_CODE_def PE_KNOWN_PACKER_def PE_HIGH_ENTROPY_def
  PE_INJECTION_IMPORTS_def PE_EMBEDDED_EXECUTABLE_def PE_MALFORMED_def
lemmas elf_rule_defs = ELF_RWX_SEGMENT_def ELF_EXEC_STACK_def ELF_UPX_def ELF_NO_SECTIONS_def ELF_UNSAFE_RPATH_def
  ELF_ENTRY_OUTSIDE_CODE_def ELF_ODD_INTERPRETER_def
lemmas script_rule_defs = SCRIPT_DOWNLOAD_EXEC_def SCRIPT_REVERSE_SHELL_def SCRIPT_ENCODED_EXEC_def SCRIPT_LOLBIN_def
  SCRIPT_LOADER_INJECTION_def SCRIPT_ENCODED_BLOB_def

lemma weak_rules [simp]:
  "weak_rule DISGUISED_EXECUTABLE" "weak_rule DOUBLE_EXTENSION" "weak_rule BIDI_NAME" "weak_rule TEMP_EXECUTABLE"
  "weak_rule PE_RWX_SECTION" "weak_rule PE_ENTRY_OUTSIDE_CODE" "weak_rule PE_KNOWN_PACKER" "weak_rule PE_HIGH_ENTROPY"
  "weak_rule PE_INJECTION_IMPORTS" "weak_rule PE_EMBEDDED_EXECUTABLE" "weak_rule PE_MALFORMED"
  "weak_rule ELF_RWX_SEGMENT" "weak_rule ELF_EXEC_STACK" "weak_rule ELF_UPX" "weak_rule ELF_NO_SECTIONS"
  "weak_rule ELF_UNSAFE_RPATH" "weak_rule ELF_ENTRY_OUTSIDE_CODE" "weak_rule ELF_ODD_INTERPRETER"
  "weak_rule SCRIPT_DOWNLOAD_EXEC" "weak_rule SCRIPT_REVERSE_SHELL" "weak_rule SCRIPT_ENCODED_EXEC" "weak_rule SCRIPT_LOLBIN"
  "weak_rule SCRIPT_LOADER_INJECTION" "weak_rule SCRIPT_ENCODED_BLOB"
  by (simp_all add: weak_rule_def name_rule_defs pe_rule_defs elf_rule_defs script_rule_defs less_eq_confidence_def)

text \<open>\<open>weakly P\<close>: every finding is one that a rule which satisfies \<open>P\<close> gives for the target.\<close>

definition weakly :: "(rule \<Rightarrow> bool) \<Rightarrow> finding_target \<Rightarrow> finding list \<Rightarrow> bool" where
  "weakly P target out \<longleftrightarrow>
     (\<forall>f \<in> set out. \<exists>version now fid r evs. P r \<and> f = rule_finding version now fid r target evs)"

lemma weakly_Nil [simp]: "weakly P target []"
  by (simp add: weakly_def)

lemma weakly_add [intro]: "weakly P target out \<Longrightarrow> P r \<Longrightarrow> weakly P target (out_add env target r ev out)"
  by (simp add: weakly_def out_add_def) blast

lemma weakly_when [intro]: "weakly P target out \<Longrightarrow> P r \<Longrightarrow> weakly P target (add_when c env target r ev out)"
  by (auto simp: add_when_def)

lemma weakly_some [intro]: "weakly P target out \<Longrightarrow> P r \<Longrightarrow> weakly P target (add_some x env target r ev out)"
  by (auto simp: add_some_def split: option.splits)

lemma weakly_fold: "(\<And>x out. weakly P target out \<Longrightarrow> weakly P target (f x out)) \<Longrightarrow> weakly P target out \<Longrightarrow> weakly P target (fold f xs out)"
  by (induction xs arbitrary: out) auto

lemma name_rules_weak: "weakly weak_rule target (name_rules env target fmt name path)"
  unfolding name_rules_def Let_def by (intro weakly_when weakly_some weakly_Nil) simp_all

lemma pe_rules_weak:
  assumes "weakly weak_rule target out"
  shows "weakly weak_rule target (pe_rules env target data out)"
proof (cases "analyze_pe (he_object env) data")
  case (Inl e)
  with assms show ?thesis by (auto simp: pe_rules_def)
next
  case (Inr f)
  show ?thesis
    unfolding pe_rules_def Inr sum.case Let_def
    by (intro weakly_some weakly_fold weakly_when) (auto simp: assms)
qed

lemma elf_rules_weak:
  assumes "weakly weak_rule target out"
  shows "weakly weak_rule target (elf_rules env target data out)"
proof (cases "analyze_elf (he_object env) data")
  case (Inl e)
  with assms show ?thesis by (simp add: elf_rules_def)
next
  case (Inr f)
  show ?thesis
    unfolding elf_rules_def Inr sum.case Let_def by (intro weakly_some weakly_when) (simp_all add: assms)
qed

lemma script_rules_weak:
  assumes "weakly weak_rule target out"
  shows "weakly weak_rule target (script_rules env target name data out)"
proof -
  have "weak_rule (script_rule k)" for k by (cases k) (simp_all add: script_rule_def)
  then show ?thesis
    unfolding script_rules_def Let_def by (intro weakly_some weakly_fold) (auto simp: assms)
qed

lemma content_rules_weak:
  "weakly weak_rule target out \<Longrightarrow> weakly weak_rule target (content_rules env target fmt name data out)"
  unfolding content_rules_def by (cases fmt) (simp_all add: pe_rules_weak elf_rules_weak script_rules_weak)

lemma analyze_Ok:
  assumes "analyze env name path data target deadline = Ok fs"
  obtains out where "weakly weak_rule target out"
    "fs = add_when (3 \<le> length (rule_ids out)) env target MULTIPLE (''matched '' @ join_with '', '' (rule_ids out)) out"
proof -
  let ?fmt = "file_format_of data"
  let ?out = "content_rules env target ?fmt name data (name_rules env target ?fmt name path)"
  have "weakly weak_rule target ?out" by (rule content_rules_weak [OF name_rules_weak])
  moreover have "fs = add_when (3 \<le> length (rule_ids ?out)) env target MULTIPLE (''matched '' @ join_with '', '' (rule_ids ?out)) ?out"
    using assms by (simp add: analyze_def Let_def split: if_splits)
  ultimately show ?thesis using that by blast
qed

lemma length_rule_ids: "length (rule_ids out) = card {i. \<exists>f \<in> set out. src_rule_id (f_source f) = Some i}"
proof -
  have "set (List.map_filter (\<lambda>f. src_rule_id (f_source f)) out) = {i. \<exists>f \<in> set out. src_rule_id (f_source f) = Some i}"
    by (force simp: List.map_filter_def)
  then show ?thesis by (simp add: rule_ids_def length_remdups_card_conv)
qed

section \<open>Blobs\<close>

lemma BLOB_RUN_pos [simp]: "0 < BLOB_RUN"
  by (simp add: BLOB_RUN_def)

lemma find_blob_Some:
  "find_blob run line bs = Some (l, n) \<Longrightarrow> run < BLOB_RUN \<Longrightarrow>
     n = BLOB_RUN \<and> (\<exists>xs ys zs. bs = xs @ ys @ zs \<and> list_all base64_byte ys \<and>
       (length ys = BLOB_RUN \<or> xs = [] \<and> length ys = BLOB_RUN - run) \<and> l = line + count_list (xs @ ys) 10)"
proof (induction bs arbitrary: run line)
  case (Cons b bs)
  let ?line = "if b = 10 then line + 1 else line"
  have nl: "\<not> base64_byte 10" by (simp add: base64_byte_def char_of_u8_def is_ascii_alphanumeric_def is_ascii_alphabetic_def
      is_ascii_upper_def is_ascii_lower_def is_ascii_digit_def code_def char_of_def bit_simps)
  show ?case
  proof (cases "base64_byte b")
    case True
    then have b: "b \<noteq> 10" using nl by auto
    show ?thesis
    proof (cases "BLOB_RUN \<le> run + 1")
      case end_run: True
      with Cons.prems True b have "l = line" "n = run + 1" by simp_all
      with end_run Cons.prems(2) True b show ?thesis
        by (intro conjI exI [of _ "[]"] exI [of _ "[b]"] exI [of _ bs]) auto
    next
      case False
      with Cons.prems True b have "find_blob (run + 1) line bs = Some (l, n)" by simp
      from Cons.IH [OF this] False obtain xs ys zs where *: "n = BLOB_RUN" "bs = xs @ ys @ zs" "list_all base64_byte ys"
        "length ys = BLOB_RUN \<or> xs = [] \<and> length ys = BLOB_RUN - (run + 1)" "l = line + count_list (xs @ ys) 10" by auto
      show ?thesis
      proof (cases "length ys = BLOB_RUN")
        case True
        with * b show ?thesis by (intro conjI exI [of _ "b # xs"] exI [of _ ys] exI [of _ zs]) auto
      next
        case short: False
        with * b True Cons.prems(2) show ?thesis
          by (intro conjI exI [of _ "[]"] exI [of _ "b # ys"] exI [of _ zs]) auto
      qed
    qed
  next
    case False
    with Cons.prems have "find_blob 0 ?line bs = Some (l, n)" by (simp add: Let_def)
    from Cons.IH [OF this] obtain xs ys zs where *: "n = BLOB_RUN" "bs = xs @ ys @ zs" "list_all base64_byte ys"
      "length ys = BLOB_RUN" "l = ?line + count_list (xs @ ys) 10" by auto
    then show ?thesis by (intro conjI exI [of _ "b # xs"] exI [of _ ys] exI [of _ zs]) auto
  qed
qed simp

lemma find_blob_None:
  "find_blob run line bs = None \<Longrightarrow> run < BLOB_RUN \<Longrightarrow> bs = xs @ ys @ zs \<Longrightarrow> list_all base64_byte ys \<Longrightarrow>
     length ys < BLOB_RUN \<and> (xs = [] \<longrightarrow> length ys + run < BLOB_RUN)"
proof (induction bs arbitrary: run line xs ys)
  case (Cons b bs)
  let ?line = "if b = 10 then line + 1 else line"
  show ?case
  proof (cases xs)
    case (Cons x xs')
    obtain run' line' where "find_blob run' line' bs = None" "run' < BLOB_RUN"
      using Cons.prems(1,2) by (cases "base64_byte b") (auto simp: Let_def split: if_splits)
    with Cons.IH [of run' line' xs' ys] Cons Cons.prems(3,4) show ?thesis by auto
  next
    case Nil
    show ?thesis
    proof (cases ys)
      case (Cons y ys')
      then have "base64_byte b" "bs = [] @ ys' @ zs" "list_all base64_byte ys'" using Cons.prems(3,4) Nil by auto
      moreover from this have "find_blob (run + 1) ?line bs = None" "run + 1 < BLOB_RUN"
        using Cons.prems(1) by (auto simp: Let_def split: if_splits)
      ultimately show ?thesis using Cons.IH [of "run + 1" ?line "[]" ys'] Cons Nil by auto
    qed (use Cons.prems(2) Nil in auto)
  qed
qed auto

section \<open>Entropy\<close>

text \<open>The shares of the bytes that occur add up to one.\<close>

definition share :: "bytes \<Rightarrow> u8 \<Rightarrow> real" where
  "share data b = real (count_list data b) / real (length data)"

lemma entropy_share: "entropy data = (\<Sum>b \<in> set data. - share data b * log 2 (share data b))"
  by (simp add: entropy_def share_def Let_def)

lemma shares:
  assumes "data \<noteq> []"
  shows "(\<Sum>b \<in> set data. share data b) = 1" and "b \<in> set data \<Longrightarrow> 0 < share data b" and "b \<in> set data \<Longrightarrow> share data b \<le> 1"
proof -
  have "(\<Sum>b \<in> set data. count_list data b) = length data"
    using sum_count_set [of data "set data"] by simp
  then have "(\<Sum>b \<in> set data. real (count_list data b)) = real (length data)"
    by (metis of_nat_sum)
  then show sum: "(\<Sum>b \<in> set data. share data b) = 1"
    using assms by (simp add: share_def flip: sum_divide_distrib)
  show pos: "0 < share data b" if "b \<in> set data" for b
    using that assms by (simp add: share_def count_list_0_iff zero_less_iff_neq_zero)
  show "share data b \<le> 1" if "b \<in> set data" for b
    using sum member_le_sum [OF that, of "share data"] pos by (auto intro: less_imp_le)
qed

lemma entropy_nonneg: "0 \<le> entropy data"
proof (cases "data = []")
  case False
  show ?thesis
    unfolding entropy_share
  proof (rule sum_nonneg)
    fix b
    assume "b \<in> set data"
    with shares [OF False] have "0 < share data b" "log 2 (share data b) \<le> 0" by simp_all
    then show "0 \<le> - share data b * log 2 (share data b)" by (simp add: mult_nonneg_nonpos)
  qed
qed (simp add: entropy_def)

text \<open>Gibbs' inequality against the uniform distribution on the bytes that occur.\<close>

lemma entropy_le:
  assumes "data \<noteq> []"
  shows "entropy data \<le> log 2 (real (card (set data)))"
proof -
  let ?p = "share data"
  define k where "k = real (card (set data))"
  have k: "0 < k" using assms by (simp add: k_def card_gt_0_iff)
  note sh = shares [OF assms]
  have "- ?p b * ln (?p b) - ?p b * ln k \<le> 1 / k - ?p b" if b: "b \<in> set data" for b
  proof -
    have pb: "0 < ?p b" using sh(2) b by simp
    have "ln (1 / (k * ?p b)) \<le> 1 / (k * ?p b) - 1" using k pb by (intro ln_le_minus_one) simp
    moreover have "ln (1 / (k * ?p b)) = - ln (?p b) - ln k" using k pb by (simp add: ln_div ln_mult)
    ultimately have "?p b * (- ln (?p b) - ln k) \<le> ?p b * (1 / (k * ?p b) - 1)" using pb by (simp add: mult_left_mono)
    moreover have "?p b * (1 / (k * ?p b) - 1) = 1 / k - ?p b" using k pb by (simp add: field_simps)
    ultimately show ?thesis by (simp add: algebra_simps)
  qed
  then have "(\<Sum>b \<in> set data. - ?p b * ln (?p b) - ?p b * ln k) \<le> (\<Sum>b \<in> set data. 1 / k - ?p b)"
    by (intro sum_mono)
  also have "\<dots> = 0" using k sh(1) assms by (simp add: sum_subtractf k_def)
  finally have "(\<Sum>b \<in> set data. - ?p b * ln (?p b)) \<le> (\<Sum>b \<in> set data. ?p b * ln k)" by (simp add: sum_subtractf)
  also have "\<dots> = ln k" using sh(1) by (simp flip: sum_distrib_right)
  finally have "(\<Sum>b \<in> set data. - ?p b * ln (?p b)) / ln 2 \<le> ln k / ln 2" by (simp add: divide_right_mono)
  moreover have "entropy data = (\<Sum>b \<in> set data. - ?p b * ln (?p b)) / ln 2"
    by (simp add: entropy_share log_def sum_divide_distrib)
  ultimately show ?thesis by (simp add: k_def log_def)
qed

lemma entropy_le_8: "entropy data \<le> 8"
proof (cases "data = []")
  case False
  have "card (set data) \<le> card (UNIV :: u8 set)" by (intro card_mono) simp_all
  then have "real (card (set data)) \<le> 2 powr 8" by (simp add: card_word)
  moreover have "0 < real (card (set data))" using False by (simp add: card_gt_0_iff)
  ultimately have "log 2 (real (card (set data))) \<le> 8" by (simp add: log_le_iff)
  with entropy_le [OF False] show ?thesis by linarith
qed (simp add: entropy_def)

section \<open>Snippets\<close>

lemma cont_char: "x < 64 \<Longrightarrow> is_cont (char_of (128 + x))" for x :: nat
  by (simp add: is_cont_def)

lemma utf8_char_tail:
  assumes "0 < i" and "i < length (utf8_char c)"
  shows "is_cont (utf8_char c ! i)"
proof -
  have "list_all is_cont (tl (utf8_char c))" by (simp add: utf8_char_def cont_char)
  moreover obtain a t where "utf8_char c = a # t" by (cases "utf8_char c") auto
  moreover obtain j where "i = Suc j" using assms(1) by (cases i) auto
  ultimately show ?thesis using assms(2) by (simp add: list_all_length)
qed

lemma boundary_prefix:
  "\<forall>c \<in> set cs. is_scalar c \<Longrightarrow> is_char_boundary (utf8 cs) i \<Longrightarrow> \<exists>k. take i (utf8 cs) = utf8 (take k cs)"
proof (induction cs arbitrary: i)
  case (Cons c cs)
  let ?n = "length (utf8_char c)"
  have s: "utf8 (c # cs) = utf8_char c @ utf8 cs" by (simp add: utf8_def)
  show ?case
  proof (cases "i < ?n")
    case True
    have "i = 0"
    proof (rule ccontr)
      assume "i \<noteq> 0"
      with utf8_char_tail [of i c] Cons.prems True show False by (auto simp: is_char_boundary_def s nth_append)
    qed
    then show ?thesis by (intro exI [of _ 0]) (simp add: utf8_def)
  next
    case False
    have "is_char_boundary (utf8 cs) (i - ?n)"
      using Cons.prems(2) False by (auto simp: is_char_boundary_def s nth_append)
    with Cons obtain k where "take (i - ?n) (utf8 cs) = utf8 (take k cs)" by auto
    with False show ?thesis by (intro exI [of _ "Suc k"]) (simp add: utf8_def)
  qed
qed (simp add: utf8_def)

lemma cut_at_boundary: "is_char_boundary s (cut_at s n) \<or> s \<noteq> [] \<and> is_cont (hd s)" and cut_at_le: "cut_at s n \<le> n"
proof -
  show "cut_at s n \<le> n" by (induction n) auto
  show "is_char_boundary s (cut_at s n) \<or> s \<noteq> [] \<and> is_cont (hd s)"
    by (induction n) (auto simp: is_char_boundary_def hd_conv_nth)
qed

lemma truncate_clean:
  assumes "\<forall>c \<in> set cs. is_scalar c"
  shows "\<exists>k. truncate_at_char (utf8 cs) m = utf8 (take k cs)" and "length (truncate_at_char (utf8 cs) m) \<le> m"
proof -
  have "\<not> is_cont (hd (utf8 cs))" if ne: "utf8 cs \<noteq> []"
  proof -
    obtain c ds where cs: "cs = c # ds" using ne by (cases cs) (auto simp: utf8_def)
    have "\<not> is_cont (hd (utf8_char c))"
    proof -
      have "c < 0x110000" using assms cs by (auto simp: is_scalar_def)
      then have "c div 262144 < 8" "c < 65536 \<Longrightarrow> c div 4096 < 16" "c < 2048 \<Longrightarrow> c div 64 < 32" by auto
      then show ?thesis by (auto simp: utf8_char_def is_cont_def)
    qed
    then show ?thesis by (simp add: cs utf8_def)
  qed
  with cut_at_boundary have b: "is_char_boundary (utf8 cs) (cut_at (utf8 cs) m)" by blast
  show "\<exists>k. truncate_at_char (utf8 cs) m = utf8 (take k cs)"
    using boundary_prefix [OF assms b] by (auto simp: truncate_at_char_def intro: exI [of _ "length cs"])
  show "length (truncate_at_char (utf8 cs) m) \<le> m"
    using cut_at_le [of "utf8 cs" m] by (auto simp: truncate_at_char_def)
qed

lemma snippet_chars:
  "\<exists>ds. snippet s = utf8 ds \<and> (\<forall>c \<in> set ds. is_scalar c \<and> \<not> is_control c) \<and> length (snippet s) \<le> 163"
proof -
  define ms where "ms = map (\<lambda>c. if is_control c then 32 else c) (chars s)"
  let ?cs = "trim_chars ms"
  have one: "is_scalar c \<and> \<not> is_control c" if "c \<in> set ms" for c
    using that chars_scalar by (auto simp: ms_def is_scalar_def is_control_def)
  then have cs: "\<forall>c \<in> set ?cs. is_scalar c \<and> \<not> is_control c"
    using set_trim_chars by blast
  have "chars (utf8 ms) = ms" by (rule chars_utf8) (use one in blast)
  then have trimmed: "trim (utf8 (map (\<lambda>c. if is_control c then 32 else c) (chars s))) = utf8 ?cs"
    unfolding trim_def ms_def [symmetric] by simp
  have scalar: "\<forall>c \<in> set ?cs. is_scalar c" using cs by blast
  obtain k where k: "truncate_at_char (utf8 ?cs) 160 = utf8 (take k ?cs)"
    using truncate_clean(1) [OF scalar] by blast
  have len: "length (utf8 (take k ?cs)) \<le> 160" using truncate_clean(2) [OF scalar, of 160] unfolding k .
  have dots: "''...'' = utf8 [46, 46, 46]" by (simp add: utf8_def utf8_char_def char_of_def bit_simps)
  have clean: "\<forall>c \<in> set (take k ?cs). is_scalar c \<and> \<not> is_control c" using cs by (meson in_set_takeD)
  show ?thesis
  proof (cases "length (utf8 (take k ?cs)) < length (utf8 ?cs)")
    case True
    then have "snippet s = utf8 (take k ?cs @ [46, 46, 46])"
      unfolding snippet_def Let_def trimmed k by (simp add: dots) (simp add: utf8_def)
    moreover have "length (utf8 (take k ?cs @ [46, 46, 46])) \<le> 163" using len by (simp add: utf8_def utf8_char_def)
    moreover have "\<forall>c \<in> set (take k ?cs @ [46, 46, 46]). is_scalar c \<and> \<not> is_control c"
      using clean by (auto simp: is_scalar_def is_control_def)
    ultimately show ?thesis by metis
  next
    case False
    then have "snippet s = utf8 (take k ?cs)" unfolding snippet_def Let_def trimmed k by simp
    with clean len show ?thesis by (intro exI [of _ "take k ?cs"]) simp
  qed
qed

end
