(* ===== verification/Heuristics_Theorems.thy ===== *)
theory Heuristics_Theorems
  imports Heuristics_Props Remediation_Policy
begin

text \<open>
  The properties of the heuristics of \<open>crates/heuristics\<close>.
\<close>

section \<open>Sample values\<close>

text \<open>A member of an archive whose name ends in \<open>.pdf.exe\<close>, with content that is no program.\<close>

definition sample_heur_env :: heur_env where
  "sample_heur_env =
     \<lparr>he_version = ''1'', he_ids = (\<lambda>_. ''id''), he_times = (\<lambda>_. 0), he_now = 0, he_regex = (\<lambda>_. None),
      he_object = \<lparr>ob_kind = (\<lambda>_. Err ''unknown''), ob_pe = (\<lambda>_ _. Err ''none''), ob_elf = (\<lambda>_ _. Err ''none'')\<rparr>\<rparr>"

definition sample_heur_file :: file_observation where
  "sample_heur_file =
     \<lparr>obs_path = ''/x.zip'', obs_sha256 = Sha256Digest [], obs_metadata = \<lparr>meta_size = 1, meta_modified = None, meta_unix_mode = None\<rparr>,
      obs_content = Some [1], obs_deadline = 10, obs_member = Some [\<lparr>path_text = ''d/a.pdf.exe'', raw_hex = None\<rparr>]\<rparr>"

definition sample_heur_finding :: finding where
  "sample_heur_finding =
     rule_finding ''1'' 0 ''id'' DOUBLE_EXTENSION (obs_target sample_heur_file) [''.pdf followed by .exe'']"

lemma sample_double: "double_extension ''a.pdf.exe'' = Some ''.pdf followed by .exe''"
proof -
  have "trim ''pdf'' = ''pdf''" by (rule trim_ascii) (simp add: code_def)
  moreover have "to_ascii_lowercase ''pdf'' = ''pdf''" "to_ascii_lowercase ''exe'' = ''exe''"
    by (simp_all add: to_ascii_lowercase_def lower_char_def is_ascii_upper_def code_def)
  moreover have "rsplit_once (CHR ''.'') ''a.pdf.exe'' = Some (''a.pdf'', ''exe'')" "rsplit_once (CHR ''.'') ''a.pdf'' = Some (''a'', ''pdf'')"
    by (simp_all add: rsplit_once_def)
  ultimately show ?thesis by (simp add: double_extension_def EXECUTABLE_EXTS_def DOCUMENT_EXTS_def Let_def suffix_def)
qed

lemma sample_analyzed:
  "analyze sample_heur_env ''a.pdf.exe'' None [1] (obs_target sample_heur_file) 10 = Ok [sample_heur_finding]"
proof -
  have fmt: "file_format_of [1] = FmtOther"
    by (simp add: file_format_of_def looks_like_pe_def pe_header_at_def as_bytes_def)
  have "chars ''a.pdf.exe'' = map code ''a.pdf.exe''" by (rule chars_ascii) (simp add: code_def)
  then have bidi: "bidi_controls ''a.pdf.exe'' = []"
    by (simp add: bidi_controls_def is_bidi_control_def code_def)
  have script: "\<not> is_script ''a.pdf.exe'' [1]"
    by (simp add: is_script_def script_ext_def rsplit_once_def to_ascii_lowercase_def lower_char_def is_ascii_upper_def code_def
        SCRIPT_EXTS_def as_bytes_def)
  have env: "he_version sample_heur_env = ''1''" "he_ids sample_heur_env n = ''id''" "he_times sample_heur_env n = 0"
    "he_now sample_heur_env = 0" for n by (simp_all add: sample_heur_env_def)
  have names: "name_rules sample_heur_env (obs_target sample_heur_file) FmtOther ''a.pdf.exe'' None = [sample_heur_finding]"
    by (simp add: name_rules_def Let_def add_when_def add_some_def sample_double bidi out_add_def env sample_heur_finding_def)
  have "\<not> 3 \<le> length (rule_ids [sample_heur_finding])" by (simp add: rule_ids_def List.map_filter_def)
  then show ?thesis
    unfolding analyze_def Let_def fmt names by (simp add: content_rules_def script env add_when_def)
qed

lemma sample_inspected: "heuristics_inspect sample_heur_env sample_heur_file = Ok [sample_heur_finding]"
proof -
  have "observed_name sample_heur_file = (''a.pdf.exe'', None)"
    by (simp add: observed_name_def sample_heur_file_def last_piece_def)
  moreover have "obs_content sample_heur_file = Some [1]" "obs_deadline sample_heur_file = 10"
    by (simp_all add: sample_heur_file_def)
  ultimately show ?thesis using sample_analyzed by (simp add: heuristics_inspect_def)
qed

section \<open>Properties\<close>

text \<open>C7: Heuristics are never conclusive. Whatever a file holds, each finding of the detector has the
  kind \<open>heuristic\<close> or \<open>suspicious\<close>, at most medium confidence, recommends review and names the file that
  was inspected; and no such finding is eligible for automatic quarantine.\<close>

theorem heuristics_never_conclusive:
  assumes "heuristics_inspect env f = Ok fs" and "x \<in> set fs"
  shows "f_kind x \<in> {Suspicious, HeuristicKind} \<and> f_confidence x \<le> ConfMedium \<and> f_recommended_action x = Review \<and>
    f_remediation_status x = NotAttempted \<and> f_target x = obs_target f \<and> src_detector (f_source x) = DETECTOR_ID \<and>
    auto_quarantine_target x = Err NotConfirmed \<and> \<not> eligible x"
proof -
  obtain name path data where "analyze env name path data (obs_target f) (obs_deadline f) = Ok fs"
    using assms by (auto simp: heuristics_inspect_def split: option.splits prod.splits)
  from analyze_Ok [OF this] obtain out where out: "weakly weak_rule (obs_target f) out"
    "fs = add_when (3 \<le> length (rule_ids out)) env (obs_target f) MULTIPLE (''matched '' @ join_with '', '' (rule_ids out)) out" .
  let ?P = "\<lambda>r. rule_kind r \<in> {Suspicious, HeuristicKind} \<and> rule_confidence r \<le> ConfMedium"
  have "weakly ?P (obs_target f) out" using out(1) unfolding weakly_def weak_rule_def by blast
  moreover have "?P MULTIPLE" by (simp add: MULTIPLE_def)
  ultimately have "weakly ?P (obs_target f) fs" unfolding out(2) by (rule weakly_when)
  with assms(2) obtain version now fid r evs where r: "?P r" "x = rule_finding version now fid r (obs_target f) evs"
    unfolding weakly_def by blast
  then have "auto_quarantine_target x = Err NotConfirmed" by (auto simp: rule_finding_def auto_quarantine_target_def)
  with r show ?thesis by (auto simp: rule_finding_def eligible_def)
qed

theorem heuristics_never_conclusive_witness:
  "heuristics_inspect sample_heur_env sample_heur_file = Ok [sample_heur_finding] \<and> \<not> eligible sample_heur_finding"
  using heuristics_never_conclusive [OF sample_inspected] sample_inspected by simp

text \<open>The rule for several matches fires exactly when at least three different rules matched, and
  then it is the last finding.\<close>

theorem multiple_means_three:
  assumes "analyze env name path data target deadline = Ok fs"
  shows "(\<exists>f \<in> set fs. src_rule_id (f_source f) = Some ''AW-HEU-099'') \<longleftrightarrow>
      3 \<le> card {i. i \<noteq> ''AW-HEU-099'' \<and> (\<exists>f \<in> set fs. src_rule_id (f_source f) = Some i)}"
proof -
  obtain out where out: "weakly weak_rule target out"
    "fs = add_when (3 \<le> length (rule_ids out)) env target MULTIPLE (''matched '' @ join_with '', '' (rule_ids out)) out"
    using analyze_Ok [OF assms] .
  have other: "src_rule_id (f_source f) \<noteq> Some ''AW-HEU-099''" if "f \<in> set out" for f
    using out(1) that unfolding weakly_def weak_rule_def by (auto simp: rule_finding_def)
  have m: "rule_id MULTIPLE = ''AW-HEU-099''" by (simp add: MULTIPLE_def)
  have "{i. i \<noteq> ''AW-HEU-099'' \<and> (\<exists>f \<in> set fs. src_rule_id (f_source f) = Some i)} =
      {i. \<exists>f \<in> set out. src_rule_id (f_source f) = Some i}"
    unfolding out(2) using other by (auto simp: add_when_def out_add_def rule_finding_def m)
  moreover have "(\<exists>f \<in> set fs. src_rule_id (f_source f) = Some ''AW-HEU-099'') \<longleftrightarrow> 3 \<le> length (rule_ids out)"
    unfolding out(2) using other by (auto simp: add_when_def out_add_def rule_finding_def m)
  ultimately show ?thesis by (simp add: length_rule_ids)
qed

theorem multiple_means_three_witness:
  "\<not> 3 \<le> card {i. i \<noteq> ''AW-HEU-099'' \<and> (\<exists>f. f = sample_heur_finding \<and> src_rule_id (f_source f) = Some i)}"
  using multiple_means_three [OF sample_analyzed]
  by (simp add: sample_heur_finding_def rule_finding_def DOUBLE_EXTENSION_def)

text \<open>C20: The scan for encoded blobs finds one exactly if the script has a run of that many base64
  characters somewhere, and reports its length and the line it is on.\<close>

theorem find_blob_exact:
  "(find_blob 0 1 data \<noteq> None \<longleftrightarrow>
      (\<exists>xs ys zs. data = xs @ ys @ zs \<and> length ys = BLOB_RUN \<and> list_all base64_byte ys)) \<and>
   (case find_blob 0 1 data of
      None \<Rightarrow> True
    | Some (line, n) \<Rightarrow> n = BLOB_RUN \<and>
        (\<exists>xs ys zs. data = xs @ ys @ zs \<and> length ys = BLOB_RUN \<and> list_all base64_byte ys \<and> line = 1 + count_list (xs @ ys) 10))"
proof (cases "find_blob 0 1 data")
  case None
  have "length ys < BLOB_RUN" if "data = xs @ ys @ zs" "list_all base64_byte ys" for xs ys zs
    using find_blob_None [OF None BLOB_RUN_pos that] by blast
  with None show ?thesis by fastforce
next
  case (Some r)
  obtain line n where r: "r = (line, n)" by fastforce
  from find_blob_Some [OF Some [unfolded r] BLOB_RUN_pos] obtain xs ys zs where "n = BLOB_RUN" "data = xs @ ys @ zs" "list_all base64_byte ys"
    "length ys = BLOB_RUN" "line = 1 + count_list (xs @ ys) 10" by auto
  then show ?thesis unfolding Some r by auto
qed


text \<open>An excerpt that a finding shows is well-formed text of at most 163 bytes on a single line:
  it has no control characters.\<close>

theorem snippet_clean: "valid_str (snippet s) \<and> list_all (\<lambda>c. \<not> is_control c) (chars (snippet s)) \<and> length (snippet s) \<le> 163"
proof -
  obtain ds where "snippet s = utf8 ds" "\<forall>c \<in> set ds. is_scalar c \<and> \<not> is_control c" "length (snippet s) \<le> 163"
    using snippet_chars by blast
  then show ?thesis by (simp add: valid_utf8 list_all_iff)
qed

end
